(* ===== verification/Prelude.thy ===== *)
theory Prelude
  imports Main "HOL-Library.Word" "HOL-Library.AList" "HOL-Library.List_Lexorder" "HOL-Library.Char_ord"
begin

text \<open>
  What every component shares: the machine integers of the code, exceptions as values,
  handlers that can throw half way through (the state reached so far is kept), the log,
  the parts of \<open>std::string\<close> and \<open>std::map\<close> the code uses, and the generic lemmas on them.
\<close>

section \<open>Machine integers\<close>

unbundle bit_operations_syntax

type_synonym u8 = "8 word"
type_synonym u16 = "16 word"
type_synonym u32 = "32 word"
type_synonym u64 = "64 word"

text \<open>\<open>sint\<close> reads a word as two's complement; these are the bounds of the C types.\<close>

abbreviation int16_max :: int where "int16_max \<equiv> 32767"
abbreviation int32_min :: int where "int32_min \<equiv> - 2147483648"
abbreviation int32_max :: int where "int32_max \<equiv> 2147483647"

named_theorems outcome_simps \<open>unfolding the sequencing of handlers\<close>
named_theorems frame_simps \<open>fields an operation does not touch\<close>

section \<open>Exceptions\<close>

text \<open>
  \<open>sdbus::Error\<close> derives from \<open>std::exception\<close>: a handler for the latter catches both, a
  handler for the former catches only the first constructor.
\<close>

datatype exn = DBus_Error string string | Std_Exception string

fun is_dbus_error :: "exn \<Rightarrow> bool" where
  "is_dbus_error (DBus_Error _ _) = True"
| "is_dbus_error (Std_Exception _) = False"

fun exn_what :: "exn \<Rightarrow> string" where
  "exn_what (DBus_Error _ msg) = msg"
| "exn_what (Std_Exception msg) = msg"

text \<open>
  The outcome of a statement on a state: it ends normally or throws, and in both cases the
  assignments made before are kept.
\<close>

datatype 's outcome = Done 's | Throw exn 's

fun state_of :: "'s outcome \<Rightarrow> 's" where
  "state_of (Done s) = s"
| "state_of (Throw _ s) = s"

fun is_done :: "'s outcome \<Rightarrow> bool" where
  "is_done (Done _) = True"
| "is_done (Throw _ _) = False"

fun seq :: "'s outcome \<Rightarrow> ('s \<Rightarrow> 's outcome) \<Rightarrow> 's outcome" where
  "seq (Done s) f = f s"
| "seq (Throw e s) f = Throw e s"

text \<open>A range-\<open>for\<close> over a container whose body may throw.\<close>

fun for_each :: "('x \<Rightarrow> 's \<Rightarrow> 's outcome) \<Rightarrow> 'x list \<Rightarrow> 's \<Rightarrow> 's outcome" where
  "for_each f [] s = Done s"
| "for_each f (x # xs) s = seq (f x s) (for_each f xs)"

text \<open>\<open>try { ... } catch (const std::exception&)\<close> and \<open>catch (const sdbus::Error&)\<close>.\<close>

fun catch_std :: "'s outcome \<Rightarrow> (exn \<Rightarrow> 's \<Rightarrow> 's) \<Rightarrow> 's outcome" where
  "catch_std (Done s) h = Done s"
| "catch_std (Throw e s) h = Done (h e s)"

fun catch_dbus :: "'s outcome \<Rightarrow> (exn \<Rightarrow> 's \<Rightarrow> 's) \<Rightarrow> 's outcome" where
  "catch_dbus (Done s) h = Done s"
| "catch_dbus (Throw e s) h = (if is_dbus_error e then Done (h e s) else Throw e s)"

text \<open>Assign the value of a fallible expression: a throw leaves the state as it was.\<close>

fun assign :: "exn + 'a \<Rightarrow> ('a \<Rightarrow> 's \<Rightarrow> 's) \<Rightarrow> 's \<Rightarrow> 's outcome" where
  "assign (Inl e) upd s = Throw e s"
| "assign (Inr v) upd s = Done (upd v s)"

lemma seq_assoc: "seq (seq r f) g = seq r (\<lambda>s. seq (f s) g)"
  by (cases r) auto

lemma seq_Done [simp]: "seq r Done = r"
  by (cases r) auto

lemma for_each_append [outcome_simps]:
  "for_each f (xs @ ys) s = seq (for_each f xs s) (for_each f ys)"
proof (induction xs arbitrary: s)
  case (Cons x xs)
  then show ?case by (cases "f x s") (simp_all add: seq_assoc)
qed simp

lemma for_each_cong:
  assumes "xs = ys" and "\<And>x t. x \<in> set ys \<Longrightarrow> f x t = g x t"
  shows "for_each f xs s = for_each g ys s"
proof -
  have "for_each f ys s = for_each g ys s"
    using assms(2)
  proof (induction ys arbitrary: s)
    case (Cons y ys)
    then show ?case by (cases "g y s") auto
  qed simp
  then show ?thesis by (simp add: assms(1))
qed

lemma for_each_invariant:
  assumes step: "\<And>x s. x \<in> set xs \<Longrightarrow> P s \<Longrightarrow> P (state_of (f x s))" and "P s"
  shows "P (state_of (for_each f xs s))"
  using assms
proof (induction xs arbitrary: s)
  case (Cons x xs)
  have "P (state_of (f x s))" using Cons.prems by auto
  then show ?case using Cons by (cases "f x s") auto
qed simp

lemma for_each_Done_invariant:
  assumes "\<And>x s s'. x \<in> set xs \<Longrightarrow> P s \<Longrightarrow> f x s = Done s' \<Longrightarrow> P s'"
    and "P s" and "for_each f xs s = Done t"
  shows "P t"
  using assms
proof (induction xs arbitrary: s)
  case (Cons x xs)
  then obtain s' where s': "f x s = Done s'" "for_each f xs s' = Done t"
    by (cases "f x s") auto
  with Cons.prems have "P s'" by auto
  with Cons s'(2) show ?case by auto
qed simp

lemma for_each_is_done:
  assumes "\<And>x s. x \<in> set xs \<Longrightarrow> is_done (f x s)"
  shows "is_done (for_each f xs s)"
  using assms
proof (induction xs arbitrary: s)
  case (Cons x xs)
  have "is_done (f x s)" using Cons.prems by auto
  then show ?case using Cons by (cases "f x s") auto
qed simp

lemma for_each_all_Done:
  assumes "\<And>x s. x \<in> set xs \<Longrightarrow> f x s = Done (g x s)"
  shows "for_each f xs s = Done (fold g xs s)"
  using assms by (induction xs arbitrary: s) auto

lemma state_of_assign [simp]:
  "state_of (assign r upd s) = (case r of Inl _ \<Rightarrow> s | Inr v \<Rightarrow> upd v s)"
  by (cases r) auto

section \<open>The log\<close>

text \<open>
  A log call is kept as its level, its format string and its arguments (\<open>strerror(e)\<close> and
  \<open>error_code::message()\<close> as the number \<open>e\<close>). \<open>Off\<close> is only a threshold. The states of the components that log extend \<open>logged\<close>.
\<close>

datatype level = Trace | Debug | Info | Warn | Err | Critical | Off

datatype larg = LStr string | LInt int | LBool bool | LErrno int

datatype log_entry = Log level string "larg list"

record logged = log_of :: "log_entry list"

definition log_msg :: "level \<Rightarrow> string \<Rightarrow> larg list \<Rightarrow> 'a logged_scheme \<Rightarrow> 'a logged_scheme" where
  "log_msg l fmt args s = s\<lparr>log_of := log_of s @ [Log l fmt args]\<rparr>"

lemma log_of_log_msg [simp]: "log_of (log_msg l fmt args s) = log_of s @ [Log l fmt args]"
  by (simp add: log_msg_def)

section \<open>Characters and strings\<close>

abbreviation endl :: string where "endl \<equiv> [CHR 0x0A]"
abbreviation tab :: string where "tab \<equiv> [CHR 0x09]"
abbreviation squote :: string where "squote \<equiv> [CHR 0x27]"
abbreviation dquote :: char where "dquote \<equiv> CHR 0x22"

abbreviation code_of :: "char \<Rightarrow> nat" where "code_of c \<equiv> of_char c"

text \<open>\<open>std::toupper\<close>, \<open>std::tolower\<close> and \<open>std::isprint\<close> in the C locale, on unsigned bytes.\<close>

definition to_upper :: "char \<Rightarrow> char" where
  "to_upper c = (if 97 \<le> code_of c \<and> code_of c \<le> 122 then char_of (code_of c - 32) else c)"

definition to_lower :: "char \<Rightarrow> char" where
  "to_lower c = (if 65 \<le> code_of c \<and> code_of c \<le> 90 then char_of (code_of c + 32) else c)"

definition is_print :: "u8 \<Rightarrow> bool" where
  "is_print b \<longleftrightarrow> 32 \<le> unat b \<and> unat b \<le> 126"

text \<open>\<open>std::ranges::replace\<close> of one character.\<close>

definition replace_char :: "char \<Rightarrow> char \<Rightarrow> string \<Rightarrow> string" where
  "replace_char old new s = map (\<lambda>c. if c = old then new else c) s"

text \<open>\<open>std::string::find\<close>: the first position where the pattern starts.\<close>

fun str_find :: "string \<Rightarrow> string \<Rightarrow> nat option" where
  "str_find pat s =
     (if take (length pat) s = pat then Some 0
      else (case s of [] \<Rightarrow> None | c # cs \<Rightarrow> map_option Suc (str_find pat cs)))"

declare str_find.simps [simp del]

text \<open>\<open>substr(pos, n)\<close> with \<open>pos\<close> in range.\<close>

definition substr :: "nat \<Rightarrow> nat \<Rightarrow> string \<Rightarrow> string" where
  "substr pos n s = take n (drop pos s)"

lemma code_of_less [simp]: "code_of c < 256"
  by (metis char_of_char mod_less_divisor of_char_of zero_less_numeral)

lemma code_of_eq_iff: "code_of c = code_of d \<longleftrightarrow> c = d"
  by (rule of_char_eq_iff)

lemma code_of_char_of: "n < 256 \<Longrightarrow> code_of (char_of n) = n"
  by simp

lemma code_of_to_upper: "code_of (to_upper c) =
    (if 97 \<le> code_of c \<and> code_of c \<le> 122 then code_of c - 32 else code_of c)"
proof -
  have "code_of c - 32 < 256" by (rule less_imp_diff_less) (rule code_of_less)
  then show ?thesis by (simp add: to_upper_def code_of_char_of del: of_char_of)
qed

lemma code_of_to_lower: "code_of (to_lower c) =
    (if 65 \<le> code_of c \<and> code_of c \<le> 90 then code_of c + 32 else code_of c)"
  using code_of_less [of c] by (simp add: to_lower_def code_of_char_of del: of_char_of)

lemma to_upper_idem [simp]: "to_upper (to_upper c) = to_upper c"
  by (rule of_char_eqI [where ?'a = nat]) (auto simp: code_of_to_upper code_of_to_lower)

lemma to_lower_idem [simp]: "to_lower (to_lower c) = to_lower c"
  by (rule of_char_eqI [where ?'a = nat]) (auto simp: code_of_to_upper code_of_to_lower)

lemma to_upper_to_lower [simp]: "to_upper (to_lower c) = to_upper c"
  by (rule of_char_eqI [where ?'a = nat]) (auto simp: code_of_to_upper code_of_to_lower)

lemma length_replace_char [simp]: "length (replace_char a b s) = length s"
  by (simp add: replace_char_def)

lemma replace_char_notin: "a \<noteq> b \<Longrightarrow> a \<notin> set (replace_char a b s)"
  by (auto simp: replace_char_def split: if_splits)

lemma replace_char_id: "a \<notin> set s \<Longrightarrow> replace_char a b s = s"
  by (auto simp: replace_char_def intro: map_idI)

lemma str_find_Some:
  "str_find pat s = Some i \<Longrightarrow> i + length pat \<le> length s \<and> take (length pat) (drop i s) = pat"
proof (induction s arbitrary: i)
  case Nil
  then show ?case by (auto simp: str_find.simps [of pat "[]"] split: if_splits)
next
  case (Cons c cs)
  show ?case
  proof (cases "take (length pat) (c # cs) = pat")
    case True
    then have "length pat \<le> length (c # cs)" by (metis length_take min.cobounded1)
    with True Cons.prems show ?thesis by (auto simp: str_find.simps [of pat "c # cs"])
  next
    case False
    then obtain j where "str_find pat cs = Some j" and "i = Suc j"
      using Cons.prems by (auto simp: str_find.simps [of pat "c # cs"])
    with Cons.IH [of j] show ?thesis by simp
  qed
qed

lemma str_find_first:
  "str_find pat s = Some i \<Longrightarrow> j < i \<Longrightarrow> take (length pat) (drop j s) \<noteq> pat"
proof (induction s arbitrary: i j)
  case Nil
  then show ?case by (auto simp: str_find.simps [of pat "[]"] split: if_splits)
next
  case (Cons c cs)
  show ?case
  proof (cases "take (length pat) (c # cs) = pat")
    case True
    with Cons.prems show ?thesis by (auto simp: str_find.simps [of pat "c # cs"])
  next
    case False
    then obtain k where k: "str_find pat cs = Some k" "i = Suc k"
      using Cons.prems by (auto simp: str_find.simps [of pat "c # cs"])
    show ?thesis
    proof (cases j)
      case 0
      with False show ?thesis by simp
    next
      case (Suc j')
      with Cons.IH [OF k(1), of j'] k(2) Cons.prems(2) show ?thesis by simp
    qed
  qed
qed

lemma str_find_exists: "take (length pat) (drop i s) = pat \<Longrightarrow> str_find pat s \<noteq> None"
proof (induction s arbitrary: i)
  case Nil
  then have "pat = []" by simp
  then show ?case by (simp add: str_find.simps [of "[]" "[]"])
next
  case (Cons c cs)
  then show ?case
    by (cases i) (auto simp: str_find.simps [of pat "c # cs"])
qed

section \<open>Decimal and hexadecimal output\<close>

text \<open>Digits, most significant first, as \<open>std::to_string\<close> and \<open>std::hex\<close> print them.\<close>

definition digit_char :: "nat \<Rightarrow> char" where
  "digit_char d = char_of (if d < 10 then 48 + d else 87 + d)"

fun digits :: "nat \<Rightarrow> nat \<Rightarrow> string" where
  "digits b n = (if b < 2 \<or> n < b then [digit_char n] else digits b (n div b) @ [digit_char (n mod b)])"

declare digits.simps [simp del]

definition nat_to_string :: "nat \<Rightarrow> string" where
  "nat_to_string n = digits 10 n"

definition int_to_string :: "int \<Rightarrow> string" where
  "int_to_string i = (if i < 0 then CHR ''-'' # nat_to_string (nat (- i)) else nat_to_string (nat i))"

text \<open>\<open>std::setw(w)\<close> with fill \<open>'0'\<close>: padding on the left, never truncation.\<close>

definition pad_left :: "char \<Rightarrow> nat \<Rightarrow> string \<Rightarrow> string" where
  "pad_left c w s = replicate (w - length s) c @ s"

definition hex2 :: "u8 \<Rightarrow> string" where
  "hex2 b = pad_left (CHR ''0'') 2 (digits 16 (unat b))"

lemma length_pad_left: "length (pad_left c w s) = max w (length s)"
  by (simp add: pad_left_def)

lemma digits_16_small: "n < 256 \<Longrightarrow>
    digits 16 n = (if n < 16 then [digit_char n] else [digit_char (n div 16), digit_char (n mod 16)])"
proof -
  assume "n < 256"
  then have "n div 16 < 16" by (simp add: less_mult_imp_div_less)
  then show ?thesis by (simp add: digits.simps [of 16 n] digits.simps [of 16 "n div 16"])
qed

lemma unat_u8_less: "unat (b :: u8) < 256"
  using unsigned_less [of b] by simp

lemma digit_char_0: "CHR ''0'' = digit_char 0"
  by code_simp

lemma hex2_digits: "hex2 b = [digit_char (unat b div 16), digit_char (unat b mod 16)]"
proof -
  have "unat b < 256" by (rule unat_u8_less)
  then show ?thesis
    by (simp add: hex2_def digits_16_small pad_left_def digit_char_0)
qed

lemma length_hex2 [simp]: "length (hex2 b) = 2"
  by (simp add: hex2_digits)

lemma digit_char_inject: "d < 16 \<Longrightarrow> e < 16 \<Longrightarrow> digit_char d = digit_char e \<longleftrightarrow> d = e"
proof -
  assume "d < 16" "e < 16"
  then have "digit_char d = digit_char e \<longleftrightarrow>
      (if d < 10 then 48 + d else 87 + d) = (if e < 10 then 48 + e else 87 + e)"
    by (simp add: digit_char_def code_of_eq_iff [symmetric] code_of_char_of del: code_of_eq_iff)
  with \<open>d < 16\<close> \<open>e < 16\<close> show ?thesis by auto
qed

lemma hex2_inject: "hex2 a = hex2 b \<longleftrightarrow> a = b"
proof
  assume "hex2 a = hex2 b"
  moreover have "unat a div 16 < 16" "unat b div 16 < 16"
    using unat_u8_less [of a] unat_u8_less [of b] by (simp_all add: less_mult_imp_div_less)
  ultimately have "unat a div 16 = unat b div 16" "unat a mod 16 = unat b mod 16"
    by (auto simp: hex2_digits digit_char_inject)
  then have "unat a = unat b" by (metis div_mult_mod_eq)
  then show "a = b" by (simp add: word_unat_eq_iff)
qed simp

section \<open>Associative containers\<close>

text \<open>
  A \<open>std::map\<close> is an association list with distinct keys; \<open>m[k] = v\<close> is \<open>AList.update\<close>,
  \<open>m.erase(k)\<close> is \<open>AList.delete\<close>, \<open>m.contains(k)\<close> and \<open>m.size()\<close> are below. A map the code
  iterates over is given in its iteration order.
\<close>

definition contains :: "('k \<times> 'v) list \<Rightarrow> 'k \<Rightarrow> bool" where
  "contains m k \<longleftrightarrow> map_of m k \<noteq> None"

abbreviation keys :: "('k \<times> 'v) list \<Rightarrow> 'k set" where
  "keys m \<equiv> fst ` set m"

definition wf_map :: "('k \<times> 'v) list \<Rightarrow> bool" where
  "wf_map m \<longleftrightarrow> distinct (map fst m)"

text \<open>The entries of a \<open>std::map<std::string, V>\<close> in its iteration order.\<close>

definition in_order :: "(string \<times> 'v) list \<Rightarrow> (string \<times> 'v) list" where
  "in_order m = sort_key fst m"

lemma set_in_order [simp]: "set (in_order m) = set m"
  by (simp add: in_order_def)

lemma length_in_order [simp]: "length (in_order m) = length m"
  by (simp add: in_order_def)

lemma contains_keys: "contains m k \<longleftrightarrow> k \<in> keys m"
  by (simp add: contains_def map_of_eq_None_iff)

lemma wf_map_Nil [simp]: "wf_map []"
  by (simp add: wf_map_def)

lemma wf_map_update [simp]: "wf_map m \<Longrightarrow> wf_map (AList.update k v m)"
  by (simp add: wf_map_def AList.distinct_update)

lemma wf_map_delete [simp]: "wf_map m \<Longrightarrow> wf_map (AList.delete k m)"
  by (simp add: wf_map_def AList.distinct_delete)

lemma keys_update [simp]: "keys (AList.update k v m) = insert k (keys m)"
  using AList.dom_update [of k v m] by simp

lemma keys_delete [simp]: "keys (AList.delete k m) = keys m - {k}"
  by (auto simp: AList.delete_eq image_iff)

lemma contains_update [simp]: "contains (AList.update k v m) k' \<longleftrightarrow> k' = k \<or> contains m k'"
  by (auto simp: contains_keys)

lemma contains_delete [simp]: "contains (AList.delete k m) k' \<longleftrightarrow> k' \<noteq> k \<and> contains m k'"
  by (auto simp: contains_keys)

lemma length_update_new: "\<not> contains m k \<Longrightarrow> length (AList.update k v m) = Suc (length m)"
  by (induction m) (auto simp: contains_def)

lemma length_update_old: "contains m k \<Longrightarrow> length (AList.update k v m) = length m"
  by (induction m) (auto simp: contains_def split: if_splits)

lemma length_delete_le: "length (AList.delete k m) \<le> length m"
  by (simp add: AList.delete_eq)

lemma delete_update_new: "\<not> contains m k \<Longrightarrow> AList.delete k (AList.update k v m) = m"
  by (induction m) (auto simp: contains_def AList.delete_eq intro: filter_True split: if_splits)

end
