(* ===== verification/Unique_Fd.thy ===== *)
theory Unique_Fd
  imports Prelude
begin

text \<open>
  \<open>src/utils/unique_fd.h\<close> and \<open>src/utils/sys.h\<close>: the owner of a file descriptor and the
  wrappers of the system calls that create one. A \<open>unique_fd\<close> is one object; each member
  function returns the object after the call and the descriptors it closed, in order. A
  world of several objects and the kernel's open descriptors then gives the ownership
  discipline: no descriptor is closed twice and none is lost.
\<close>

section \<open>One object\<close>

record unique_fd =
  ufd_fd :: int
  ufd_owns :: bool

definition ufd_empty :: unique_fd where
  "ufd_empty = \<lparr>ufd_fd = - 1, ufd_owns = True\<rparr>"

definition ufd_own :: "int \<Rightarrow> unique_fd" where
  "ufd_own fd = \<lparr>ufd_fd = fd, ufd_owns = True\<rparr>"

definition ufd_borrow :: "int \<Rightarrow> unique_fd" where
  "ufd_borrow fd = (ufd_own fd)\<lparr>ufd_owns := False\<rparr>"

definition ufd_valid :: "unique_fd \<Rightarrow> bool" where
  "ufd_valid u \<longleftrightarrow> 0 \<le> ufd_fd u"

definition ufd_get :: "unique_fd \<Rightarrow> int" where
  "ufd_get u = ufd_fd u"

definition ufd_reset :: "int \<Rightarrow> unique_fd \<Rightarrow> unique_fd \<times> int list" where
  "ufd_reset fd u =
     (\<lparr>ufd_fd = fd, ufd_owns = True\<rparr>,
      if ufd_owns u \<and> 0 \<le> ufd_fd u \<and> ufd_fd u \<noteq> fd then [ufd_fd u] else [])"

definition ufd_destroy :: "unique_fd \<Rightarrow> int list" where
  "ufd_destroy u = snd (ufd_reset (- 1) u)"

definition ufd_release :: "unique_fd \<Rightarrow> int \<times> unique_fd" where
  "ufd_release u = (ufd_fd u, \<lparr>ufd_fd = - 1, ufd_owns = True\<rparr>)"

text \<open>The move constructor: the new object and what is left of the source.\<close>

definition ufd_move :: "unique_fd \<Rightarrow> unique_fd \<times> unique_fd" where
  "ufd_move other = (other, \<lparr>ufd_fd = - 1, ufd_owns = True\<rparr>)"

text \<open>Move assignment between two different objects: target, source, closed.\<close>

definition ufd_move_assign :: "unique_fd \<Rightarrow> unique_fd \<Rightarrow> unique_fd \<times> unique_fd \<times> int list" where
  "ufd_move_assign this other =
     (let closed = snd (ufd_reset (- 1) this)
      in (\<lparr>ufd_fd = ufd_fd other, ufd_owns = ufd_owns other\<rparr>, \<lparr>ufd_fd = - 1, ufd_owns = True\<rparr>, closed))"

text \<open>The descriptor an object is responsible for, if any.\<close>

definition ufd_owned :: "unique_fd \<Rightarrow> int set" where
  "ufd_owned u = (if ufd_owns u \<and> 0 \<le> ufd_fd u then {ufd_fd u} else {})"

lemmas ufd_defs = ufd_empty_def ufd_own_def ufd_borrow_def ufd_valid_def ufd_get_def ufd_reset_def
  ufd_destroy_def ufd_release_def ufd_move_def ufd_move_assign_def

lemma ufd_owned_simps [simp]:
  "ufd_owned ufd_empty = {}"
  "ufd_owned \<lparr>ufd_fd = - 1, ufd_owns = True\<rparr> = {}"
  "ufd_owned (ufd_own fd) = (if 0 \<le> fd then {fd} else {})"
  "ufd_owned (ufd_borrow fd) = {}"
  by (simp_all add: ufd_owned_def ufd_defs)

lemma ufd_reset_closed: "set (snd (ufd_reset fd u)) = ufd_owned u - {fd}"
  by (auto simp: ufd_owned_def ufd_defs)

lemma ufd_reset_fst [simp]: "fst (ufd_reset fd u) = ufd_own fd"
  by (simp add: ufd_defs)

lemma ufd_destroy_closed: "set (ufd_destroy u) = ufd_owned u"
  by (auto simp: ufd_owned_def ufd_defs)

section \<open>The system-call wrappers\<close>

text \<open>
  A system call is what it returned and the \<open>errno\<close> it left. The wrapper hands the
  descriptor over inside its owner (the local object is moved from, so its destruction
  closes nothing), or the \<open>errno\<close>.
\<close>

definition make_fd :: "int \<Rightarrow> int \<Rightarrow> (int + unique_fd) \<times> int list" where
  "make_fd rc errno =
     (let fd = ufd_own rc
      in if \<not> ufd_valid fd then (Inl errno, ufd_destroy fd)
         else (let (result, fd') = ufd_move fd in (Inr result, ufd_destroy fd')))"

definition open_fd :: "(string \<Rightarrow> int \<Rightarrow> int \<times> int) \<Rightarrow> string \<Rightarrow> int \<Rightarrow> (int + unique_fd) \<times> int list" where
  "open_fd sys_open path flags = (let (rc, errno) = sys_open path flags in make_fd rc errno)"

definition open_fd_mode ::
    "(string \<Rightarrow> int \<Rightarrow> nat \<Rightarrow> int \<times> int) \<Rightarrow> string \<Rightarrow> int \<Rightarrow> nat \<Rightarrow> (int + unique_fd) \<times> int list" where
  "open_fd_mode sys_open path flags mode = (let (rc, errno) = sys_open path flags mode in make_fd rc errno)"

definition make_eventfd :: "(nat \<Rightarrow> int \<Rightarrow> int \<times> int) \<Rightarrow> nat \<Rightarrow> int \<Rightarrow> (int + unique_fd) \<times> int list" where
  "make_eventfd sys_eventfd initval flags = (let (rc, errno) = sys_eventfd initval flags in make_fd rc errno)"

definition make_signalfd ::
    "(int \<Rightarrow> int list \<Rightarrow> int \<Rightarrow> int \<times> int) \<Rightarrow> int \<Rightarrow> int list \<Rightarrow> int \<Rightarrow> (int + unique_fd) \<times> int list" where
  "make_signalfd sys_signalfd fd sigmask flags = (let (rc, errno) = sys_signalfd fd sigmask flags in make_fd rc errno)"

definition make_timerfd :: "(int \<Rightarrow> int \<Rightarrow> int \<times> int) \<Rightarrow> int \<Rightarrow> int \<Rightarrow> (int + unique_fd) \<times> int list" where
  "make_timerfd sys_timerfd clockid flags = (let (rc, errno) = sys_timerfd clockid flags in make_fd rc errno)"

definition sys_ioctl :: "(int \<Rightarrow> nat \<Rightarrow> 'a \<Rightarrow> int \<times> int) \<Rightarrow> int \<Rightarrow> nat \<Rightarrow> 'a \<Rightarrow> int + int" where
  "sys_ioctl kernel_ioctl fd request arg =
     (let (rc, errno) = kernel_ioctl fd request arg in if rc < 0 then Inl errno else Inr rc)"

lemma make_fd_simp: "make_fd rc errno = (if rc < 0 then Inl errno else Inr (ufd_own rc), [])"
  by (simp add: make_fd_def ufd_defs)

section \<open>A world of owners\<close>

text \<open>
  The live objects by name, the descriptors the kernel has open, those that something other
  than a \<open>unique_fd\<close> is responsible for (just opened, released, or belonging to the D-Bus
  library or to the caller), and every \<open>close\<close> on a descriptor that was not open.
\<close>

record fd_world =
  fw_objs :: "nat \<Rightarrow> unique_fd option"
  fw_open :: "int set"
  fw_external :: "int set"
  fw_bad_close :: "int list"

definition fw_close :: "int \<Rightarrow> fd_world \<Rightarrow> fd_world" where
  "fw_close fd w =
     (if fd \<in> fw_open w then w\<lparr>fw_open := fw_open w - {fd}\<rparr>
      else w\<lparr>fw_bad_close := fw_bad_close w @ [fd]\<rparr>)"

definition fw_closes :: "int list \<Rightarrow> fd_world \<Rightarrow> fd_world" where
  "fw_closes fds w = fold fw_close fds w"

definition fw_put :: "nat \<Rightarrow> unique_fd \<Rightarrow> fd_world \<Rightarrow> fd_world" where
  "fw_put i u w = w\<lparr>fw_objs := (fw_objs w)(i \<mapsto> u)\<rparr>"

definition fw_drop :: "nat \<Rightarrow> fd_world \<Rightarrow> fd_world" where
  "fw_drop i w = w\<lparr>fw_objs := (fw_objs w)(i := None)\<rparr>"

definition fw_adopt :: "int \<Rightarrow> fd_world \<Rightarrow> fd_world" where
  "fw_adopt fd w = w\<lparr>fw_external := fw_external w - {fd}\<rparr>"

text \<open>
  The steps of a program that uses the class. The premises are the caller's side of the
  contract: an object is constructed once, and a descriptor given to an owner (by the
  constructor or by \<open>reset\<close>) is one the caller was responsible for. A borrowed descriptor is
  any number at all.
\<close>

inductive fw_step :: "fd_world \<Rightarrow> fd_world \<Rightarrow> bool" where
  Syscall_Opens: "0 \<le> fd \<Longrightarrow> fd \<notin> fw_open w \<Longrightarrow>
     fw_step w (w\<lparr>fw_open := insert fd (fw_open w), fw_external := insert fd (fw_external w)\<rparr>)"
| External_Close: "fd \<in> fw_external w \<Longrightarrow>
     fw_step w (fw_close fd (w\<lparr>fw_external := fw_external w - {fd}\<rparr>))"
| Default_Ctor: "fw_objs w i = None \<Longrightarrow> fw_step w (fw_put i ufd_empty w)"
| Ctor: "fw_objs w i = None \<Longrightarrow> fd < 0 \<or> fd \<in> fw_external w \<Longrightarrow>
     fw_step w (fw_put i (ufd_own fd) (fw_adopt fd w))"
| Borrow: "fw_objs w i = None \<Longrightarrow> fw_step w (fw_put i (ufd_borrow fd) w)"
| Move_Ctor: "fw_objs w i = Some u \<Longrightarrow> fw_objs w j = None \<Longrightarrow> ufd_move u = (new, left) \<Longrightarrow>
     fw_step w (fw_put j new (fw_put i left w))"
| Move_Assign: "fw_objs w i = Some u \<Longrightarrow> fw_objs w j = Some v \<Longrightarrow> i \<noteq> j \<Longrightarrow>
     ufd_move_assign v u = (tgt, src, closed) \<Longrightarrow>
     fw_step w (fw_put j tgt (fw_put i src (fw_closes closed w)))"
| Self_Assign: "fw_objs w i = Some u \<Longrightarrow> fw_step w w"
| Release: "fw_objs w i = Some u \<Longrightarrow> ufd_release u = (fd, left) \<Longrightarrow>
     fw_step w (fw_put i left (w\<lparr>fw_external := fw_external w \<union> ufd_owned u\<rparr>))"
| Reset: "fw_objs w i = Some u \<Longrightarrow> fd < 0 \<or> fd \<in> fw_external w \<or> fd \<in> ufd_owned u \<Longrightarrow>
     ufd_reset fd u = (new, closed) \<Longrightarrow>
     fw_step w (fw_put i new (fw_closes closed (fw_adopt fd w)))"
| Destroy: "fw_objs w i = Some u \<Longrightarrow> fw_step w (fw_drop i (fw_closes (ufd_destroy u) w))"

inductive fw_steps :: "fd_world \<Rightarrow> fd_world \<Rightarrow> bool" where
  Refl: "fw_steps w w"
| Step: "fw_steps w w' \<Longrightarrow> fw_step w' w'' \<Longrightarrow> fw_steps w w''"

text \<open>No two objects own the same descriptor, and what is open is what someone owns.\<close>

definition fw_owned :: "fd_world \<Rightarrow> nat \<Rightarrow> int set" where
  "fw_owned w i = (case fw_objs w i of None \<Rightarrow> {} | Some u \<Rightarrow> ufd_owned u)"

definition fw_inv :: "fd_world \<Rightarrow> bool" where
  "fw_inv w \<longleftrightarrow>
     (\<forall>x. x \<in> fw_open w \<longleftrightarrow> (\<exists>i. x \<in> fw_owned w i) \<or> x \<in> fw_external w) \<and>
     (\<forall>i j x. x \<in> fw_owned w i \<longrightarrow> x \<in> fw_owned w j \<longrightarrow> i = j) \<and>
     (\<forall>i x. x \<in> fw_owned w i \<longrightarrow> x \<notin> fw_external w) \<and>
     (\<forall>x. x \<in> fw_external w \<longrightarrow> 0 \<le> x) \<and>
     fw_bad_close w = []"

lemma fw_owned_put [simp]: "fw_owned (fw_put i u w) = (fw_owned w)(i := ufd_owned u)"
  by (rule ext) (simp add: fw_owned_def fw_put_def)

lemma fw_owned_drop [simp]: "fw_owned (fw_drop i w) = (fw_owned w)(i := {})"
  by (rule ext) (simp add: fw_owned_def fw_drop_def)

lemma fw_owned_close [simp]: "fw_owned (fw_close fd w) = fw_owned w"
  by (auto simp: fw_owned_def fw_close_def)

lemma fw_owned_closes [simp]: "fw_owned (fw_closes fds w) = fw_owned w"
  unfolding fw_closes_def by (induction fds arbitrary: w) auto

lemma fw_owned_adopt [simp]: "fw_owned (fw_adopt fd w) = fw_owned w"
  by (auto simp: fw_owned_def fw_adopt_def)

lemma fw_owned_kernel [simp]:
  "fw_owned (w\<lparr>fw_open := A, fw_external := B\<rparr>) = fw_owned w"
  "fw_owned (w\<lparr>fw_external := B\<rparr>) = fw_owned w" "fw_owned (w\<lparr>fw_open := A\<rparr>) = fw_owned w"
  by (auto simp: fw_owned_def)

lemma fw_fields [simp]:
  "fw_open (fw_put i u w) = fw_open w" "fw_external (fw_put i u w) = fw_external w"
  "fw_bad_close (fw_put i u w) = fw_bad_close w"
  "fw_open (fw_drop i w) = fw_open w" "fw_external (fw_drop i w) = fw_external w"
  "fw_bad_close (fw_drop i w) = fw_bad_close w"
  "fw_open (fw_adopt fd w) = fw_open w" "fw_external (fw_adopt fd w) = fw_external w - {fd}"
  "fw_bad_close (fw_adopt fd w) = fw_bad_close w"
  "fw_external (fw_close fd w) = fw_external w"
  by (simp_all add: fw_put_def fw_drop_def fw_adopt_def fw_close_def)

lemma fw_external_closes [simp]: "fw_external (fw_closes fds w) = fw_external w"
  unfolding fw_closes_def by (induction fds arbitrary: w) auto

lemma fw_closes_open:
  assumes "distinct fds" "set fds \<subseteq> fw_open w"
  shows "fw_open (fw_closes fds w) = fw_open w - set fds"
    and "fw_bad_close (fw_closes fds w) = fw_bad_close w"
proof -
  from assms have "fw_open (fold fw_close fds w) = fw_open w - set fds \<and>
      fw_bad_close (fold fw_close fds w) = fw_bad_close w"
  proof (induction fds arbitrary: w)
    case (Cons fd fds)
    have "set fds \<subseteq> fw_open (w\<lparr>fw_open := fw_open w - {fd}\<rparr>)" using Cons.prems by auto
    from Cons.IH [OF _ this] Cons.prems show ?case by (auto simp: fw_close_def)
  qed simp
  then show "fw_open (fw_closes fds w) = fw_open w - set fds"
    and "fw_bad_close (fw_closes fds w) = fw_bad_close w" by (simp_all add: fw_closes_def)
qed

lemma ufd_reset_distinct: "distinct (snd (ufd_reset fd u))"
  by (simp add: ufd_defs)

lemma ufd_owned_nonneg: "x \<in> ufd_owned u \<Longrightarrow> 0 \<le> x"
  by (auto simp: ufd_owned_def split: if_splits)

lemma ufd_owned_unique: "x \<in> ufd_owned u \<Longrightarrow> ufd_owned u = {x}"
  by (auto simp: ufd_owned_def split: if_splits)

lemma fw_owned_Some: "fw_objs w i = Some u \<Longrightarrow> fw_owned w i = ufd_owned u"
  by (simp add: fw_owned_def)

lemma fw_owned_None: "fw_objs w i = None \<Longrightarrow> fw_owned w i = {}"
  by (simp add: fw_owned_def)

text \<open>The invariant as facts, and its introduction from the same facts on the next world.\<close>

lemma fw_invI:
  assumes "\<And>x. x \<in> fw_open w \<longleftrightarrow> (\<exists>i. x \<in> fw_owned w i) \<or> x \<in> fw_external w"
    and "\<And>i j x. x \<in> fw_owned w i \<Longrightarrow> x \<in> fw_owned w j \<Longrightarrow> i = j"
    and "\<And>i x. x \<in> fw_owned w i \<Longrightarrow> x \<notin> fw_external w"
    and "\<And>x. x \<in> fw_external w \<Longrightarrow> 0 \<le> x"
    and "fw_bad_close w = []"
  shows "fw_inv w"
  unfolding fw_inv_def by (intro conjI allI impI assms; assumption)

lemma fw_invD:
  assumes "fw_inv w"
  shows "x \<in> fw_open w \<longleftrightarrow> (\<exists>i. x \<in> fw_owned w i) \<or> x \<in> fw_external w"
    and "x \<in> fw_owned w i \<Longrightarrow> x \<in> fw_owned w j \<Longrightarrow> i = j"
    and "x \<in> fw_owned w i \<Longrightarrow> x \<notin> fw_external w"
    and "x \<in> fw_external w \<Longrightarrow> 0 \<le> x"
    and "fw_bad_close w = []"
  using assms unfolding fw_inv_def by (fast, fast, fast, fast, fast)

text \<open>An object replaced after closing what it owned (and does not keep).\<close>

lemma fw_inv_replace:
  assumes inv: "fw_inv w" and obj: "fw_owned w i = A"
    and closed: "set fds = A - B" "distinct fds"
    and ext: "B \<subseteq> A \<union> fw_external w"
    and w': "fw_owned w' = (fw_owned w)(i := B)" "fw_external w' = fw_external w - B"
      "fw_open w' = fw_open (fw_closes fds w)" "fw_bad_close w' = fw_bad_close (fw_closes fds w)"
  shows "fw_inv w'"
proof -
  note D = fw_invD [OF inv]
  have sub: "set fds \<subseteq> fw_open w" using D(1) obj closed(1) by auto
  note cl = fw_closes_open [OF closed(2) sub]
  show ?thesis
  proof (rule fw_invI)
    fix x
    have "x \<in> fw_open w' \<longleftrightarrow> x \<in> fw_open w \<and> x \<notin> A - B"
      unfolding w' cl closed(1) by simp
    also have "\<dots> \<longleftrightarrow> x \<in> B \<or> (\<exists>j. j \<noteq> i \<and> x \<in> fw_owned w j) \<or> x \<in> fw_external w"
      using D(1) [of x] D(2) [of x i] D(3) [of x i] obj ext by (metis Diff_iff Un_iff subsetD)
    also have "\<dots> \<longleftrightarrow> (\<exists>j. x \<in> fw_owned w' j) \<or> x \<in> fw_external w'"
      unfolding w' fun_upd_apply by auto
    finally show "x \<in> fw_open w' \<longleftrightarrow> (\<exists>j. x \<in> fw_owned w' j) \<or> x \<in> fw_external w'" .
  next
    fix k j x assume kj: "x \<in> fw_owned w' k" "x \<in> fw_owned w' j"
    have B: "x \<in> B \<Longrightarrow> x \<notin> fw_owned w l" if "l \<noteq> i" for l
      using D(2) [of x i l] D(3) [of x l] obj ext that by auto
    show "k = j" using kj B [of k] B [of j] D(2) [of x k j] unfolding w' fun_upd_apply
      by (cases "k = i"; cases "j = i") simp_all
  next
    fix k x assume "x \<in> fw_owned w' k"
    then show "x \<notin> fw_external w'" unfolding w' using D(3) [of x] by (auto split: if_splits)
  next
    fix x assume "x \<in> fw_external w'"
    then show "0 \<le> x" unfolding w' using D(4) by auto
  next
    show "fw_bad_close w' = []" unfolding w' cl by (rule D(5))
  qed
qed

text \<open>Ownership handed from one object to another that owns nothing.\<close>

lemma fw_inv_transfer:
  assumes inv: "fw_inv w" and ij: "i \<noteq> j" "fw_owned w j = {}"
    and w': "fw_owned w' = (fw_owned w)(i := {}, j := fw_owned w i)"
      "fw_external w' = fw_external w" "fw_open w' = fw_open w" "fw_bad_close w' = fw_bad_close w"
  shows "fw_inv w'"
proof -
  note D = fw_invD [OF inv]
  let ?\<pi> = "\<lambda>k. if k = i then j else if k = j then i else k"
  have own: "fw_owned w' k = fw_owned w (?\<pi> k)" for k
    using ij by (simp add: w')
  have inv_perm: "?\<pi> (?\<pi> k) = k" for k using ij by simp
  show ?thesis
  proof (rule fw_invI)
    fix x
    have "(\<exists>k. x \<in> fw_owned w' k) \<longleftrightarrow> (\<exists>k. x \<in> fw_owned w k)"
      unfolding own by (metis inv_perm)
    then show "x \<in> fw_open w' \<longleftrightarrow> (\<exists>k. x \<in> fw_owned w' k) \<or> x \<in> fw_external w'"
      using D(1) [of x] by (simp add: w')
  next
    fix k l x assume "x \<in> fw_owned w' k" "x \<in> fw_owned w' l"
    then have "?\<pi> k = ?\<pi> l" unfolding own by (rule D(2))
    then show "k = l" by (metis inv_perm)
  next
    fix k x assume "x \<in> fw_owned w' k"
    then show "x \<notin> fw_external w'" unfolding own w'(2) by (rule D(3))
  next
    fix x assume "x \<in> fw_external w'"
    then show "0 \<le> x" unfolding w' by (rule D(4))
  next
    show "fw_bad_close w' = []" unfolding w' by (rule D(5))
  qed
qed

lemma fw_inv_same:
  assumes "fw_inv w" "fw_owned w' = fw_owned w" "fw_external w' = fw_external w"
    "fw_open w' = fw_open w" "fw_bad_close w' = fw_bad_close w"
  shows "fw_inv w'"
  using assms by (simp add: fw_inv_def)

lemma ufd_move_assign_parts:
  "ufd_move_assign v u = (tgt, src, closed) \<Longrightarrow>
     closed = snd (ufd_reset (- 1) v) \<and> ufd_owned tgt = ufd_owned u \<and> ufd_owned src = {}"
  by (auto simp: ufd_defs ufd_owned_def)

lemma ufd_owned_reset_self: "fd < 0 \<or> fd \<in> A \<or> fd \<in> ufd_owned u \<Longrightarrow>
    ufd_owned (ufd_own fd) \<subseteq> ufd_owned u \<union> A"
  by auto

lemma fw_open_closes_frame:
  assumes "fw_open v = fw_open w" "fw_bad_close v = fw_bad_close w"
  shows "fw_open (fw_closes fds v) = fw_open (fw_closes fds w)"
    and "fw_bad_close (fw_closes fds v) = fw_bad_close (fw_closes fds w)"
proof -
  have "fw_open (fold fw_close fds v) = fw_open (fold fw_close fds w) \<and>
      fw_bad_close (fold fw_close fds v) = fw_bad_close (fold fw_close fds w)"
    using assms
  proof (induction fds arbitrary: v w)
    case (Cons fd fds)
    show ?case unfolding fold.simps comp_apply
      by (rule Cons.IH) (simp_all add: fw_close_def Cons.prems)
  qed simp
  then show "fw_open (fw_closes fds v) = fw_open (fw_closes fds w)"
    and "fw_bad_close (fw_closes fds v) = fw_bad_close (fw_closes fds w)"
    by (simp_all add: fw_closes_def)
qed

lemma fw_closes_Nil [simp]: "fw_closes [] w = w"
  by (simp add: fw_closes_def)

lemma fw_step_inv:
  assumes "fw_step w w'" "fw_inv w"
  shows "fw_inv w'"
  using assms(1)
proof cases
  case (Syscall_Opens fd)
  note D = fw_invD [OF assms(2)]
  show ?thesis unfolding Syscall_Opens(1)
    by (rule fw_invI) (use D Syscall_Opens(2,3) in \<open>auto simp: D(5)\<close>)
next
  case (External_Close fd)
  note D = fw_invD [OF assms(2)]
  have "fd \<in> fw_open w" using D(1) External_Close(2) by auto
  then show ?thesis unfolding External_Close(1)
    by (intro fw_invI) (use D External_Close(2) in \<open>auto simp: D(5) fw_close_def\<close>)
next
  case (Default_Ctor i)
  show ?thesis unfolding Default_Ctor(1)
    by (rule fw_inv_replace [OF assms(2), of i "{}" "[]" "{}"])
      (simp_all add: fw_owned_None Default_Ctor(2))
next
  case (Ctor i fd)
  show ?thesis unfolding Ctor(1)
    by (rule fw_inv_replace [OF assms(2), of i "{}" "[]" "ufd_owned (ufd_own fd)"])
      (use Ctor(2,3) fw_invD(4) [OF assms(2)] in \<open>auto simp: fw_owned_None\<close>)
next
  case (Borrow i fd)
  show ?thesis unfolding Borrow(1)
    by (rule fw_inv_replace [OF assms(2), of i "{}" "[]" "{}"])
      (simp_all add: fw_owned_None Borrow(2))
next
  case (Move_Ctor i u j new left)
  have "i \<noteq> j" using Move_Ctor(2,3) by auto
  then show ?thesis unfolding Move_Ctor(1)
    by (intro fw_inv_transfer [OF assms(2), of i j])
      (use Move_Ctor(2-4) in \<open>auto simp: fw_owned_None fw_owned_Some ufd_move_def\<close>)
next
  case (Move_Assign i u j v tgt src closed)
  note parts = ufd_move_assign_parts [OF Move_Assign(5)]
  let ?w1 = "fw_put j ufd_empty (fw_closes closed w)"
  have inv1: "fw_inv ?w1"
    by (rule fw_inv_replace [OF assms(2), of j "ufd_owned v" closed "{}"])
      (use Move_Assign(3) parts ufd_reset_closed [of "- 1" v] ufd_owned_nonneg [of "- 1" v]
        in \<open>auto simp: fw_owned_Some ufd_reset_distinct\<close>)
  show ?thesis unfolding Move_Assign(1)
    by (rule fw_inv_transfer [OF inv1, of i j])
      (use Move_Assign(2,4) parts in \<open>auto simp: fw_owned_Some fun_eq_iff\<close>)
next
  case (Release i u fd left)
  note D = fw_invD [OF assms(2)]
  have left: "ufd_owned left = {}" using Release(3) by (auto simp: ufd_release_def)
  show ?thesis unfolding Release(1)
  proof (rule fw_invI; unfold fw_owned_put fw_owned_kernel fw_fields left)
    fix x
    show "x \<in> fw_open (w\<lparr>fw_external := fw_external w \<union> ufd_owned u\<rparr>) \<longleftrightarrow>
      (\<exists>j. x \<in> ((fw_owned w)(i := {})) j) \<or>
        x \<in> fw_external (w\<lparr>fw_external := fw_external w \<union> ufd_owned u\<rparr>)"
      using D(1) [of x] fw_owned_Some [OF Release(2)] by auto
  next
    fix k x assume "x \<in> ((fw_owned w)(i := {})) k"
    then show "x \<notin> fw_external (w\<lparr>fw_external := fw_external w \<union> ufd_owned u\<rparr>)"
      using D(2) [of x k i] D(3) [of x k] fw_owned_Some [OF Release(2)] by (auto split: if_splits)
  qed (use D(2,4,5) ufd_owned_nonneg in \<open>auto split: if_splits\<close>)
next
  case (Reset i u fd new closed)
  have new: "new = ufd_own fd" and closed: "closed = snd (ufd_reset fd u)"
    using Reset(4) ufd_reset_fst [of fd u] by auto
  have pos: "fd \<in> fw_external w \<or> fd \<in> ufd_owned u \<Longrightarrow> 0 \<le> fd"
    using fw_invD(4) [OF assms(2)] ufd_owned_nonneg by auto
  have neg: "fd < 0 \<Longrightarrow> fd \<notin> fw_external w \<and> fd \<notin> ufd_owned u" using pos by auto
  show ?thesis unfolding Reset(1)
    by (rule fw_inv_replace [OF assms(2), of i "ufd_owned u" closed "ufd_owned (ufd_own fd)"])
      (use Reset(2,3) new closed pos neg ufd_reset_closed [of fd u]
        fw_open_closes_frame [of "fw_adopt fd w" w]
        in \<open>auto simp: fw_owned_Some ufd_reset_distinct\<close>)
next
  case (Destroy i u)
  show ?thesis unfolding Destroy(1)
    by (rule fw_inv_replace [OF assms(2), of i "ufd_owned u" "ufd_destroy u" "{}"])
      (use Destroy(2) ufd_destroy_closed [of u] in
        \<open>simp_all add: fw_owned_Some ufd_destroy_def ufd_reset_distinct\<close>)
qed (simp add: assms(2))

lemma fw_steps_inv:
  assumes "fw_steps w w'" "fw_inv w"
  shows "fw_inv w'"
  using assms by induction (blast intro: fw_step_inv)+

definition fw_start :: fd_world where
  "fw_start = \<lparr>fw_objs = (\<lambda>_. None), fw_open = {}, fw_external = {}, fw_bad_close = []\<rparr>"

lemma fw_start_inv: "fw_inv fw_start"
  by (simp add: fw_inv_def fw_start_def fw_owned_def)

section \<open>Properties\<close>

text \<open>
  C5: in every program that follows the contract of the class, at every moment, each
  \<open>close\<close> made so far (by destructors, \<open>reset\<close>, move assignment, error paths) was on an open
  descriptor, no two objects own the same descriptor, and every open descriptor is owned by
  exactly one object or by someone outside, so none has leaked.
\<close>

theorem unique_fd_no_double_close_no_leak:
  assumes "fw_steps fw_start w"
  shows "fw_bad_close w = [] \<and>
    (\<forall>i j. i \<noteq> j \<longrightarrow> fw_owned w i \<inter> fw_owned w j = {}) \<and>
    (\<forall>fd. fd \<in> fw_open w \<longleftrightarrow> (\<exists>!i. fd \<in> fw_owned w i) \<and> fd \<notin> fw_external w \<or>
                        fd \<in> fw_external w \<and> (\<forall>i. fd \<notin> fw_owned w i))"
proof -
  have inv: "fw_inv w" by (rule fw_steps_inv [OF assms fw_start_inv])
  note D = fw_invD [OF inv]
  have "\<forall>i j. i \<noteq> j \<longrightarrow> fw_owned w i \<inter> fw_owned w j = {}" using D(2) by blast
  moreover have "fd \<in> fw_open w \<longleftrightarrow> (\<exists>!i. fd \<in> fw_owned w i) \<and> fd \<notin> fw_external w \<or>
      fd \<in> fw_external w \<and> (\<forall>i. fd \<notin> fw_owned w i)" for fd
    using D(1) [of fd] D(2) [of fd] D(3) [of fd] by metis
  ultimately show ?thesis using D(5) by blast
qed

text \<open>Descriptor 5 is opened, adopted, moved into a second object, and that one is destroyed.\<close>

lemma unique_fd_no_double_close_no_leak_witness:
  "\<exists>w. fw_steps fw_start w \<and> fw_open w = {} \<and> fw_bad_close w = []"
proof -
  let ?w1 = "fw_start\<lparr>fw_open := insert 5 (fw_open fw_start),
                      fw_external := insert 5 (fw_external fw_start)\<rparr>"
  let ?w2 = "fw_put 0 (ufd_own 5) (fw_adopt 5 ?w1)"
  let ?w3 = "fw_put 1 (ufd_own 5) (fw_put 0 ufd_empty ?w2)"
  let ?w4 = "fw_drop 1 (fw_closes (ufd_destroy (ufd_own 5)) ?w3)"
  have "fw_step fw_start ?w1" by (rule Syscall_Opens) (simp_all add: fw_start_def)
  moreover have "fw_step ?w1 ?w2" by (rule Ctor) (simp_all add: fw_start_def)
  moreover have "fw_step ?w2 ?w3"
    by (rule Move_Ctor) (simp_all add: fw_start_def fw_put_def fw_adopt_def ufd_defs)
  moreover have "fw_step ?w3 ?w4" by (rule Destroy) (simp add: fw_put_def)
  ultimately have steps: "fw_steps fw_start ?w4" by (meson fw_steps.intros)
  moreover have "fw_bad_close ?w4 = []"
    using unique_fd_no_double_close_no_leak [OF steps] by blast
  moreover have "fw_open ?w4 = {}"
    by (simp add: fw_start_def fw_drop_def fw_put_def fw_closes_def fw_close_def fw_adopt_def ufd_defs)
  ultimately show ?thesis by blast
qed

text \<open>
  each wrapper of a system call that creates a descriptor gives either the \<open>errno\<close>, when
  the call failed, or an owner of exactly the descriptor the call returned; the temporary
  owner inside the wrapper closes nothing on either path.
\<close>

theorem sys_wrappers_result:
  "(open_fd (\<lambda>_ _. (rc, e)) path flags = (if rc < 0 then Inl e else Inr (ufd_own rc), [])) \<and>
   (open_fd_mode (\<lambda>_ _ _. (rc, e)) path flags m = (if rc < 0 then Inl e else Inr (ufd_own rc), [])) \<and>
   (make_eventfd (\<lambda>_ _. (rc, e)) n flags = (if rc < 0 then Inl e else Inr (ufd_own rc), [])) \<and>
   (make_signalfd (\<lambda>_ _ _. (rc, e)) fd sigs flags = (if rc < 0 then Inl e else Inr (ufd_own rc), [])) \<and>
   (make_timerfd (\<lambda>_ _. (rc, e)) clockid flags = (if rc < 0 then Inl e else Inr (ufd_own rc), [])) \<and>
   (sys_ioctl (\<lambda>_ _ _. (rc, e)) fd request arg = (if rc < 0 then Inl e else Inr rc))"
  by (simp_all add: open_fd_def open_fd_mode_def make_eventfd_def make_signalfd_def
      make_timerfd_def sys_ioctl_def make_fd_simp)

end
