(* ===== verification/Event_Loop.thy ===== *)
theory Event_Loop
  imports Unique_Fd
begin

text \<open>
  \<open>src/utils/event_loop.{h,cc}\<close> and \<open>src/utils/signal_source.h\<close>: the single-threaded loop
  that multiplexes the bus, the wake eventfd and the registered sources. A source is its
  address, a number; what its \<open>dispatch\<close> does to the loop is the list of calls it makes. What
  the kernel answers (\<open>write\<close> on the eventfd, \<open>poll\<close>) and what the bus hands back is given
  round by round. Every poll, dispatch, registration and destruction is recorded in
  \<open>el_trace\<close>, on which the properties are stated.
\<close>

section \<open>State\<close>

type_synonym source = nat

text \<open>
  \<open>Ev_Poll\<close> carries the sources polled, and \<open>running_\<close> and the eventfd counter when
  \<open>poll()\<close> is entered.
\<close>

datatype event =
    Ev_Poll "source list" bool nat
  | Ev_Bus
  | Ev_Dispatch source u16
  | Ev_Add source
  | Ev_Remove source
  | Ev_Retire source
  | Ev_Apply
  | Ev_Destroy source

record event_loop = logged +
  el_wake_fd :: unique_fd
  el_wakes :: nat            \<comment> \<open>the eventfd's counter, in the kernel\<close>
  el_running :: bool
  el_exit_code :: int
  el_sources :: "source list"
  el_to_add :: "source list"
  el_to_remove :: "source list"
  el_to_retire :: "source list"
  el_trace :: "event list"

text \<open>The result of \<open>write\<close> on the eventfd: 8 bytes, or -1 and \<open>errno\<close>.\<close>

datatype write_result = Written | Write_Failed int

definition EAGAIN :: int where "EAGAIN = 11"
definition EINTR :: int where "EINTR = 4"
definition POLLIN :: u16 where "POLLIN = 1"
definition POLLERR :: u16 where "POLLERR = 8"
definition POLLHUP :: u16 where "POLLHUP = 16"

definition record_event :: "event \<Rightarrow> event_loop \<Rightarrow> event_loop" where
  "record_event e s = s\<lparr>el_trace := el_trace s @ [e]\<rparr>"

section \<open>Operations\<close>

definition event_loop_new :: "int + unique_fd \<Rightarrow> event_loop" where
  "event_loop_new eventfd =
     (let s = \<lparr>log_of = [], el_wake_fd = ufd_empty, el_wakes = 0, el_running = False,
               el_exit_code = 0, el_sources = [], el_to_add = [], el_to_remove = [],
               el_to_retire = [], el_trace = []\<rparr>
      in case eventfd of
           Inr fd \<Rightarrow> s\<lparr>el_wake_fd := fst (ufd_move_assign (el_wake_fd s) fd)\<rparr>
         | Inl err \<Rightarrow> log_msg Err ''EventLoop: failed to create eventfd: {}'' [LErrno err] s)"

definition wake :: "write_result \<Rightarrow> event_loop \<Rightarrow> event_loop" where
  "wake w s =
     (if \<not> ufd_valid (el_wake_fd s) then s
      else case w of
             Written \<Rightarrow> s\<lparr>el_wakes := el_wakes s + 1\<rparr>
           | Write_Failed e \<Rightarrow>
               (if e \<noteq> EAGAIN
                then log_msg Err ''EventLoop: failed to signal wake eventfd: {}'' [LErrno e] s
                else s))"

definition el_add :: "source \<Rightarrow> write_result \<Rightarrow> event_loop \<Rightarrow> event_loop" where
  "el_add p w s = wake w (record_event (Ev_Add p) (s\<lparr>el_to_add := el_to_add s @ [p]\<rparr>))"

definition el_remove :: "source \<Rightarrow> write_result \<Rightarrow> event_loop \<Rightarrow> event_loop" where
  "el_remove p w s =
     wake w (record_event (Ev_Remove p) (s\<lparr>el_to_remove := el_to_remove s @ [p]\<rparr>))"

definition el_retire :: "source \<Rightarrow> write_result \<Rightarrow> event_loop \<Rightarrow> event_loop" where
  "el_retire p w s =
     wake w (record_event (Ev_Retire p)
       (s\<lparr>el_to_remove := el_to_remove s @ [p], el_to_retire := el_to_retire s @ [p]\<rparr>))"

definition el_stop :: "int \<Rightarrow> write_result \<Rightarrow> event_loop \<Rightarrow> event_loop" where
  "el_stop code w s = wake w (s\<lparr>el_exit_code := code, el_running := False\<rparr>)"

text \<open>\<open>apply_pending()\<close>: the three passes, then the queues are cleared.\<close>

definition add_pending :: "source list \<Rightarrow> source \<Rightarrow> source list \<Rightarrow> source list" where
  "add_pending to_remove p sources =
     (if p \<in> set to_remove then sources
      else if p \<in> set sources then sources
      else sources @ [p])"

definition pending_sources :: "source list \<Rightarrow> source list \<Rightarrow> source list \<Rightarrow> source list" where
  "pending_sources to_remove to_add sources =
     (let kept = fold (\<lambda>p. filter (\<lambda>q. q \<noteq> p)) to_remove sources
      in fold (add_pending to_remove) to_add kept)"

definition apply_pending :: "event_loop \<Rightarrow> event_loop" where
  "apply_pending s =
     s\<lparr>el_sources := pending_sources (el_to_remove s) (el_to_add s) (el_sources s),
       el_to_add := [], el_to_remove := [], el_to_retire := [],
       el_trace := el_trace s @ Ev_Apply # map Ev_Destroy (el_to_retire s)\<rparr>"

text \<open>The calls that code outside the loop (callbacks, other threads) makes on it.\<close>

datatype call =
    Call_Add source write_result
  | Call_Remove source write_result
  | Call_Retire source write_result
  | Call_Stop int write_result

fun el_call :: "call \<Rightarrow> event_loop \<Rightarrow> event_loop" where
  "el_call (Call_Add p w) s = el_add p w s"
| "el_call (Call_Remove p w) s = el_remove p w s"
| "el_call (Call_Retire p w) s = el_retire p w s"
| "el_call (Call_Stop c w) s = el_stop c w s"

definition el_calls :: "call list \<Rightarrow> event_loop \<Rightarrow> event_loop" where
  "el_calls cs s = fold el_call cs s"

section \<open>One turn of the loop\<close>

record pollfd =
  pfd_fd :: int
  pfd_events :: u16

datatype poll_result = Poll_Ready nat "u16 list" | Poll_Failed int

text \<open>
  What happens to the loop from outside in one turn: \<open>stop()\<close> calls of other threads before
  the second look at \<open>running_\<close> and before \<open>poll()\<close>, the bus's poll data, \<open>poll()\<close> itself,
  the calls made by the bus callbacks and how the processing of the bus ended, and for each
  source its \<open>fd()\<close>, \<open>events()\<close>, and what its \<open>dispatch(revents)\<close> calls and may throw. The
  write results of the loop's own \<open>remove\<close> of a hung-up source are \<open>ri_hup_write\<close>.
\<close>

record round_in =
  ri_stops1 :: "(int \<times> write_result) list"
  ri_stops2 :: "(int \<times> write_result) list"
  ri_bus_fd :: int
  ri_bus_events :: u16
  ri_bus_event_fd :: int
  ri_poll :: "pollfd list \<Rightarrow> poll_result"
  ri_bus_calls :: "call list"
  ri_bus_exn :: "exn option"
  ri_src_fd :: "source \<Rightarrow> int"
  ri_src_events :: "source \<Rightarrow> u16"
  ri_dispatch :: "source \<Rightarrow> u16 \<Rightarrow> call list \<times> exn option"
  ri_hup_write :: "source \<Rightarrow> write_result"

definition stops :: "(int \<times> write_result) list \<Rightarrow> event_loop \<Rightarrow> event_loop" where
  "stops cs s = el_calls (map (\<lambda>(c, w). Call_Stop c w) cs) s"

text \<open>The poll set, with the positions of the optional bus event fd, the wake fd and the sources.\<close>

definition build_pfds :: "round_in \<Rightarrow> event_loop \<Rightarrow> pollfd list" where
  "build_pfds r s =
     [\<lparr>pfd_fd = ri_bus_fd r, pfd_events = ri_bus_events r\<rparr>] @
     (if 0 \<le> ri_bus_event_fd r then [\<lparr>pfd_fd = ri_bus_event_fd r, pfd_events = POLLIN\<rparr>] else []) @
     [\<lparr>pfd_fd = ufd_get (el_wake_fd s), pfd_events = POLLIN\<rparr>] @
     map (\<lambda>p. \<lparr>pfd_fd = ri_src_fd r p, pfd_events = ri_src_events r p\<rparr>) (el_sources s)"

definition dbus_event_idx :: "round_in \<Rightarrow> nat option" where
  "dbus_event_idx r = (if 0 \<le> ri_bus_event_fd r then Some 1 else None)"

definition wake_idx :: "round_in \<Rightarrow> nat" where
  "wake_idx r = (if 0 \<le> ri_bus_event_fd r then 2 else 1)"

definition first_source_idx :: "round_in \<Rightarrow> nat" where
  "first_source_idx r = wake_idx r + 1"

text \<open>\<open>pfds[i].revents\<close>: zero where \<open>poll()\<close> wrote nothing.\<close>

definition revents_at :: "u16 list \<Rightarrow> nat \<Rightarrow> u16" where
  "revents_at rvs i = (if i < length rvs then rvs ! i else 0)"

datatype turn = Continue | Break | Raise exn

definition drain_wake :: "round_in \<Rightarrow> u16 list \<Rightarrow> event_loop \<Rightarrow> event_loop" where
  "drain_wake r rvs s =
     (if revents_at rvs (wake_idx r) AND POLLIN \<noteq> 0 then s\<lparr>el_wakes := 0\<rparr> else s)"

definition dbus_ready :: "round_in \<Rightarrow> nat \<Rightarrow> u16 list \<Rightarrow> bool" where
  "dbus_ready r n rvs \<longleftrightarrow>
     n = 0 \<or> revents_at rvs 0 \<noteq> 0 \<or>
     (case dbus_event_idx r of None \<Rightarrow> False | Some i \<Rightarrow> revents_at rvs i \<noteq> 0)"

definition drive_bus :: "round_in \<Rightarrow> event_loop \<Rightarrow> turn \<times> event_loop" where
  "drive_bus r s =
     (let s = el_calls (ri_bus_calls r) (record_event Ev_Bus s)
      in case ri_bus_exn r of
           None \<Rightarrow> (Continue, s)
         | Some (DBus_Error name msg) \<Rightarrow>
             (Break, (log_msg Err ''EventLoop: D-Bus processing error: {} - {}'' [LStr name, LStr msg] s)
                       \<lparr>el_exit_code := 1\<rparr>)
         | Some (Std_Exception msg) \<Rightarrow> (Raise (Std_Exception msg), s))"

text \<open>
  The dispatch pass over the sources and their \<open>revents\<close>. A \<open>dispatch\<close> that throws leaves
  \<open>run()\<close>; \<open>remove\<close> of a hung-up source comes after its \<open>dispatch\<close> returned.
\<close>

definition dispatch_one :: "round_in \<Rightarrow> source \<times> u16 \<Rightarrow> event_loop \<Rightarrow> event_loop outcome" where
  "dispatch_one r = (\<lambda>(p, rvs) s.
     if rvs = 0 then Done s
     else (let (calls, ex) = ri_dispatch r p rvs;
               s = el_calls calls (record_event (Ev_Dispatch p rvs) s)
           in case ex of
                Some e \<Rightarrow> Throw e s
              | None \<Rightarrow> Done (if rvs AND (POLLHUP OR POLLERR) \<noteq> 0
                              then el_remove p (ri_hup_write r p) s else s)))"

definition with_revents :: "round_in \<Rightarrow> u16 list \<Rightarrow> source list \<Rightarrow> (source \<times> u16) list" where
  "with_revents r rvs ps =
     map (\<lambda>i. (ps ! i, revents_at rvs (first_source_idx r + i))) [0..<length ps]"

definition dispatch_all :: "round_in \<Rightarrow> u16 list \<Rightarrow> event_loop \<Rightarrow> turn \<times> event_loop" where
  "dispatch_all r rvs s =
     (case for_each (dispatch_one r) (with_revents r rvs (el_sources s)) s of
        Done s' \<Rightarrow> (Continue, s')
      | Throw e s' \<Rightarrow> (Raise e, s'))"

definition after_poll :: "round_in \<Rightarrow> nat \<Rightarrow> u16 list \<Rightarrow> event_loop \<Rightarrow> turn \<times> event_loop" where
  "after_poll r n rvs s =
     (let s = drain_wake r rvs s;
          (t, s) = (if dbus_ready r n rvs then drive_bus r s else (Continue, s))
      in case t of Continue \<Rightarrow> dispatch_all r rvs s | _ \<Rightarrow> (t, s))"

definition poll_turn :: "round_in \<Rightarrow> event_loop \<Rightarrow> turn \<times> event_loop" where
  "poll_turn r s =
     (let s = stops (ri_stops2 r) s;
          s' = record_event (Ev_Poll (el_sources s) (el_running s) (el_wakes s)) s
      in case ri_poll r (build_pfds r s) of
           Poll_Failed e \<Rightarrow>
             (if e = EINTR then (Continue, s')
              else (Break, (log_msg Err ''EventLoop: poll failed: {}'' [LErrno e] s')\<lparr>el_exit_code := 1\<rparr>))
         | Poll_Ready n rvs \<Rightarrow> after_poll r n rvs s')"

definition turn_once :: "round_in \<Rightarrow> event_loop \<Rightarrow> turn \<times> event_loop" where
  "turn_once r s =
     (let s = stops (ri_stops1 r) (apply_pending s)
      in if \<not> el_running s then (Break, s) else poll_turn r s)"

section \<open>\<open>run()\<close>\<close>

text \<open>
  \<open>Returned c\<close> and \<open>Threw e\<close> end \<open>run()\<close>; \<open>Polling\<close> means it is still in the loop when the
  given rounds are used up.
\<close>

datatype run_result = Returned int | Threw exn | Polling

fun run_loop :: "round_in list \<Rightarrow> event_loop \<Rightarrow> run_result \<times> event_loop" where
  "run_loop rs s =
     (if \<not> el_running s then (Returned (el_exit_code s), s)
      else case rs of
             [] \<Rightarrow> (Polling, s)
           | r # rs' \<Rightarrow>
               (case turn_once r s of
                  (Continue, s') \<Rightarrow> run_loop rs' s'
                | (Break, s') \<Rightarrow> (Returned (el_exit_code s'), s')
                | (Raise e, s') \<Rightarrow> (Threw e, s')))"

declare run_loop.simps [simp del]

definition el_run :: "round_in list \<Rightarrow> event_loop \<Rightarrow> run_result \<times> event_loop" where
  "el_run rs s = run_loop rs (s\<lparr>el_running := True\<rparr>)"

section \<open>\<open>SignalSource\<close>\<close>

text \<open>
  The blocked set of the process is a list of signal numbers. The constructor blocks its
  signals (\<open>sigprocmask\<close> may fail), creates the signalfd, and unblocks them again when that
  fails. \<open>dispatch\<close> reads every pending \<open>signalfd_siginfo\<close> and stops the loop.
\<close>

record signal_source = logged +
  ss_mask :: "int list"
  ss_fd :: unique_fd
  ss_blocked :: "int set"

definition signal_source_new ::
    "int list \<Rightarrow> int option \<Rightarrow> int + unique_fd \<Rightarrow> int set \<Rightarrow> signal_source" where
  "signal_source_new signals block_err signalfd blocked =
     (let s = \<lparr>log_of = [], ss_mask = signals, ss_fd = ufd_empty, ss_blocked = blocked\<rparr>;
          s = (case block_err of
                 None \<Rightarrow> s\<lparr>ss_blocked := ss_blocked s \<union> set (ss_mask s)\<rparr>
               | Some e \<Rightarrow> log_msg Err ''SignalSource: sigprocmask failed: {}'' [LErrno e] s)
      in case signalfd of
           Inr fd \<Rightarrow> s\<lparr>ss_fd := fst (ufd_move_assign (ss_fd s) fd)\<rparr>
         | Inl e \<Rightarrow>
             (log_msg Err
                ''SignalSource: signalfd failed: {}; restoring default signal disposition'' [LErrno e] s)
             \<lparr>ss_blocked := ss_blocked s - set (ss_mask s)\<rparr>)"

definition signal_source_dispatch ::
    "int list \<Rightarrow> write_result \<Rightarrow> signal_source \<Rightarrow> signal_source \<times> call list" where
  "signal_source_dispatch pending w s =
     (fold (\<lambda>signo. log_msg Info ''SignalSource: received signal {}, stopping'' [LInt signo]) pending s,
      [Call_Stop 0 w])"

section \<open>What the operations keep\<close>

lemma wake_fields [simp, frame_simps]:
  "el_sources (wake w s) = el_sources s" "el_to_add (wake w s) = el_to_add s"
  "el_to_remove (wake w s) = el_to_remove s" "el_to_retire (wake w s) = el_to_retire s"
  "el_trace (wake w s) = el_trace s" "el_running (wake w s) = el_running s"
  "el_exit_code (wake w s) = el_exit_code s" "el_wake_fd (wake w s) = el_wake_fd s"
  by (auto simp: wake_def log_msg_def split: write_result.splits)

lemma wakes_wake: "el_wakes s \<le> el_wakes (wake w s)"
  by (auto simp: wake_def log_msg_def split: write_result.splits)

lemma wakes_wake_Written: "ufd_valid (el_wake_fd s) \<Longrightarrow> 0 < el_wakes (wake Written s)"
  by (auto simp: wake_def)

lemma el_sources_call [simp]: "el_sources (el_call c s) = el_sources s"
  by (cases c) (simp_all add: el_add_def el_remove_def el_retire_def el_stop_def record_event_def)

lemma el_sources_calls [simp]: "el_sources (el_calls cs s) = el_sources s"
  unfolding el_calls_def by (induction cs arbitrary: s) simp_all

lemma el_calls_Nil [simp]: "el_calls [] s = s"
  by (simp add: el_calls_def)

lemma el_calls_Cons [simp]: "el_calls (c # cs) s = el_calls cs (el_call c s)"
  by (simp add: el_calls_def)

lemma el_calls_append [simp]: "el_calls (cs @ ds) s = el_calls ds (el_calls cs s)"
  by (simp add: el_calls_def)

text \<open>The code of the last \<open>stop\<close> among some calls.\<close>

fun last_stop :: "call list \<Rightarrow> int option" where
  "last_stop [] = None"
| "last_stop (c # cs) =
     (case last_stop cs of Some n \<Rightarrow> Some n
      | None \<Rightarrow> (case c of Call_Stop n _ \<Rightarrow> Some n | _ \<Rightarrow> None))"

lemma el_call_stop_fields:
  "el_running (el_call c s) = (el_running s \<and> last_stop [c] = None)"
  "el_exit_code (el_call c s) = (case last_stop [c] of None \<Rightarrow> el_exit_code s | Some n \<Rightarrow> n)"
  by (cases c; simp add: el_add_def el_remove_def el_retire_def el_stop_def record_event_def)+

lemma el_calls_stop_fields:
  "el_running (el_calls cs s) = (el_running s \<and> last_stop cs = None)"
  "el_exit_code (el_calls cs s) = (case last_stop cs of None \<Rightarrow> el_exit_code s | Some n \<Rightarrow> n)"
  by (induction cs arbitrary: s)
    (auto simp: el_call_stop_fields split: option.splits call.splits)

lemma last_stop_append: "last_stop (cs @ ds) =
    (case last_stop ds of Some n \<Rightarrow> Some n | None \<Rightarrow> last_stop cs)"
  by (induction cs) (auto split: option.splits call.splits)

section \<open>\<open>apply_pending()\<close>\<close>

lemma fold_erase: "fold (\<lambda>p. filter (\<lambda>q. q \<noteq> p)) rs xs = filter (\<lambda>q. q \<notin> set rs) xs"
  by (induction rs arbitrary: xs) (auto intro: filter_cong)

text \<open>The sources kept, in their order, then the new ones in the order of their first \<open>add\<close>.\<close>

fun new_sources :: "source list \<Rightarrow> source list \<Rightarrow> source list" where
  "new_sources known [] = []"
| "new_sources known (p # ps) =
     (if p \<in> set known then new_sources known ps else p # new_sources (p # known) ps)"

lemma new_sources_cong: "set known = set known' \<Longrightarrow> new_sources known ps = new_sources known' ps"
proof (induction ps arbitrary: known known')
  case (Cons p ps)
  have "set (p # known) = set (p # known')" using Cons.prems by simp
  with Cons.IH [OF this] Cons.IH [OF Cons.prems] Cons.prems show ?case by simp
qed simp

lemma fold_add_pending:
  "fold (add_pending rm) ps xs = xs @ new_sources (rm @ xs) ps"
proof (induction ps arbitrary: xs)
  case (Cons p ps)
  show ?case
  proof (cases "p \<in> set rm \<or> p \<in> set xs")
    case True
    then show ?thesis using Cons.IH by (auto simp: add_pending_def)
  next
    case False
    have "new_sources (rm @ xs @ [p]) ps = new_sources (p # rm @ xs) ps"
      by (rule new_sources_cong) auto
    with False Cons.IH [of "xs @ [p]"] show ?thesis by (simp add: add_pending_def)
  qed
qed simp

lemma set_new_sources: "set (new_sources known ps) = set ps - set known"
  by (induction ps arbitrary: known) auto

lemma distinct_new_sources: "distinct (new_sources known ps)"
  by (induction ps arbitrary: known) (auto simp: set_new_sources)

lemma pending_sources_eq:
  "pending_sources rm ad xs =
     filter (\<lambda>q. q \<notin> set rm) xs @ new_sources (rm @ filter (\<lambda>q. q \<notin> set rm) xs) ad"
  by (simp add: pending_sources_def Let_def fold_erase fold_add_pending)

lemma set_pending_sources: "set (pending_sources rm ad xs) = (set xs \<union> set ad) - set rm"
  by (auto simp: pending_sources_eq set_new_sources)

lemma distinct_pending_sources: "distinct xs \<Longrightarrow> distinct (pending_sources rm ad xs)"
  by (auto simp: pending_sources_eq set_new_sources distinct_new_sources)

lemma apply_pending_fields [simp]:
  "el_to_add (apply_pending s) = []" "el_to_remove (apply_pending s) = []"
  "el_to_retire (apply_pending s) = []" "el_running (apply_pending s) = el_running s"
  "el_exit_code (apply_pending s) = el_exit_code s" "el_wake_fd (apply_pending s) = el_wake_fd s"
  "el_wakes (apply_pending s) = el_wakes s"
  "el_trace (apply_pending s) = el_trace s @ Ev_Apply # map Ev_Destroy (el_to_retire s)"
  "el_sources (apply_pending s) = pending_sources (el_to_remove s) (el_to_add s) (el_sources s)"
  by (simp_all add: apply_pending_def)

section \<open>\<open>run()\<close> as small steps\<close>

text \<open>
  Everything \<open>run()\<close> and its callers do to a loop is one of these steps; an invariant of the
  queues and the trace needs to be shown for the steps only.
\<close>

inductive el_step :: "event_loop \<Rightarrow> event_loop \<Rightarrow> bool" where
  Frame: "el_sources s' = el_sources s \<Longrightarrow> el_to_add s' = el_to_add s \<Longrightarrow>
    el_to_remove s' = el_to_remove s \<Longrightarrow> el_to_retire s' = el_to_retire s \<Longrightarrow>
    el_trace s' = el_trace s \<Longrightarrow> el_step s s'"
| Call: "el_step s (el_call c s)"
| Bus: "el_step s (record_event Ev_Bus s)"
| Dispatch: "p \<in> set (el_sources s) \<Longrightarrow> el_step s (record_event (Ev_Dispatch p rvs) s)"
| Poll: "el_to_add s = [] \<Longrightarrow> el_to_remove s = [] \<Longrightarrow> el_to_retire s = [] \<Longrightarrow>
    el_step s (record_event (Ev_Poll (el_sources s) run w) s)"
| Apply: "el_step s (apply_pending s)"

abbreviation el_steps :: "event_loop \<Rightarrow> event_loop \<Rightarrow> bool" where
  "el_steps \<equiv> el_step\<^sup>*\<^sup>*"

lemma el_steps_step: "el_steps s t \<Longrightarrow> el_step t u \<Longrightarrow> el_steps s u"
  by (rule rtranclp.rtrancl_into_rtrancl)

lemma el_steps_calls: "el_steps s (el_calls cs s)"
proof (induction cs arbitrary: s)
  case (Cons c cs)
  have "el_step s (el_call c s)" by (rule Call)
  with Cons.IH [of "el_call c s"] show ?case by (simp add: converse_rtranclp_into_rtranclp)
qed simp

lemma record_event_fields [simp, frame_simps]:
  "el_sources (record_event e s) = el_sources s" "el_to_add (record_event e s) = el_to_add s"
  "el_to_remove (record_event e s) = el_to_remove s" "el_to_retire (record_event e s) = el_to_retire s"
  "el_trace (record_event e s) = el_trace s @ [e]" "el_running (record_event e s) = el_running s"
  "el_exit_code (record_event e s) = el_exit_code s" "el_wakes (record_event e s) = el_wakes s"
  "el_wake_fd (record_event e s) = el_wake_fd s"
  by (simp_all add: record_event_def)

lemma stops_fields [simp]:
  "el_sources (stops cs s) = el_sources s" "el_to_add (stops cs s) = el_to_add s"
  "el_to_remove (stops cs s) = el_to_remove s" "el_to_retire (stops cs s) = el_to_retire s"
  "el_trace (stops cs s) = el_trace s" "el_wake_fd (stops cs s) = el_wake_fd s"
  unfolding stops_def by (induction cs arbitrary: s) (auto simp: el_stop_def)

lemma el_steps_frame:
  assumes "el_steps s t" "el_sources u = el_sources t" "el_to_add u = el_to_add t"
    "el_to_remove u = el_to_remove t" "el_to_retire u = el_to_retire t" "el_trace u = el_trace t"
  shows "el_steps s u"
  by (rule el_steps_step [OF assms(1) Frame]) (rule assms)+

lemma el_steps_remove: "el_steps s t \<Longrightarrow> el_steps s (el_remove p w t)"
  using el_steps_step [of s t "el_remove p w t"] Call [of t "Call_Remove p w"] by simp

lemma el_steps_dispatch_one:
  assumes "el_steps s t" "p \<in> set (el_sources t)"
  shows "el_steps s (state_of (dispatch_one r (p, rvs) t))"
proof -
  have "el_steps s (record_event (Ev_Dispatch p rvs) t)"
    using assms by (intro el_steps_step [OF assms(1)] Dispatch)
  then have "el_steps s (el_calls cs (record_event (Ev_Dispatch p rvs) t))" for cs
    using el_steps_calls by (rule rtranclp_trans)
  then show ?thesis using assms(1)
    by (auto simp: dispatch_one_def Let_def split: prod.split option.split intro: el_steps_remove)
qed

lemma el_sources_dispatch_one [simp]: "el_sources (state_of (dispatch_one r pr t)) = el_sources t"
  by (cases pr) (auto simp: dispatch_one_def Let_def el_remove_def split: prod.split option.split)

lemma set_with_revents: "(p, x) \<in> set (with_revents r rvs ps) \<Longrightarrow> p \<in> set ps"
  by (auto simp: with_revents_def)

lemma el_steps_dispatch_all: "el_steps s t \<Longrightarrow> el_steps s (snd (dispatch_all r rvs t))"
proof -
  assume st: "el_steps s t"
  let ?o = "for_each (dispatch_one r) (with_revents r rvs (el_sources t)) t"
  have "el_steps s (state_of ?o) \<and> el_sources (state_of ?o) = el_sources t"
  proof (rule for_each_invariant)
    fix pr u
    assume "pr \<in> set (with_revents r rvs (el_sources t))"
      and u: "el_steps s u \<and> el_sources u = el_sources t"
    moreover obtain p x where "pr = (p, x)" by (cases pr)
    ultimately show "el_steps s (state_of (dispatch_one r pr u)) \<and>
        el_sources (state_of (dispatch_one r pr u)) = el_sources t"
      using set_with_revents [of p x] el_steps_dispatch_one [of s u p] by simp
  qed (simp add: st)
  then show ?thesis by (cases ?o) (auto simp: dispatch_all_def)
qed

lemma el_steps_drain: "el_steps s t \<Longrightarrow> el_steps s (drain_wake r rvs t)"
  by (erule el_steps_frame) (simp_all add: drain_wake_def)

lemma el_steps_drive_bus: "el_steps s t \<Longrightarrow> el_steps s (snd (drive_bus r t))"
proof -
  assume "el_steps s t"
  then have "el_steps s (record_event Ev_Bus t)" by (rule el_steps_step) (rule Bus)
  then have "el_steps s (el_calls (ri_bus_calls r) (record_event Ev_Bus t))"
    using el_steps_calls by (rule rtranclp_trans)
  then show ?thesis
    by (auto simp: drive_bus_def Let_def log_msg_def split: option.split exn.split
        elim: el_steps_frame)
qed

lemma el_steps_after_poll: "el_steps s t \<Longrightarrow> el_steps s (snd (after_poll r n rvs t))"
proof -
  assume "el_steps s t"
  then have d: "el_steps s (drain_wake r rvs t)" by (rule el_steps_drain)
  obtain tn u where tn: "(if dbus_ready r n rvs then drive_bus r (drain_wake r rvs t)
      else (Continue, drain_wake r rvs t)) = (tn, u)" by (meson surj_pair)
  then have "el_steps s u"
    using d el_steps_drive_bus [OF d, of r] by (auto split: if_splits)
  then have "el_steps s (snd (dispatch_all r rvs u))" by (rule el_steps_dispatch_all)
  with \<open>el_steps s u\<close> tn show ?thesis by (cases tn) (simp_all add: after_poll_def Let_def)
qed

lemma el_steps_poll_turn:
  assumes "el_steps s t" "el_to_add t = []" "el_to_remove t = []" "el_to_retire t = []"
  shows "el_steps s (snd (poll_turn r t))"
proof -
  let ?u = "stops (ri_stops2 r) t"
  have u: "el_steps s ?u" using assms(1) by (rule el_steps_frame) simp_all
  have p: "el_steps s (record_event (Ev_Poll (el_sources ?u) (el_running ?u) (el_wakes ?u)) ?u)"
    by (rule el_steps_step [OF u Poll]) (simp_all add: assms)
  show ?thesis
  proof (cases "ri_poll r (build_pfds r ?u)")
    case (Poll_Ready n rvs)
    then show ?thesis using el_steps_after_poll [OF p] by (simp add: poll_turn_def Let_def)
  next
    case (Poll_Failed e)
    have "el_steps s ((log_msg Err f a (record_event (Ev_Poll (el_sources ?u) (el_running ?u)
        (el_wakes ?u)) ?u))\<lparr>el_exit_code := 1\<rparr>)" for f a
      using p by (rule el_steps_frame) (simp_all add: log_msg_def)
    with Poll_Failed p show ?thesis by (simp add: poll_turn_def Let_def)
  qed
qed

lemma el_steps_turn: "el_steps s (snd (turn_once r s))"
proof -
  have "el_steps s (apply_pending s)" by (blast intro: Apply)
  then have "el_steps s (stops (ri_stops1 r) (apply_pending s))"
    by (rule el_steps_frame) simp_all
  then show ?thesis by (auto simp: turn_once_def Let_def intro: el_steps_poll_turn)
qed

lemma el_steps_run_loop: "el_steps s (snd (run_loop rs s))"
proof (induction rs arbitrary: s)
  case Nil
  then show ?case by (simp add: run_loop.simps)
next
  case (Cons r rs)
  show ?case
  proof (cases "el_running s")
    case True
    obtain tn t where tn: "turn_once r s = (tn, t)" by (meson surj_pair)
    then have "el_steps s t" using el_steps_turn [of s r] by simp
    then have "el_steps s (snd (run_loop rs t))" using Cons.IH [of t] by (rule rtranclp_trans)
    with \<open>el_steps s t\<close> tn True show ?thesis
      by (cases tn) (simp_all add: run_loop.simps [of "r # rs" s])
  qed (simp add: run_loop.simps)
qed

lemma el_steps_run: "el_steps s (snd (el_run rs s))"
proof -
  have "el_steps s (s\<lparr>el_running := True\<rparr>)" by (rule el_steps_frame [of s s]) simp_all
  then show ?thesis unfolding el_run_def using el_steps_run_loop by (rule rtranclp_trans)
qed

section \<open>Properties of the trace\<close>

text \<open>No event that satisfies \<open>Q\<close> comes after one that satisfies \<open>P\<close>.\<close>

fun never_after :: "('e \<Rightarrow> bool) \<Rightarrow> ('e \<Rightarrow> bool) \<Rightarrow> 'e list \<Rightarrow> bool" where
  "never_after P Q [] \<longleftrightarrow> True"
| "never_after P Q (e # es) \<longleftrightarrow> (if P e then \<not> list_ex Q es else True) \<and> never_after P Q es"

lemma never_after_snoc:
  "never_after P Q (es @ [e]) \<longleftrightarrow> never_after P Q es \<and> (Q e \<longrightarrow> \<not> list_ex P es)"
  by (induction es) auto

lemma never_after_append_other:
  "\<not> list_ex Q fs \<Longrightarrow> never_after P Q (es @ fs) \<longleftrightarrow> never_after P Q es"
  by (induction fs rule: rev_induct) (auto simp: never_after_snoc simp flip: append_assoc)

text \<open>The uses of the object behind a source pointer: its \<open>fd()\<close>, \<open>events()\<close>, \<open>dispatch()\<close>.\<close>

fun uses_source :: "source \<Rightarrow> event \<Rightarrow> bool" where
  "uses_source p (Ev_Poll ps _ _) = (p \<in> set ps)"
| "uses_source p (Ev_Dispatch q _) = (q = p)"
| "uses_source p _ = False"

definition destroys :: "source \<Rightarrow> event \<Rightarrow> bool" where
  "destroys p e \<longleftrightarrow> e = Ev_Destroy p"

definition adds :: "source \<Rightarrow> event \<Rightarrow> bool" where
  "adds p e \<longleftrightarrow> e = Ev_Add p"

text \<open>
  The sources whose removal was asked for since the last \<open>apply_pending()\<close>, and those that
  were pending when it ran: no poll after it includes one of the latter, and none polls a
  source twice.
\<close>

fun removal_step :: "event \<Rightarrow> source set \<times> source set \<Rightarrow> source set \<times> source set" where
  "removal_step (Ev_Remove p) (pend, done) = (insert p pend, done)"
| "removal_step (Ev_Retire p) (pend, done) = (insert p pend, done)"
| "removal_step Ev_Apply (pend, done) = ({}, pend)"
| "removal_step _ R = R"

fun polls_respect_removal :: "source set \<times> source set \<Rightarrow> event list \<Rightarrow> bool" where
  "polls_respect_removal R [] \<longleftrightarrow> True"
| "polls_respect_removal R (e # es) \<longleftrightarrow>
     (case e of Ev_Poll ps _ _ \<Rightarrow> set ps \<inter> snd R = {} \<and> distinct ps | _ \<Rightarrow> True) \<and>
     polls_respect_removal (removal_step e R) es"

abbreviation removals :: "event list \<Rightarrow> source set \<times> source set" where
  "removals es \<equiv> fold removal_step es ({}, {})"

lemma polls_respect_removal_append:
  "polls_respect_removal R (es @ fs) \<longleftrightarrow>
     polls_respect_removal R es \<and> polls_respect_removal (fold removal_step es R) fs"
  by (induction es arbitrary: R) auto

lemma fold_destroys [simp]: "fold removal_step (map Ev_Destroy ps) R = R"
  by (induction ps) auto

lemma polls_respect_destroys [simp]: "polls_respect_removal R (map Ev_Destroy ps)"
  by (induction ps) auto

text \<open>
  What the steps keep: the queue holds the pending removals, retired sources are queued for
  removal too, and a source that was destroyed is nowhere in the loop as long as nobody adds
  it again.
\<close>

definition el_inv :: "event_loop \<Rightarrow> bool" where
  "el_inv s \<longleftrightarrow>
     distinct (el_sources s) \<and>
     set (el_to_retire s) \<subseteq> set (el_to_remove s) \<and>
     fst (removals (el_trace s)) = set (el_to_remove s) \<and>
     snd (removals (el_trace s)) \<inter> set (el_sources s) = {} \<and>
     polls_respect_removal ({}, {}) (el_trace s)"

definition el_gone :: "source \<Rightarrow> event_loop \<Rightarrow> bool" where
  "el_gone p s \<longleftrightarrow>
     (never_after (destroys p) (adds p) (el_trace s) \<longrightarrow>
        never_after (destroys p) (uses_source p) (el_trace s) \<and>
        (list_ex (destroys p) (el_trace s) \<longrightarrow> p \<notin> set (el_sources s) \<union> set (el_to_add s)))"

lemma removal_step_quiet:
  assumes "\<And>p. e \<noteq> Ev_Remove p" "\<And>p. e \<noteq> Ev_Retire p" "e \<noteq> Ev_Apply"
  shows "removal_step e R = R"
  using assms by (cases e; cases R) auto

lemma el_step_inv:
  assumes "el_step s t" "el_inv s"
  shows "el_inv t"
  using assms(1)
proof cases
  case (Call c)
  obtain pend dn where R: "removals (el_trace s) = (pend, dn)" by fastforce
  show ?thesis unfolding Call using assms(2) R
    by (cases c) (auto simp: el_inv_def el_add_def el_remove_def el_retire_def el_stop_def
        polls_respect_removal_append)
next
  case Apply
  obtain pend dn where R: "removals (el_trace s) = (pend, dn)" by fastforce
  show ?thesis unfolding Apply using assms(2) R
    by (auto simp: el_inv_def polls_respect_removal_append set_pending_sources distinct_pending_sources)
next
  case Frame
  with assms(2) show ?thesis by (simp add: el_inv_def)
next
  case Bus
  with assms(2) show ?thesis by (auto simp: el_inv_def polls_respect_removal_append)
next
  case (Dispatch p rvs)
  with assms(2) show ?thesis by (auto simp: el_inv_def polls_respect_removal_append)
next
  case (Poll run w)
  with assms(2) show ?thesis by (auto simp: el_inv_def polls_respect_removal_append)
qed

lemma destroys_simps [simp]:
  "destroys p (Ev_Destroy q) = (q = p)" "\<not> destroys p (Ev_Poll ps b n)" "\<not> destroys p Ev_Bus"
  "\<not> destroys p (Ev_Dispatch q x)" "\<not> destroys p (Ev_Add q)" "\<not> destroys p (Ev_Remove q)"
  "\<not> destroys p (Ev_Retire q)" "\<not> destroys p Ev_Apply"
  by (auto simp: destroys_def)

lemma adds_simps [simp]:
  "adds p (Ev_Add q) = (q = p)" "\<not> adds p (Ev_Poll ps b n)" "\<not> adds p Ev_Bus"
  "\<not> adds p (Ev_Dispatch q x)" "\<not> adds p (Ev_Destroy q)" "\<not> adds p (Ev_Remove q)"
  "\<not> adds p (Ev_Retire q)" "\<not> adds p Ev_Apply"
  by (auto simp: adds_def)

lemma list_ex_destroys [simp]: "list_ex (destroys p) (map Ev_Destroy ps) \<longleftrightarrow> p \<in> set ps"
  by (induction ps) auto

lemma no_adds_destroys [simp]:
  "\<not> list_ex (adds p) (map Ev_Destroy ps)" "\<not> list_ex (uses_source p) (map Ev_Destroy ps)"
  by (induction ps) auto

lemma never_after_destroys [simp]:
  "never_after (destroys p) (adds p) (es @ Ev_Apply # map Ev_Destroy ps) \<longleftrightarrow>
     never_after (destroys p) (adds p) es"
  "never_after (destroys p) (uses_source p) (es @ Ev_Apply # map Ev_Destroy ps) \<longleftrightarrow>
     never_after (destroys p) (uses_source p) es"
  by (rule never_after_append_other, simp)+

lemma el_step_gone:
  assumes "el_step s t" "el_inv s" "el_gone p s"
  shows "el_gone p t"
  using assms(1)
proof cases
  case (Call c)
  show ?thesis unfolding Call using assms(3)
    by (cases c) (auto simp: el_gone_def el_add_def el_remove_def el_retire_def el_stop_def
        never_after_snoc)
next
  case Apply
  have "set (el_to_retire s) \<subseteq> set (el_to_remove s)" using assms(2) by (simp add: el_inv_def)
  then show ?thesis unfolding Apply using assms(3)
    by (auto simp: el_gone_def set_pending_sources)
next
  case Frame
  with assms(3) show ?thesis by (simp add: el_gone_def)
next
  case Bus
  with assms(3) show ?thesis by (auto simp: el_gone_def never_after_snoc)
next
  case (Dispatch q rvs)
  with assms(3) show ?thesis by (auto simp: el_gone_def never_after_snoc)
next
  case (Poll run w)
  with assms(3) show ?thesis by (auto simp: el_gone_def never_after_snoc)
qed

lemma el_steps_inv:
  assumes "el_steps s t" "el_inv s" "el_gone p s"
  shows "el_inv t \<and> el_gone p t"
  using assms by induction (auto intro: el_step_inv el_step_gone)

lemma event_loop_new_fields [simp]:
  "el_sources (event_loop_new e) = []" "el_to_add (event_loop_new e) = []"
  "el_to_remove (event_loop_new e) = []" "el_to_retire (event_loop_new e) = []"
  "el_trace (event_loop_new e) = []" "el_running (event_loop_new e) = False"
  "el_exit_code (event_loop_new e) = 0" "el_wakes (event_loop_new e) = 0"
  by (cases e; simp add: event_loop_new_def log_msg_def)+

lemma event_loop_new_inv: "el_inv (event_loop_new e)" "el_gone p (event_loop_new e)"
  by (simp_all add: el_inv_def el_gone_def)

lemma el_reached:
  "el_inv (snd (el_run rs (el_calls cs (event_loop_new e)))) \<and>
   el_gone p (snd (el_run rs (el_calls cs (event_loop_new e))))"
  by (rule el_steps_inv [OF rtranclp_trans [OF el_steps_calls el_steps_run] event_loop_new_inv])

section \<open>Lemmas on one turn\<close>

abbreviation hung_up :: "u16 \<Rightarrow> bool" where
  "hung_up x \<equiv> x AND (POLLHUP OR POLLERR) \<noteq> 0"

text \<open>Every source dispatched with a hang-up in the events after \<open>old\<close> is queued for removal.\<close>

definition hup_queued :: "event list \<Rightarrow> event_loop \<Rightarrow> bool" where
  "hup_queued old s \<longleftrightarrow>
     (\<exists>new. el_trace s = old @ new \<and>
        (\<forall>p x. Ev_Dispatch p x \<in> set new \<longrightarrow> hung_up x \<longrightarrow> p \<in> set (el_to_remove s)))"

lemma el_to_remove_call: "set (el_to_remove s) \<subseteq> set (el_to_remove (el_call c s))"
  by (cases c) (auto simp: el_add_def el_remove_def el_retire_def el_stop_def)

lemma hup_queued_call: "hup_queued old s \<Longrightarrow> hup_queued old (el_call c s)"
proof -
  assume "hup_queued old s"
  then obtain new where new: "el_trace s = old @ new"
    "\<forall>p x. Ev_Dispatch p x \<in> set new \<longrightarrow> hung_up x \<longrightarrow> p \<in> set (el_to_remove s)"
    by (auto simp: hup_queued_def)
  obtain more where "el_trace (el_call c s) = old @ new @ more"
    and "\<And>p x. Ev_Dispatch p x \<notin> set more"
    using new(1) by (cases c) (fastforce simp: el_add_def el_remove_def el_retire_def el_stop_def)+
  with new el_to_remove_call [of s c] show ?thesis
    unfolding hup_queued_def by (intro exI [of _ "new @ more"]) auto
qed

lemma hup_queued_calls: "hup_queued old s \<Longrightarrow> hup_queued old (el_calls cs s)"
  by (induction cs arbitrary: s) (auto intro: hup_queued_call)

lemma hup_queued_event:
  assumes "hup_queued old s" "\<And>p x. e \<noteq> Ev_Dispatch p x"
  shows "hup_queued old (record_event e s)"
proof -
  obtain new where "el_trace s = old @ new"
    "\<forall>p x. Ev_Dispatch p x \<in> set new \<longrightarrow> hung_up x \<longrightarrow> p \<in> set (el_to_remove s)"
    using assms(1) by (auto simp: hup_queued_def)
  then show ?thesis using assms(2) unfolding hup_queued_def
    by (intro exI [of _ "new @ [e]"]) auto
qed

lemma hup_queued_frame:
  "hup_queued old s \<Longrightarrow> el_trace t = el_trace s \<Longrightarrow> el_to_remove t = el_to_remove s \<Longrightarrow> hup_queued old t"
  by (simp add: hup_queued_def)

text \<open>During a dispatch the source being dispatched is the only one that may be missing.\<close>

lemma hup_queued_remove:
  assumes "hup_queued old s"
    and "el_trace t = el_trace (el_calls cs (record_event (Ev_Dispatch p x) s)) @ rest"
    and "set (el_to_remove t) = insert p (set (el_to_remove (el_calls cs (record_event (Ev_Dispatch p x) s))))"
    and "\<And>q y. Ev_Dispatch q y \<notin> set rest"
  shows "hup_queued old t"
proof -
  let ?s = "record_event (Ev_Dispatch p x) (s\<lparr>el_to_remove := el_to_remove s @ [p]\<rparr>)"
  obtain new where new: "el_trace s = old @ new"
    "\<forall>p x. Ev_Dispatch p x \<in> set new \<longrightarrow> hung_up x \<longrightarrow> p \<in> set (el_to_remove s)"
    using assms(1) by (auto simp: hup_queued_def)
  then have "hup_queued old ?s" unfolding hup_queued_def
    by (intro exI [of _ "new @ [Ev_Dispatch p x]"]) auto
  then have "hup_queued old (el_calls cs ?s)" by (rule hup_queued_calls)
  moreover have "el_trace (el_calls cs (u\<lparr>el_to_remove := el_to_remove u @ [p]\<rparr>)) = el_trace (el_calls cs u) \<and>
      set (el_to_remove (el_calls cs (u\<lparr>el_to_remove := el_to_remove u @ [p]\<rparr>))) =
        insert p (set (el_to_remove (el_calls cs u)))" for u
  proof -
    have "el_trace a = el_trace b \<Longrightarrow> set (el_to_remove a) = insert p (set (el_to_remove b)) \<Longrightarrow>
        el_trace (el_calls cs a) = el_trace (el_calls cs b) \<and>
        set (el_to_remove (el_calls cs a)) = insert p (set (el_to_remove (el_calls cs b)))" for a b
    proof (induction cs arbitrary: a b)
      case (Cons c cs)
      show ?case unfolding el_calls_Cons
        by (rule Cons.IH; cases c)
          (auto simp: Cons.prems el_add_def el_remove_def el_retire_def el_stop_def)
    qed simp
    then show ?thesis by simp
  qed
  note this [of "record_event (Ev_Dispatch p x) s"]
  moreover have "record_event (Ev_Dispatch p x) s\<lparr>el_to_remove := el_to_remove (record_event (Ev_Dispatch p x) s) @ [p]\<rparr> = ?s"
    by (simp add: record_event_def)
  ultimately obtain new' where "el_trace (el_calls cs (record_event (Ev_Dispatch p x) s)) = old @ new'"
    "\<forall>q y. Ev_Dispatch q y \<in> set new' \<longrightarrow> hung_up y \<longrightarrow>
       q \<in> insert p (set (el_to_remove (el_calls cs (record_event (Ev_Dispatch p x) s))))"
    by (auto simp: hup_queued_def)
  with assms(2-4) show ?thesis unfolding hup_queued_def
    by (intro exI [of _ "new' @ rest"]) auto
qed

lemma hup_queued_dispatch_one:
  assumes "hup_queued old s" "dispatch_one r (p, x) s = Done t"
  shows "hup_queued old t"
proof (cases "x = 0")
  case True
  with assms show ?thesis by (simp add: dispatch_one_def)
next
  case False
  obtain cs where cs: "ri_dispatch r p x = (cs, None)"
    using assms(2) False by (cases "ri_dispatch r p x") (auto simp: dispatch_one_def Let_def split: option.splits)
  let ?u = "el_calls cs (record_event (Ev_Dispatch p x) s)"
  have t: "t = (if hung_up x then el_remove p (ri_hup_write r p) ?u else ?u)"
    using assms(2) False cs by (simp add: dispatch_one_def Let_def)
  show ?thesis
  proof (cases "hung_up x")
    case True
    with t show ?thesis
      by (intro hup_queued_remove [OF assms(1), of t cs p x "[Ev_Remove p]"])
        (auto simp: el_remove_def)
  next
    case False
    obtain new where "el_trace s = old @ new"
      "\<forall>p x. Ev_Dispatch p x \<in> set new \<longrightarrow> hung_up x \<longrightarrow> p \<in> set (el_to_remove s)"
      using assms(1) by (auto simp: hup_queued_def)
    with False have "hup_queued old (record_event (Ev_Dispatch p x) s)"
      unfolding hup_queued_def by (intro exI [of _ "new @ [Ev_Dispatch p x]"]) auto
    with False t show ?thesis by (simp add: hup_queued_calls)
  qed
qed

lemma hup_queued_dispatch_all:
  assumes "hup_queued old s" "dispatch_all r rvs s = (Continue, t)"
  shows "hup_queued old t"
proof -
  have "for_each (dispatch_one r) (with_revents r rvs (el_sources s)) s = Done t"
    using assms(2) by (auto simp: dispatch_all_def split: outcome.splits)
  then show ?thesis
    by (rule for_each_Done_invariant [rotated -1])
      (use assms(1) in \<open>auto intro: hup_queued_dispatch_one\<close>)
qed

lemma after_poll_Continue:
  assumes "after_poll r n rvs s = (Continue, t)"
  obtains u where "u = drain_wake r rvs s \<or> u = el_calls (ri_bus_calls r) (record_event Ev_Bus (drain_wake r rvs s))"
    and "dispatch_all r rvs u = (Continue, t)"
  using assms
  by (auto simp: after_poll_def drive_bus_def Let_def split: if_splits option.splits exn.splits turn.splits
      prod.splits)

lemma hup_queued_after_poll:
  assumes "hup_queued old s" "after_poll r n rvs s = (Continue, t)"
  shows "hup_queued old t"
proof -
  have d: "hup_queued old (drain_wake r rvs s)"
    by (rule hup_queued_frame [OF assms(1)]) (simp_all add: drain_wake_def)
  from after_poll_Continue [OF assms(2)] obtain u where
    u: "u = drain_wake r rvs s \<or> u = el_calls (ri_bus_calls r) (record_event Ev_Bus (drain_wake r rvs s))"
    "dispatch_all r rvs u = (Continue, t)" .
  have "hup_queued old u"
    using u(1) d hup_queued_calls [OF hup_queued_event [OF d, of Ev_Bus]] by auto
  then show ?thesis using u(2) by (rule hup_queued_dispatch_all)
qed

lemma hup_queued_turn:
  assumes "turn_once r s = (Continue, t)"
  shows "hup_queued (el_trace s) t"
proof -
  let ?a = "stops (ri_stops1 r) (apply_pending s)"
  let ?b = "stops (ri_stops2 r) ?a"
  let ?c = "record_event (Ev_Poll (el_sources ?b) (el_running ?b) (el_wakes ?b)) ?b"
  have "el_trace ?c = el_trace s @ (Ev_Apply # map Ev_Destroy (el_to_retire s)) @
      [Ev_Poll (el_sources ?b) (el_running ?b) (el_wakes ?b)]" by simp
  then have c: "hup_queued (el_trace s) ?c"
    unfolding hup_queued_def by (intro exI conjI) (assumption, auto)
  have "poll_turn r ?a = (Continue, t)"
    using assms by (auto simp: turn_once_def Let_def split: if_splits)
  then consider "t = ?c" | n rvs where "after_poll r n rvs ?c = (Continue, t)"
    by (auto simp: poll_turn_def Let_def split: poll_result.splits if_splits)
  then show ?thesis using c by cases (auto intro: hup_queued_after_poll)
qed

text \<open>The calls of one turn in which nothing throws.\<close>

definition source_calls :: "round_in \<Rightarrow> source \<times> u16 \<Rightarrow> call list" where
  "source_calls r = (\<lambda>(p, x).
     if x = 0 then []
     else fst (ri_dispatch r p x) @ (if hung_up x then [Call_Remove p (ri_hup_write r p)] else []))"

definition turn_calls :: "round_in \<Rightarrow> nat \<Rightarrow> u16 list \<Rightarrow> source list \<Rightarrow> call list" where
  "turn_calls r n rvs ps =
     (if dbus_ready r n rvs then ri_bus_calls r else []) @
     concat (map (source_calls r) (with_revents r rvs ps))"

lemma dispatch_one_calls:
  assumes "snd (ri_dispatch r p x) = None"
  shows "\<exists>t. dispatch_one r (p, x) s = Done t \<and>
     el_running t = el_running (el_calls (source_calls r (p, x)) s) \<and>
     el_exit_code t = el_exit_code (el_calls (source_calls r (p, x)) s) \<and>
     filter (\<lambda>e. \<exists>ps b n. e = Ev_Poll ps b n) (el_trace t) =
       filter (\<lambda>e. \<exists>ps b n. e = Ev_Poll ps b n) (el_trace s)"
proof -
  have trace: "filter (\<lambda>e. \<exists>ps b n. e = Ev_Poll ps b n) (el_trace (el_calls cs u)) =
      filter (\<lambda>e. \<exists>ps b n. e = Ev_Poll ps b n) (el_trace u)" for cs u
  proof (induction cs arbitrary: u)
    case (Cons c cs)
    then show ?case
      by (cases c) (simp_all add: el_add_def el_remove_def el_retire_def el_stop_def)
  qed simp
  show ?thesis using assms
    by (cases "ri_dispatch r p x")
      (auto simp: dispatch_one_def source_calls_def Let_def el_calls_stop_fields trace
        el_remove_def last_stop_append split: option.splits)
qed

definition is_poll :: "event \<Rightarrow> bool" where
  "is_poll e \<longleftrightarrow> (case e of Ev_Poll _ _ _ \<Rightarrow> True | _ \<Rightarrow> False)"

lemma is_poll_iff: "is_poll = (\<lambda>e. \<exists>ps b n. e = Ev_Poll ps b n)"
  by (auto simp: is_poll_def fun_eq_iff split: event.splits)

lemma is_poll_simps [simp]:
  "is_poll (Ev_Poll ps b n)" "\<not> is_poll Ev_Bus" "\<not> is_poll (Ev_Dispatch p x)" "\<not> is_poll (Ev_Add p)"
  "\<not> is_poll (Ev_Remove p)" "\<not> is_poll (Ev_Retire p)" "\<not> is_poll Ev_Apply" "\<not> is_poll (Ev_Destroy p)"
  by (simp_all add: is_poll_def)

lemma no_poll_destroys [simp]: "filter is_poll (map Ev_Destroy ps) = []"
  by (induction ps) auto

lemma polls_calls: "filter is_poll (el_trace (el_calls cs u)) = filter is_poll (el_trace u)"
proof (induction cs arbitrary: u)
  case (Cons c cs)
  then show ?case
    by (cases c) (simp_all add: el_add_def el_remove_def el_retire_def el_stop_def is_poll_def)
qed simp

lemma dispatch_list_calls:
  assumes "\<And>p x. (p, x) \<in> set prs \<Longrightarrow> snd (ri_dispatch r p x) = None"
  shows "\<exists>t. for_each (dispatch_one r) prs s = Done t \<and>
     el_running t = (el_running s \<and> last_stop (concat (map (source_calls r) prs)) = None) \<and>
     el_exit_code t = (case last_stop (concat (map (source_calls r) prs)) of
                         None \<Rightarrow> el_exit_code s | Some n \<Rightarrow> n) \<and>
     filter is_poll (el_trace t) = filter is_poll (el_trace s)"
  using assms
proof (induction prs arbitrary: s)
  case (Cons pr prs)
  obtain p x where pr: "pr = (p, x)" by fastforce
  obtain u where u: "dispatch_one r (p, x) s = Done u"
    "el_running u = (el_running s \<and> last_stop (source_calls r (p, x)) = None)"
    "el_exit_code u = (case last_stop (source_calls r (p, x)) of None \<Rightarrow> el_exit_code s | Some n \<Rightarrow> n)"
    "filter is_poll (el_trace u) = filter is_poll (el_trace s)"
    using dispatch_one_calls [of r p x s] Cons.prems [of p x]
    by (auto simp: pr is_poll_iff el_calls_stop_fields)
  from Cons.IH [of u] Cons.prems obtain t where "for_each (dispatch_one r) prs u = Done t"
     "el_running t = (el_running u \<and> last_stop (concat (map (source_calls r) prs)) = None)"
     "el_exit_code t = (case last_stop (concat (map (source_calls r) prs)) of
                         None \<Rightarrow> el_exit_code u | Some n \<Rightarrow> n)"
     "filter is_poll (el_trace t) = filter is_poll (el_trace u)"
    by auto
  with u show ?case by (auto simp: pr last_stop_append split: option.splits)
qed simp

lemma turn_once_calls:
  assumes run: "el_running s" and stops: "ri_stops1 r = []" "ri_stops2 r = []"
    and poll: "ri_poll r (build_pfds r (apply_pending s)) = Poll_Ready n rvs"
    and bus: "ri_bus_exn r = None" and disp: "\<And>p x. snd (ri_dispatch r p x) = None"
  shows "\<exists>t. turn_once r s = (Continue, t) \<and>
     el_running t = (last_stop (turn_calls r n rvs (el_sources (apply_pending s))) = None) \<and>
     el_exit_code t = (case last_stop (turn_calls r n rvs (el_sources (apply_pending s))) of
                         None \<Rightarrow> el_exit_code s | Some c \<Rightarrow> c) \<and>
     length (filter is_poll (el_trace t)) = Suc (length (filter is_poll (el_trace s)))"
proof -
  let ?a = "apply_pending s"
  let ?c = "record_event (Ev_Poll (el_sources ?a) (el_running ?a) (el_wakes ?a)) ?a"
  let ?d = "drain_wake r rvs ?c"
  let ?e = "if dbus_ready r n rvs then el_calls (ri_bus_calls r) (record_event Ev_Bus ?d) else ?d"
  have st [simp]: "stops [] u = u" for u by (simp add: stops_def)
  have d: "el_running ?d = el_running s" "el_exit_code ?d = el_exit_code s"
    "el_sources ?d = el_sources ?a"
    "length (filter is_poll (el_trace ?d)) = Suc (length (filter is_poll (el_trace s)))"
    by (auto simp: drain_wake_def is_poll_def filter_empty_conv)
  have src: "el_sources ?e = el_sources ?a" using d(3) by simp
  obtain t where t: "for_each (dispatch_one r) (with_revents r rvs (el_sources ?a)) ?e = Done t"
     "el_running t = (el_running ?e \<and>
        last_stop (concat (map (source_calls r) (with_revents r rvs (el_sources ?a)))) = None)"
     "el_exit_code t = (case last_stop (concat (map (source_calls r) (with_revents r rvs (el_sources ?a)))) of
                         None \<Rightarrow> el_exit_code ?e | Some n \<Rightarrow> n)"
     "filter is_poll (el_trace t) = filter is_poll (el_trace ?e)"
    using dispatch_list_calls [of "with_revents r rvs (el_sources ?a)" r ?e] disp by blast
  have "turn_once r s = dispatch_all r rvs ?e"
    using run stops poll bus
    by (simp add: turn_once_def poll_turn_def after_poll_def drive_bus_def Let_def)
  also have "\<dots> = (Continue, t)" unfolding dispatch_all_def src by (simp only: t(1) outcome.case)
  finally have "turn_once r s = (Continue, t)" .
  moreover have "filter is_poll (el_trace ?e) = filter is_poll (el_trace ?d)"
    by (simp add: polls_calls is_poll_def)
  ultimately show ?thesis using t(2-4) d run
    by (auto simp: turn_calls_def last_stop_append el_calls_stop_fields split: option.splits)
qed

lemma el_trace_extends: "el_steps s t \<Longrightarrow> \<exists>new. el_trace t = el_trace s @ new"
proof (induction rule: rtranclp_induct)
  case (step t u)
  from step(2) have "\<exists>more. el_trace u = el_trace t @ more"
  proof cases
    case (Call c)
    then show ?thesis
      by (cases c) (auto simp: el_add_def el_remove_def el_retire_def el_stop_def)
  qed auto
  with step.IH show ?case by auto
qed simp

text \<open>Each retired source is destroyed once: the retirements are the destructions and the queue.\<close>

definition el_accounts :: "source \<Rightarrow> event_loop \<Rightarrow> bool" where
  "el_accounts p s \<longleftrightarrow>
     count_list (el_trace s) (Ev_Retire p) =
       count_list (el_trace s) (Ev_Destroy p) + count_list (el_to_retire s) p"

lemma count_list_map_Destroy:
  "count_list (map Ev_Destroy ps) (Ev_Destroy p) = count_list ps p"
  "count_list (map Ev_Destroy ps) (Ev_Retire p) = 0"
  by (induction ps) auto

lemma el_steps_accounts: "el_steps s t \<Longrightarrow> el_accounts p s \<Longrightarrow> el_accounts p t"
proof (induction rule: rtranclp_induct)
  case (step t u)
  note acc = step.IH [OF step.prems]
  from step(2) show ?case
  proof cases
    case (Call c)
    with acc show ?thesis
      by (cases c) (auto simp: el_accounts_def el_add_def el_remove_def el_retire_def el_stop_def)
  qed (use acc in \<open>auto simp: el_accounts_def count_list_map_Destroy\<close>)
qed simp

text \<open>A poll that starts after a \<open>stop()\<close> finds the wake eventfd readable.\<close>

definition poll_wakes :: "event \<Rightarrow> bool" where
  "poll_wakes e \<longleftrightarrow> (case e of Ev_Poll _ run w \<Rightarrow> run \<or> 0 < w | _ \<Rightarrow> True)"

definition writes_succeed :: "round_in \<Rightarrow> bool" where
  "writes_succeed r \<longleftrightarrow> list_all (\<lambda>(_, w). w = Written) (ri_stops2 r)"

lemma stops_wake:
  assumes "ufd_valid (el_wake_fd s)" "list_all (\<lambda>(_, w). w = Written) cs"
    and "el_running s \<or> 0 < el_wakes s"
  shows "el_running (stops cs s) \<or> 0 < el_wakes (stops cs s)"
  using assms
proof (induction cs arbitrary: s)
  case (Cons c cs)
  obtain n w where c: "c = (n, w)" by fastforce
  with Cons.prems have "0 < el_wakes (el_stop n w s)"
    by (simp add: el_stop_def wakes_wake_Written)
  then show ?case using Cons.IH [of "el_stop n w s"] Cons.prems c
    by (simp add: stops_def el_stop_def)
qed (simp add: stops_def)

lemma el_wake_fd_call [simp]: "el_wake_fd (el_call c s) = el_wake_fd s"
  by (cases c) (simp_all add: el_add_def el_remove_def el_retire_def el_stop_def)

lemma el_wake_fd_calls [simp]: "el_wake_fd (el_calls cs s) = el_wake_fd s"
  by (induction cs arbitrary: s) simp_all

text \<open>What a turn does after its poll: no poll, and the wake descriptor stays.\<close>

definition after_poll_keeps :: "event_loop \<Rightarrow> event_loop \<Rightarrow> bool" where
  "after_poll_keeps s t \<longleftrightarrow>
     filter is_poll (el_trace t) = filter is_poll (el_trace s) \<and> el_wake_fd t = el_wake_fd s"

lemma keeps_calls: "after_poll_keeps s t \<Longrightarrow> after_poll_keeps s (el_calls cs t)"
  by (simp add: after_poll_keeps_def polls_calls)

lemma keeps_dispatch_one: "after_poll_keeps s t \<Longrightarrow> after_poll_keeps s (state_of (dispatch_one r pr t))"
  by (cases pr)
    (auto simp: after_poll_keeps_def dispatch_one_def Let_def polls_calls el_remove_def is_poll_def
      split: prod.split option.split)

lemma keeps_dispatch_all: "after_poll_keeps s t \<Longrightarrow> after_poll_keeps s (snd (dispatch_all r rvs t))"
proof -
  assume "after_poll_keeps s t"
  then have "after_poll_keeps s (state_of (for_each (dispatch_one r) (with_revents r rvs (el_sources t)) t))"
    by (rule for_each_invariant [where P = "after_poll_keeps s", rotated]) (rule keeps_dispatch_one)
  then show ?thesis
    by (auto simp: dispatch_all_def split: outcome.splits)
qed

lemma keeps_drive_bus: "after_poll_keeps s t \<Longrightarrow> after_poll_keeps s (snd (drive_bus r t))"
proof -
  assume "after_poll_keeps s t"
  then have "after_poll_keeps s (el_calls (ri_bus_calls r) (record_event Ev_Bus t))"
    by (intro keeps_calls) (simp add: after_poll_keeps_def)
  then show ?thesis
    by (simp add: drive_bus_def Let_def after_poll_keeps_def log_msg_def split: option.split exn.split)
qed

lemma keeps_after_poll: "after_poll_keeps s (snd (after_poll r n rvs s))"
proof -
  have d: "after_poll_keeps s (drain_wake r rvs s)"
    by (simp add: after_poll_keeps_def drain_wake_def)
  obtain tn u where tn: "(if dbus_ready r n rvs then drive_bus r (drain_wake r rvs s)
      else (Continue, drain_wake r rvs s)) = (tn, u)" by (meson surj_pair)
  then have u: "after_poll_keeps s u"
    using d keeps_drive_bus [OF d, of r] by (auto split: if_splits)
  then have "after_poll_keeps s (snd (dispatch_all r rvs u))" by (rule keeps_dispatch_all)
  with u tn show ?thesis by (cases tn) (simp_all add: after_poll_def Let_def)
qed

lemma turn_polls:
  "filter is_poll (el_trace (snd (turn_once r s))) = filter is_poll (el_trace s) @
     (let a = stops (ri_stops1 r) (apply_pending s); b = stops (ri_stops2 r) a
      in if el_running a then [Ev_Poll (el_sources b) (el_running b) (el_wakes b)] else [])"
  "el_wake_fd (snd (turn_once r s)) = el_wake_fd s"
proof -
  let ?a = "stops (ri_stops1 r) (apply_pending s)"
  let ?b = "stops (ri_stops2 r) ?a"
  let ?c = "record_event (Ev_Poll (el_sources ?b) (el_running ?b) (el_wakes ?b)) ?b"
  have "after_poll_keeps ?c (snd (poll_turn r ?a))"
  proof (cases "ri_poll r (build_pfds r ?b)")
    case (Poll_Ready n rvs)
    then show ?thesis using keeps_after_poll [of ?c r] by (simp add: poll_turn_def Let_def)
  next
    case (Poll_Failed e)
    then show ?thesis by (simp add: poll_turn_def Let_def after_poll_keeps_def log_msg_def)
  qed
  then have keeps: "filter is_poll (el_trace (snd (poll_turn r ?a))) = filter is_poll (el_trace ?c)"
    "el_wake_fd (snd (poll_turn r ?a)) = el_wake_fd s" by (simp_all add: after_poll_keeps_def)
  show "filter is_poll (el_trace (snd (turn_once r s))) = filter is_poll (el_trace s) @
     (let a = stops (ri_stops1 r) (apply_pending s); b = stops (ri_stops2 r) a
      in if el_running a then [Ev_Poll (el_sources b) (el_running b) (el_wakes b)] else [])"
    using keeps(1) by (simp add: turn_once_def Let_def)
  show "el_wake_fd (snd (turn_once r s)) = el_wake_fd s"
    using keeps(2) by (simp add: turn_once_def Let_def)
qed

lemma run_loop_polls_wake:
  assumes "ufd_valid (el_wake_fd s)" "list_all writes_succeed rs"
    and "list_all poll_wakes (filter is_poll (el_trace s))"
  shows "list_all poll_wakes (filter is_poll (el_trace (snd (run_loop rs s))))"
  using assms
proof (induction rs arbitrary: s)
  case (Cons r rs)
  let ?a = "stops (ri_stops1 r) (apply_pending s)"
  obtain tn t where tn: "turn_once r s = (tn, t)" by (meson surj_pair)
  have "el_running ?a \<Longrightarrow> poll_wakes (Ev_Poll ps (el_running (stops (ri_stops2 r) ?a)) (el_wakes (stops (ri_stops2 r) ?a)))" for ps
    using stops_wake [of ?a "ri_stops2 r"] Cons.prems by (simp add: poll_wakes_def writes_succeed_def)
  then have t: "list_all poll_wakes (filter is_poll (el_trace t))" "el_wake_fd t = el_wake_fd s"
    using turn_polls [of r s] tn Cons.prems(3) by (auto simp: Let_def)
  with Cons.IH [of t] Cons.prems tn show ?case
    by (simp add: run_loop.simps [of "r # rs" s] split: turn.split)
qed (simp add: run_loop.simps)

section \<open>Concrete runs\<close>

text \<open>
  Source 7 hangs up in the first round and its dispatch retires it (as a reader does for a
  device that went away); nothing happens in a quiet round; in the last one source 8, a
  signal source, stops the loop.
\<close>

definition quiet_round :: round_in where
  "quiet_round = \<lparr>ri_stops1 = [], ri_stops2 = [], ri_bus_fd = 3, ri_bus_events = POLLIN,
     ri_bus_event_fd = 5, ri_poll = (\<lambda>_. Poll_Ready 1 []), ri_bus_calls = [], ri_bus_exn = None,
     ri_src_fd = int, ri_src_events = (\<lambda>_. POLLIN), ri_dispatch = (\<lambda>_ _. ([], None)),
     ri_hup_write = (\<lambda>_. Written)\<rparr>"

definition hangup_round :: round_in where
  "hangup_round = quiet_round
     \<lparr>ri_poll := (\<lambda>_. Poll_Ready 1 [0, 0, POLLIN, POLLHUP]),
      ri_dispatch := (\<lambda>p _. ([Call_Retire p Written], None))\<rparr>"

definition signal_round :: round_in where
  "signal_round = quiet_round
     \<lparr>ri_poll := (\<lambda>_. Poll_Ready 1 [0, 0, 0, POLLIN]),
      ri_dispatch := (\<lambda>p _. ([Call_Stop 0 Written], None))\<rparr>"

definition hangup_run :: event_loop where
  "hangup_run = snd (el_run [hangup_round, quiet_round]
     (el_calls [Call_Add 7 Written] (event_loop_new (Inr (ufd_own 4)))))"

lemma hangup_run_trace:
  "el_trace hangup_run = [Ev_Add 7, Ev_Apply, Ev_Poll [7] True 1, Ev_Dispatch 7 16, Ev_Retire 7,
     Ev_Remove 7, Ev_Apply, Ev_Destroy 7, Ev_Poll [] True 2]"
  by code_simp

section \<open>Properties\<close>

text \<open>
  C1: whatever the callbacks and the sources do, and in whatever order they register, remove
  and retire sources, from within dispatches too, \<open>run()\<close> never polls or dispatches a source
  after the loop has destroyed it, as long as nobody registers it again after its
  destruction.
\<close>

theorem run_no_use_after_destroy:
  assumes "s = snd (el_run rs (el_calls before_run (event_loop_new eventfd)))"
    and "never_after (destroys p) (adds p) (el_trace s)"
  shows "never_after (destroys p) (uses_source p) (el_trace s)"
  using el_reached [of rs before_run eventfd p] assms by (simp add: el_gone_def)

text \<open>
  C2: every poll of \<open>run()\<close> polls each source at most once, and no source whose removal or
  retirement was asked for before the preceding \<open>apply_pending()\<close> since the one before it,
  even when the same source was added in that interval.
\<close>

theorem run_polls_respect_removal:
  "polls_respect_removal ({}, {})
     (el_trace (snd (el_run rs (el_calls before_run (event_loop_new eventfd)))))"
  using el_reached [of rs before_run eventfd] by (simp add: el_inv_def)

text \<open>
  a source whose dispatch in a turn reported a hang-up or an error is not polled in the
  next turn, whatever its dispatch and the other callbacks asked for.
\<close>

theorem hung_up_source_not_polled_again:
  assumes "turn_once r s = (Continue, s')" "el_trace s' = el_trace s @ new"
    and "Ev_Dispatch p x \<in> set new" "x AND (POLLHUP OR POLLERR) \<noteq> 0"
  shows "p \<notin> set (el_sources (apply_pending s'))"
  using hup_queued_turn [OF assms(1)] assms(2-4)
  by (auto simp: hup_queued_def set_pending_sources)

text \<open>
  C8: when callbacks and dispatches of a turn call \<open>stop()\<close>, \<open>run()\<close> finishes the dispatch
  pass and returns the code of the last such call without polling again.
\<close>

theorem run_returns_code_of_last_stop:
  assumes "ri_stops1 r = []" "ri_stops2 r = []"
    and "ri_poll r (build_pfds r (apply_pending (s\<lparr>el_running := True\<rparr>))) = Poll_Ready n rvs"
    and "ri_bus_exn r = None" "\<And>p x. snd (ri_dispatch r p x) = None"
    and "last_stop (turn_calls r n rvs (el_sources (apply_pending s))) = Some c"
  shows "\<exists>s'. el_run (r # rs) s = (Returned c, s') \<and>
     length (filter is_poll (el_trace s')) = Suc (length (filter is_poll (el_trace s)))"
proof -
  obtain t where "turn_once r (s\<lparr>el_running := True\<rparr>) = (Continue, t)"
     "\<not> el_running t" "el_exit_code t = c"
     "length (filter is_poll (el_trace t)) = Suc (length (filter is_poll (el_trace s)))"
    using turn_once_calls [of "s\<lparr>el_running := True\<rparr>" r n rvs] assms by auto
  then show ?thesis by (simp add: el_run_def run_loop.simps)
qed

lemma run_no_use_after_destroy_witness:
  "never_after (destroys 7) (uses_source 7) (el_trace hangup_run) \<and>
   Ev_Destroy 7 \<in> set (el_trace hangup_run)"
proof
  show "never_after (destroys 7) (uses_source 7) (el_trace hangup_run)"
    by (rule run_no_use_after_destroy [OF hangup_run_def]) (simp add: hangup_run_trace)
qed (simp add: hangup_run_trace)


text \<open>The state in which \<open>while\<close> is entered for the two example rounds.\<close>

definition hangup_start :: event_loop where
  "hangup_start = (el_calls [Call_Add 7 Written] (event_loop_new (Inr (ufd_own 4))))\<lparr>el_running := True\<rparr>"

lemma hung_up_source_not_polled_again_witness:
  "7 \<notin> set (el_sources (apply_pending (snd (turn_once hangup_round hangup_start))))"
proof (rule hung_up_source_not_polled_again)
  show "turn_once hangup_round hangup_start = (Continue, snd (turn_once hangup_round hangup_start))"
    by (rule prod_eqI) (code_simp, simp)
  show "el_trace (snd (turn_once hangup_round hangup_start)) = el_trace hangup_start @
      [Ev_Apply, Ev_Poll [7] True 1, Ev_Dispatch 7 16, Ev_Retire 7, Ev_Remove 7]"
    by code_simp
  show "Ev_Dispatch 7 16 \<in> set [Ev_Apply, Ev_Poll [7] True 1, Ev_Dispatch 7 16, Ev_Retire 7, Ev_Remove 7]"
    by simp
  show "(16 :: u16) AND (POLLHUP OR POLLERR) \<noteq> 0" by code_simp
qed

definition signal_start :: event_loop where
  "signal_start = el_calls [Call_Add 8 Written] (event_loop_new (Inr (ufd_own 4)))"

lemma run_returns_code_of_last_stop_witness:
  "\<exists>s'. el_run [signal_round] signal_start = (Returned 0, s') \<and>
     length (filter is_poll (el_trace s')) = Suc (length (filter is_poll (el_trace signal_start)))"
  by (rule run_returns_code_of_last_stop [where n = 1 and rvs = "[0, 0, 0, POLLIN]"])
    (simp_all add: signal_round_def quiet_round_def, code_simp)

text \<open>
  C16: a \<open>stop()\<close> from another thread cannot be missed: when it arrives after \<open>run()\<close> looked at
  \<open>running_\<close> and before it polls, the eventfd is readable when \<open>poll()\<close> is entered, so the poll
  does not block, in every round of every run in which the writes to the eventfd succeed.
\<close>

theorem stop_wakes_every_poll:
  assumes "list_all writes_succeed rs" "0 \<le> fd"
  shows "list_all poll_wakes
    (filter is_poll (el_trace (snd (el_run rs (el_calls before_run (event_loop_new (Inr (ufd_own fd))))))))"
proof -
  let ?s = "el_calls before_run (event_loop_new (Inr (ufd_own fd)))"
  have "ufd_valid (el_wake_fd (?s\<lparr>el_running := True\<rparr>))"
    using assms(2) by (simp add: event_loop_new_def ufd_defs Let_def)
  then show ?thesis unfolding el_run_def
    by (rule run_loop_polls_wake [OF _ assms(1)]) (simp add: polls_calls)
qed

definition stopped_round :: round_in where
  "stopped_round = quiet_round\<lparr>ri_stops2 := [(3, Written)]\<rparr>"

lemma stop_wakes_every_poll_witness:
  "list_all poll_wakes
    (filter is_poll (el_trace (snd (el_run [stopped_round] (el_calls [] (event_loop_new (Inr (ufd_own 4))))))))
   \<and> fst (el_run [stopped_round] (event_loop_new (Inr (ufd_own 4)))) = Returned 3"
  using stop_wakes_every_poll [of "[stopped_round]" 4 "[]"]
  by (simp add: writes_succeed_def stopped_round_def) code_simp

text \<open>
  C20: every retired source is destroyed once: at any moment of a run the retirements of a
  source are the destructions carried out and the entries still queued.
\<close>

theorem retired_sources_destroyed_once:
  "count_list (el_trace s) (Ev_Retire p) =
     count_list (el_trace s) (Ev_Destroy p) + count_list (el_to_retire s) p"
  if "s = snd (el_run rs (el_calls before_run (event_loop_new eventfd)))"
proof -
  have "el_steps (event_loop_new eventfd) s"
    unfolding that by (rule rtranclp_trans [OF el_steps_calls el_steps_run])
  then have "el_accounts p s" by (rule el_steps_accounts) (simp add: el_accounts_def)
  then show ?thesis by (simp add: el_accounts_def)
qed

lemma retired_sources_destroyed_once_witness:
  "count_list (el_trace hangup_run) (Ev_Retire 7) =
     count_list (el_trace hangup_run) (Ev_Destroy 7) + count_list (el_to_retire hangup_run) 7 \<and>
   count_list (el_trace hangup_run) (Ev_Retire 7) = 1"
  using retired_sources_destroyed_once [OF hangup_run_def, of 7] by (simp add: hangup_run_trace)

text \<open>
  when \<open>poll()\<close> fails, \<open>EINTR\<close> starts the next turn with nothing dispatched and nothing
  lost, and any other error ends \<open>run()\<close> with code 1, logged, with nothing dispatched.
\<close>

theorem run_on_poll_error:
  fixes s :: event_loop
  defines "a \<equiv> apply_pending (s\<lparr>el_running := True\<rparr>)"
  defines "polled \<equiv> record_event (Ev_Poll (el_sources a) True (el_wakes a)) a"
  assumes "ri_stops1 r = []" "ri_stops2 r = []" "ri_poll r (build_pfds r a) = Poll_Failed e"
  shows "el_run (r # rs) s =
    (if e = EINTR then el_run rs polled
     else (Returned 1, (log_msg Err ''EventLoop: poll failed: {}'' [LErrno e] polled)\<lparr>el_exit_code := 1\<rparr>))"
proof -
  have st: "stops [] u = u" for u by (simp add: stops_def)
  have run: "el_running a" by (simp add: a_def)
  have polled: "polled\<lparr>el_running := True\<rparr> = polled"
    unfolding polled_def record_event_def by (cases a) (use run in simp)
  have "turn_once r (s\<lparr>el_running := True\<rparr>) =
    (if e = EINTR then (Continue, polled)
     else (Break, (log_msg Err ''EventLoop: poll failed: {}'' [LErrno e] polled)\<lparr>el_exit_code := 1\<rparr>))"
    using assms(3-5) run
    by (simp add: turn_once_def poll_turn_def Let_def st polled_def flip: a_def del: apply_pending_fields)
  then show ?thesis
    by (simp add: el_run_def run_loop.simps [of "r # rs"] polled)
qed

lemma run_on_poll_error_witness:
  "fst (el_run [quiet_round\<lparr>ri_poll := \<lambda>_. Poll_Failed 12\<rparr>] signal_start) = Returned 1 \<and>
   fst (el_run [quiet_round\<lparr>ri_poll := \<lambda>_. Poll_Failed 4\<rparr>] signal_start) = Polling"
  using run_on_poll_error [of "quiet_round\<lparr>ri_poll := \<lambda>_. Poll_Failed 12\<rparr>" signal_start 12 "[]"]
    run_on_poll_error [of "quiet_round\<lparr>ri_poll := \<lambda>_. Poll_Failed 4\<rparr>" signal_start 4 "[]"]
  by (simp add: quiet_round_def EINTR_def el_run_def run_loop.simps [of "[]"])

definition is_dispatch :: "event \<Rightarrow> bool" where
  "is_dispatch e \<longleftrightarrow> (case e of Ev_Dispatch _ _ \<Rightarrow> True | _ \<Rightarrow> False)"

lemma no_dispatch_destroys [simp]: "filter is_dispatch (map Ev_Destroy ps) = []"
  by (induction ps) (auto simp: is_dispatch_def)

lemma dispatches_calls: "filter is_dispatch (el_trace (el_calls cs u)) = filter is_dispatch (el_trace u)"
proof (induction cs arbitrary: u)
  case (Cons c cs)
  then show ?case
    by (cases c) (simp_all add: el_add_def el_remove_def el_retire_def el_stop_def is_dispatch_def)
qed simp

text \<open>
  an \<open>sdbus::Error\<close> of the bus ends \<open>run()\<close> with code 1 and any other exception leaves it;
  in both cases no source is dispatched in that turn.
\<close>

theorem run_on_bus_error:
  assumes "ri_stops1 r = []" "ri_stops2 r = []"
    and "ri_poll r (build_pfds r (apply_pending (s\<lparr>el_running := True\<rparr>))) = Poll_Ready n rvs"
    and "dbus_ready r n rvs" "ri_bus_exn r = Some e"
  shows "fst (el_run (r # rs) s) =
      (case e of DBus_Error _ _ \<Rightarrow> Returned 1 | Std_Exception m \<Rightarrow> Threw (Std_Exception m)) \<and>
    filter is_dispatch (el_trace (snd (el_run (r # rs) s))) = filter is_dispatch (el_trace s)"
proof -
  let ?a = "apply_pending (s\<lparr>el_running := True\<rparr>)"
  let ?c = "record_event (Ev_Poll (el_sources ?a) True (el_wakes ?a)) ?a"
  let ?d = "drain_wake r rvs ?c"
  have st: "stops [] u = u" for u by (simp add: stops_def)
  have turn: "turn_once r (s\<lparr>el_running := True\<rparr>) = drive_bus r ?d"
    using assms by (simp add: turn_once_def poll_turn_def after_poll_def drive_bus_def Let_def st
        split: exn.split)
  have "filter is_dispatch (el_trace ?d) = filter is_dispatch (el_trace s)"
    by (simp add: drain_wake_def is_dispatch_def)
  then show ?thesis
    using assms(5) dispatches_calls [of "ri_bus_calls r" "record_event Ev_Bus ?d"]
    by (cases e) (simp_all add: el_run_def run_loop.simps [of "r # rs"] turn drive_bus_def Let_def
        log_msg_def is_dispatch_def)
qed

definition bus_error_round :: round_in where
  "bus_error_round = quiet_round
     \<lparr>ri_poll := (\<lambda>_. Poll_Ready 2 [POLLHUP, 0, 0, POLLIN]),
      ri_bus_exn := Some (DBus_Error ''org.freedesktop.DBus.Error.Disconnected'' ''closed'')\<rparr>"

lemma run_on_bus_error_witness:
  "fst (el_run [bus_error_round] signal_start) = Returned 1 \<and>
   filter is_dispatch (el_trace (snd (el_run [bus_error_round] signal_start))) =
     filter is_dispatch (el_trace signal_start)"
  using run_on_bus_error [of bus_error_round signal_start 2 "[POLLHUP, 0, 0, POLLIN]"
      "DBus_Error ''org.freedesktop.DBus.Error.Disconnected'' ''closed''" "[]"]
  by (simp add: bus_error_round_def quiet_round_def dbus_ready_def revents_at_def POLLHUP_def)

text \<open>
  a \<open>stop()\<close> made before \<open>run()\<close> is lost: \<open>run()\<close> sets \<open>running_\<close> again and polls in its
  first turn.
\<close>

theorem stop_before_run_is_lost:
  assumes "ri_stops1 r = []" "ri_stops2 r = []"
  shows "length (filter is_poll (el_trace (snd (el_run (r # rs) (el_stop c w s))))) >
         length (filter is_poll (el_trace s))"
proof -
  let ?s = "(el_stop c w s)\<lparr>el_running := True\<rparr>"
  obtain tn t where tn: "turn_once r ?s = (tn, t)" by (meson surj_pair)
  have st: "stops [] u = u" for u by (simp add: stops_def)
  have t: "length (filter is_poll (el_trace t)) > length (filter is_poll (el_trace s))"
    using turn_polls(1) [of r ?s] tn assms by (simp add: Let_def st el_stop_def)
  obtain new where "el_trace (snd (run_loop rs t)) = el_trace t @ new"
    using el_trace_extends [OF el_steps_run_loop [of t rs]] by blast
  with t tn show ?thesis
    by (simp add: el_run_def run_loop.simps [of "r # rs"] split: turn.split)
qed

lemma stop_before_run_is_lost_witness:
  "length (filter is_poll (el_trace (snd (el_run [quiet_round] (el_stop 2 Written signal_start))))) >
   length (filter is_poll (el_trace signal_start)) \<and>
   fst (el_run [quiet_round] (el_stop 2 Written signal_start)) = Polling"
proof
  show "length (filter is_poll (el_trace (snd (el_run [quiet_round] (el_stop 2 Written signal_start))))) >
      length (filter is_poll (el_trace signal_start))"
    by (rule stop_before_run_is_lost) (simp_all add: quiet_round_def)
  show "fst (el_run [quiet_round] (el_stop 2 Written signal_start)) = Polling" by code_simp
qed

text \<open>
  the signal source blocks its signals exactly as long as it has a descriptor to read
  them from: with a signalfd they are blocked, without one they are not (so that the default
  disposition applies), and when it is dispatched in a turn in which nothing else stops the
  loop, \<open>run()\<close> returns 0.
\<close>

theorem signal_source_blocks_iff_readable:
  assumes "signalfd = Inl e \<or> (\<exists>fd. signalfd = Inr (ufd_own fd) \<and> 0 \<le> fd)"
  shows "let s = signal_source_new signals None signalfd blocked
    in (if ufd_valid (ss_fd s) then set signals \<subseteq> ss_blocked s \<and> blocked \<subseteq> ss_blocked s
        else set signals \<inter> ss_blocked s = {}) \<and>
       snd (signal_source_dispatch pending w s) = [Call_Stop 0 w]"
  using assms by (auto simp: signal_source_new_def signal_source_dispatch_def Let_def ufd_defs log_msg_def)

lemma signal_source_blocks_iff_readable_witness:
  "set [2, 15] \<inter> ss_blocked (signal_source_new [2, 15] None (Inl 24) {}) = {} \<and>
   set [2, 15] \<subseteq> ss_blocked (signal_source_new [2, 15] None (Inr (ufd_own 6)) {})"
  using signal_source_blocks_iff_readable [of "Inl 24" 24 "[2, 15]" "{}"]
    signal_source_blocks_iff_readable [of "Inr (ufd_own 6)" 0 "[2, 15]" "{}"]
  by (auto simp: Let_def signal_source_new_def ufd_defs log_msg_def)

end
