(* ===== verification/Event_Loop_Hangup.thy ===== *)
theory Event_Loop_Hangup
  imports Event_Loop
begin

text \<open>
  The hang-up rule of \<open>EventLoop::run()\<close> (\<open>src/utils/event_loop.cc\<close>) over whole runs. A source
  whose descriptor reports \<open>POLLHUP\<close> or \<open>POLLERR\<close> stays readable forever, so the loop has to
  drop it after its dispatch; otherwise it would spin. The theory follows one source \<open>p\<close>
  through the phases of a turn with three predicates: \<open>hup_left\<close> at the start of a turn,
  \<open>hup_out\<close> between \<open>apply_pending()\<close> and the dispatch of \<open>p\<close>, and \<open>hup_kept\<close> at the end of
  a run, however it ends.
\<close>

section \<open>The three predicates\<close>

definition hup :: "source \<Rightarrow> event \<Rightarrow> bool" where
  "hup p e \<longleftrightarrow> (case e of Ev_Dispatch q x \<Rightarrow> q = p \<and> hung_up x | _ \<Rightarrow> False)"

lemma hup_simps [simp]:
  "hup p (Ev_Dispatch q x) \<longleftrightarrow> q = p \<and> hung_up x" "\<not> hup p (Ev_Poll ps b n)" "\<not> hup p Ev_Bus"
  "\<not> hup p (Ev_Add q)" "\<not> hup p (Ev_Remove q)" "\<not> hup p (Ev_Retire q)" "\<not> hup p Ev_Apply"
  "\<not> hup p (Ev_Destroy q)"
  by (auto simp: hup_def)

lemma no_hup_destroys [simp]: "\<not> list_ex (hup p) (map Ev_Destroy ps)"
  by (induction ps) auto

definition hup_kept :: "source \<Rightarrow> event_loop \<Rightarrow> bool" where
  "hup_kept p s \<longleftrightarrow>
     (never_after (hup p) (adds p) (el_trace s) \<longrightarrow> never_after (hup p) (uses_source p) (el_trace s))"

definition hup_left :: "source \<Rightarrow> event_loop \<Rightarrow> bool" where
  "hup_left p s \<longleftrightarrow> hup_kept p s \<and>
     (never_after (hup p) (adds p) (el_trace s) \<longrightarrow> list_ex (hup p) (el_trace s) \<longrightarrow>
        p \<in> set (el_to_remove s) \<or> p \<notin> set (el_sources s) \<union> set (el_to_add s))"

definition hup_out :: "source \<Rightarrow> event_loop \<Rightarrow> bool" where
  "hup_out p s \<longleftrightarrow> hup_kept p s \<and>
     (never_after (hup p) (adds p) (el_trace s) \<longrightarrow> list_ex (hup p) (el_trace s) \<longrightarrow>
        p \<notin> set (el_sources s) \<union> set (el_to_add s))"

lemmas hup_defs = hup_kept_def hup_left_def hup_out_def

lemma hup_out_left: "hup_out p s \<Longrightarrow> hup_left p s"
  by (simp add: hup_left_def hup_out_def)

section \<open>What the phases of a turn keep\<close>

lemma hup_frame:
  assumes "el_sources t = el_sources s" "el_to_add t = el_to_add s"
    "el_to_remove t = el_to_remove s" "el_trace t = el_trace s"
  shows "hup_left p t = hup_left p s" "hup_out p t = hup_out p s" "hup_kept p t = hup_kept p s"
  by (simp_all add: hup_defs assms)

lemma hup_call:
  "hup_out p s \<Longrightarrow> hup_out p (el_call c s)" "hup_left p s \<Longrightarrow> hup_left p (el_call c s)"
  "hup_kept p s \<Longrightarrow> hup_kept p (el_call c s)"
  by (cases c; auto simp: hup_defs el_add_def el_remove_def el_retire_def el_stop_def
      never_after_snoc)+

lemma hup_calls:
  "hup_out p s \<Longrightarrow> hup_out p (el_calls cs s)" "hup_left p s \<Longrightarrow> hup_left p (el_calls cs s)"
  "hup_kept p s \<Longrightarrow> hup_kept p (el_calls cs s)"
  by (induction cs arbitrary: s) (auto intro: hup_call)

text \<open>An event that is no use of \<open>p\<close> keeps all three; so does a poll of the others.\<close>

lemma hup_event:
  assumes "\<not> uses_source p e" "\<And>q. e \<noteq> Ev_Add q"
  shows "hup_out p s \<Longrightarrow> hup_out p (record_event e s)"
    "hup_left p s \<Longrightarrow> hup_left p (record_event e s)"
proof -
  have "\<not> adds p e" using assms(2) by (cases e) auto
  moreover have "\<not> hup p e" using assms(1) by (cases e) auto
  ultimately show "hup_out p s \<Longrightarrow> hup_out p (record_event e s)"
    "hup_left p s \<Longrightarrow> hup_left p (record_event e s)"
    using assms(1) by (auto simp: hup_defs never_after_snoc)
qed

lemma hup_apply: "hup_left p s \<Longrightarrow> hup_out p (apply_pending s)"
proof -
  assume s: "hup_left p s"
  have "never_after (hup p) Q (el_trace s @ Ev_Apply # map Ev_Destroy (el_to_retire s)) \<longleftrightarrow>
      never_after (hup p) Q (el_trace s)" if "Q = adds p \<or> Q = uses_source p" for Q
    using that by (intro never_after_append_other) auto
  with s show ?thesis by (auto simp: hup_defs set_pending_sources)
qed

lemma hup_poll:
  "hup_out p s \<Longrightarrow> hup_out p (record_event (Ev_Poll (el_sources s) b n) s)"
  by (auto simp: hup_defs never_after_snoc)

section \<open>The dispatch pass\<close>

lemma hup_dispatch_other:
  "q \<noteq> p \<Longrightarrow> hup_out p s \<Longrightarrow> hup_out p (state_of (dispatch_one r (q, x) s))"
  "q \<noteq> p \<Longrightarrow> hup_left p s \<Longrightarrow> hup_left p (state_of (dispatch_one r (q, x) s))"
  using hup_call [of p _ "Call_Remove q (ri_hup_write r q)"]
  by (auto simp: dispatch_one_def Let_def hup_event hup_calls split: prod.split option.split)

text \<open>
  The dispatch of \<open>p\<close> itself: nothing hung up before, as \<open>p\<close> is still a source, and after a
  hang-up its removal is queued. When the dispatch throws, \<open>run()\<close> is left.
\<close>

lemma hup_dispatch_same:
  assumes "hup_out p s" "p \<in> set (el_sources s)"
  shows "case dispatch_one r (p, x) s of Done t \<Rightarrow> hup_left p t | Throw e t \<Rightarrow> hup_kept p t"
proof (cases "x = 0")
  case True
  with assms(1) show ?thesis by (simp add: dispatch_one_def hup_out_left)
next
  case False
  obtain cs ex where ex: "ri_dispatch r p x = (cs, ex)" by (cases "ri_dispatch r p x")
  let ?d = "record_event (Ev_Dispatch p x) s"
  let ?u = "el_calls cs ?d"
  have "hup_kept p ?d" "\<not> hung_up x \<Longrightarrow> hup_left p ?d"
    using assms by (auto simp: hup_defs never_after_snoc)
  then have u: "hup_kept p ?u" "\<not> hung_up x \<Longrightarrow> hup_left p ?u" by (auto intro: hup_calls)
  then have "hup_left p (el_remove p w ?u)" for w
    by (auto simp: hup_defs el_remove_def never_after_snoc)
  with u False ex show ?thesis
    by (auto simp: dispatch_one_def Let_def split: option.split)
qed

lemma hup_dispatch_others:
  assumes "p \<notin> fst ` set prs"
  shows "hup_out p s \<Longrightarrow> hup_out p (state_of (for_each (dispatch_one r) prs s))"
    "hup_left p s \<Longrightarrow> hup_left p (state_of (for_each (dispatch_one r) prs s))"
  by (rule for_each_invariant; use assms in \<open>force intro: hup_dispatch_other\<close>)+

lemma map_fst_with_revents [simp]: "map fst (with_revents r rvs ps) = ps"
  by (rule nth_equalityI) (simp_all add: with_revents_def)

lemma hup_left_outcome:
  "hup_left p (state_of o') \<Longrightarrow> case o' of Done t \<Rightarrow> hup_left p t | Throw e t \<Rightarrow> hup_kept p t"
  by (cases o') (simp_all add: hup_left_def)

lemma hup_pass:
  assumes "hup_out p s" "distinct (map fst prs)" "fst ` set prs \<subseteq> set (el_sources s)"
  shows "case for_each (dispatch_one r) prs s of Done t \<Rightarrow> hup_left p t | Throw e t \<Rightarrow> hup_kept p t"
proof (cases "p \<in> fst ` set prs")
  case False
  then have "hup_left p (state_of (for_each (dispatch_one r) prs s))"
    using hup_dispatch_others(2) [OF _ hup_out_left [OF assms(1)]] by simp
  then show ?thesis by (rule hup_left_outcome)
next
  case True
  then obtain x where "(p, x) \<in> set prs" by auto
  then obtain xs ys where prs: "prs = xs @ (p, x) # ys" by (blast dest: split_list)
  then have other: "p \<notin> fst ` set xs" "p \<notin> fst ` set ys" using assms(2) by auto
  let ?o = "for_each (dispatch_one r) xs s"
  have o: "hup_out p (state_of ?o)" using other(1) assms(1) by (rule hup_dispatch_others(1))
  have src: "el_sources (state_of ?o) = el_sources s"
    by (rule for_each_invariant) simp_all
  show ?thesis
  proof (cases ?o)
    case (Throw e t)
    with o prs show ?thesis by (simp add: for_each_append hup_out_def)
  next
    case (Done t)
    have "p \<in> set (el_sources t)" using True assms(3) src Done by auto
    then have p: "case dispatch_one r (p, x) t of Done u \<Rightarrow> hup_left p u | Throw e u \<Rightarrow> hup_kept p u"
      using hup_dispatch_same o Done by simp
    show ?thesis
    proof (cases "dispatch_one r (p, x) t")
      case (Throw e u)
      with p Done prs show ?thesis by (simp add: for_each_append)
    next
      case u: (Done u)
      with p have "hup_left p (state_of (for_each (dispatch_one r) ys u))"
        using hup_dispatch_others(2) [OF other(2)] by simp
      with hup_left_outcome [OF this] u Done prs show ?thesis by (simp add: for_each_append)
    qed
  qed
qed

text \<open>A phase that ends the turn keeps \<open>hup_kept\<close>, one that goes on to the next has \<open>hup_left\<close>.\<close>

definition hup_after :: "source \<Rightarrow> turn \<times> event_loop \<Rightarrow> bool" where
  "hup_after p = (\<lambda>(tn, t). hup_kept p t \<and> (tn = Continue \<longrightarrow> hup_left p t))"

lemma hup_after_kept: "hup_left p t \<Longrightarrow> hup_after p (tn, t)" "hup_out p t \<Longrightarrow> hup_after p (tn, t)"
  by (simp_all add: hup_after_def hup_left_def hup_out_def)

lemma hup_dispatch_all:
  assumes "hup_out p s" "distinct (el_sources s)"
  shows "hup_after p (dispatch_all r rvs s)"
proof -
  have "fst ` set (with_revents r rvs (el_sources s)) \<subseteq> set (el_sources s)"
    by (auto dest: set_with_revents)
  with hup_pass [OF assms(1), of "with_revents r rvs (el_sources s)" r] assms(2) show ?thesis
    by (auto simp: dispatch_all_def hup_after_def hup_left_def split: outcome.splits)
qed

section \<open>A turn and a run\<close>

lemma hup_drain: "hup_out p s \<Longrightarrow> hup_out p (drain_wake r rvs s)"
  by (rule hup_frame(2) [THEN iffD2]) (simp_all add: drain_wake_def)

lemma hup_drive_bus:
  assumes "hup_out p s"
  shows "hup_out p (snd (drive_bus r s)) \<and> el_sources (snd (drive_bus r s)) = el_sources s"
proof -
  let ?u = "el_calls (ri_bus_calls r) (record_event Ev_Bus s)"
  have u: "hup_out p ?u"
    by (intro hup_calls hup_event) (simp_all add: assms)
  have "hup_out p (snd (drive_bus r s))"
    by (rule hup_frame(2) [THEN iffD2, OF _ _ _ _ u])
      (simp_all add: drive_bus_def Let_def log_msg_def split: option.split exn.split)
  then show ?thesis
    by (simp add: drive_bus_def Let_def log_msg_def split: option.split exn.split)
qed

lemma hup_after_poll:
  assumes "hup_out p s" "distinct (el_sources s)"
  shows "hup_after p (after_poll r n rvs s)"
proof -
  let ?d = "drain_wake r rvs s"
  obtain tn u where tn: "(if dbus_ready r n rvs then drive_bus r ?d else (Continue, ?d)) = (tn, u)"
    by (meson surj_pair)
  have "el_sources ?d = el_sources s" by (simp add: drain_wake_def)
  then have "hup_out p u \<and> el_sources u = el_sources s"
    using tn hup_drain [OF assms(1)] hup_drive_bus [of p ?d r] by (auto split: if_splits)
  then have "hup_after p (dispatch_all r rvs u)" "hup_after p (tn, u)"
    using assms(2) by (auto intro: hup_dispatch_all hup_after_kept)
  with tn show ?thesis by (cases tn) (simp_all add: after_poll_def Let_def)
qed

lemma hup_turn:
  assumes "hup_left p s" "distinct (el_sources s)"
  shows "hup_after p (turn_once r s)"
proof -
  let ?a = "stops (ri_stops1 r) (apply_pending s)"
  let ?b = "stops (ri_stops2 r) ?a"
  let ?c = "record_event (Ev_Poll (el_sources ?b) (el_running ?b) (el_wakes ?b)) ?b"
  have b: "hup_out p ?a" "hup_out p ?b"
    using hup_apply [OF assms(1)] hup_calls(1) by (auto simp: stops_def)
  have c: "hup_out p ?c" using b(2) by (rule hup_poll)
  have "distinct (el_sources ?c)" using assms(2) by (simp add: distinct_pending_sources)
  then have "hup_after p (after_poll r n rvs ?c)" for n rvs using c by (intro hup_after_poll)
  moreover have "hup_after p (tn, (log_msg Err f a ?c)\<lparr>el_exit_code := 1\<rparr>)" for tn f a
    by (rule hup_after_kept(2), rule hup_frame(2) [THEN iffD2, OF _ _ _ _ c]) (simp_all add: log_msg_def)
  moreover have "hup_after p (Continue, ?c)" using c by (rule hup_after_kept(2))
  ultimately have "hup_after p (poll_turn r ?a)"
    by (cases "ri_poll r (build_pfds r ?b)")
      (simp_all add: poll_turn_def Let_def del: stops_fields apply_pending_fields record_event_fields)
  with b(1) show ?thesis by (auto simp: turn_once_def Let_def intro: hup_after_kept)
qed

lemma el_steps_keep_inv: "el_steps s t \<Longrightarrow> el_inv s \<Longrightarrow> el_inv t"
  by (induction rule: rtranclp_induct) (auto intro: el_step_inv)

lemma hup_run_loop: "hup_left p s \<Longrightarrow> el_inv s \<Longrightarrow> hup_kept p (snd (run_loop rs s))"
proof (induction rs arbitrary: s)
  case Nil
  then show ?case by (simp add: run_loop.simps hup_left_def)
next
  case (Cons r rs)
  obtain tn t where tn: "turn_once r s = (tn, t)" by (meson surj_pair)
  have "distinct (el_sources s)" using Cons.prems(2) by (simp add: el_inv_def)
  then have t: "hup_after p (tn, t)" using hup_turn [OF Cons.prems(1), of r] tn by simp
  have inv: "el_inv t" using el_steps_keep_inv [OF el_steps_turn Cons.prems(2)] tn by (metis snd_conv)
  have "hup_kept p s" using Cons.prems(1) by (simp add: hup_left_def)
  with t tn inv Cons.IH [of t] show ?case
    by (cases tn) (simp_all add: run_loop.simps [of "r # rs"] hup_after_def)
qed

lemma hup_run:
  "hup_kept p (snd (el_run rs (el_calls before_run (event_loop_new eventfd))))"
proof -
  let ?s = "el_calls before_run (event_loop_new eventfd)"
  have "hup_left p (event_loop_new eventfd)" by (simp add: hup_defs)
  then have "hup_left p ?s" by (rule hup_calls(2))
  then have "hup_left p (?s\<lparr>el_running := True\<rparr>)" by (simp add: hup_defs)
  moreover have "el_inv (?s\<lparr>el_running := True\<rparr>)"
    using el_steps_keep_inv [OF el_steps_calls event_loop_new_inv(1)] by (simp add: el_inv_def)
  ultimately show ?thesis unfolding el_run_def by (rule hup_run_loop)
qed

section \<open>The property\<close>

text \<open>
  The rounds of \<open>test_pollhup_removal\<close> in \<open>src/utils/event_loop_test.cc\<close>: source 7 is the
  read end of a closed pipe and only counts, source 8 is the timer, whose dispatch stops the
  loop. \<open>poll()\<close> reports the pipe whenever it is polled, and the timer in the second round.
\<close>

definition pipe_round :: "bool \<Rightarrow> round_in" where
  "pipe_round expired = hangup_round
     \<lparr>ri_src_fd := (\<lambda>p. int p),
      ri_poll := (\<lambda>pfds. Poll_Ready 1 (map (\<lambda>f. if pfd_fd f = 7 then POLLHUP
         else if pfd_fd f = 8 \<and> expired then POLLIN else 0) pfds)),
      ri_dispatch := (\<lambda>p x. (if p = 8 then [Call_Stop 0 Written] else [], None))\<rparr>"

definition pipe_run :: "run_result \<times> event_loop" where
  "pipe_run = el_run [pipe_round False, pipe_round False, pipe_round True]
     (el_calls [Call_Add 7 Written, Call_Add 8 Written] (event_loop_new (Inr (ufd_own 4))))"

text \<open>
  C7: once a source's dispatch was given a hang-up or an error, \<open>run()\<close> neither polls nor
  dispatches it again, in that turn or any later one, unless somebody registers it anew; so a
  hung-up descriptor costs one dispatch and the loop does not spin on it.
\<close>

theorem hung_up_source_never_used_again:
  assumes "s = snd (el_run rs (el_calls before_run (event_loop_new eventfd)))"
    and "never_after (hup p) (adds p) (el_trace s)"
  shows "never_after (hup p) (uses_source p) (el_trace s)"
  using hup_run [of p rs before_run eventfd] assms by (simp add: hup_kept_def)

lemma hung_up_source_never_used_again_witness:
  "never_after (hup 7) (uses_source 7) (el_trace (snd pipe_run)) \<and>
   Ev_Dispatch 7 POLLHUP \<in> set (el_trace (snd pipe_run)) \<and> fst pipe_run = Returned 0"
proof (intro conjI)
  have adds: "never_after (hup 7) (adds 7) (el_trace (snd pipe_run))" by code_simp
  show "never_after (hup 7) (uses_source 7) (el_trace (snd pipe_run))"
    by (rule hung_up_source_never_used_again [OF _ adds]) (unfold pipe_run_def, rule refl)
qed code_simp+

end
