(* ===== verification/Hidraw.thy ===== *)
theory Hidraw
  imports Prelude
begin

text \<open>
  \<open>src/bluez/hexdump.hpp\<close> and \<open>src/bluez/hidraw.hpp\<close>: the hex dump of a byte buffer, and the
  association of input devices with hidraw nodes through libudev. What libudev answers is a
  record of functions. A \<open>std::unordered_map\<close> is an association list in the order the code
  iterates over it, which the standard leaves open; the lemmas hold for every order.
\<close>

section \<open>\<open>CustomHexdump\<close>\<close>

definition hexdump_row :: "nat \<Rightarrow> bool \<Rightarrow> u8 list \<Rightarrow> nat \<Rightarrow> string" where
  "hexdump_row row ascii data i =
     ''0x'' @ pad_left (CHR ''0'') 6 (digits 16 i) @ '': '' @
     concat (map (\<lambda>j. if i + j < length data then hex2 (data ! (i + j)) @ '' '' else ''   '') [0..<row]) @
     '' '' @
     (if ascii
      then concat (map (\<lambda>j. if i + j < length data
                            then [if is_print (data ! (i + j)) then char_of (unat (data ! (i + j))) else CHR ''.'']
                            else []) [0..<row])
      else []) @ endl"

function hexdump_from :: "nat \<Rightarrow> bool \<Rightarrow> u8 list \<Rightarrow> nat \<Rightarrow> string" where
  "hexdump_from row ascii data i =
     (if i < length data \<and> 0 < row
      then hexdump_row row ascii data i @ hexdump_from row ascii data (i + row) else [])"
  by pat_completeness auto
termination by (relation "measure (\<lambda>(row, _, data, i). length data - i)") auto

declare hexdump_from.simps [simp del]

definition custom_hexdump :: "nat \<Rightarrow> bool \<Rightarrow> u8 list \<Rightarrow> string" where
  "custom_hexdump row ascii data = hexdump_from row ascii data 0"

section \<open>libudev\<close>

text \<open>
  \<open>udev_new\<close> and \<open>udev_enumerate_new\<close> (whether they return an object), the results of adding
  the subsystem match and of scanning, the names of the devices found, and for a syspath the
  device's property entries: their names and values, either of which may be null.
\<close>

record udev_api =
  ud_new :: bool
  ud_enumerate_new :: bool
  ud_add_match :: "string \<Rightarrow> int"
  ud_scan :: int
  ud_entries :: "string \<Rightarrow> string option list"
  ud_device :: "string \<Rightarrow> (string option \<times> string option) list option"

type_synonym properties = "(string \<times> string) list"

definition udev_device_properties ::
    "bool \<Rightarrow> (string option \<times> string option) list \<Rightarrow> properties \<times> log_entry list" where
  "udev_device_properties debug entries =
     fold (\<lambda>(name, val) (props, lg).
       case name of
         None \<Rightarrow> (props, lg)
       | Some n \<Rightarrow>
           (let v = (case val of Some v \<Rightarrow> v | None \<Rightarrow> [])
            in (AList.update n v props,
                if debug then lg @ [Log Debug ''  {} = {}'' [LStr n, LStr v]] else lg)))
     entries ([], [])"

definition params_match :: "(string \<times> string) list \<Rightarrow> properties \<Rightarrow> bool" where
  "params_match match_params props = list_all (\<lambda>(k, v). map_of props k = Some v) match_params"

definition udev_scan_entry ::
    "udev_api \<Rightarrow> bool \<Rightarrow> (string \<times> string) list \<Rightarrow> string option \<Rightarrow>
     (string \<times> properties) list \<times> log_entry list \<Rightarrow> (string \<times> properties) list \<times> log_entry list" where
  "udev_scan_entry api debug match_params entry = (\<lambda>(results, lg).
     case entry of
       None \<Rightarrow> (results, lg)
     | Some path \<Rightarrow>
         (case ud_device api path of
            None \<Rightarrow> (results, lg @ [Log Debug ''Failed to get device from syspath: {}'' [LStr path]])
          | Some entries \<Rightarrow>
              (let (props, more) = udev_device_properties debug entries
               in (if params_match match_params props then AList.update path props results else results,
                   lg @ more))))"

definition get_udev_properties ::
    "udev_api \<Rightarrow> string \<Rightarrow> bool \<Rightarrow> (string \<times> string) list \<Rightarrow>
     (string \<times> properties) list \<times> log_entry list" where
  "get_udev_properties api sub_system debug match_params =
     (if \<not> ud_new api then ([], [Log Err (''Can'' @ squote @ ''t create udev'') []])
      else if \<not> ud_enumerate_new api then ([], [Log Err (''Can'' @ squote @ ''t create udev enumerate'') []])
      else if ud_add_match api sub_system < 0
        then ([], [Log Err ''Failed to add subsystem match: {}'' [LStr sub_system]])
      else if ud_scan api < 0 then ([], [Log Err ''Failed to scan devices'' []])
      else fold (udev_scan_entry api debug match_params) (ud_entries api sub_system) ([], []))"

section \<open>Paths, buses and keys\<close>

definition is_hex_digit :: "char \<Rightarrow> bool" where
  "is_hex_digit c \<longleftrightarrow>
     48 \<le> code_of c \<and> code_of c \<le> 57 \<or> 65 \<le> code_of c \<and> code_of c \<le> 70 \<or>
     97 \<le> code_of c \<and> code_of c \<le> 102"

definition hex_value :: "char \<Rightarrow> nat" where
  "hex_value c =
     (if code_of c \<le> 57 then code_of c - 48
      else if code_of c \<le> 70 then code_of c - 55 else code_of c - 87)"

text \<open>\<open>std::stoi(s, nullptr, 16)\<close> on hexadecimal digits.\<close>

definition stoi16 :: "string \<Rightarrow> int" where
  "stoi16 s = int (fold (\<lambda>c n. 16 * n + hex_value c) s 0)"

definition hex4 :: "string \<Rightarrow> (string \<times> string) option" where
  "hex4 s = (if 4 \<le> length s \<and> list_all is_hex_digit (take 4 s) then Some (take 4 s, drop 4 s) else None)"

definition drop_literal :: "string \<Rightarrow> string \<Rightarrow> string option" where
  "drop_literal lit s = (if take (length lit) s = lit then Some (drop (length lit) s) else None)"

text \<open>
  The regular expression at the start of a string (the rest after the dot always matches),
  and \<open>regex_search\<close>, which takes the leftmost match.
\<close>

definition uhid_match_at :: "string \<Rightarrow> (string \<times> string \<times> string) option" where
  "uhid_match_at s =
     Option.bind (drop_literal ''/devices/virtual/misc/uhid/'' s) (\<lambda>s.
     Option.bind (hex4 s) (\<lambda>(b, s).
     Option.bind (drop_literal '':'' s) (\<lambda>s.
     Option.bind (hex4 s) (\<lambda>(v, s).
     Option.bind (drop_literal '':'' s) (\<lambda>s.
     Option.bind (hex4 s) (\<lambda>(p, s).
     Option.bind (drop_literal ''.'' s) (\<lambda>_. Some (b, v, p))))))))"

fun uhid_search :: "string \<Rightarrow> (string \<times> string \<times> string) option" where
  "uhid_search s =
     (case uhid_match_at s of
        Some m \<Rightarrow> Some m
      | None \<Rightarrow> (case s of [] \<Rightarrow> None | c # cs \<Rightarrow> uhid_search cs))"

declare uhid_search.simps [simp del]

definition compare_uhid_vid_pid :: "string \<Rightarrow> int \<Rightarrow> string \<Rightarrow> string \<Rightarrow> int" where
  "compare_uhid_vid_pid path bus vid pid =
     (case uhid_search path of
        Some (b, v, p) \<Rightarrow> (if bus = stoi16 b \<and> vid = v \<and> pid = p then 0 else 1)
      | None \<Rightarrow> 1)"

abbreviation sys_devices :: string where "sys_devices \<equiv> ''/sys/devices/''"

definition compare_subsystem_device_paths :: "string \<Rightarrow> string \<Rightarrow> bool \<times> log_entry list" where
  "compare_subsystem_device_paths input_path hidraw_path =
     (if take (length sys_devices) input_path \<noteq> sys_devices \<or>
         take (length sys_devices) hidraw_path \<noteq> sys_devices then (False, [])
      else case str_find ''/input'' input_path of
        None \<Rightarrow> (False, [Log Debug (''Path does not contain '' @ squote @ ''/input'' @ squote @ '': {}'') [LStr input_path]])
      | Some input_pos \<Rightarrow>
          (case str_find ''/hidraw'' hidraw_path of
             None \<Rightarrow> (False, [Log Debug (''Path does not contain '' @ squote @ ''/hidraw'' @ squote @ '': {}'') [LStr hidraw_path]])
           | Some hidraw_pos \<Rightarrow>
               (if input_pos < length sys_devices \<or> hidraw_pos < length sys_devices
                then (False, [Log Debug ''Invalid path structure - subsystem before prefix'' []])
                else (substr (length sys_devices) (input_pos - length sys_devices) input_path =
                      substr (length sys_devices) (hidraw_pos - length sys_devices) hidraw_path, []))))"

definition strip_quotes :: "string \<Rightarrow> string" where
  "strip_quotes s =
     (let s = (if s \<noteq> [] \<and> hd s = dquote then tl s else s)
      in if s \<noteq> [] \<and> last s = dquote then butlast s else s)"

definition create_device_key_from_serial_number :: "string \<Rightarrow> string" where
  "create_device_key_from_serial_number serial_number =
     ''dev_'' @ replace_char (CHR '':'') (CHR ''_'') (map to_upper (strip_quotes serial_number))"

definition BUS_USB :: nat where "BUS_USB = 0x03"
definition BUS_HIL :: nat where "BUS_HIL = 0x04"
definition BUS_BLUETOOTH :: nat where "BUS_BLUETOOTH = 0x05"
definition BUS_VIRTUAL :: nat where "BUS_VIRTUAL = 0x06"

definition bus_str :: "u32 \<Rightarrow> string" where
  "bus_str bus =
     (if unat bus = BUS_USB then ''USB'' else if unat bus = BUS_HIL then ''HIL''
      else if unat bus = BUS_BLUETOOTH then ''Bluetooth'' else if unat bus = BUS_VIRTUAL then ''Virtual''
      else ''Other'')"

section \<open>The \<open>Hidraw\<close> class\<close>

record hidraw = logged +
  hw_devices :: "(string \<times> string) list"

definition add_logs :: "log_entry list \<Rightarrow> 'a logged_scheme \<Rightarrow> 'a logged_scheme" where
  "add_logs es s = s\<lparr>log_of := log_of s @ es\<rparr>"

definition FindHidDevice :: "string \<Rightarrow> 'a hidraw_scheme \<Rightarrow> string" where
  "FindHidDevice key s = (case map_of (hw_devices s) key of Some d \<Rightarrow> d | None \<Rightarrow> [])"

text \<open>The static overload: the hidraw nodes of a bus, vendor and product.\<close>

definition get_hidraw_devices_by_id :: "udev_api \<Rightarrow> int \<Rightarrow> string \<Rightarrow> string \<Rightarrow> string list" where
  "get_hidraw_devices_by_id api bus vid pid =
     concat (map (\<lambda>(_, props).
       case (map_of props ''DEVNAME'', map_of props ''DEVPATH'') of
         (Some dev_name, Some dev_path) \<Rightarrow>
           (if compare_uhid_vid_pid dev_path bus vid pid = 0 then [dev_name] else [])
       | _ \<Rightarrow> []) (fst (get_udev_properties api ''hidraw'' False [])))"

definition associate ::
    "string \<times> properties \<Rightarrow> string \<times> properties \<Rightarrow> 'a hidraw_scheme \<Rightarrow> 'a hidraw_scheme" where
  "associate = (\<lambda>(input_path, input_properties) (hidraw_path, hidraw_properties) s.
     let (same, lg) = compare_subsystem_device_paths input_path hidraw_path; s = add_logs lg s
     in if \<not> same then s
        else (case map_of hidraw_properties ''DEVNAME'' of
                None \<Rightarrow> s
              | Some hidraw_dev_name \<Rightarrow>
                  (case map_of input_properties ''UNIQ'' of
                     None \<Rightarrow> s
                   | Some serial_number \<Rightarrow>
                       (let s = log_msg Info ''Associated input device path: {} with hidraw device: {}''
                                  [LStr input_path, LStr hidraw_dev_name] s
                        in s\<lparr>hw_devices := AList.update (create_device_key_from_serial_number serial_number)
                                              hidraw_dev_name (hw_devices s)\<rparr>))))"

definition get_hidraw_devices ::
    "udev_api \<Rightarrow> (string \<times> string) list \<Rightarrow> 'a hidraw_scheme \<Rightarrow> bool \<times> 'a hidraw_scheme" where
  "get_hidraw_devices api match_params s =
     (let s = s\<lparr>hw_devices := []\<rparr>;
          (input_devices, lg) = get_udev_properties api ''input'' False match_params;
          s = add_logs lg s
      in if input_devices = [] then (False, s)
         else (let (hidraw_devices, lg) = get_udev_properties api ''hidraw'' False [];
                   s = add_logs lg s;
                   s = fold (\<lambda>i. fold (associate i) hidraw_devices) input_devices s
               in (True, fold (\<lambda>v. log_msg Debug ''hidraw device: {}'' [LStr v]) (map snd (in_order (hw_devices s))) s)))"

section \<open>Lemmas\<close>

lemma hw_devices_log [simp]:
  "hw_devices (log_msg l f a s) = hw_devices s" "hw_devices (add_logs es s) = hw_devices s"
  by (simp_all add: log_msg_def add_logs_def)

lemma hw_devices_logs [simp]: "hw_devices (fold (\<lambda>v. log_msg l f (a v)) vs s) = hw_devices s"
  by (induction vs arbitrary: s) simp_all

lemma str_find_split:
  "str_find pat s = Some i \<Longrightarrow> s = take i s @ pat @ drop (i + length pat) s"
  using str_find_Some [of pat s i]
  by (metis append_take_drop_id drop_drop add.commute)

lemma take_prefix: "take n s = p \<Longrightarrow> n \<le> m \<Longrightarrow> take m s = p @ take (m - n) (drop n s)"
  using take_add [of n "m - n" s] by simp

lemma compare_same_parent:
  "fst (compare_subsystem_device_paths i h) \<longleftrightarrow>
     (\<exists>c x y. i = sys_devices @ c @ ''/input'' @ x \<and> h = sys_devices @ c @ ''/hidraw'' @ y \<and>
        str_find ''/input'' i = Some (length (sys_devices @ c)) \<and>
        str_find ''/hidraw'' h = Some (length (sys_devices @ c)))"
  (is "?lhs \<longleftrightarrow> ?rhs")
proof
  assume l: ?lhs
  let ?n = "length sys_devices"
  from l obtain m k where pre: "take ?n i = sys_devices" "take ?n h = sys_devices"
    and m: "str_find ''/input'' i = Some m" and k: "str_find ''/hidraw'' h = Some k"
    and ge: "?n \<le> m" "?n \<le> k"
    and eq: "substr ?n (m - ?n) i = substr ?n (k - ?n) h"
    unfolding compare_subsystem_device_paths_def
    by (simp split: if_splits option.splits)
  define c where "c = substr ?n (m - ?n) i"
  have im: "take m i = sys_devices @ c" and hk: "take k h = sys_devices @ c"
    using take_prefix [OF pre(1) ge(1)] take_prefix [OF pre(2) ge(2)] eq
    unfolding c_def substr_def by simp_all
  have "m \<le> length i" "k \<le> length h"
    using str_find_Some [OF m] str_find_Some [OF k] by simp_all
  then have "length (take m i) = m" "length (take k h) = k" by simp_all
  then have len: "m = length (sys_devices @ c)" "k = length (sys_devices @ c)"
    unfolding im hk by simp_all
  have "i = sys_devices @ c @ ''/input'' @ drop (m + length ''/input'') i"
    using str_find_split [OF m, unfolded im] by (simp only: append.assoc)
  moreover have "h = sys_devices @ c @ ''/hidraw'' @ drop (k + length ''/hidraw'') h"
    using str_find_split [OF k, unfolded hk] by (simp only: append.assoc)
  ultimately show ?rhs using m k len by blast
next
  assume ?rhs
  then obtain c x y where ih: "i = sys_devices @ c @ ''/input'' @ x" "h = sys_devices @ c @ ''/hidraw'' @ y"
    "str_find ''/input'' i = Some (length (sys_devices @ c))"
    "str_find ''/hidraw'' h = Some (length (sys_devices @ c))" by blast
  have "take (length sys_devices) i = sys_devices" "take (length sys_devices) h = sys_devices"
    unfolding ih(1,2) by simp_all
  moreover have "substr (length sys_devices) (length (sys_devices @ c) - length sys_devices) i = c"
    "substr (length sys_devices) (length (sys_devices @ c) - length sys_devices) h = c"
    unfolding ih(1,2) substr_def by simp_all
  ultimately show ?lhs
    unfolding compare_subsystem_device_paths_def using ih(3,4) by simp
qed

text \<open>The devices a scan finds: those listed whose properties were read and match.\<close>

definition scan_ok :: "udev_api \<Rightarrow> string \<Rightarrow> bool" where
  "scan_ok api sub_system \<longleftrightarrow>
     ud_new api \<and> ud_enumerate_new api \<and> 0 \<le> ud_add_match api sub_system \<and> 0 \<le> ud_scan api"

definition device_read :: "udev_api \<Rightarrow> string \<Rightarrow> bool \<Rightarrow> string \<Rightarrow> properties \<Rightarrow> bool" where
  "device_read api sub_system debug path props \<longleftrightarrow>
     scan_ok api sub_system \<and> Some path \<in> set (ud_entries api sub_system) \<and>
     (\<exists>entries. ud_device api path = Some entries \<and> props = fst (udev_device_properties debug entries))"

lemma params_match_iff: "params_match match_params props \<longleftrightarrow> (\<forall>(k, v) \<in> set match_params. map_of props k = Some v)"
  by (simp add: params_match_def list_all_iff)

text \<open>A scan reads a path to the same properties every time, so what it found stays a set of pairs.\<close>

definition read_as :: "udev_api \<Rightarrow> bool \<Rightarrow> (string \<times> string) list \<Rightarrow> string \<Rightarrow> properties \<Rightarrow> bool" where
  "read_as api debug match_params path props \<longleftrightarrow> params_match match_params props \<and>
     (\<exists>entries. ud_device api path = Some entries \<and> props = fst (udev_device_properties debug entries))"

lemma update_same_value:
  assumes "\<And>v. (k, v) \<in> set m \<Longrightarrow> v = w"
  shows "set (AList.update k w m) = insert (k, w) (set m)"
  using assms by (induction m) auto

lemma scan_entry_set:
  assumes "\<And>p props. (p, props) \<in> set (fst x) \<Longrightarrow> read_as api debug match_params p props"
  shows "set (fst (udev_scan_entry api debug match_params entry x)) =
      set (fst x) \<union> {(p, props). entry = Some p \<and> read_as api debug match_params p props}"
proof (cases "\<exists>p es. entry = Some p \<and> ud_device api p = Some es \<and> params_match match_params (fst (udev_device_properties debug es))")
  case True
  then obtain p es where p: "entry = Some p" "ud_device api p = Some es"
      "params_match match_params (fst (udev_device_properties debug es))" by blast
  define props where "props = fst (udev_device_properties debug es)"
  have "fst (udev_scan_entry api debug match_params entry x) = AList.update p props (fst x)"
    using p by (cases x; cases "udev_device_properties debug es") (simp add: udev_scan_entry_def props_def)
  moreover have "set (AList.update p props (fst x)) = insert (p, props) (set (fst x))"
  proof (rule update_same_value)
    fix v assume "(p, v) \<in> set (fst x)"
    then have "read_as api debug match_params p v" by (rule assms)
    with p(2) show "v = props" by (simp add: read_as_def props_def)
  qed
  moreover have "{(q, v). entry = Some q \<and> read_as api debug match_params q v} = {(p, props)}"
    using p by (auto simp: read_as_def props_def)
  ultimately show ?thesis by simp
next
  case False
  then have "fst (udev_scan_entry api debug match_params entry x) = fst x"
    by (cases x) (auto simp: udev_scan_entry_def split: option.split prod.split)
  with False show ?thesis by (auto simp: read_as_def)
qed

lemma scan_set:
  assumes "\<And>p props. (p, props) \<in> set (fst x) \<Longrightarrow> read_as api debug match_params p props"
  shows "set (fst (fold (udev_scan_entry api debug match_params) entries x)) =
      set (fst x) \<union> {(p, props). Some p \<in> set entries \<and> read_as api debug match_params p props}"
  using assms
proof (induction entries arbitrary: x)
  case (Cons e entries)
  have e: "set (fst (udev_scan_entry api debug match_params e x)) =
      set (fst x) \<union> {(p, props). e = Some p \<and> read_as api debug match_params p props}"
    by (rule scan_entry_set) (rule Cons.prems)
  have "read_as api debug match_params p props"
    if "(p, props) \<in> set (fst (udev_scan_entry api debug match_params e x))" for p props
    using that Cons.prems unfolding e by auto
  then have "set (fst (fold (udev_scan_entry api debug match_params) entries (udev_scan_entry api debug match_params e x))) =
      set (fst (udev_scan_entry api debug match_params e x)) \<union>
      {(p, props). Some p \<in> set entries \<and> read_as api debug match_params p props}"
    by (rule Cons.IH)
  then show ?case unfolding fold.simps comp_def e by auto
qed simp

lemma get_udev_properties_set:
  "set (fst (get_udev_properties api sub_system debug match_params)) =
     {(p, props). device_read api sub_system debug p props \<and> params_match match_params props}"
proof (cases "scan_ok api sub_system")
  case True
  then have "get_udev_properties api sub_system debug match_params =
      fold (udev_scan_entry api debug match_params) (ud_entries api sub_system) ([], [])"
    by (simp add: get_udev_properties_def scan_ok_def)
  then show ?thesis
    using True scan_set [of "([], [])" api debug match_params] by (auto simp: device_read_def read_as_def)
next
  case False
  then show ?thesis by (auto simp: get_udev_properties_def scan_ok_def device_read_def)
qed

text \<open>What a stored association comes from.\<close>

definition linked :: "string \<times> properties \<Rightarrow> string \<times> properties \<Rightarrow> string \<Rightarrow> string \<Rightarrow> bool" where
  "linked = (\<lambda>(ip, iprops) (hp, hprops) key node.
     fst (compare_subsystem_device_paths ip hp) \<and> map_of hprops ''DEVNAME'' = Some node \<and>
     (\<exists>serial. map_of iprops ''UNIQ'' = Some serial \<and> key = create_device_key_from_serial_number serial))"

lemma associate_linked: "linked i h key node \<Longrightarrow> hw_devices (associate i h s) = AList.update key node (hw_devices s)"
  by (cases i; cases h) (auto simp: associate_def linked_def Let_def split: prod.splits)

lemma associate_unlinked: "\<nexists>key node. linked i h key node \<Longrightarrow> hw_devices (associate i h s) = hw_devices s"
  by (cases i; cases h) (auto simp: associate_def linked_def Let_def split: prod.splits option.splits)

text \<open>After the loops: the keys are those of the linked pairs, and each has the node of one of them.\<close>

definition devices_from :: "((string \<times> properties) \<times> (string \<times> properties)) set \<Rightarrow> (string \<times> string) list \<Rightarrow> bool" where
  "devices_from pairs devs \<longleftrightarrow>
     (\<forall>key. (map_of devs key \<noteq> None) = (\<exists>(i, h) \<in> pairs. \<exists>node. linked i h key node)) \<and>
     (\<forall>key node. map_of devs key = Some node \<longrightarrow> (\<exists>(i, h) \<in> pairs. linked i h key node))"

lemma devices_from_associate:
  assumes "devices_from pairs (hw_devices s)"
  shows "devices_from (insert (i, h) pairs) (hw_devices (associate i h s))"
proof (cases "\<exists>key node. linked i h key node")
  case True
  then obtain key node where l: "linked i h key node" by blast
  then have "linked i h k n \<longleftrightarrow> k = key \<and> n = node" for k n by (cases i; cases h) (auto simp: linked_def)
  then show ?thesis
    using assms unfolding associate_linked [OF l] devices_from_def AList.update_conv
    by (simp add: split_beta) blast
next
  case False
  with assms show ?thesis by (simp add: associate_unlinked devices_from_def split_beta) blast
qed

lemma devices_from_inner:
  "devices_from pairs (hw_devices s) \<Longrightarrow>
     devices_from (pairs \<union> {i} \<times> set hids) (hw_devices (fold (associate i) hids s))"
proof (induction hids arbitrary: s pairs)
  case (Cons h hids)
  have "insert (i, h) pairs \<union> {i} \<times> set hids = pairs \<union> {i} \<times> set (h # hids)" by auto
  with Cons.IH [OF devices_from_associate [OF Cons.prems, of i h]] show ?case by simp
qed simp

lemma devices_from_fold:
  "devices_from pairs (hw_devices s) \<Longrightarrow>
     devices_from (pairs \<union> set inputs \<times> set hids) (hw_devices (fold (\<lambda>i. fold (associate i) hids) inputs s))"
proof (induction inputs arbitrary: s pairs)
  case (Cons i inputs)
  have "pairs \<union> {i} \<times> set hids \<union> set inputs \<times> set hids = pairs \<union> set (i # inputs) \<times> set hids" by auto
  with Cons.IH [OF devices_from_inner [OF Cons.prems, of i hids]] show ?case by simp
qed simp

lemma to_upper_colon: "to_upper c = CHR '':'' \<longleftrightarrow> c = CHR '':''"
proof -
  have "code_of (CHR '':'') = 58" by simp
  then show ?thesis
    unfolding code_of_eq_iff [symmetric] by (auto simp: code_of_to_upper split: if_splits)
qed

lemma strip_quotes_quoted: "strip_quotes (dquote # s @ [dquote]) = s"
  by (simp add: strip_quotes_def)

lemma strip_quotes_plain: "s = [] \<or> hd s \<noteq> dquote \<and> last s \<noteq> dquote \<Longrightarrow> strip_quotes s = s"
  by (auto simp: strip_quotes_def)

lemma to_lower_dquote: "to_lower c = dquote \<longleftrightarrow> c = dquote"
  unfolding code_of_eq_iff [symmetric] by (auto simp: code_of_to_lower split: if_splits)

section \<open>Properties\<close>

text \<open>
  an input node and a hidraw node are associated exactly when both sysfs paths are below
  \<open>/sys/devices/\<close> and agree up to their first \<open>/input\<close> and \<open>/hidraw\<close>, i.e. have the same
  parent device.
\<close>

theorem associated_iff_same_parent_device:
  "fst (compare_subsystem_device_paths i h) \<longleftrightarrow>
     (\<exists>c x y. i = sys_devices @ c @ ''/input'' @ x \<and> h = sys_devices @ c @ ''/hidraw'' @ y \<and>
        str_find ''/input'' i = Some (length (sys_devices @ c)) \<and>
        str_find ''/hidraw'' h = Some (length (sys_devices @ c)))"
  by (rule compare_same_parent)

text \<open>
  the key of a serial number does not depend on its case, nor on the quotes udev puts
  around it, and contains no colon, as in the object paths of BlueZ.
\<close>

theorem device_key_canonical:
  assumes "s = [] \<or> hd s \<noteq> dquote \<and> last s \<noteq> dquote"
  shows "create_device_key_from_serial_number (dquote # s @ [dquote]) = create_device_key_from_serial_number s \<and>
    create_device_key_from_serial_number (map to_lower s) = create_device_key_from_serial_number s \<and>
    create_device_key_from_serial_number (map to_upper s) = create_device_key_from_serial_number s \<and>
    CHR '':'' \<notin> set (create_device_key_from_serial_number s)"
proof -
  have up: "to_upper c = dquote \<longleftrightarrow> c = dquote" for c
    unfolding code_of_eq_iff [symmetric] by (auto simp: code_of_to_upper split: if_splits)
  have "map to_lower s = [] \<or> hd (map to_lower s) \<noteq> dquote \<and> last (map to_lower s) \<noteq> dquote"
    and "map to_upper s = [] \<or> hd (map to_upper s) \<noteq> dquote \<and> last (map to_upper s) \<noteq> dquote"
    using assms by (auto simp: hd_map last_map to_lower_dquote up)
  note plain = this [THEN strip_quotes_plain] assms [THEN strip_quotes_plain]
  have "CHR '':'' \<notin> set (create_device_key_from_serial_number s)"
    using replace_char_notin [of "CHR '':''" "CHR ''_''"]
    by (simp add: create_device_key_from_serial_number_def)
  then show ?thesis
    unfolding create_device_key_from_serial_number_def strip_quotes_quoted plain
    by (simp add: comp_def)
qed

lemma device_key_canonical_witness:
  "create_device_key_from_serial_number (dquote # ''a0:ab:51:5c'' @ [dquote]) = ''dev_A0_AB_51_5C'' \<and>
   CHR '':'' \<notin> set (create_device_key_from_serial_number ''a0:ab:51:5c'')"
proof
  have "create_device_key_from_serial_number ''a0:ab:51:5c'' = ''dev_A0_AB_51_5C''" by code_simp
  with device_key_canonical [of "''a0:ab:51:5c''"]
  show "create_device_key_from_serial_number (dquote # ''a0:ab:51:5c'' @ [dquote]) = ''dev_A0_AB_51_5C''"
    by simp
  show "CHR '':'' \<notin> set (create_device_key_from_serial_number ''a0:ab:51:5c'')"
    using device_key_canonical [of "''a0:ab:51:5c''"] by simp
qed

text \<open>
  C19: \<open>get_hidraw_devices\<close> returns false, with nothing left of an earlier scan, exactly when no
  input device that udev lists has all the values of the match parameters; otherwise it stores,
  under the key of its serial number, exactly the matching input devices with a serial number that
  have a named hidraw node below the same parent: both sysfs paths begin with \<open>/sys/devices/\<close> and
  agree up to the first \<open>/input\<close> of the one and the first \<open>/hidraw\<close> of the other. Every node stored
  is the one of such a pair.
\<close>

theorem get_hidraw_devices_correct:
  fixes s :: "'a hidraw_scheme" and api params
  defines "matching \<equiv> \<lambda>ip iprops. device_read api ''input'' False ip iprops \<and>
      (\<forall>(k, v) \<in> set params. map_of iprops k = Some v)"
    and "pair \<equiv> \<lambda>key node. \<exists>ip iprops hp hprops serial c x y.
      device_read api ''input'' False ip iprops \<and> (\<forall>(k, v) \<in> set params. map_of iprops k = Some v) \<and>
      device_read api ''hidraw'' False hp hprops \<and>
      map_of iprops ''UNIQ'' = Some serial \<and> map_of hprops ''DEVNAME'' = Some node \<and>
      key = create_device_key_from_serial_number serial \<and>
      ip = ''/sys/devices/'' @ c @ ''/input'' @ x \<and> hp = ''/sys/devices/'' @ c @ ''/hidraw'' @ y \<and>
      str_find ''/input'' ip = Some (length (''/sys/devices/'' @ c)) \<and>
      str_find ''/hidraw'' hp = Some (length (''/sys/devices/'' @ c))"
    and "found \<equiv> hw_devices (snd (get_hidraw_devices api params s))"
  shows "fst (get_hidraw_devices api params s) = (\<exists>ip iprops. matching ip iprops) \<and>
    (map_of found key \<noteq> None) = (\<exists>node. pair key node) \<and>
    (map_of found key = Some node \<longrightarrow> pair key node)"
proof -
  obtain inputs lg where i: "get_udev_properties api ''input'' False params = (inputs, lg)" by fastforce
  obtain hids lg' where h: "get_udev_properties api ''hidraw'' False [] = (hids, lg')" by fastforce
  have inputs: "set inputs = {(ip, iprops). matching ip iprops}"
    using get_udev_properties_set [of api "''input''" False params] by (simp add: i matching_def params_match_iff)
  have hids: "set hids = {(hp, hprops). device_read api ''hidraw'' False hp hprops}"
    using get_udev_properties_set [of api "''hidraw''" False "[]"] by (simp add: h params_match_iff)
  have pair: "pair key node \<longleftrightarrow> (\<exists>(i, h) \<in> set inputs \<times> set hids. linked i h key node)" for key node
    unfolding pair_def inputs hids linked_def compare_same_parent matching_def by fastforce
  have from_pairs: "devices_from (set inputs \<times> set hids) found"
  proof (cases "inputs = []")
    case True
    then show ?thesis by (simp add: found_def get_hidraw_devices_def Let_def i devices_from_def)
  next
    case False
    have "devices_from ({} \<union> set inputs \<times> set hids) (hw_devices (fold (\<lambda>i. fold (associate i) hids) inputs
        (add_logs lg' (add_logs lg (s\<lparr>hw_devices := []\<rparr>)))))"
      by (rule devices_from_fold) (simp add: devices_from_def)
    with False show ?thesis by (simp add: found_def get_hidraw_devices_def Let_def i h)
  qed
  have "fst (get_hidraw_devices api params s) = (inputs \<noteq> [])"
    by (simp add: get_hidraw_devices_def Let_def i h)
  also have "\<dots> = (\<exists>ip iprops. matching ip iprops)"
    unfolding set_empty [symmetric] inputs by auto
  finally show ?thesis using from_pairs unfolding devices_from_def pair by blast
qed

definition sample_udev :: udev_api where
  "sample_udev = \<lparr>ud_new = True, ud_enumerate_new = True, ud_add_match = (\<lambda>_. 0), ud_scan = 0,
     ud_entries = (\<lambda>sub. if sub = ''input'' then [Some ''/sys/devices/usb1/input/input7'', None]
                         else [Some ''/sys/devices/usb1/hidraw/hidraw2'']),
     ud_device = (\<lambda>path. if path = ''/sys/devices/usb1/input/input7''
                         then Some [(Some ''UNIQ'', Some ''a0:ab''), (None, None)]
                         else Some [(Some ''DEVNAME'', Some ''/dev/hidraw2'')])\<rparr>"

lemma get_hidraw_devices_correct_witness:
  "fst (get_hidraw_devices sample_udev [] \<lparr>log_of = [], hw_devices = []\<rparr>) \<and>
   (\<exists>hp hprops. device_read sample_udev ''hidraw'' False hp hprops \<and> map_of hprops ''DEVNAME'' = Some ''/dev/hidraw2'')"
proof
  show "fst (get_hidraw_devices sample_udev [] \<lparr>log_of = [], hw_devices = []\<rparr>)" by code_simp
  have "map_of (hw_devices (snd (get_hidraw_devices sample_udev [] \<lparr>log_of = [], hw_devices = []\<rparr>))) ''dev_A0_AB''
      = Some ''/dev/hidraw2''"
    by code_simp
  then show "\<exists>hp hprops. device_read sample_udev ''hidraw'' False hp hprops \<and>
      map_of hprops ''DEVNAME'' = Some ''/dev/hidraw2''"
    using get_hidraw_devices_correct [of sample_udev "[]" "\<lparr>log_of = [], hw_devices = []\<rparr>" "''dev_A0_AB''" "''/dev/hidraw2''"]
    by blast
qed

end
