(* ===== verification/Packed.thy ===== *)
theory Packed
  imports Prelude
begin

text \<open>
  The packed C structs of the device headers (\<open>#pragma pack(push, 1)\<close>, bit-fields, little
  endian): a struct is the list of its members with their types, a value of it is its bytes,
  and a member is read at its bit offset. Bit-fields fill each byte from the least
  significant bit, and a member of several bytes has its least significant byte first, so a
  member is a slice of the number the bytes spell in base 256. The locale \<open>packed_struct\<close> has
  the laws of a well-formed layout; each struct of the headers is an instance of it.
\<close>

section \<open>Layouts\<close>

text \<open>Unsigned and signed members by their width in bits, and arrays of bytes.\<close>

datatype ctype = UInt nat | SInt nat | ByteArr nat

type_synonym layout = "(string \<times> ctype) list"

fun cbits :: "ctype \<Rightarrow> nat" where
  "cbits (UInt w) = w"
| "cbits (SInt w) = w"
| "cbits (ByteArr n) = 8 * n"

text \<open>A struct as a member of another.\<close>

definition nest :: "string \<Rightarrow> layout \<Rightarrow> layout" where
  "nest pre L = map (\<lambda>(f, t). (pre @ f, t)) L"

definition layout_bits :: "layout \<Rightarrow> nat" where
  "layout_bits L = sum_list (map (cbits \<circ> snd) L)"

definition sizeof_struct :: "layout \<Rightarrow> nat" where
  "sizeof_struct L = layout_bits L div 8"

fun offset :: "layout \<Rightarrow> string \<Rightarrow> nat" where
  "offset [] f = 0"
| "offset ((g, t) # L) f = (if g = f then 0 else cbits t + offset L f)"

definition width :: "layout \<Rightarrow> string \<Rightarrow> nat" where
  "width L f = (case map_of L f of None \<Rightarrow> 0 | Some t \<Rightarrow> cbits t)"

section \<open>Bytes and members\<close>

fun bytes_nat :: "u8 list \<Rightarrow> nat" where
  "bytes_nat [] = 0"
| "bytes_nat (b # bs) = unat b + 256 * bytes_nat bs"

definition bits_at :: "nat \<Rightarrow> nat \<Rightarrow> nat \<Rightarrow> nat" where
  "bits_at n off w = n div 2 ^ off mod 2 ^ w"

text \<open>Reading a member: its bits, as an unsigned or two's complement number or as bytes.\<close>

definition fld :: "layout \<Rightarrow> string \<Rightarrow> u8 list \<Rightarrow> nat" where
  "fld L f bs = bits_at (bytes_nat bs) (offset L f) (width L f)"

definition sfld :: "layout \<Rightarrow> string \<Rightarrow> u8 list \<Rightarrow> int" where
  "sfld L f bs =
     (let v = fld L f bs; w = width L f
      in if 2 * v < 2 ^ w then int v else int v - 2 ^ w)"

definition bfld :: "layout \<Rightarrow> string \<Rightarrow> u8 list \<Rightarrow> u8 list" where
  "bfld L f bs = take (width L f div 8) (drop (offset L f div 8) bs)"

text \<open>\<open>std::memcpy(&s, buf, std::min(sizeof(s), n))\<close> into a zeroed struct.\<close>

definition memcpy_zeroed :: "nat \<Rightarrow> u8 list \<Rightarrow> nat \<Rightarrow> u8 list" where
  "memcpy_zeroed sz buf n = take (min sz n) buf @ replicate (sz - min sz n) 0"

section \<open>Lemmas\<close>

lemma layout_bits_simps [simp]:
  "layout_bits [] = 0" "layout_bits ((f, t) # L) = cbits t + layout_bits L"
  "layout_bits (L @ M) = layout_bits L + layout_bits M" "layout_bits (nest pre L) = layout_bits L"
  by (simp_all add: layout_bits_def nest_def comp_def case_prod_beta)

lemma bytes_nat_less: "bytes_nat bs < 256 ^ length bs"
proof (induction bs)
  case (Cons b bs)
  have "unat b < 256" by (rule unat_u8_less)
  with Cons.IH show ?case by simp
qed simp

lemma offset_width_le: "f \<in> fst ` set L \<Longrightarrow> offset L f + width L f \<le> layout_bits L"
proof (induction L)
  case (Cons ft L)
  obtain g t where "ft = (g, t)" by fastforce
  with Cons show ?case by (cases "g = f") (auto simp: width_def)
qed simp

lemma fld_less: "fld L f bs < 2 ^ width L f"
  by (simp add: fld_def bits_at_def)

lemma sfld_bounds:
  assumes "width L f = Suc w"
  shows "- (2 ^ w) \<le> sfld L f bs" and "sfld L f bs < 2 ^ w"
proof -
  have "int (fld L f bs) < 2 * 2 ^ w" using fld_less [of L f bs] assms
    by (metis of_nat_less_iff of_nat_numeral of_nat_power power_Suc)
  moreover have "2 * fld L f bs < 2 * 2 ^ w \<longleftrightarrow> int (fld L f bs) < 2 ^ w"
    by (metis mult_less_cancel1 nat_less_le of_nat_less_iff of_nat_numeral of_nat_power zero_less_numeral)
  ultimately show "- (2 ^ w) \<le> sfld L f bs" and "sfld L f bs < 2 ^ w"
    by (auto simp: sfld_def Let_def assms)
qed

lemma bytes_nat_nth: "i < length bs \<Longrightarrow> bytes_nat bs div 256 ^ i mod 256 = unat (bs ! i)"
proof (induction bs arbitrary: i)
  case (Cons b bs)
  have b: "unat b < 256" by (rule unat_u8_less)
  show ?case
  proof (cases i)
    case (Suc j)
    have "bytes_nat (b # bs) div 256 ^ i = bytes_nat (b # bs) div 256 div 256 ^ j"
      by (simp add: Suc div_mult2_eq)
    also have "\<dots> = bytes_nat bs div 256 ^ j" using b by simp
    finally show ?thesis using Cons Suc by simp
  qed (use b in simp)
qed simp

text \<open>The byte at a position, zero past the end, and members of one or two bytes in terms of them.\<close>

definition byte_at :: "u8 list \<Rightarrow> nat \<Rightarrow> nat" where
  "byte_at bs i = (if i < length bs then unat (bs ! i) else 0)"

lemma byte_at_less: "byte_at bs i < 256"
  by (simp add: byte_at_def unat_u8_less)

lemma byte_at_nat: "byte_at bs i = bytes_nat bs div 256 ^ i mod 256"
proof (cases "i < length bs")
  case True
  then show ?thesis by (simp add: byte_at_def bytes_nat_nth)
next
  case False
  then have "(256::nat) ^ length bs \<le> 256 ^ i" by simp
  with bytes_nat_less [of bs] have "bytes_nat bs < 256 ^ i" by (rule less_le_trans)
  then have "bytes_nat bs div 256 ^ i = 0" by simp
  with False show ?thesis by (simp add: byte_at_def)
qed

lemma bits_within_byte:
  assumes "j + w \<le> 8"
  shows "bits_at (bytes_nat bs) (8 * i + j) w = byte_at bs i div 2 ^ j mod 2 ^ w"
proof -
  let ?m = "bytes_nat bs div 256 ^ i"
  have "bits_at (bytes_nat bs) (8 * i + j) w = ?m div 2 ^ j mod 2 ^ w"
    by (simp add: bits_at_def power_add power_mult div_mult2_eq)
  also have "\<dots> = take_bit w (drop_bit j ?m)" by (simp add: take_bit_eq_mod drop_bit_eq_div)
  also have "\<dots> = take_bit w (drop_bit j (take_bit 8 ?m))"
    using assms by (simp add: drop_bit_take_bit min_def)
  also have "\<dots> = byte_at bs i div 2 ^ j mod 2 ^ w"
    by (simp add: take_bit_eq_mod drop_bit_eq_div byte_at_nat)
  finally show ?thesis .
qed

lemma bits_over_two_bytes:
  assumes "v \<le> 8"
  shows "bits_at (bytes_nat bs) (8 * i) (8 + v) = byte_at bs i + 256 * (byte_at bs (i + 1) mod 2 ^ v)"
proof -
  let ?m = "bytes_nat bs div 256 ^ i"
  have "bits_at (bytes_nat bs) (8 * i) (8 + v) = ?m mod (256 * 2 ^ v)"
    by (simp add: bits_at_def power_add power_mult)
  also have "\<dots> = 256 * (?m div 256 mod 2 ^ v) + ?m mod 256" by (rule mod_mult2_eq)
  also have "?m div 256 mod 2 ^ v = take_bit v (take_bit 8 (?m div 256))"
    using assms by (simp add: min_def flip: take_bit_eq_mod)
  also have "\<dots> = byte_at bs (i + 1) mod 2 ^ v"
    by (simp add: byte_at_nat take_bit_eq_mod div_mult2_eq mult.commute flip: div_mult2_eq)
  finally show ?thesis by (simp add: byte_at_nat)
qed

lemma byte_at_memcpy:
  assumes "sz \<le> cap"
  shows "byte_at (memcpy_zeroed sz (memcpy_zeroed cap bs (min cap (length bs))) (min cap (length bs))) i =
    (if i < sz then byte_at bs i else 0)"
  using assms by (auto simp: byte_at_def memcpy_zeroed_def nth_append min_def)

text \<open>A member of one byte is that byte of the struct.\<close>

lemma fld_byte:
  assumes "offset L f = 8 * i" "width L f = 8" "i < length bs"
  shows "fld L f bs = unat (bs ! i)"
  using bytes_nat_nth [OF assms(3)] by (simp add: fld_def bits_at_def assms(1,2) power_mult)

lemma length_memcpy_zeroed:
  "n \<le> length buf \<Longrightarrow> length (memcpy_zeroed sz buf n) = sz"
  by (simp add: memcpy_zeroed_def)

text \<open>
  Member names as numbers, on which it is quick to see that the names of a struct differ.
\<close>

fun name_code :: "string \<Rightarrow> nat" where
  "name_code [] = 1"
| "name_code (c # cs) = of_char c + 256 * name_code cs"

lemma name_code_pos: "0 < name_code s"
  by (induction s) auto

lemma name_code_inject: "name_code s = name_code t \<Longrightarrow> s = t"
proof (induction s arbitrary: t)
  case Nil
  then show ?case
  proof (cases t)
    case (Cons c cs)
    with Nil name_code_pos [of cs] show ?thesis by simp
  qed simp
next
  case (Cons c cs)
  show ?case
  proof (cases t)
    case Nil
    with Cons.prems name_code_pos [of cs] show ?thesis by simp
  next
    case (Cons d ds)
    have eq: "code_of c + 256 * name_code cs = code_of d + 256 * name_code ds"
      using Cons.prems Cons by simp
    have "code_of c = (code_of c + 256 * name_code cs) mod 256"
      and "code_of d = (code_of d + 256 * name_code ds) mod 256" using code_of_less by simp_all
    with eq have c: "code_of c = code_of d" by simp
    with eq have "name_code cs = name_code ds" by simp
    with c Cons.IH show ?thesis using \<open>t = d # ds\<close> by (simp add: code_of_eq_iff)
  qed
qed

lemma distinct_names: "distinct (map (\<lambda>m. name_code (fst m)) L) \<Longrightarrow> distinct (map fst L)"
  by (induction L) (auto dest: name_code_inject simp: image_iff)

section \<open>The laws of a well-formed layout\<close>

lemma offsets_disjoint:
  "f \<in> fst ` set L \<Longrightarrow> g \<in> fst ` set L \<Longrightarrow> f \<noteq> g \<Longrightarrow>
     offset L f + width L f \<le> offset L g \<or> offset L g + width L g \<le> offset L f"
proof (induction L)
  case (Cons ft L)
  obtain h t where h: "ft = (h, t)" by fastforce
  have tail: "width (ft # L) x = width L x" "offset (ft # L) x = cbits t + offset L x" if "x \<noteq> h" for x
    using that by (simp_all add: h width_def)
  have head: "offset (ft # L) h + width (ft # L) h = cbits t" by (simp add: h width_def)
  consider "f = h" "g \<noteq> h" | "g = h" "f \<noteq> h" | "f \<noteq> h" "g \<noteq> h" using Cons.prems(3) by blast
  then show ?case
  proof cases
    case 3
    then have "f \<in> fst ` set L" "g \<in> fst ` set L" using Cons.prems by (auto simp: h)
    with 3 Cons show ?thesis by (auto simp: tail)
  qed (use head tail in simp_all)
qed simp

locale packed_struct =
  fixes L :: layout and sz :: nat
  assumes names: "distinct (map fst L)"
    and whole_bytes: "layout_bits L = 8 * sz"
begin

lemma sizeof: "sizeof_struct L = sz"
  by (simp add: sizeof_struct_def whole_bytes)

text \<open>Every member lies inside the bytes of the struct, and no two share a bit.\<close>

lemma inside: "f \<in> fst ` set L \<Longrightarrow> offset L f + width L f \<le> 8 * sz"
  using offset_width_le [of f L] by (simp add: whole_bytes)

lemma disjoint:
  "f \<in> fst ` set L \<Longrightarrow> g \<in> fst ` set L \<Longrightarrow> f \<noteq> g \<Longrightarrow>
     offset L f + width L f \<le> offset L g \<or> offset L g + width L g \<le> offset L f"
  by (rule offsets_disjoint)

text \<open>The type of a member is the one declared with its name.\<close>

lemma declared_width: "(f, t) \<in> set L \<Longrightarrow> width L f = cbits t"
  using names by (simp add: width_def)

end

end
