(* ===== verification/Hid_Reports.thy ===== *)
theory Hid_Reports
  imports Packed
begin

text \<open>
  The report structs of the three controller headers, member by member:
  \<open>ps5_dual_sense/dual_sense_0ce6.h\<close>, \<open>horipad_steam/horipad_stream_01ab_0196.h\<close> and
  \<open>xbox_controller/xbox_controller_02fd.h\<close> under \<open>src/bluez\<close>. A union of the data of a report
  with its checksummed form (\<open>BTCRC<n>\<close>, \<open>n\<close> bytes) is the layout of the data and a size, the
  larger of the two. Every layout is then shown well-formed and its size computed.
\<close>

section \<open>Enumerations of the DualSense reports\<close>

datatype Direction = North | NorthEast | East | SouthEast | South | SouthWest | West | NorthWest | DirNone

definition direction_of :: "nat \<Rightarrow> Direction option" where
  "direction_of n =
     (if n = 0 then Some North else if n = 1 then Some NorthEast else if n = 2 then Some East
      else if n = 3 then Some SouthEast else if n = 4 then Some South else if n = 5 then Some SouthWest
      else if n = 6 then Some West else if n = 7 then Some NorthWest else if n = 8 then Some DirNone
      else None)"

datatype PowerState = Discharging | Charging | Complete | AbnormalVoltage | AbnormalTemperature
  | ChargingError

definition power_state_of :: "nat \<Rightarrow> PowerState option" where
  "power_state_of n =
     (if n = 0 then Some Discharging else if n = 1 then Some Charging else if n = 2 then Some Complete
      else if n = 0x0A then Some AbnormalVoltage else if n = 0x0B then Some AbnormalTemperature
      else if n = 0x0F then Some ChargingError else None)"

datatype MuteLight = MuteOff | MuteOn | Breathing | DoNothing | MuteNoAction4 | MuteNoAction5
  | MuteNoAction6 | MuteNoAction7

definition mute_light_of :: "nat \<Rightarrow> MuteLight option" where
  "mute_light_of n =
     (if n < 8 then Some ([MuteOff, MuteOn, Breathing, DoNothing, MuteNoAction4, MuteNoAction5,
                           MuteNoAction6, MuteNoAction7] ! n) else None)"

datatype LightBrightness = Bright | Mid | Dim | LightNoAction3 | LightNoAction4 | LightNoAction5
  | LightNoAction6 | LightNoAction7

definition light_brightness_of :: "nat \<Rightarrow> LightBrightness option" where
  "light_brightness_of n =
     (if n < 8 then Some ([Bright, Mid, Dim, LightNoAction3, LightNoAction4, LightNoAction5,
                           LightNoAction6, LightNoAction7] ! n) else None)"

datatype LightFadeAnimation = FadeNothing | FadeIn | FadeOut

definition light_fade_animation_of :: "nat \<Rightarrow> LightFadeAnimation option" where
  "light_fade_animation_of n =
     (if n = 0 then Some FadeNothing else if n = 1 then Some FadeIn else if n = 2 then Some FadeOut
      else None)"

section \<open>DualSense reports\<close>

definition featureReport05_t :: layout where
  "featureReport05_t =
     [(''reportId'', UInt 8), (''VEN_Gamepad0033'', ByteArr 40)]"

definition featureReport08_t :: layout where
  "featureReport08_t =
     [(''reportId'', UInt 8), (''VEN_Gamepad0034'', ByteArr 47)]"

definition featureReport09_t :: layout where
  "featureReport09_t =
     [(''reportId'', UInt 8), (''VEN_Gamepad0024'', ByteArr 19)]"

definition featureReport0A_t :: layout where
  "featureReport0A_t =
     [(''reportId'', UInt 8), (''VEN_Gamepad0025'', ByteArr 26)]"

definition featureReport20_t :: layout where
  "featureReport20_t =
     [(''reportId'', UInt 8), (''VEN_Gamepad0026'', ByteArr 63)]"

definition featureReport21_t :: layout where
  "featureReport21_t =
     [(''reportId'', UInt 8), (''VEN_Gamepad0027'', ByteArr 4)]"

definition featureReport22_t :: layout where
  "featureReport22_t =
     [(''reportId'', UInt 8), (''VEN_Gamepad0040'', ByteArr 63)]"

definition featureReport80_t :: layout where
  "featureReport80_t =
     [(''reportId'', UInt 8), (''VEN_Gamepad0028'', ByteArr 63)]"

definition featureReport81_t :: layout where
  "featureReport81_t =
     [(''reportId'', UInt 8), (''VEN_Gamepad0029'', ByteArr 63)]"

definition featureReport82_t :: layout where
  "featureReport82_t =
     [(''reportId'', UInt 8), (''VEN_Gamepad002A'', ByteArr 9)]"

definition featureReport83_t :: layout where
  "featureReport83_t =
     [(''reportId'', UInt 8), (''VEN_Gamepad002B'', ByteArr 63)]"

definition featureReport84_t :: layout where
  "featureReport84_t =
     [(''reportId'', UInt 8), (''VEN_Gamepad002C'', ByteArr 63)]"

definition featureReport85_t :: layout where
  "featureReport85_t =
     [(''reportId'', UInt 8), (''VEN_Gamepad002D'', ByteArr 2)]"

definition featureReportA0_t :: layout where
  "featureReportA0_t =
     [(''reportId'', UInt 8), (''VEN_Gamepad002E'', UInt 8)]"

definition featureReportE0_t :: layout where
  "featureReportE0_t =
     [(''reportId'', UInt 8), (''VEN_Gamepad002F'', ByteArr 63)]"

definition featureReportF0_t :: layout where
  "featureReportF0_t =
     [(''reportId'', UInt 8), (''VEN_Gamepad0030'', ByteArr 63)]"

definition featureReportF1_t :: layout where
  "featureReportF1_t =
     [(''reportId'', UInt 8), (''VEN_Gamepad0031'', ByteArr 63)]"

definition featureReportF2_t :: layout where
  "featureReportF2_t =
     [(''reportId'', UInt 8), (''VEN_Gamepad0032'', ByteArr 15)]"

definition featureReportF4_t :: layout where
  "featureReportF4_t =
     [(''reportId'', UInt 8), (''VEN_Gamepad0035'', ByteArr 63)]"

definition featureReportF5_t :: layout where
  "featureReportF5_t =
     [(''reportId'', UInt 8), (''VEN_Gamepad0036'', ByteArr 3)]"

definition ps5_inputReport01_t :: layout where
  "ps5_inputReport01_t =
     [(''reportId'', UInt 8), (''GD_GamepadX'', UInt 8), (''GD_GamepadY'', UInt 8),
      (''GD_GamepadZ'', UInt 8), (''GD_GamepadRz'', UInt 8), (''GD_GamepadRx'', UInt 8),
      (''GD_GamepadRy'', UInt 8), (''VEN_Gamepad0020'', UInt 8), (''GD_GamepadHatSwitch'', UInt 4),
      (''BTN_GamepadButton1'', UInt 1), (''BTN_GamepadButton2'', UInt 1),
      (''BTN_GamepadButton3'', UInt 1), (''BTN_GamepadButton4'', UInt 1),
      (''BTN_GamepadButton5'', UInt 1), (''BTN_GamepadButton6'', UInt 1),
      (''BTN_GamepadButton7'', UInt 1), (''BTN_GamepadButton8'', UInt 1),
      (''BTN_GamepadButton9'', UInt 1), (''BTN_GamepadButton10'', UInt 1),
      (''BTN_GamepadButton11'', UInt 1), (''BTN_GamepadButton12'', UInt 1),
      (''BTN_GamepadButton13'', UInt 1), (''BTN_GamepadButton14'', UInt 1),
      (''BTN_GamepadButton15'', UInt 1), (''VEN_Gamepad0021'', UInt 1),
      (''VEN_Gamepad00211'', UInt 1), (''VEN_Gamepad00212'', UInt 1), (''VEN_Gamepad00213'', UInt 1),
      (''VEN_Gamepad00214'', UInt 1), (''VEN_Gamepad00215'', UInt 1), (''VEN_Gamepad00216'', UInt 1),
      (''VEN_Gamepad00217'', UInt 1), (''VEN_Gamepad00218'', UInt 1), (''VEN_Gamepad00219'', UInt 1),
      (''VEN_Gamepad002110'', UInt 1), (''VEN_Gamepad002111'', UInt 1),
      (''VEN_Gamepad002112'', UInt 1), (''VEN_Gamepad0022'', ByteArr 52)]"

definition outputReport02_t :: layout where
  "outputReport02_t =
     [(''reportId'', UInt 8), (''VEN_Gamepad0023'', ByteArr 47)]"

definition BTCRC :: "nat \<Rightarrow> layout" where
  "BTCRC n = [(''Buff'', ByteArr (n - 4)), (''CRC'', UInt 32)]"

definition TouchFingerData :: layout where
  "TouchFingerData =
     [(''Index'', UInt 7), (''NotTouching'', UInt 1), (''FingerX'', UInt 12), (''FingerY'', UInt 12)]"

definition TouchData :: layout where
  "TouchData =
     nest ''Finger[0].'' TouchFingerData @
     nest ''Finger[1].'' TouchFingerData @
     [(''Timestamp'', UInt 8)]"

definition BTSimpleGetStateData :: layout where
  "BTSimpleGetStateData =
     [(''LeftStickX'', UInt 8), (''LeftStickY'', UInt 8), (''RightStickX'', UInt 8),
      (''RightStickY'', UInt 8), (''DPad'', UInt 4), (''ButtonSquare'', UInt 1),
      (''ButtonCross'', UInt 1), (''ButtonCircle'', UInt 1), (''ButtonTriangle'', UInt 1),
      (''ButtonL1'', UInt 1), (''ButtonR1'', UInt 1), (''ButtonL2'', UInt 1), (''ButtonR2'', UInt 1),
      (''ButtonShare'', UInt 1), (''ButtonOptions'', UInt 1), (''ButtonL3'', UInt 1),
      (''ButtonR3'', UInt 1), (''ButtonHome'', UInt 1), (''ButtonPad'', UInt 1),
      (''Counter'', UInt 6), (''TriggerLeft'', UInt 8), (''TriggerRight'', UInt 8)]"

definition USBGetStateData :: layout where
  "USBGetStateData =
     [(''LeftStickX'', UInt 8), (''LeftStickY'', UInt 8), (''RightStickX'', UInt 8),
      (''RightStickY'', UInt 8), (''TriggerLeft'', UInt 8), (''TriggerRight'', UInt 8),
      (''SeqNo'', UInt 8), (''DPad'', UInt 4), (''ButtonSquare'', UInt 1), (''ButtonCross'', UInt 1),
      (''ButtonCircle'', UInt 1), (''ButtonTriangle'', UInt 1), (''ButtonL1'', UInt 1),
      (''ButtonR1'', UInt 1), (''ButtonL2'', UInt 1), (''ButtonR2'', UInt 1),
      (''ButtonCreate'', UInt 1), (''ButtonOptions'', UInt 1), (''ButtonL3'', UInt 1),
      (''ButtonR3'', UInt 1), (''ButtonHome'', UInt 1), (''ButtonPad'', UInt 1),
      (''ButtonMute'', UInt 1), (''UNK1'', UInt 1), (''ButtonLeftFunction'', UInt 1),
      (''ButtonRightFunction'', UInt 1), (''ButtonLeftPaddle'', UInt 1),
      (''ButtonRightPaddle'', UInt 1), (''UNK2'', UInt 8), (''TimeStamp'', UInt 32),
      (''AngularVelocityX'', SInt 16), (''AngularVelocityZ'', SInt 16),
      (''AngularVelocityY'', SInt 16), (''AccelerometerX'', SInt 16), (''AccelerometerY'', SInt 16),
      (''AccelerometerZ'', SInt 16), (''SensorTimestamp'', UInt 32), (''Temperature'', SInt 8)] @
     nest ''touchData.'' TouchData @
     [(''TriggerRightStopLocation'', UInt 4), (''TriggerRightStatus'', UInt 4),
      (''TriggerLeftStopLocation'', UInt 4), (''TriggerLeftStatus'', UInt 4),
      (''HostTimestamp'', UInt 32), (''TriggerRightEffect'', UInt 4),
      (''TriggerLeftEffect'', UInt 4), (''DeviceTimeStamp'', UInt 32), (''PowerPercent'', UInt 4),
      (''powerState'', UInt 4), (''PluggedHeadphones'', UInt 1), (''PluggedMic'', UInt 1),
      (''MicMuted'', UInt 1), (''PluggedUsbData'', UInt 1), (''PluggedUsbPower'', UInt 1),
      (''PluggedUnk1'', UInt 3), (''PluggedExternalMic'', UInt 1), (''HapticLowPassFilter'', UInt 1),
      (''PluggedUnk3'', UInt 6), (''AesCmac'', ByteArr 5), (''crc'', ByteArr 4)]"

definition BTGetStateData :: layout where
  "BTGetStateData =
     nest ''StateData.'' USBGetStateData @
     [(''UNK1'', UInt 8), (''BtCrcFailCount'', UInt 8), (''Pad'', ByteArr 11)]"

definition ReportIn01USB :: layout where
  "ReportIn01USB =
     [(''ReportID'', UInt 8)] @
     nest ''State.'' USBGetStateData"

definition ReportIn01BT :: layout where
  "ReportIn01BT =
     [(''ReportID'', UInt 8)] @
     nest ''State.'' BTSimpleGetStateData"

definition ReportIn31 :: layout where
  "ReportIn31 =
     [(''ReportID'', UInt 8), (''HasHID'', UInt 1), (''HasMic'', UInt 1), (''Unk1'', UInt 2),
      (''SeqNo'', UInt 4)] @
     nest ''State.'' BTGetStateData"

definition ReportIn31_size :: nat where
  "ReportIn31_size = max 78 (sizeof_struct ReportIn31)"

definition SetStateData :: layout where
  "SetStateData =
     [(''EnableRumbleEmulation'', UInt 1), (''UseRumbleNotHaptics'', UInt 1),
      (''AllowRightTriggerFFB'', UInt 1), (''AllowLeftTriggerFFB'', UInt 1),
      (''AllowHeadphoneVolume'', UInt 1), (''AllowSpeakerVolume'', UInt 1),
      (''AllowMicVolume'', UInt 1), (''AllowAudioControl'', UInt 1), (''AllowMuteLight'', UInt 1),
      (''AllowAudioMute'', UInt 1), (''AllowLedColor'', UInt 1), (''ResetLights'', UInt 1),
      (''AllowPlayerIndicators'', UInt 1), (''AllowHapticLowPassFilter'', UInt 1),
      (''AllowMotorPowerLevel'', UInt 1), (''AllowAudioControl2'', UInt 1),
      (''RumbleEmulationRight'', UInt 8), (''RumbleEmulationLeft'', UInt 8),
      (''VolumeHeadphones'', UInt 8), (''VolumeSpeaker'', UInt 8), (''VolumeMic'', UInt 8),
      (''MicSelect'', UInt 2), (''EchoCancelEnable'', UInt 1), (''NoiseCancelEnable'', UInt 1),
      (''OutputPathSelect'', UInt 2), (''InputPathSelect'', UInt 2), (''MuteLightMode'', UInt 8),
      (''TouchPowerSave'', UInt 1), (''MotionPowerSave'', UInt 1), (''HapticPowerSave'', UInt 1),
      (''AudioPowerSave'', UInt 1), (''MicMute'', UInt 1), (''SpeakerMute'', UInt 1),
      (''HeadphoneMute'', UInt 1), (''HapticMute'', UInt 1), (''RightTriggerFFB'', ByteArr 11),
      (''LeftTriggerFFB'', ByteArr 11), (''HostTimestamp'', UInt 32),
      (''TriggerMotorPowerReduction'', UInt 4), (''RumbleMotorPowerReduction'', UInt 4),
      (''SpeakerCompPreGain'', UInt 3), (''BeamformingEnable'', UInt 1),
      (''UnkAudioControl2'', UInt 4), (''AllowLightBrightnessChange'', UInt 1),
      (''AllowColorLightFadeAnimation'', UInt 1), (''EnableImprovedRumbleEmulation'', UInt 1),
      (''UNKBITC'', UInt 5), (''HapticLowPassFilter'', UInt 1), (''UNKBIT'', UInt 7),
      (''UNKBYTE'', UInt 8), (''lightFadeAnimation'', UInt 8), (''lightBrightness'', UInt 8),
      (''PlayerLight1'', UInt 1), (''PlayerLight2'', UInt 1), (''PlayerLight3'', UInt 1),
      (''PlayerLight4'', UInt 1), (''PlayerLight5'', UInt 1), (''PlayerLightFade'', UInt 1),
      (''PlayerLightUNK'', UInt 2), (''LedRed'', UInt 8), (''LedGreen'', UInt 8),
      (''LedBlue'', UInt 8)]"

definition ReportOut31 :: layout where
  "ReportOut31 =
     [(''ReportID'', UInt 8), (''UNK1'', UInt 1), (''EnableHID'', UInt 1), (''UNK2'', UInt 1),
      (''UNK3'', UInt 1), (''SeqNo'', UInt 4)] @
     nest ''State.'' SetStateData"

definition ReportOut31_size :: nat where
  "ReportOut31_size = max 78 (sizeof_struct ReportOut31)"

definition ReportFeatureCalibrationData :: layout where
  "ReportFeatureCalibrationData =
     [(''ReportID'', UInt 8), (''gyro.pitch_bias'', UInt 16), (''gyro.yaw_bias'', UInt 16),
      (''gyro.roll_bias'', UInt 16), (''gyro.pitch_plus'', UInt 16), (''gyro.pitch_minus'', UInt 16),
      (''gyro.yaw_plus'', UInt 16), (''gyro.yaw_minus'', UInt 16), (''gyro.roll_plus'', UInt 16),
      (''gyro.roll_minus'', UInt 16), (''gyro.speed_plus'', UInt 16),
      (''gyro.speed_minus'', UInt 16), (''acc.x_plus'', UInt 16), (''acc.x_minus'', UInt 16),
      (''acc.y_plus'', UInt 16), (''acc.y_minus'', UInt 16), (''acc.z_plus'', UInt 16),
      (''acc.z_minus'', UInt 16), (''Unknown'', SInt 16)]"

definition ReportFeatureCalibrationData_size :: nat where
  "ReportFeatureCalibrationData_size = max 41 (sizeof_struct ReportFeatureCalibrationData)"

definition ReportFeatureInMacAll :: layout where
  "ReportFeatureInMacAll =
     [(''ReportID'', UInt 8), (''ClientMac'', ByteArr 6), (''Hard08'', UInt 8), (''Hard25'', UInt 8),
      (''Hard00'', UInt 8), (''HostMac'', ByteArr 6), (''Pad'', ByteArr 3)]"

definition ReportFeatureInVersion :: layout where
  "ReportFeatureInVersion =
     [(''ReportID'', UInt 8), (''BuildDate'', ByteArr 11), (''BuildTime'', ByteArr 8),
      (''FwType'', UInt 16), (''SwSeries'', UInt 16), (''HardwareInfo'', UInt 32),
      (''FirmwareVersion'', UInt 32), (''DeviceInfo'', ByteArr 12), (''UpdateVersion'', UInt 16),
      (''UpdateImageInfo'', SInt 8), (''UpdateUnk'', SInt 8), (''SblFwVersion'', UInt 32),
      (''VenomFwVersion'', UInt 32), (''SpiderDspFwVersion'', UInt 32)]"

definition ReportFeatureInVersion_size :: nat where
  "ReportFeatureInVersion_size = max 64 (sizeof_struct ReportFeatureInVersion)"

section \<open>HoriPad Steam reports\<close>

definition horipad_inputReport07_t :: layout where
  "horipad_inputReport07_t =
     [(''reportId'', UInt 8), (''GD_GamepadX'', UInt 8), (''GD_GamepadY'', UInt 8),
      (''GD_GamepadZ'', UInt 8), (''GD_GamepadRz'', UInt 8), (''GD_GamepadHatSwitch'', UInt 4),
      (''BTN_GamepadButton1'', UInt 1), (''BTN_GamepadButton2'', UInt 1),
      (''BTN_GamepadButton3'', UInt 1), (''BTN_GamepadButton4'', UInt 1),
      (''BTN_GamepadButton5'', UInt 1), (''BTN_GamepadButton6'', UInt 1),
      (''BTN_GamepadButton7'', UInt 1), (''BTN_GamepadButton8'', UInt 1),
      (''BTN_GamepadButton9'', UInt 1), (''BTN_GamepadButton10'', UInt 1),
      (''BTN_GamepadButton11'', UInt 1), (''BTN_GamepadButton12'', UInt 1),
      (''BTN_GamepadButton13'', UInt 1), (''BTN_GamepadButton14'', UInt 1),
      (''BTN_GamepadButton15'', UInt 1), (''BTN_GamepadButton16'', UInt 1),
      (''BTN_GamepadButton17'', UInt 1), (''BTN_GamepadButton18'', UInt 1),
      (''BTN_GamepadButton19'', UInt 1), (''BTN_GamepadButton20'', UInt 1),
      (''SIM_GamepadAccelerator'', UInt 8), (''SIM_GamepadBrake'', UInt 8),
      (''VEN_Gamepad0020'', ByteArr 38)]"

definition horipad_inputReport12_t :: layout where
  "horipad_inputReport12_t =
     [(''reportId'', UInt 8), (''VEN_Gamepad0022'', ByteArr 63)]"

definition horipad_inputReport14_t :: layout where
  "horipad_inputReport14_t =
     [(''reportId'', UInt 8), (''VEN_Gamepad0026'', ByteArr 63)]"

definition horipad_inputReport10_t :: layout where
  "horipad_inputReport10_t =
     [(''reportId'', UInt 8), (''VEN_Gamepad0024'', ByteArr 63)]"

definition horipad_outputReport05_t :: layout where
  "horipad_outputReport05_t =
     [(''reportId'', UInt 8), (''VEN_Gamepad0021'', ByteArr 32)]"

definition horipad_outputReport12_t :: layout where
  "horipad_outputReport12_t =
     [(''reportId'', UInt 8), (''VEN_Gamepad0023'', ByteArr 63)]"

definition horipad_outputReport14_t :: layout where
  "horipad_outputReport14_t =
     [(''reportId'', UInt 8), (''VEN_Gamepad0027'', ByteArr 63)]"

definition horipad_outputReport0F_t :: layout where
  "horipad_outputReport0F_t =
     [(''reportId'', UInt 8), (''VEN_Gamepad0028'', ByteArr 63)]"

section \<open>Xbox controller reports\<close>

definition xbox_inputReport01_t :: layout where
  "xbox_inputReport01_t =
     [(''reportId'', UInt 8), (''GD_GamepadPointerX'', UInt 16), (''GD_GamepadPointerY'', UInt 16),
      (''GD_GamepadPointerZ'', UInt 16), (''GD_GamepadPointerRz'', UInt 16),
      (''SIM_GamepadBrake'', UInt 10), (''pad0'', UInt 6), (''SIM_GamepadAccelerator'', UInt 10),
      (''pad1'', UInt 6), (''GD_GamepadHatSwitch'', UInt 4), (''pad2'', UInt 4),
      (''BTN_GamepadButton1'', UInt 1), (''BTN_GamepadButton2'', UInt 1),
      (''BTN_GamepadButton3'', UInt 1), (''BTN_GamepadButton4'', UInt 1),
      (''BTN_GamepadButton5'', UInt 1), (''BTN_GamepadButton6'', UInt 1),
      (''BTN_GamepadButton7'', UInt 1), (''BTN_GamepadButton8'', UInt 1),
      (''BTN_GamepadButton9'', UInt 1), (''BTN_GamepadButton10'', UInt 1),
      (''BTN_GamepadButton11'', UInt 1), (''BTN_GamepadButton12'', UInt 1),
      (''BTN_GamepadButton13'', UInt 1), (''BTN_GamepadButton14'', UInt 1),
      (''BTN_GamepadButton15'', UInt 1), (''pad3'', UInt 1), (''CD_GamepadAcBack'', UInt 1),
      (''pad4'', UInt 7)]"

definition xbox_inputReport02_t :: layout where
  "xbox_inputReport02_t =
     [(''reportId'', UInt 8), (''CD_GamepadConsumerControlAcHome'', UInt 1), (''pad0'', UInt 7)]"

definition xbox_inputReport04_t :: layout where
  "xbox_inputReport04_t =
     [(''reportId'', UInt 8), (''GDC_GamepadBatteryStrength'', UInt 8)]"

definition xbox_outputReport03_t :: layout where
  "xbox_outputReport03_t =
     [(''reportId'', UInt 8), (''PID_GamepadSetEffectReportDcEnableActuators'', UInt 4),
      (''pad0'', UInt 4), (''PID_GamepadSetEffectReportMagnitude'', ByteArr 4),
      (''PID_GamepadSetEffectReportDuration'', UInt 8),
      (''PID_GamepadSetEffectReportStartDelay'', UInt 8),
      (''PID_GamepadSetEffectReportLoopCount'', UInt 8)]"

section \<open>Well-formedness\<close>

text \<open>
  Each struct is an instance of \<open>packed_struct\<close>: its members have different names and fill
  whole bytes, as many as stated. A member of more than one byte, or an array, starts at a
  byte boundary.
\<close>

fun aligned_from :: "nat \<Rightarrow> layout \<Rightarrow> bool" where
  "aligned_from off [] \<longleftrightarrow> True"
| "aligned_from off ((f, t) # L) \<longleftrightarrow>
     (if cbits t mod 8 = 0 then off mod 8 = 0 else True) \<and> aligned_from (off + cbits t) L"

lemmas report_defs = nest_def featureReport05_t_def featureReport08_t_def featureReport09_t_def
  featureReport0A_t_def featureReport20_t_def featureReport21_t_def featureReport22_t_def
  featureReport80_t_def featureReport81_t_def featureReport82_t_def featureReport83_t_def
  featureReport84_t_def featureReport85_t_def featureReportA0_t_def featureReportE0_t_def
  featureReportF0_t_def featureReportF1_t_def featureReportF2_t_def featureReportF4_t_def
  featureReportF5_t_def ps5_inputReport01_t_def outputReport02_t_def TouchFingerData_def
  TouchData_def BTSimpleGetStateData_def USBGetStateData_def BTGetStateData_def ReportIn01USB_def
  ReportIn01BT_def ReportIn31_def SetStateData_def ReportOut31_def
  ReportFeatureCalibrationData_def ReportFeatureInMacAll_def ReportFeatureInVersion_def
  horipad_inputReport07_t_def horipad_inputReport12_t_def horipad_inputReport14_t_def
  horipad_inputReport10_t_def horipad_outputReport05_t_def horipad_outputReport12_t_def
  horipad_outputReport14_t_def horipad_outputReport0F_t_def xbox_inputReport01_t_def
  xbox_inputReport02_t_def xbox_inputReport04_t_def xbox_outputReport03_t_def

definition report_layouts :: "(layout \<times> nat) list" where
  "report_layouts =
     [(featureReport05_t, 41),
      (featureReport08_t, 48),
      (featureReport09_t, 20),
      (featureReport0A_t, 27),
      (featureReport20_t, 64),
      (featureReport21_t, 5),
      (featureReport22_t, 64),
      (featureReport80_t, 64),
      (featureReport81_t, 64),
      (featureReport82_t, 10),
      (featureReport83_t, 64),
      (featureReport84_t, 64),
      (featureReport85_t, 3),
      (featureReportA0_t, 2),
      (featureReportE0_t, 64),
      (featureReportF0_t, 64),
      (featureReportF1_t, 64),
      (featureReportF2_t, 16),
      (featureReportF4_t, 64),
      (featureReportF5_t, 4),
      (ps5_inputReport01_t, 64),
      (outputReport02_t, 48),
      (TouchFingerData, 4),
      (TouchData, 9),
      (BTSimpleGetStateData, 9),
      (USBGetStateData, 64),
      (BTGetStateData, 77),
      (ReportIn01USB, 65),
      (ReportIn01BT, 10),
      (ReportIn31, 79),
      (SetStateData, 47),
      (ReportOut31, 49),
      (ReportFeatureCalibrationData, 37),
      (ReportFeatureInMacAll, 19),
      (ReportFeatureInVersion, 60),
      (horipad_inputReport07_t, 48),
      (horipad_inputReport12_t, 64),
      (horipad_inputReport14_t, 64),
      (horipad_inputReport10_t, 64),
      (horipad_outputReport05_t, 33),
      (horipad_outputReport12_t, 64),
      (horipad_outputReport14_t, 64),
      (horipad_outputReport0F_t, 64),
      (xbox_inputReport01_t, 17),
      (xbox_inputReport02_t, 2),
      (xbox_inputReport04_t, 2),
      (xbox_outputReport03_t, 9)]"

definition well_formed :: "layout \<times> nat \<Rightarrow> bool" where
  "well_formed = (\<lambda>(L, n). distinct (map fst L) \<and> layout_bits L = 8 * n \<and> aligned_from 0 L)"

interpretation BTSimpleGetStateData: packed_struct BTSimpleGetStateData 9
  by unfold_locales code_simp+

lemma well_formedI:
  "distinct (map (\<lambda>m. name_code (fst m)) L) \<Longrightarrow> layout_bits L = 8 * n \<Longrightarrow> aligned_from 0 L \<Longrightarrow>
   well_formed (L, n)"
  by (simp add: well_formed_def distinct_names)

lemma packed_structI: "well_formed (L, n) \<Longrightarrow> packed_struct L n"
  by unfold_locales (auto simp: well_formed_def)

lemma wf_featureReport05_t: "well_formed (featureReport05_t, 41)"
  by (rule well_formedI) (simp_all add: featureReport05_t_def)

lemma wf_featureReport08_t: "well_formed (featureReport08_t, 48)"
  by (rule well_formedI) (simp_all add: featureReport08_t_def)

lemma wf_featureReport09_t: "well_formed (featureReport09_t, 20)"
  by (rule well_formedI) (simp_all add: featureReport09_t_def)

lemma wf_featureReport0A_t: "well_formed (featureReport0A_t, 27)"
  by (rule well_formedI) (simp_all add: featureReport0A_t_def)

lemma wf_featureReport20_t: "well_formed (featureReport20_t, 64)"
  by (rule well_formedI) (simp_all add: featureReport20_t_def)

lemma wf_featureReport21_t: "well_formed (featureReport21_t, 5)"
  by (rule well_formedI) (simp_all add: featureReport21_t_def)

lemma wf_featureReport22_t: "well_formed (featureReport22_t, 64)"
  by (rule well_formedI) (simp_all add: featureReport22_t_def)

lemma wf_featureReport80_t: "well_formed (featureReport80_t, 64)"
  by (rule well_formedI) (simp_all add: featureReport80_t_def)

lemma wf_featureReport81_t: "well_formed (featureReport81_t, 64)"
  by (rule well_formedI) (simp_all add: featureReport81_t_def)

lemma wf_featureReport82_t: "well_formed (featureReport82_t, 10)"
  by (rule well_formedI) (simp_all add: featureReport82_t_def)

lemma wf_featureReport83_t: "well_formed (featureReport83_t, 64)"
  by (rule well_formedI) (simp_all add: featureReport83_t_def)

lemma wf_featureReport84_t: "well_formed (featureReport84_t, 64)"
  by (rule well_formedI) (simp_all add: featureReport84_t_def)

lemma wf_featureReport85_t: "well_formed (featureReport85_t, 3)"
  by (rule well_formedI) (simp_all add: featureReport85_t_def)

lemma wf_featureReportA0_t: "well_formed (featureReportA0_t, 2)"
  by (rule well_formedI) (simp_all add: featureReportA0_t_def)

lemma wf_featureReportE0_t: "well_formed (featureReportE0_t, 64)"
  by (rule well_formedI) (simp_all add: featureReportE0_t_def)

lemma wf_featureReportF0_t: "well_formed (featureReportF0_t, 64)"
  by (rule well_formedI) (simp_all add: featureReportF0_t_def)

lemma wf_featureReportF1_t: "well_formed (featureReportF1_t, 64)"
  by (rule well_formedI) (simp_all add: featureReportF1_t_def)

lemma wf_featureReportF2_t: "well_formed (featureReportF2_t, 16)"
  by (rule well_formedI) (simp_all add: featureReportF2_t_def)

lemma wf_featureReportF4_t: "well_formed (featureReportF4_t, 64)"
  by (rule well_formedI) (simp_all add: featureReportF4_t_def)

lemma wf_featureReportF5_t: "well_formed (featureReportF5_t, 4)"
  by (rule well_formedI) (simp_all add: featureReportF5_t_def)

lemma wf_ps5_inputReport01_t: "well_formed (ps5_inputReport01_t, 64)"
  by (rule well_formedI) (simp_all add: ps5_inputReport01_t_def)

lemma wf_outputReport02_t: "well_formed (outputReport02_t, 48)"
  by (rule well_formedI) (simp_all add: outputReport02_t_def)

lemma wf_TouchFingerData: "well_formed (TouchFingerData, 4)"
  by (rule well_formedI) (simp_all add: TouchFingerData_def)

lemma wf_TouchData: "well_formed (TouchData, 9)"
  by (rule well_formedI) (simp_all add: TouchData_def TouchFingerData_def nest_def)

lemma wf_BTSimpleGetStateData: "well_formed (BTSimpleGetStateData, 9)"
  by (rule well_formedI) (simp_all add: BTSimpleGetStateData_def)

lemma wf_USBGetStateData: "well_formed (USBGetStateData, 64)"
  by (rule well_formedI) (simp_all add: USBGetStateData_def TouchData_def TouchFingerData_def nest_def)

lemma wf_BTGetStateData: "well_formed (BTGetStateData, 77)"
  by (rule well_formedI) (simp_all add: BTGetStateData_def USBGetStateData_def TouchData_def TouchFingerData_def nest_def)

lemma wf_ReportIn01USB: "well_formed (ReportIn01USB, 65)"
  by (rule well_formedI) (simp_all add: ReportIn01USB_def USBGetStateData_def TouchData_def TouchFingerData_def nest_def)

lemma wf_ReportIn01BT: "well_formed (ReportIn01BT, 10)"
  by (rule well_formedI) (simp_all add: ReportIn01BT_def BTSimpleGetStateData_def nest_def)

lemma wf_ReportIn31: "well_formed (ReportIn31, 79)"
  by (rule well_formedI) (simp_all add: ReportIn31_def BTGetStateData_def USBGetStateData_def TouchData_def TouchFingerData_def nest_def)

lemma wf_SetStateData: "well_formed (SetStateData, 47)"
  by (rule well_formedI) (simp_all add: SetStateData_def)

lemma wf_ReportOut31: "well_formed (ReportOut31, 49)"
  by (rule well_formedI) (simp_all add: ReportOut31_def SetStateData_def nest_def)

lemma wf_ReportFeatureCalibrationData: "well_formed (ReportFeatureCalibrationData, 37)"
  by (rule well_formedI) (simp_all add: ReportFeatureCalibrationData_def)

lemma wf_ReportFeatureInMacAll: "well_formed (ReportFeatureInMacAll, 19)"
  by (rule well_formedI) (simp_all add: ReportFeatureInMacAll_def)

lemma wf_ReportFeatureInVersion: "well_formed (ReportFeatureInVersion, 60)"
  by (rule well_formedI) (simp_all add: ReportFeatureInVersion_def)

lemma wf_horipad_inputReport07_t: "well_formed (horipad_inputReport07_t, 48)"
  by (rule well_formedI) (simp_all add: horipad_inputReport07_t_def)

lemma wf_horipad_inputReport12_t: "well_formed (horipad_inputReport12_t, 64)"
  by (rule well_formedI) (simp_all add: horipad_inputReport12_t_def)

lemma wf_horipad_inputReport14_t: "well_formed (horipad_inputReport14_t, 64)"
  by (rule well_formedI) (simp_all add: horipad_inputReport14_t_def)

lemma wf_horipad_inputReport10_t: "well_formed (horipad_inputReport10_t, 64)"
  by (rule well_formedI) (simp_all add: horipad_inputReport10_t_def)

lemma wf_horipad_outputReport05_t: "well_formed (horipad_outputReport05_t, 33)"
  by (rule well_formedI) (simp_all add: horipad_outputReport05_t_def)

lemma wf_horipad_outputReport12_t: "well_formed (horipad_outputReport12_t, 64)"
  by (rule well_formedI) (simp_all add: horipad_outputReport12_t_def)

lemma wf_horipad_outputReport14_t: "well_formed (horipad_outputReport14_t, 64)"
  by (rule well_formedI) (simp_all add: horipad_outputReport14_t_def)

lemma wf_horipad_outputReport0F_t: "well_formed (horipad_outputReport0F_t, 64)"
  by (rule well_formedI) (simp_all add: horipad_outputReport0F_t_def)

lemma wf_xbox_inputReport01_t: "well_formed (xbox_inputReport01_t, 17)"
  by (rule well_formedI) (simp_all add: xbox_inputReport01_t_def)

lemma wf_xbox_inputReport02_t: "well_formed (xbox_inputReport02_t, 2)"
  by (rule well_formedI) (simp_all add: xbox_inputReport02_t_def)

lemma wf_xbox_inputReport04_t: "well_formed (xbox_inputReport04_t, 2)"
  by (rule well_formedI) (simp_all add: xbox_inputReport04_t_def)

lemma wf_xbox_outputReport03_t: "well_formed (xbox_outputReport03_t, 9)"
  by (rule well_formedI) (simp_all add: xbox_outputReport03_t_def)

interpretation USBGetStateData: packed_struct USBGetStateData 64
  by (rule packed_structI) (rule wf_USBGetStateData)

interpretation BTSimpleGetStateData: packed_struct BTSimpleGetStateData 9
  by (rule packed_structI) (rule wf_BTSimpleGetStateData)

interpretation ReportIn01USB: packed_struct ReportIn01USB 65
  by (rule packed_structI) (rule wf_ReportIn01USB)

interpretation ReportIn31: packed_struct ReportIn31 79
  by (rule packed_structI) (rule wf_ReportIn31)

interpretation SetStateData: packed_struct SetStateData 47
  by (rule packed_structI) (rule wf_SetStateData)

interpretation ReportFeatureCalibrationData: packed_struct ReportFeatureCalibrationData 37
  by (rule packed_structI) (rule wf_ReportFeatureCalibrationData)

interpretation ReportFeatureInMacAll: packed_struct ReportFeatureInMacAll 19
  by (rule packed_structI) (rule wf_ReportFeatureInMacAll)

interpretation ReportFeatureInVersion: packed_struct ReportFeatureInVersion 60
  by (rule packed_structI) (rule wf_ReportFeatureInVersion)

interpretation horipad_inputReport07_t: packed_struct horipad_inputReport07_t 48
  by (rule packed_structI) (rule wf_horipad_inputReport07_t)

interpretation xbox_inputReport01_t: packed_struct xbox_inputReport01_t 17
  by (rule packed_structI) (rule wf_xbox_inputReport01_t)

lemmas report_layouts_wf = wf_featureReport05_t wf_featureReport08_t wf_featureReport09_t
  wf_featureReport0A_t wf_featureReport20_t wf_featureReport21_t wf_featureReport22_t
  wf_featureReport80_t wf_featureReport81_t wf_featureReport82_t wf_featureReport83_t
  wf_featureReport84_t wf_featureReport85_t wf_featureReportA0_t wf_featureReportE0_t
  wf_featureReportF0_t wf_featureReportF1_t wf_featureReportF2_t wf_featureReportF4_t
  wf_featureReportF5_t wf_ps5_inputReport01_t wf_outputReport02_t wf_TouchFingerData wf_TouchData
  wf_BTSimpleGetStateData wf_USBGetStateData wf_BTGetStateData wf_ReportIn01USB wf_ReportIn01BT
  wf_ReportIn31 wf_SetStateData wf_ReportOut31 wf_ReportFeatureCalibrationData
  wf_ReportFeatureInMacAll wf_ReportFeatureInVersion wf_horipad_inputReport07_t
  wf_horipad_inputReport12_t wf_horipad_inputReport14_t wf_horipad_inputReport10_t
  wf_horipad_outputReport05_t wf_horipad_outputReport12_t wf_horipad_outputReport14_t
  wf_horipad_outputReport0F_t wf_xbox_inputReport01_t wf_xbox_inputReport02_t
  wf_xbox_inputReport04_t wf_xbox_outputReport03_t

lemma report31_sizes:
  "sizeof_struct USBGetStateData = 64" "sizeof_struct ReportIn31 = 79" "ReportIn31_size = 79"
  using USBGetStateData.sizeof ReportIn31.sizeof by (simp_all add: ReportIn31_size_def)

section \<open>Properties\<close>

text \<open>
  every report struct of the three headers has members with different names that fill
  whole bytes, the number of bytes stated for it, and every whole-byte member starts at a byte
  boundary, so each member is read where the packed C struct has it.
\<close>

theorem report_layouts_well_formed: "list_all well_formed report_layouts"
  by (simp only: report_layouts_def list.pred_inject report_layouts_wf simp_thms)

text \<open>
  the Bluetooth report 0x31 does not fit its checksummed form: the data of \<open>ReportIn31\<close> is
  79 bytes, one more than the 78 bytes of \<open>BTCRC<78>\<close> (\<open>USBGetStateData\<close> is 64 bytes), while the
  output report, the calibration report and the version report do fit theirs.
\<close>

theorem report31_longer_than_its_checksummed_form:
  "sizeof_struct USBGetStateData = 64 \<and> sizeof_struct ReportIn31 = 79 \<and> ReportIn31_size = 79 \<and>
   sizeof_struct (BTCRC 78) = 78 \<and> sizeof_struct (BTCRC 78) < sizeof_struct ReportIn31 \<and>
   ReportOut31_size = sizeof_struct (BTCRC 78) \<and>
   ReportFeatureCalibrationData_size = sizeof_struct (BTCRC 41) \<and>
   ReportFeatureInVersion_size = sizeof_struct (BTCRC 64)"
proof -
  have btcrc: "sizeof_struct (BTCRC (n + 4)) = n + 4" for n
    by (simp add: sizeof_struct_def BTCRC_def)
  show ?thesis using btcrc [of 74] btcrc [of 37] btcrc [of 60]
    by (simp add: ReportIn31_size_def ReportOut31_size_def ReportFeatureCalibrationData_size_def
        ReportFeatureInVersion_size_def sizeof_struct_def report_defs)
qed

end
