(* ===== verification/Hid_Readers.thy ===== *)
theory Hid_Readers
  imports Complex_Main Event_Loop Hidraw Hid_Reports
begin

text \<open>
  The HoriPad Steam and the Xbox \<open>InputReader\<close> (\<open>src/bluez/horipad_steam/input_reader.{h,cc}\<close>
  and \<open>src/bluez/xbox_controller/input_reader.{h,cc}\<close>), and what they share with the DualSense
  reader, whose source repeats it: opening a hidraw node, describing it in the log, and
  reading one report per dispatch. The kernel is a record of answers.
\<close>

section \<open>The hidraw device\<close>

record hidraw_devinfo =
  di_bustype :: u32
  di_vendor :: u16   \<comment> \<open>\<open>__s16\<close>; as its 16 bits\<close>
  di_product :: u16

text \<open>
  \<open>open\<close> gives a descriptor or \<open>-1\<close> and an errno. The \<open>ioctl\<close>s give an errno or what they
  store: the two names as the bytes written into the caller's 256-byte buffer, the
  descriptor's bytes for a size. A feature report request gives the bytes of the answer.
\<close>

record hid_kernel =
  hk_open :: "string \<Rightarrow> int \<Rightarrow> int \<times> int"
  hk_rawinfo :: "int + hidraw_devinfo"
  hk_rawname :: "int + u8 list"
  hk_rawphys :: "int + u8 list"
  hk_descsize :: "int + int"
  hk_desc :: "nat \<Rightarrow> int + u8 list"
  hk_feature :: "u8 list \<Rightarrow> int + u8 list"

record hid_reader = logged +
  hr_device :: string
  hr_fd :: unique_fd
  hr_product :: u16

definition reader_valid :: "'a hid_reader_scheme \<Rightarrow> bool" where
  "reader_valid s \<longleftrightarrow> ufd_valid (hr_fd s)"

definition HID_MAX_DESCRIPTOR_SIZE :: nat where "HID_MAX_DESCRIPTOR_SIZE = 4096"

text \<open>\<open>O_RDWR | O_NONBLOCK | O_CLOEXEC\<close>\<close>

definition open_flags :: int where "open_flags = 0x80802"

text \<open>The bytes of a kernel answer over the buffer given, then the string up to its first NUL.\<close>

definition fill_buf :: "u8 list \<Rightarrow> u8 list \<Rightarrow> u8 list" where
  "fill_buf answer buf =
     (let k = min (length buf) (length answer) in (take k answer @ drop k buf)[length buf - 1 := 0])"

definition c_str :: "u8 list \<Rightarrow> string" where
  "c_str buf = map (\<lambda>b. char_of (unat b)) (takeWhile (\<lambda>b. b \<noteq> 0) buf)"

text \<open>
  From \<open>HIDIOCGRAWINFO\<close> to the dump of the descriptor: whether every call succeeded, and the
  reader with its product and log. The descriptor struct has room for 4096 bytes; those the
  kernel did not write are zero.
\<close>

definition dump_descriptor :: "hid_kernel \<Rightarrow> nat \<Rightarrow> 'a hid_reader_scheme \<Rightarrow> bool \<times> 'a hid_reader_scheme" where
  "dump_descriptor k sz s =
     (case hk_desc k sz of
        Inl e \<Rightarrow> (False, log_msg Err ''HIDIOCGRDESC failed: {}'' [LErrno e] s)
      | Inr bytes \<Rightarrow>
          (let desc = memcpy_zeroed HID_MAX_DESCRIPTOR_SIZE bytes (length bytes)
           in (True, log_msg Info (''Report Descriptor'' @ endl @ custom_hexdump 400 False (take sz desc)) [] s)))"

definition describe_descriptor :: "hid_kernel \<Rightarrow> 'a hid_reader_scheme \<Rightarrow> bool \<times> 'a hid_reader_scheme" where
  "describe_descriptor k s =
     (case hk_descsize k of
        Inl e \<Rightarrow> (False, log_msg Err ''HIDIOCGRDESCSIZE failed: {}'' [LErrno e] s)
      | Inr desc_size \<Rightarrow>
          (let s = log_msg Info ''Report Descriptor Size: {}'' [LInt desc_size] s
           in if desc_size < 0 \<or> HID_MAX_DESCRIPTOR_SIZE < nat desc_size
              then (False, log_msg Err ''Invalid report descriptor size: {}'' [LInt desc_size] s)
              else dump_descriptor k (nat desc_size) s))"

definition describe_names :: "hid_kernel \<Rightarrow> 'a hid_reader_scheme \<Rightarrow> bool \<times> 'a hid_reader_scheme" where
  "describe_names k s =
     (case hk_rawname k of
        Inl e \<Rightarrow> (False, log_msg Err ''HIDIOCGRAWNAME failed: {}'' [LErrno e] s)
      | Inr name \<Rightarrow>
          (let buf = fill_buf name (replicate 256 0);
               s = log_msg Info ''HID Name: {}'' [LStr (c_str buf)] s
           in case hk_rawphys k of
                Inl e \<Rightarrow> (False, log_msg Err ''HIDIOCGRAWPHYS failed: {}'' [LErrno e] s)
              | Inr phys \<Rightarrow>
                  (let buf = fill_buf phys buf;
                       s = log_msg Info ''HID Physical Location: {}'' [LStr (c_str buf)] s
                   in describe_descriptor k s)))"

definition describe_device :: "hid_kernel \<Rightarrow> 'a hid_reader_scheme \<Rightarrow> bool \<times> 'a hid_reader_scheme" where
  "describe_device k s =
     (case hk_rawinfo k of
        Inl e \<Rightarrow> (False, log_msg Err ''HIDIOCGRAWINFO failed: {}'' [LErrno e] s)
      | Inr info \<Rightarrow>
          (let s = s\<lparr>hr_product := di_product info\<rparr>;
               s = log_msg Info ''bustype: {}'' [LStr (bus_str (di_bustype info))] s;
               s = log_msg Info ''Vendor ID: {:04X}'' [LInt (sint (di_vendor info))] s;
               s = log_msg Info ''Product ID: {:04X}'' [LInt (sint (di_product info))] s
           in describe_names k s))"

text \<open>
  \<open>open_and_init()\<close> around what a reader does with the open descriptor: the reader, and the
  descriptors closed on the way out. \<open>work\<close> is what runs between opening and keeping the
  descriptor; only when it succeeds is the descriptor moved into \<open>fd_\<close>.
\<close>

definition with_device ::
    "hid_kernel \<Rightarrow> ('a hid_reader_scheme \<Rightarrow> bool \<times> 'a hid_reader_scheme) \<Rightarrow> 'a hid_reader_scheme \<Rightarrow>
     'a hid_reader_scheme \<times> int list" where
  "with_device k work s =
     (let s = log_msg Debug ''hidraw device: {}'' [LStr (hr_device s)] s;
          (opened, closed0) = open_fd (hk_open k) (hr_device s) open_flags
      in case opened of
           Inl e \<Rightarrow> (log_msg Err ''unable to open device: {}'' [LErrno e] s, closed0)
         | Inr opened_fd \<Rightarrow>
             (let (fd, opened_fd) = ufd_move opened_fd;
                  (ok, s) = work s
              in if \<not> ok then (s, closed0 @ ufd_destroy fd @ ufd_destroy opened_fd)
                 else (let (target, fd, closed1) = ufd_move_assign (hr_fd s) fd
                       in (s\<lparr>hr_fd := target\<rparr>,
                           closed0 @ closed1 @ ufd_destroy fd @ ufd_destroy opened_fd))))"

text \<open>What \<open>read()\<close> gave: -1 and an errno, or the bytes read.\<close>

datatype read_result = Read_Failed int | Read_Bytes "u8 list"

text \<open>
  \<open>dispatch\<close>: a hang-up is left to the udev handler; otherwise one \<open>read\<close> of at most
  \<open>bufsize\<close> bytes into a zeroed buffer, and \<open>handle\<close> for the buffer and the bytes read.
\<close>

definition read_report ::
    "nat \<Rightarrow> (u8 list \<Rightarrow> nat \<Rightarrow> 'a hid_reader_scheme \<Rightarrow> 'b) \<Rightarrow> ('a hid_reader_scheme \<Rightarrow> 'b) \<Rightarrow>
     u16 \<Rightarrow> read_result \<Rightarrow> 'a hid_reader_scheme \<Rightarrow> 'b" where
  "read_report bufsize handle keep revents r s =
     (if revents AND (POLLHUP OR POLLERR) \<noteq> 0 then keep s
      else case r of
             Read_Failed e \<Rightarrow>
               (if e = EINTR \<or> e = EAGAIN then keep s
                else keep (log_msg Err ''read failed: {}'' [LErrno e] s))
           | Read_Bytes bytes \<Rightarrow>
               (let n = min bufsize (length bytes)
                in if n = 0 then keep s else handle (memcpy_zeroed bufsize bytes n) n s))"

section \<open>The HoriPad Steam reader\<close>

definition direction_names :: "string list" where
  "direction_names = [''North'', ''NorthEast'', ''East'', ''SouthEast'', ''South'', ''SouthWest'',
     ''West'', ''NorthWest'']"

definition horipad_dpad_to_string :: "nat \<Rightarrow> string" where
  "horipad_dpad_to_string d = (if d < 8 then direction_names ! d else ''None'')"

definition horipad_open_and_init :: "hid_kernel \<Rightarrow> hid_reader \<Rightarrow> hid_reader \<times> int list" where
  "horipad_open_and_init k s = with_device k (describe_device k) s"

definition horipad_reader_new :: "hid_kernel \<Rightarrow> string \<Rightarrow> hid_reader \<times> int list" where
  "horipad_reader_new k device =
     horipad_open_and_init k \<lparr>log_of = [], hr_device = device, hr_fd = ufd_empty, hr_product = 0\<rparr>"

text \<open>A log line of one member, and of a list of members with their labels.\<close>

definition log_fld :: "layout \<Rightarrow> u8 list \<Rightarrow> string \<Rightarrow> string \<Rightarrow> 'a logged_scheme \<Rightarrow> 'a logged_scheme" where
  "log_fld L b fmt f = log_msg Info fmt [LInt (int (fld L f b))]"

definition log_flds :: "layout \<Rightarrow> u8 list \<Rightarrow> (string \<times> string) list \<Rightarrow> 'a logged_scheme \<Rightarrow> 'a logged_scheme" where
  "log_flds L b rows s = fold (\<lambda>(fmt, f). log_fld L b fmt f) rows s"

definition PrintInputReport7 :: "u8 list \<Rightarrow> 'a logged_scheme \<Rightarrow> 'a logged_scheme" where
  "PrintInputReport7 b s =
     (let L = horipad_inputReport07_t; v = (\<lambda>f. LInt (int (fld L f b)));
          s = log_msg Info ''Stick L/R: [{},{}] [{},{}] ''
                [v ''GD_GamepadX'', v ''GD_GamepadY'', v ''GD_GamepadZ'', v ''GD_GamepadRz''] s;
          s = log_msg Info ''L1/L2: {}, {}'' [v ''SIM_GamepadBrake'', v ''SIM_GamepadAccelerator''] s;
          s = log_msg Info ''D-PAD: {}'' [LStr (horipad_dpad_to_string (fld L ''GD_GamepadHatSwitch'' b))] s
      in log_flds L b
           [(''A: {}'', ''BTN_GamepadButton1''), (''B: {}'', ''BTN_GamepadButton2''),
            (''Quick Access: {}'', ''BTN_GamepadButton3''), (''X: {}'', ''BTN_GamepadButton4''),
            (''Y: {}'', ''BTN_GamepadButton5''), (''M1: {}'', ''BTN_GamepadButton6''),
            (''L1: {}'', ''BTN_GamepadButton7''), (''R1: {}'', ''BTN_GamepadButton8''),
            (''L2: {}'', ''BTN_GamepadButton9''), (''R2: {}'', ''BTN_GamepadButton10''),
            (''View: {}'', ''BTN_GamepadButton11''), (''Menu: {}'', ''BTN_GamepadButton12''),
            (''Home: {}'', ''BTN_GamepadButton13''), (''Left Stick Btn: {}'', ''BTN_GamepadButton14''),
            (''Right Stick Btn: {}'', ''BTN_GamepadButton15''), (''M2: {}'', ''BTN_GamepadButton16''),
            (''Button 17: {}'', ''BTN_GamepadButton17''), (''Button 18: {}'', ''BTN_GamepadButton18''),
            (''L4: {}'', ''BTN_GamepadButton19''), (''R4: {}'', ''BTN_GamepadButton20'')] s)"

definition PrintInputReport10 :: "u8 list \<Rightarrow> 'a logged_scheme \<Rightarrow> 'a logged_scheme" where
  "PrintInputReport10 b = log_msg Info ''Input Report 10: {}''
     [LStr (custom_hexdump 400 False (bfld horipad_inputReport10_t ''VEN_Gamepad0024'' b))]"

definition PrintInputReport12 :: "u8 list \<Rightarrow> 'a logged_scheme \<Rightarrow> 'a logged_scheme" where
  "PrintInputReport12 b = log_msg Info ''Input Report 12: {}''
     [LStr (custom_hexdump 400 False (bfld horipad_inputReport12_t ''VEN_Gamepad0022'' b))]"

definition PrintInputReport14 :: "u8 list \<Rightarrow> 'a logged_scheme \<Rightarrow> 'a logged_scheme" where
  "PrintInputReport14 b = log_msg Info ''Input Report 14: {}''
     [LStr (custom_hexdump 400 False (bfld horipad_inputReport14_t ''VEN_Gamepad0026'' b))]"

definition horipad_handle :: "u8 list \<Rightarrow> nat \<Rightarrow> hid_reader \<Rightarrow> hid_reader" where
  "horipad_handle buffer n s =
     (if hr_product s = 0x01ab \<or> hr_product s = 0x0196
      then (let report_id = unat (buffer ! 0)
            in if report_id = 7
               then PrintInputReport7 (memcpy_zeroed (sizeof_struct horipad_inputReport07_t) buffer n) s
               else if report_id = 10
               then PrintInputReport10 (memcpy_zeroed (sizeof_struct horipad_inputReport10_t) buffer n) s
               else if report_id = 12
               then PrintInputReport12 (memcpy_zeroed (sizeof_struct horipad_inputReport12_t) buffer n) s
               else if report_id = 14
               then PrintInputReport14 (memcpy_zeroed (sizeof_struct horipad_inputReport14_t) buffer n) s
               else log_msg Err ''Unknown report id: {}'' [LInt (int report_id)] s)
      else s)"

definition horipad_dispatch :: "u16 \<Rightarrow> read_result \<Rightarrow> hid_reader \<Rightarrow> hid_reader" where
  "horipad_dispatch = read_report (sizeof_struct horipad_inputReport12_t) horipad_handle (\<lambda>s. s)"

section \<open>The Xbox reader\<close>

definition xbox_dpad_to_string :: "nat \<Rightarrow> string" where
  "xbox_dpad_to_string d = (if 1 \<le> d \<and> d \<le> 8 then direction_names ! (d - 1) else ''None'')"

definition xbox_open_and_init :: "hid_kernel \<Rightarrow> hid_reader \<Rightarrow> hid_reader \<times> int list" where
  "xbox_open_and_init k s = with_device k (describe_device k) s"

definition xbox_reader_new :: "hid_kernel \<Rightarrow> string \<Rightarrow> hid_reader \<times> int list" where
  "xbox_reader_new k device =
     xbox_open_and_init k \<lparr>log_of = [], hr_device = device, hr_fd = ufd_empty, hr_product = 0\<rparr>"

definition PrintInputReport1 :: "u8 list \<Rightarrow> 'a logged_scheme \<Rightarrow> 'a logged_scheme" where
  "PrintInputReport1 b s =
     (let L = xbox_inputReport01_t; v = (\<lambda>f. LInt (int (fld L f b)));
          s = log_msg Info ''Stick L/R: [{},{}] [{},{}] ''
                [v ''GD_GamepadPointerX'', v ''GD_GamepadPointerY'',
                 v ''GD_GamepadPointerZ'', v ''GD_GamepadPointerRz''] s;
          s = log_msg Info ''Trigger L/R: {}, {}'' [v ''SIM_GamepadBrake'', v ''SIM_GamepadAccelerator''] s;
          s = log_msg Info ''D-PAD: {}'' [LStr (xbox_dpad_to_string (fld L ''GD_GamepadHatSwitch'' b))] s
      in log_flds L b
           [(''A: {}'', ''BTN_GamepadButton1''), (''B: {}'', ''BTN_GamepadButton2''),
            (''Button3: {}'', ''BTN_GamepadButton3''), (''X: {}'', ''BTN_GamepadButton4''),
            (''Y: {}'', ''BTN_GamepadButton5''), (''Button6: {}'', ''BTN_GamepadButton6''),
            (''Left Bumper: {}'', ''BTN_GamepadButton7''), (''Right Bumper: {}'', ''BTN_GamepadButton8''),
            (''Button9: {}'', ''BTN_GamepadButton9''), (''Button10: {}'', ''BTN_GamepadButton10''),
            (''Button11: {}'', ''BTN_GamepadButton11''), (''Menu: {}'', ''BTN_GamepadButton12''),
            (''Button13: {}'', ''BTN_GamepadButton13''), (''Left Stick Btn: {}'', ''BTN_GamepadButton14''),
            (''Right Stick Btn: {}'', ''BTN_GamepadButton15''), (''Back: {}'', ''CD_GamepadAcBack'')] s)"

definition PrintInputReport2 :: "u8 list \<Rightarrow> 'a logged_scheme \<Rightarrow> 'a logged_scheme" where
  "PrintInputReport2 b = log_fld xbox_inputReport02_t b ''Home Button: {}'' ''CD_GamepadConsumerControlAcHome''"

definition PrintOutputReport3 :: "u8 list \<Rightarrow> 'a logged_scheme \<Rightarrow> 'a logged_scheme" where
  "PrintOutputReport3 b s =
     (let L = xbox_outputReport03_t;
          s = log_fld L b ''OutputReport3: {}'' ''reportId'' s;
          s = log_fld L b ''PID_GamepadSetEffectReportDcEnableActuators: {}''
                ''PID_GamepadSetEffectReportDcEnableActuators'' s;
          s = log_msg Info ''PID_GamepadSetEffectReportMagnitude: {}, {}, {}, {}''
                (map (\<lambda>m. LInt (uint m)) (bfld L ''PID_GamepadSetEffectReportMagnitude'' b)) s
      in log_flds L b
           [(''PID_GamepadSetEffectReportDuration: {}'', ''PID_GamepadSetEffectReportDuration''),
            (''PID_GamepadSetEffectReportStartDelay: {}'', ''PID_GamepadSetEffectReportStartDelay''),
            (''PID_GamepadSetEffectReportLoopCount: {}'', ''PID_GamepadSetEffectReportLoopCount'')] s)"

text \<open>
  The percentage is computed in \<open>float\<close> and rounded to an integer. For a byte \<open>x\<close> the exact
  value \<open>100 x / 255\<close> is at least 1/102 away from every half, far more than the error of two
  \<open>float\<close> operations, so the result is the exact value rounded (\<open>battery_round_robust\<close> below).
\<close>

definition battery_percentage :: "nat \<Rightarrow> nat" where
  "battery_percentage x = (200 * x + 255) div 510"

definition PrintInputReport4 :: "u8 list \<Rightarrow> 'a logged_scheme \<Rightarrow> 'a logged_scheme" where
  "PrintInputReport4 b = log_msg Info ''Battery: {}''
     [LInt (int (battery_percentage (fld xbox_inputReport04_t ''GDC_GamepadBatteryStrength'' b)))]"

definition xbox_handle :: "u8 list \<Rightarrow> nat \<Rightarrow> hid_reader \<Rightarrow> hid_reader" where
  "xbox_handle buffer n s =
     (if hr_product s = 0x02FD
      then (let report_id = unat (buffer ! 0)
            in if report_id = 1
               then PrintInputReport1 (memcpy_zeroed (sizeof_struct xbox_inputReport01_t) buffer n) s
               else if report_id = 2
               then PrintInputReport2 (memcpy_zeroed (sizeof_struct xbox_inputReport02_t) buffer n) s
               else if report_id = 4
               then PrintInputReport4 (memcpy_zeroed (sizeof_struct xbox_inputReport04_t) buffer n) s
               else log_msg Err ''Unknown report id: {}'' [LInt (int report_id)] s)
      else s)"

definition xbox_dispatch :: "u16 \<Rightarrow> read_result \<Rightarrow> hid_reader \<Rightarrow> hid_reader" where
  "xbox_dispatch = read_report (sizeof_struct xbox_inputReport01_t) xbox_handle (\<lambda>s. s)"

section \<open>Lemmas\<close>

lemma hr_fd_log [simp]: "hr_fd (log_msg l f a s) = hr_fd s"
  by (simp add: log_msg_def)

lemma hr_device_log [simp]: "hr_device (log_msg l f a s) = hr_device s"
  by (simp add: log_msg_def)

lemma hr_fd_describe [simp]: "hr_fd (snd (describe_device k s)) = hr_fd s"
  by (auto simp: describe_device_def describe_names_def describe_descriptor_def dump_descriptor_def
      Let_def split: sum.split)

text \<open>What \<open>with_device\<close> does with the descriptor, for any work that leaves \<open>fd_\<close> alone.\<close>

lemma with_device_fd:
  assumes "hr_fd s = ufd_empty" "\<And>t. hr_fd (snd (work t)) = hr_fd t"
    and "fst (hk_open k (hr_device s) open_flags) = rc"
    and "with_device k work s = (s', cl)"
  defines "s0 \<equiv> log_msg Debug ''hidraw device: {}'' [LStr (hr_device s)] s"
  shows "reader_valid s' \<longleftrightarrow> 0 \<le> rc \<and> fst (work s0)"
    and "reader_valid s' \<Longrightarrow> hr_fd s' = ufd_own rc \<and> cl = []"
    and "\<not> reader_valid s' \<Longrightarrow> hr_fd s' = ufd_empty \<and> cl = (if 0 \<le> rc then [rc] else [])"
proof -
  obtain e where rc: "hk_open k (hr_device s) open_flags = (rc, e)"
    using assms(3) by (metis prod.collapse)
  obtain ok t where w: "work s0 = (ok, t)" by fastforce
  have t: "hr_fd t = ufd_empty" using assms(2) [of s0] w by (simp add: s0_def assms(1))
  have eq: "with_device k work s =
     (if rc < 0 then (log_msg Err ''unable to open device: {}'' [LErrno e] s0, [])
      else if ok then (t\<lparr>hr_fd := ufd_own rc\<rparr>, [])
      else (t, [rc]))"
    using w t unfolding with_device_def s0_def
    by (simp add: Let_def open_fd_def rc make_fd_simp ufd_defs)
  have "hr_fd s0 = ufd_empty" by (simp add: s0_def assms(1))
  with eq assms(4) w t
  show "reader_valid s' \<longleftrightarrow> 0 \<le> rc \<and> fst (work s0)"
    and "reader_valid s' \<Longrightarrow> hr_fd s' = ufd_own rc \<and> cl = []"
    and "\<not> reader_valid s' \<Longrightarrow> hr_fd s' = ufd_empty \<and> cl = (if 0 \<le> rc then [rc] else [])"
    by (auto simp: reader_valid_def ufd_defs split: if_splits)
qed

lemma hr_product_describe:
  "fst (describe_device k s) \<Longrightarrow> \<exists>info n bytes. hk_rawinfo k = Inr info \<and>
     hr_product (snd (describe_device k s)) = di_product info \<and>
     hk_descsize k = Inr n \<and> 0 \<le> n \<and> n \<le> 4096 \<and> hk_desc k (nat n) = Inr bytes \<and>
     last (log_of (snd (describe_device k s))) =
       Log Info (''Report Descriptor'' @ endl @
         custom_hexdump 400 False (take (nat n) (memcpy_zeroed 4096 bytes (length bytes)))) []"
  by (auto simp: describe_device_def describe_names_def describe_descriptor_def dump_descriptor_def
      Let_def HID_MAX_DESCRIPTOR_SIZE_def log_msg_def split: sum.splits if_splits)

lemma describe_device_ok:
  "fst (describe_device k s) \<longleftrightarrow>
     \<not> isl (hk_rawinfo k) \<and> \<not> isl (hk_rawname k) \<and> \<not> isl (hk_rawphys k) \<and>
     (\<exists>n. hk_descsize k = Inr n \<and> 0 \<le> n \<and> n \<le> 4096 \<and> \<not> isl (hk_desc k (nat n)))"
  by (auto simp: describe_device_def describe_names_def describe_descriptor_def dump_descriptor_def
      Let_def HID_MAX_DESCRIPTOR_SIZE_def split: sum.splits)

text \<open>A report that arrives reaches the handler with its first byte in place.\<close>

lemma read_report_first:
  assumes "revents AND (POLLHUP OR POLLERR) = 0" "0 < bufsize"
  obtains buf n where "read_report bufsize h keep revents (Read_Bytes (b # data)) s = h buf n s"
    and "buf ! 0 = b" "length buf = bufsize" "n = min bufsize (Suc (length data))"
    and "buf = memcpy_zeroed bufsize (b # data) n"
proof -
  let ?n = "min bufsize (Suc (length data))"
  let ?buf = "memcpy_zeroed bufsize (b # data) ?n"
  have n: "?n \<noteq> 0" using assms(2) by simp
  have "?buf ! 0 = b"
    using n assms(2) by (simp add: memcpy_zeroed_def nth_append)
  moreover have "length ?buf = bufsize" by (simp add: length_memcpy_zeroed)
  moreover have "read_report bufsize h keep revents (Read_Bytes (b # data)) s = h ?buf ?n s"
    using assms(1) by (simp add: read_report_def Let_def n)
  ultimately show thesis using that by blast
qed

lemma log_of_log_flds:
  "log_of (log_flds L b rows s) = log_of s @ map (\<lambda>(fmt, f). Log Info fmt [LInt (int (fld L f b))]) rows"
  unfolding log_flds_def
  by (induction rows arbitrary: s) (auto simp: log_fld_def log_msg_def)

lemma read_report_zeroed:
  assumes "revents AND (POLLHUP OR POLLERR) = 0" "0 < bufsize"
  shows "read_report bufsize h keep revents (Read_Bytes (b # data)) s =
    h (memcpy_zeroed bufsize (b # data) (min bufsize (length (b # data)))) (min bufsize (length (b # data))) s"
  using assms by (simp add: read_report_def Let_def min_def)

text \<open>The values at byte and bit positions, with the labels they are printed under.\<close>

definition log_bits :: "u8 list \<Rightarrow> (string \<times> nat \<times> nat) list \<Rightarrow> log_entry list" where
  "log_bits bs rows = map (\<lambda>(fmt, i, j). Log Info fmt [LInt (int (byte_at bs i div 2 ^ j mod 2))]) rows"

lemma member_bits:
  assumes "offset L f = 8 * i + j" "width L f = w" "j + w \<le> 8"
  shows "fld L f bs = byte_at bs i div 2 ^ j mod 2 ^ w"
  unfolding fld_def assms(1,2) by (rule bits_within_byte) (rule assms(3))

lemma member_bytes:
  assumes "offset L f = 8 * i" "width L f = 8 + v" "v \<le> 8" "k = i + 1"
  shows "fld L f bs = byte_at bs i + 256 * (byte_at bs k mod 2 ^ v)"
  unfolding fld_def assms(1,2,4) by (rule bits_over_two_bytes) (rule assms(3))

lemma member_byte: "offset L f = 8 * i \<Longrightarrow> width L f = 8 \<Longrightarrow> fld L f bs = byte_at bs i"
  using member_bits [of L f i 0 8 bs] byte_at_less [of bs i] by simp

lemma byte_at_0 [simp]: "byte_at (b # bs) 0 = unat b"
  by (simp add: byte_at_def)

lemma report_sizes:
  "sizeof_struct horipad_inputReport12_t = 64" "sizeof_struct horipad_inputReport07_t = 48"
  "sizeof_struct xbox_inputReport01_t = 17" "sizeof_struct xbox_inputReport02_t = 2"
  "sizeof_struct xbox_inputReport04_t = 2"
  by (simp_all add: sizeof_struct_def horipad_inputReport12_t_def horipad_inputReport07_t_def
      xbox_inputReport01_t_def xbox_inputReport02_t_def xbox_inputReport04_t_def)

lemma horipad_bytes:
  "fld horipad_inputReport07_t ''GD_GamepadX'' b = byte_at b 1"
  "fld horipad_inputReport07_t ''GD_GamepadY'' b = byte_at b 2"
  "fld horipad_inputReport07_t ''GD_GamepadZ'' b = byte_at b 3"
  "fld horipad_inputReport07_t ''GD_GamepadRz'' b = byte_at b 4"
  "fld horipad_inputReport07_t ''SIM_GamepadAccelerator'' b = byte_at b 8"
  "fld horipad_inputReport07_t ''SIM_GamepadBrake'' b = byte_at b 9"
  by (rule member_byte; code_simp)+

lemma horipad_bits:
  "fld horipad_inputReport07_t ''GD_GamepadHatSwitch'' b = byte_at b 5 div 2 ^ 0 mod 2 ^ 4"
  "fld horipad_inputReport07_t ''BTN_GamepadButton1'' b = byte_at b 5 div 2 ^ 4 mod 2 ^ 1"
  "fld horipad_inputReport07_t ''BTN_GamepadButton2'' b = byte_at b 5 div 2 ^ 5 mod 2 ^ 1"
  "fld horipad_inputReport07_t ''BTN_GamepadButton3'' b = byte_at b 5 div 2 ^ 6 mod 2 ^ 1"
  "fld horipad_inputReport07_t ''BTN_GamepadButton4'' b = byte_at b 5 div 2 ^ 7 mod 2 ^ 1"
  "fld horipad_inputReport07_t ''BTN_GamepadButton5'' b = byte_at b 6 div 2 ^ 0 mod 2 ^ 1"
  "fld horipad_inputReport07_t ''BTN_GamepadButton6'' b = byte_at b 6 div 2 ^ 1 mod 2 ^ 1"
  "fld horipad_inputReport07_t ''BTN_GamepadButton7'' b = byte_at b 6 div 2 ^ 2 mod 2 ^ 1"
  "fld horipad_inputReport07_t ''BTN_GamepadButton8'' b = byte_at b 6 div 2 ^ 3 mod 2 ^ 1"
  "fld horipad_inputReport07_t ''BTN_GamepadButton9'' b = byte_at b 6 div 2 ^ 4 mod 2 ^ 1"
  "fld horipad_inputReport07_t ''BTN_GamepadButton10'' b = byte_at b 6 div 2 ^ 5 mod 2 ^ 1"
  "fld horipad_inputReport07_t ''BTN_GamepadButton11'' b = byte_at b 6 div 2 ^ 6 mod 2 ^ 1"
  "fld horipad_inputReport07_t ''BTN_GamepadButton12'' b = byte_at b 6 div 2 ^ 7 mod 2 ^ 1"
  "fld horipad_inputReport07_t ''BTN_GamepadButton13'' b = byte_at b 7 div 2 ^ 0 mod 2 ^ 1"
  "fld horipad_inputReport07_t ''BTN_GamepadButton14'' b = byte_at b 7 div 2 ^ 1 mod 2 ^ 1"
  "fld horipad_inputReport07_t ''BTN_GamepadButton15'' b = byte_at b 7 div 2 ^ 2 mod 2 ^ 1"
  "fld horipad_inputReport07_t ''BTN_GamepadButton16'' b = byte_at b 7 div 2 ^ 3 mod 2 ^ 1"
  "fld horipad_inputReport07_t ''BTN_GamepadButton17'' b = byte_at b 7 div 2 ^ 4 mod 2 ^ 1"
  "fld horipad_inputReport07_t ''BTN_GamepadButton18'' b = byte_at b 7 div 2 ^ 5 mod 2 ^ 1"
  "fld horipad_inputReport07_t ''BTN_GamepadButton19'' b = byte_at b 7 div 2 ^ 6 mod 2 ^ 1"
  "fld horipad_inputReport07_t ''BTN_GamepadButton20'' b = byte_at b 7 div 2 ^ 7 mod 2 ^ 1"
  by (rule member_bits; code_simp)+

lemma xbox_words:
  "fld xbox_inputReport01_t ''GD_GamepadPointerX'' b = byte_at b 1 + 256 * (byte_at b 2 mod 2 ^ 8)"
  "fld xbox_inputReport01_t ''GD_GamepadPointerY'' b = byte_at b 3 + 256 * (byte_at b 4 mod 2 ^ 8)"
  "fld xbox_inputReport01_t ''GD_GamepadPointerZ'' b = byte_at b 5 + 256 * (byte_at b 6 mod 2 ^ 8)"
  "fld xbox_inputReport01_t ''GD_GamepadPointerRz'' b = byte_at b 7 + 256 * (byte_at b 8 mod 2 ^ 8)"
  "fld xbox_inputReport01_t ''SIM_GamepadBrake'' b = byte_at b 9 + 256 * (byte_at b 10 mod 2 ^ 2)"
  "fld xbox_inputReport01_t ''SIM_GamepadAccelerator'' b = byte_at b 11 + 256 * (byte_at b 12 mod 2 ^ 2)"
  by (rule member_bytes; code_simp)+

lemma xbox_bits:
  "fld xbox_inputReport01_t ''GD_GamepadHatSwitch'' b = byte_at b 13 div 2 ^ 0 mod 2 ^ 4"
  "fld xbox_inputReport01_t ''BTN_GamepadButton1'' b = byte_at b 14 div 2 ^ 0 mod 2 ^ 1"
  "fld xbox_inputReport01_t ''BTN_GamepadButton2'' b = byte_at b 14 div 2 ^ 1 mod 2 ^ 1"
  "fld xbox_inputReport01_t ''BTN_GamepadButton3'' b = byte_at b 14 div 2 ^ 2 mod 2 ^ 1"
  "fld xbox_inputReport01_t ''BTN_GamepadButton4'' b = byte_at b 14 div 2 ^ 3 mod 2 ^ 1"
  "fld xbox_inputReport01_t ''BTN_GamepadButton5'' b = byte_at b 14 div 2 ^ 4 mod 2 ^ 1"
  "fld xbox_inputReport01_t ''BTN_GamepadButton6'' b = byte_at b 14 div 2 ^ 5 mod 2 ^ 1"
  "fld xbox_inputReport01_t ''BTN_GamepadButton7'' b = byte_at b 14 div 2 ^ 6 mod 2 ^ 1"
  "fld xbox_inputReport01_t ''BTN_GamepadButton8'' b = byte_at b 14 div 2 ^ 7 mod 2 ^ 1"
  "fld xbox_inputReport01_t ''BTN_GamepadButton9'' b = byte_at b 15 div 2 ^ 0 mod 2 ^ 1"
  "fld xbox_inputReport01_t ''BTN_GamepadButton10'' b = byte_at b 15 div 2 ^ 1 mod 2 ^ 1"
  "fld xbox_inputReport01_t ''BTN_GamepadButton11'' b = byte_at b 15 div 2 ^ 2 mod 2 ^ 1"
  "fld xbox_inputReport01_t ''BTN_GamepadButton12'' b = byte_at b 15 div 2 ^ 3 mod 2 ^ 1"
  "fld xbox_inputReport01_t ''BTN_GamepadButton13'' b = byte_at b 15 div 2 ^ 4 mod 2 ^ 1"
  "fld xbox_inputReport01_t ''BTN_GamepadButton14'' b = byte_at b 15 div 2 ^ 5 mod 2 ^ 1"
  "fld xbox_inputReport01_t ''BTN_GamepadButton15'' b = byte_at b 15 div 2 ^ 6 mod 2 ^ 1"
  "fld xbox_inputReport01_t ''CD_GamepadAcBack'' b = byte_at b 16 div 2 ^ 0 mod 2 ^ 1"
  by (rule member_bits; code_simp)+

lemma xbox_small_members:
  "fld xbox_inputReport02_t ''CD_GamepadConsumerControlAcHome'' b = byte_at b 1 div 2 ^ 0 mod 2 ^ 1"
  "fld xbox_inputReport04_t ''GDC_GamepadBatteryStrength'' b = byte_at b 1"
  by (rule member_bits; simp add: xbox_inputReport02_t_def width_def)
    (rule member_byte; simp add: xbox_inputReport04_t_def width_def)

text \<open>The struct copied from what was read, and its bytes.\<close>

definition received :: "nat \<Rightarrow> nat \<Rightarrow> u8 list \<Rightarrow> u8 list" where
  "received sz cap bs = memcpy_zeroed sz (memcpy_zeroed cap bs (min cap (length bs))) (min cap (length bs))"

lemma byte_at_received: "sz \<le> cap \<Longrightarrow> i < sz \<Longrightarrow> byte_at (received sz cap bs) i = byte_at bs i"
  by (simp add: received_def byte_at_memcpy)

lemma memcpy_first: "0 < cap \<Longrightarrow> memcpy_zeroed cap (b # data) (min cap (length (b # data))) ! 0 = b"
  by (cases cap) (simp_all add: memcpy_zeroed_def)

lemma horipad_dispatch_report7:
  assumes "revents AND (POLLHUP OR POLLERR) = 0" "hr_product s = 0x01ab \<or> hr_product s = 0x0196"
  shows "horipad_dispatch revents (Read_Bytes (7 # data)) s = PrintInputReport7 (received 48 64 (7 # data)) s"
  using assms(2) memcpy_first [of 64 7 data]
  by (simp add: horipad_dispatch_def read_report_zeroed [OF assms(1)] report_sizes horipad_handle_def received_def
      del: length_Cons)

lemma xbox_dispatch_report:
  assumes "revents AND (POLLHUP OR POLLERR) = 0" "hr_product s = 0x02FD"
  shows "xbox_dispatch revents (Read_Bytes (1 # data)) s = PrintInputReport1 (received 17 17 (1 # data)) s"
    "xbox_dispatch revents (Read_Bytes (2 # data)) s = PrintInputReport2 (received 2 17 (2 # data)) s"
    "xbox_dispatch revents (Read_Bytes (4 # data)) s = PrintInputReport4 (received 2 17 (4 # data)) s"
  using assms(2) memcpy_first [of 17 _ data]
  by (simp_all add: xbox_dispatch_def read_report_zeroed [OF assms(1)] report_sizes xbox_handle_def received_def
      del: length_Cons)

section \<open>Properties\<close>

text \<open>
  C18: report 7 of the HoriPad and reports 1, 2 and 4 of the Xbox controller are decoded member by
  member: each stick, trigger, direction, button and the battery printed is the value at its byte and
  bit of the bytes read, in this order and under this label, and bytes a short read did not bring
  count as zero.
\<close>

theorem input_reports_decoded:
  assumes "revents AND (POLLHUP OR POLLERR) = 0"
  shows "(hr_product s = 0x01ab \<or> hr_product s = 0x0196 \<longrightarrow> bs = 7 # data \<longrightarrow>
      log_of (horipad_dispatch revents (Read_Bytes bs) s) = log_of s @
        [Log Info ''Stick L/R: [{},{}] [{},{}] '' (map (\<lambda>i. LInt (int (byte_at bs i))) [1, 2, 3, 4]),
         Log Info ''L1/L2: {}, {}'' [LInt (int (byte_at bs 9)), LInt (int (byte_at bs 8))],
         Log Info ''D-PAD: {}'' [LStr (let d = byte_at bs 5 mod 16 in
           if d < 8 then [''North'', ''NorthEast'', ''East'', ''SouthEast'', ''South'', ''SouthWest'', ''West'', ''NorthWest''] ! d
           else ''None'')]] @
        log_bits bs [(''A: {}'', 5, 4), (''B: {}'', 5, 5), (''Quick Access: {}'', 5, 6), (''X: {}'', 5, 7),
          (''Y: {}'', 6, 0), (''M1: {}'', 6, 1), (''L1: {}'', 6, 2), (''R1: {}'', 6, 3), (''L2: {}'', 6, 4),
          (''R2: {}'', 6, 5), (''View: {}'', 6, 6), (''Menu: {}'', 6, 7), (''Home: {}'', 7, 0),
          (''Left Stick Btn: {}'', 7, 1), (''Right Stick Btn: {}'', 7, 2), (''M2: {}'', 7, 3),
          (''Button 17: {}'', 7, 4), (''Button 18: {}'', 7, 5), (''L4: {}'', 7, 6), (''R4: {}'', 7, 7)]) \<and>
    (hr_product s = 0x02FD \<longrightarrow> bs = 1 # data \<longrightarrow>
      log_of (xbox_dispatch revents (Read_Bytes bs) s) = log_of s @
        [Log Info ''Stick L/R: [{},{}] [{},{}] ''
           (map (\<lambda>(i, k). LInt (int (byte_at bs i + 256 * byte_at bs k))) [(1, 2), (3, 4), (5, 6), (7, 8)]),
         Log Info ''Trigger L/R: {}, {}''
           (map (\<lambda>(i, k). LInt (int (byte_at bs i + 256 * (byte_at bs k mod 4)))) [(9, 10), (11, 12)]),
         Log Info ''D-PAD: {}'' [LStr (let d = byte_at bs 13 mod 16 in
           if 1 \<le> d \<and> d \<le> 8
           then [''North'', ''NorthEast'', ''East'', ''SouthEast'', ''South'', ''SouthWest'', ''West'', ''NorthWest''] ! (d - 1)
           else ''None'')]] @
        log_bits bs [(''A: {}'', 14, 0), (''B: {}'', 14, 1), (''Button3: {}'', 14, 2), (''X: {}'', 14, 3),
          (''Y: {}'', 14, 4), (''Button6: {}'', 14, 5), (''Left Bumper: {}'', 14, 6), (''Right Bumper: {}'', 14, 7),
          (''Button9: {}'', 15, 0), (''Button10: {}'', 15, 1), (''Button11: {}'', 15, 2), (''Menu: {}'', 15, 3),
          (''Button13: {}'', 15, 4), (''Left Stick Btn: {}'', 15, 5), (''Right Stick Btn: {}'', 15, 6),
          (''Back: {}'', 16, 0)]) \<and>
    (hr_product s = 0x02FD \<longrightarrow> bs = 2 # data \<longrightarrow>
      log_of (xbox_dispatch revents (Read_Bytes bs) s) = log_of s @ log_bits bs [(''Home Button: {}'', 1, 0)]) \<and>
    (hr_product s = 0x02FD \<longrightarrow> bs = 4 # data \<longrightarrow>
      log_of (xbox_dispatch revents (Read_Bytes bs) s) = log_of s @
        [Log Info ''Battery: {}'' [LInt (int ((200 * byte_at bs 1 + 255) div 510))]])"
proof (intro conjI impI, goal_cases)
  case 1
  then show ?case
    by (simp add: horipad_dispatch_report7 [OF assms] PrintInputReport7_def Let_def log_of_log_flds log_msg_def log_bits_def
        horipad_bytes horipad_bits byte_at_received horipad_dpad_to_string_def direction_names_def)
next
  case 2
  then show ?case
    by (simp add: xbox_dispatch_report [OF assms] PrintInputReport1_def Let_def log_of_log_flds log_msg_def log_bits_def
        xbox_words xbox_bits byte_at_received xbox_dpad_to_string_def direction_names_def byte_at_less)
next
  case 3
  then show ?case
    by (simp add: xbox_dispatch_report [OF assms] PrintInputReport2_def log_fld_def log_msg_def log_bits_def
        xbox_small_members byte_at_received)
next
  case 4
  then show ?case
    by (simp add: xbox_dispatch_report [OF assms] PrintInputReport4_def log_msg_def battery_percentage_def
        xbox_small_members byte_at_received)
qed

text \<open>
  C17: a HoriPad or Xbox reader is valid exactly when the node opened and every step of its
  description succeeded: the raw info, the name, the physical location, a descriptor size of 0 to
  4096 and the descriptor. A valid reader owns the descriptor and nothing was closed; any other
  owns nothing, and a descriptor that was opened has been closed, once.
\<close>

theorem reader_owns_or_closes:
  assumes "fst (hk_open k device open_flags) = rc"
    and "new = horipad_reader_new k device \<or> new = xbox_reader_new k device"
  shows "(reader_valid (fst new) \<longleftrightarrow>
      0 \<le> rc \<and> \<not> isl (hk_rawinfo k) \<and> \<not> isl (hk_rawname k) \<and> \<not> isl (hk_rawphys k) \<and>
      (\<exists>n. hk_descsize k = Inr n \<and> 0 \<le> n \<and> n \<le> 4096 \<and> \<not> isl (hk_desc k (nat n)))) \<and>
    (if reader_valid (fst new) then hr_fd (fst new) = ufd_own rc \<and> snd new = []
     else hr_fd (fst new) = ufd_empty \<and> snd new = (if 0 \<le> rc then [rc] else []))"
proof -
  let ?s = "\<lparr>log_of = [], hr_device = device, hr_fd = ufd_empty, hr_product = 0\<rparr>"
  have "new = with_device k (describe_device k) ?s"
    using assms(2) by (auto simp: horipad_reader_new_def horipad_open_and_init_def
        xbox_reader_new_def xbox_open_and_init_def)
  then have new: "with_device k (describe_device k) ?s = (fst new, snd new)" by simp
  show ?thesis
    using with_device_fd [OF _ _ _ new, of rc] assms(1) by (simp add: describe_device_ok)
qed

lemma input_reports_decoded_witness:
  "log_of (xbox_dispatch POLLIN (Read_Bytes [2, 1]) \<lparr>log_of = [], hr_device = [], hr_fd = ufd_empty, hr_product = 0x02FD\<rparr>)
     = [Log Info ''Home Button: {}'' [LInt 1]] \<and>
   log_of (xbox_dispatch POLLIN (Read_Bytes [4, 128]) \<lparr>log_of = [], hr_device = [], hr_fd = ufd_empty, hr_product = 0x02FD\<rparr>)
     = [Log Info ''Battery: {}'' [LInt 50]]"
proof -
  have "(POLLIN :: u16) AND (POLLHUP OR POLLERR) = 0" by code_simp
  note r = input_reports_decoded [OF this, where s = "\<lparr>log_of = [], hr_device = [], hr_fd = ufd_empty, hr_product = 0x02FD\<rparr>"]
  show ?thesis using r [of "[2, 1]" "[1]"] r [of "[4, 128]" "[128]"] by (simp add: log_bits_def byte_at_def)
qed

definition sample_kernel :: hid_kernel where
  "sample_kernel = \<lparr>hk_open = (\<lambda>_ _. (9, 0)),
     hk_rawinfo = Inr \<lparr>di_bustype = 5, di_vendor = 0x0f0d, di_product = 0x01ab\<rparr>,
     hk_rawname = Inr [72, 79, 82, 73], hk_rawphys = Inr [], hk_descsize = Inr 2,
     hk_desc = (\<lambda>_. Inr [5, 1]), hk_feature = (\<lambda>_. Inl 32)\<rparr>"

definition broken_kernel :: hid_kernel where
  "broken_kernel = sample_kernel\<lparr>hk_descsize := Inr 5000\<rparr>"

lemma reader_owns_or_closes_witness:
  "hr_fd (fst (horipad_reader_new sample_kernel ''/dev/hidraw3'')) = ufd_own 9 \<and>
   snd (horipad_reader_new broken_kernel ''/dev/hidraw3'') = [9]"
proof
  have "reader_valid (fst (horipad_reader_new sample_kernel ''/dev/hidraw3''))" by code_simp
  then show "hr_fd (fst (horipad_reader_new sample_kernel ''/dev/hidraw3'')) = ufd_own 9"
    using reader_owns_or_closes [of sample_kernel "''/dev/hidraw3''" 9
        "horipad_reader_new sample_kernel ''/dev/hidraw3''"] by (simp add: sample_kernel_def)
  have "\<not> reader_valid (fst (horipad_reader_new broken_kernel ''/dev/hidraw3''))" by code_simp
  then show "snd (horipad_reader_new broken_kernel ''/dev/hidraw3'') = [9]"
    using reader_owns_or_closes [of broken_kernel "''/dev/hidraw3''" 9
        "horipad_reader_new broken_kernel ''/dev/hidraw3''"] by (simp add: broken_kernel_def sample_kernel_def)
qed

text \<open>
  the descriptor size the kernel reports is checked before use: a device is accepted only
  with a size of 0 to 4096 bytes, the room in the struct, and the dump covers exactly that
  many bytes of it.
\<close>

theorem descriptor_dump_in_bounds:
  assumes "fst (describe_device k s)"
  shows "\<exists>n bytes. hk_descsize k = Inr (int n) \<and> n \<le> 4096 \<and> hk_desc k n = Inr bytes \<and>
     length (take n (memcpy_zeroed 4096 bytes (length bytes))) = n \<and>
     last (log_of (snd (describe_device k s))) =
       Log Info (''Report Descriptor'' @ endl @
         custom_hexdump 400 False (take n (memcpy_zeroed 4096 bytes (length bytes)))) []"
proof -
  obtain n bytes where n: "hk_descsize k = Inr n" "0 \<le> n" "n \<le> 4096" "hk_desc k (nat n) = Inr bytes"
     "last (log_of (snd (describe_device k s))) =
       Log Info (''Report Descriptor'' @ endl @
         custom_hexdump 400 False (take (nat n) (memcpy_zeroed 4096 bytes (length bytes)))) []"
    using hr_product_describe [OF assms] by blast
  moreover have "int (nat n) = n" "nat n \<le> 4096" using n by simp_all
  ultimately show ?thesis
    by (intro exI [of _ "nat n"] exI [of _ bytes]) (simp add: memcpy_zeroed_def)
qed

lemma descriptor_dump_in_bounds_witness:
  "\<exists>n bytes. hk_descsize sample_kernel = Inr (int n) \<and> n \<le> 4096 \<and> hk_desc sample_kernel n = Inr bytes"
proof -
  have "fst (describe_device sample_kernel
      \<lparr>log_of = [], hr_device = [], hr_fd = ufd_empty, hr_product = 0\<rparr>)" by code_simp
  from descriptor_dump_in_bounds [OF this] show ?thesis by blast
qed

text \<open>
  the HoriPad reader does not recognise the vendor reports of its header: a report that
  starts with the report ID 0x10, 0x12 or 0x14 of \<open>inputReport10_t\<close>, \<open>inputReport12_t\<close> or
  \<open>inputReport14_t\<close> is logged as an unknown report and nothing of it is printed, because the
  IDs are compared with the decimal numbers 10, 12 and 14.
\<close>

theorem horipad_vendor_reports_unknown:
  assumes "hr_product s = 0x01ab \<or> hr_product s = 0x0196"
    and "revents AND (POLLHUP OR POLLERR) = 0" "report_id \<in> {0x10, 0x12, 0x14}"
  shows "horipad_dispatch revents (Read_Bytes (of_nat report_id # data)) s =
    log_msg Err ''Unknown report id: {}'' [LInt (int report_id)] s"
proof -
  have pos: "0 < sizeof_struct horipad_inputReport12_t"
    by (simp add: sizeof_struct_def horipad_inputReport12_t_def)
  obtain buf n where buf: "buf ! 0 = of_nat report_id"
    "horipad_dispatch revents (Read_Bytes (of_nat report_id # data)) s = horipad_handle buf n s"
    unfolding horipad_dispatch_def using read_report_first [OF assms(2) pos] by metis
  have "unat (of_nat report_id :: u8) = report_id" using assms(3) by auto
  then show ?thesis
    using assms(1,3) by (auto simp: buf horipad_handle_def Let_def)
qed

lemma horipad_vendor_reports_unknown_witness:
  "horipad_dispatch POLLIN (Read_Bytes [0x12, 1, 2])
     \<lparr>log_of = [], hr_device = [], hr_fd = ufd_empty, hr_product = 0x01ab\<rparr> =
   \<lparr>log_of = [Log Err ''Unknown report id: {}'' [LInt 18]], hr_device = [], hr_fd = ufd_empty,
    hr_product = 0x01ab\<rparr>"
proof -
  have "(POLLIN :: u16) AND (POLLHUP OR POLLERR) = 0" by code_simp
  then show ?thesis
    using horipad_vendor_reports_unknown [where revents = POLLIN and report_id = "0x12" and data = "[1, 2]"
      and s = "\<lparr>log_of = [], hr_device = [], hr_fd = ufd_empty, hr_product = 0x01ab\<rparr>"]
    by (simp add: log_msg_def)
qed

text \<open>
  the battery percentage printed is the strength byte as a percentage rounded to the
  nearest integer, whatever the rounding errors of the \<open>float\<close> computation as long as they stay
  below 1/102; it is 0 to 100, and 100 only from 254 on.
\<close>

theorem battery_round_robust:
  assumes "x \<le> 255" "\<bar>y - 100 * real x / 255\<bar> < 1 / 102"
  shows "round y = int (battery_percentage x) \<and> battery_percentage x \<le> 100"
proof -
  let ?b = "battery_percentage x"
  have b: "510 * ?b \<le> 200 * x + 255" "200 * x + 255 < 510 * ?b + 510"
    by (simp_all add: battery_percentage_def)
  have "odd (200 * x + 255)" and "even (510 * ?b)" by simp_all
  then have "200 * x + 255 \<noteq> 510 * ?b" by metis
  with b have "102 * ?b < 40 * x + 51" "40 * x + 51 < 102 * ?b + 102" by linarith+
  then have "510 * ?b + 5 \<le> 200 * x + 255" "200 * x + 260 \<le> 510 * ?b + 510" by linarith+
  then have "real (510 * ?b + 5) \<le> real (200 * x + 255)" "real (200 * x + 260) \<le> real (510 * ?b + 510)"
    by (simp_all only: of_nat_le_iff)
  then have "510 * real ?b + 5 \<le> 200 * real x + 255" "200 * real x + 260 \<le> 510 * real ?b + 510"
    by simp_all
  moreover have "y < 100 * real x / 255 + 1 / 102" "100 * real x / 255 - 1 / 102 < y"
    using assms(2) unfolding abs_diff_less_iff by simp_all
  ultimately have "real ?b - 1 / 2 \<le> y" "y < real ?b + 1 / 2" by linarith+
  then have "round y = int ?b"
    unfolding round_def by (intro floor_unique) auto
  moreover have "?b \<le> 100" using assms(1) by (simp add: battery_percentage_def)
  ultimately show ?thesis by simp
qed

lemma battery_round_robust_witness:
  "round (100 * real 128 / 255) = 50 \<and> battery_percentage 128 = 50 \<and> battery_percentage 253 = 99"
  using battery_round_robust [of 128 "100 * real 128 / 255"] by (simp add: battery_percentage_def)

end
