(* ===== verification/Dual_Sense_Reader.thy ===== *)
theory Dual_Sense_Reader
  imports Hid_Readers "HOL-Library.Signed_Division"
begin

text \<open>
  The DualSense \<open>InputReader\<close> (\<open>src/bluez/ps5_dual_sense/input_reader.{h,cc}\<close>): the feature
  reports read at start, the calibration computed from one of them, and the decoding of the
  input reports. Signed arithmetic is done in \<open>int\<close> with the range of the C type checked: what
  C++ leaves undefined (division by zero, overflow of \<open>int\<close>) is \<open>None\<close>.
\<close>

section \<open>\<open>hid_error.h\<close>\<close>

definition kInvalidResponse :: int where "kInvalidResponse = 1"

definition hid_category_message :: "int \<Rightarrow> string" where
  "hid_category_message condition =
     (if condition = kInvalidResponse then ''invalid device response'' else ''unknown hid error'')"

text \<open>A \<open>std::error_code\<close>: its category and value; its \<open>message()\<close> as logged.\<close>

datatype error_code = Generic_Error int | Hid_Error int

fun error_message :: "error_code \<Rightarrow> larg" where
  "error_message (Generic_Error e) = LErrno e"
| "error_message (Hid_Error c) = LStr (hid_category_message c)"

section \<open>Signed arithmetic\<close>

definition int32 :: "int \<Rightarrow> int option" where
  "int32 v = (if int32_min \<le> v \<and> v \<le> int32_max then Some v else None)"

definition div32 :: "int \<Rightarrow> int \<Rightarrow> int option" where
  "div32 x d = (if d = 0 then None else int32 (x sdiv d))"

definition mod32 :: "int \<Rightarrow> int \<Rightarrow> int option" where
  "mod32 x d = (if d = 0 \<or> int32 (x sdiv d) = None then None else Some (x smod d))"

definition to_int16 :: "int \<Rightarrow> int" where
  "to_int16 v = sint (word_of_int v :: u16)"

text \<open>\<open>mult_frac<int32_t, int16_t, int32_t>\<close>\<close>

definition mult_frac :: "int \<Rightarrow> int \<Rightarrow> int \<Rightarrow> int option" where
  "mult_frac x n d =
     Option.bind (div32 x d) (\<lambda>q.
     Option.bind (mod32 x d) (\<lambda>r.
     Option.bind (int32 (q * n)) (\<lambda>qn.
     Option.bind (int32 (r * n)) (\<lambda>rn.
     Option.bind (div32 rn d) (\<lambda>f. int32 (qn + f))))))"

section \<open>State\<close>

record CalibrationData =
  cd_abs_code :: int
  cd_bias :: int
  cd_sens_numer :: int
  cd_sens_denom :: int

record HardwareCalibrationData =
  hc_gyro :: "CalibrationData list"
  hc_accel :: "CalibrationData list"

definition zero_axis :: CalibrationData where
  "zero_axis = \<lparr>cd_abs_code = 0, cd_bias = 0, cd_sens_numer = 0, cd_sens_denom = 0\<rparr>"

definition zero_calibration :: HardwareCalibrationData where
  "zero_calibration = \<lparr>hc_gyro = replicate 3 zero_axis, hc_accel = replicate 3 zero_axis\<rparr>"

record dual_sense_reader = hid_reader +
  dr_mac :: "u8 list"
  dr_version :: "u8 list"
  dr_cal :: HardwareCalibrationData

section \<open>Feature reports\<close>

text \<open>The \<open>HIDIOCGFEATURE\<close> answer over the request buffer.\<close>

definition overwrite :: "u8 list \<Rightarrow> u8 list \<Rightarrow> u8 list" where
  "overwrite answer buf = (let k = min (length buf) (length answer) in take k answer @ drop k buf)"

definition get_feature :: "hid_kernel \<Rightarrow> u8 list \<Rightarrow> error_code + u8 list" where
  "get_feature k request =
     (case hk_feature k request of Inl e \<Rightarrow> Inl (Generic_Error e) | Inr answer \<Rightarrow> Inr (overwrite answer request))"

text \<open>The reports are out parameters: a failed check leaves what the device answered in them.\<close>

definition GetControllerMacAll :: "hid_kernel \<Rightarrow> u8 list \<Rightarrow> error_code option \<times> u8 list" where
  "GetControllerMacAll k mac_all =
     (let mac_all = mac_all[0 := 0x09]
      in case get_feature k mac_all of
           Inl e \<Rightarrow> (Some e, mac_all)
         | Inr mac_all \<Rightarrow>
             (let v = (\<lambda>f. fld ReportFeatureInMacAll f mac_all)
              in if v ''ReportID'' \<noteq> 0x09 \<or> v ''Hard08'' \<noteq> 0x08 \<or> v ''Hard25'' \<noteq> 0x25 \<or> v ''Hard00'' \<noteq> 0x00
                 then (Some (Hid_Error kInvalidResponse), mac_all) else (None, mac_all)))"

definition GetControllerVersion :: "hid_kernel \<Rightarrow> u8 list \<Rightarrow> error_code option \<times> u8 list" where
  "GetControllerVersion k version =
     (let version = version[0 := 0x20]
      in case get_feature k version of
           Inl e \<Rightarrow> (Some e, version)
         | Inr version \<Rightarrow>
             (if fld ReportFeatureInVersion ''ReportID'' version \<noteq> 0x20
              then (Some (Hid_Error kInvalidResponse), version) else (None, version)))"

definition ACC_RES_PER_G :: int where "ACC_RES_PER_G = 8192"
definition ACC_RANGE :: int where "ACC_RANGE = 4 * ACC_RES_PER_G"
definition GYRO_RES_PER_DEG_S :: int where "GYRO_RES_PER_DEG_S = 1024"
definition GYRO_RANGE :: int where "GYRO_RANGE = 2048 * GYRO_RES_PER_DEG_S"

definition ABS_X :: int where "ABS_X = 0"
definition ABS_Y :: int where "ABS_Y = 1"
definition ABS_Z :: int where "ABS_Z = 2"
definition ABS_RX :: int where "ABS_RX = 3"
definition ABS_RY :: int where "ABS_RY = 4"
definition ABS_RZ :: int where "ABS_RZ = 5"

abbreviation cal_fld :: "string \<Rightarrow> u8 list \<Rightarrow> int" where
  "cal_fld f b \<equiv> int (fld ReportFeatureCalibrationData f b)"

definition gyro_axis :: "int \<Rightarrow> string \<Rightarrow> u8 list \<Rightarrow> CalibrationData" where
  "gyro_axis code axis b =
     (let v = (\<lambda>f. cal_fld (''gyro.'' @ f) b); speed_2x = v ''speed_plus'' + v ''speed_minus''
      in \<lparr>cd_abs_code = code, cd_bias = 0, cd_sens_numer = speed_2x * GYRO_RES_PER_DEG_S,
          cd_sens_denom = \<bar>v (axis @ ''_plus'') - v (axis @ ''_bias'')\<bar> +
                          \<bar>v (axis @ ''_minus'') - v (axis @ ''_bias'')\<bar>\<rparr>)"

definition accel_axis :: "int \<Rightarrow> string \<Rightarrow> u8 list \<Rightarrow> CalibrationData" where
  "accel_axis code axis b =
     (let v = (\<lambda>f. cal_fld (''acc.'' @ f) b); range_2g = v (axis @ ''_plus'') - v (axis @ ''_minus'')
      in \<lparr>cd_abs_code = code, cd_bias = to_int16 (v (axis @ ''_plus'') - range_2g sdiv 2),
          cd_sens_numer = 2 * ACC_RES_PER_G, cd_sens_denom = range_2g\<rparr>)"

text \<open>One step of each of the two sanity loops.\<close>

definition sane_gyro :: "nat \<Rightarrow> CalibrationData \<Rightarrow> CalibrationData \<times> log_entry list" where
  "sane_gyro i c =
     (if cd_sens_denom c = 0
      then (\<lparr>cd_abs_code = ABS_RX + int i, cd_bias = 0, cd_sens_numer = GYRO_RANGE, cd_sens_denom = int16_max\<rparr>,
            [Log Warn ''Invalid gyro calibration data for axis ({}), disabling calibration.'' [LInt (ABS_RX + int i)]])
      else (c, []))"

definition sane_accel :: "nat \<Rightarrow> CalibrationData \<Rightarrow> CalibrationData \<times> log_entry list" where
  "sane_accel i c =
     (if cd_sens_denom c = 0
      then (\<lparr>cd_abs_code = ABS_RX + int i, cd_bias = 0, cd_sens_numer = ACC_RANGE, cd_sens_denom = int16_max\<rparr>,
            [Log Warn ''Invalid accelerometer calibration data for axis ({}), disabling calibration.''
               [LInt (ABS_RX + int i)]])
      else (c, []))"

definition GetControllerCalibrationData ::
    "hid_kernel \<Rightarrow> HardwareCalibrationData \<Rightarrow> error_code option \<times> HardwareCalibrationData \<times> log_entry list" where
  "GetControllerCalibrationData k cal =
     (let request = (replicate ReportFeatureCalibrationData_size 0)[0 := 0x05]
      in case get_feature k request of
           Inl e \<Rightarrow> (Some e, cal, [])
         | Inr b \<Rightarrow>
             (if fld ReportFeatureCalibrationData ''ReportID'' b \<noteq> 0x05
              then (Some (Hid_Error kInvalidResponse), cal, [])
              else (let gyro = [gyro_axis ABS_RX ''pitch'' b, gyro_axis ABS_RY ''yaw'' b, gyro_axis ABS_RZ ''roll'' b];
                        accel = [accel_axis ABS_X ''x'' b, accel_axis ABS_Y ''y'' b, accel_axis ABS_Z ''z'' b];
                        gyro = map (\<lambda>i. sane_gyro i (gyro ! i)) [0..<3];
                        accel = map (\<lambda>i. sane_accel i (accel ! i)) [0..<3]
                    in (None, \<lparr>hc_gyro = map fst gyro, hc_accel = map fst accel\<rparr>,
                        concat (map snd gyro) @ concat (map snd accel)))))"

section \<open>Opening\<close>

definition best_effort :: "string \<Rightarrow> error_code option \<Rightarrow> 'a logged_scheme \<Rightarrow> 'a logged_scheme" where
  "best_effort fmt err s = (case err of None \<Rightarrow> s | Some e \<Rightarrow> log_msg Warn fmt [error_message e] s)"

definition read_features :: "hid_kernel \<Rightarrow> dual_sense_reader \<Rightarrow> dual_sense_reader" where
  "read_features k s =
     (let (err, cal, lg) = GetControllerCalibrationData k (dr_cal s);
          s = best_effort ''controller calibration data unavailable: {}'' err (add_logs lg (s\<lparr>dr_cal := cal\<rparr>));
          (err, mac) = GetControllerMacAll k (dr_mac s);
          s = best_effort ''controller MAC unavailable: {}'' err (s\<lparr>dr_mac := mac\<rparr>);
          (err, version) = GetControllerVersion k (dr_version s)
      in best_effort ''controller version unavailable: {}'' err (s\<lparr>dr_version := version\<rparr>))"

definition dual_sense_open_and_init :: "hid_kernel \<Rightarrow> dual_sense_reader \<Rightarrow> dual_sense_reader \<times> int list" where
  "dual_sense_open_and_init k s =
     with_device k (\<lambda>s. let (ok, s) = describe_device k s in if ok then (True, read_features k s) else (False, s)) s"

definition dual_sense_reader_new :: "hid_kernel \<Rightarrow> string \<Rightarrow> dual_sense_reader \<times> int list" where
  "dual_sense_reader_new k device =
     dual_sense_open_and_init k
       \<lparr>log_of = [], hr_device = device, hr_fd = ufd_empty, hr_product = 0,
        dr_mac = replicate (sizeof_struct ReportFeatureInMacAll) 0,
        dr_version = replicate ReportFeatureInVersion_size 0, dr_cal = zero_calibration\<rparr>"

section \<open>Printing\<close>

definition dpad_to_string :: "nat \<Rightarrow> string" where
  "dpad_to_string d = (case direction_of d of
     Some North \<Rightarrow> ''North'' | Some NorthEast \<Rightarrow> ''NorthEast'' | Some East \<Rightarrow> ''East''
   | Some SouthEast \<Rightarrow> ''SouthEast'' | Some South \<Rightarrow> ''South'' | Some SouthWest \<Rightarrow> ''SouthWest''
   | Some West \<Rightarrow> ''West'' | Some NorthWest \<Rightarrow> ''NorthWest'' | _ \<Rightarrow> ''None'')"

definition power_state_to_string :: "nat \<Rightarrow> string" where
  "power_state_to_string n = (case power_state_of n of
     Some Discharging \<Rightarrow> ''Discharging'' | Some Charging \<Rightarrow> ''Charging'' | Some Complete \<Rightarrow> ''Complete''
   | Some AbnormalVoltage \<Rightarrow> ''AbnormalVoltage'' | Some AbnormalTemperature \<Rightarrow> ''AbnormalTemperature''
   | Some ChargingError \<Rightarrow> ''ChargingError'' | None \<Rightarrow> ''Unknown'')"

definition mute_light_to_string :: "nat \<Rightarrow> string" where
  "mute_light_to_string n = (case mute_light_of n of
     Some MuteOff \<Rightarrow> ''Off'' | Some MuteOn \<Rightarrow> ''On'' | Some Breathing \<Rightarrow> ''Breathing''
   | Some DoNothing \<Rightarrow> ''DoNothing'' | Some MuteNoAction4 \<Rightarrow> ''NoAction4'' | Some MuteNoAction5 \<Rightarrow> ''NoAction5''
   | Some MuteNoAction6 \<Rightarrow> ''NoAction6'' | Some MuteNoAction7 \<Rightarrow> ''NoAction7'' | None \<Rightarrow> ''Unknown'')"

definition light_brightness_to_string :: "nat \<Rightarrow> string" where
  "light_brightness_to_string n = (case light_brightness_of n of
     Some Bright \<Rightarrow> ''Bright'' | Some Mid \<Rightarrow> ''Mid'' | Some Dim \<Rightarrow> ''Dim''
   | Some LightNoAction3 \<Rightarrow> ''NoAction3'' | Some LightNoAction4 \<Rightarrow> ''NoAction4''
   | Some LightNoAction5 \<Rightarrow> ''NoAction5'' | Some LightNoAction6 \<Rightarrow> ''NoAction6''
   | Some LightNoAction7 \<Rightarrow> ''NoAction7'' | None \<Rightarrow> ''Unknown'')"

definition light_fade_animation_to_string :: "nat \<Rightarrow> string" where
  "light_fade_animation_to_string n = (case light_fade_animation_of n of
     Some FadeNothing \<Rightarrow> ''Nothing'' | Some FadeIn \<Rightarrow> ''FadeIn'' | Some FadeOut \<Rightarrow> ''FadeOut''
   | None \<Rightarrow> ''Unknown'')"

definition axis_line :: "string \<Rightarrow> CalibrationData \<Rightarrow> log_entry" where
  "axis_line kind c =
     Log Info (tab @ kind @ '' {}: bias: {}, sens_numer: {}, sens_denom: {}'')
       [LInt (cd_abs_code c), LInt (cd_bias c), LInt (cd_sens_numer c), LInt (cd_sens_denom c)]"

definition PrintCalibrationData :: "HardwareCalibrationData \<Rightarrow> log_entry list" where
  "PrintCalibrationData cal =
     [Log Info ''HW Calibration Data'' []] @ map (axis_line ''Accel'') (hc_accel cal) @
     map (axis_line ''Gyro'') (hc_gyro cal)"

text \<open>The bytes of an address, last first, in two hexadecimal digits each.\<close>

fun join_colon :: "string list \<Rightarrow> string" where
  "join_colon [] = []"
| "join_colon [x] = x"
| "join_colon (x # y # ys) = x @ '':'' @ join_colon (y # ys)"

definition mac_string :: "u8 list \<Rightarrow> string" where
  "mac_string mac = join_colon (map hex2 (rev mac))"

definition PrintControllerMacAll :: "u8 list \<Rightarrow> log_entry list" where
  "PrintControllerMacAll b =
     [Log Info ''Controller Mac All'' [],
      Log Info (tab @ ''Report ID: 0x{:02X}'') [LInt (int (fld ReportFeatureInMacAll ''ReportID'' b))],
      Log Info (tab @ ''Client: '' @ mac_string (bfld ReportFeatureInMacAll ''ClientMac'' b)) [],
      Log Info (tab @ ''Host: '' @ mac_string (bfld ReportFeatureInMacAll ''HostMac'' b)) []]"

definition firmware_version_string :: "nat \<Rightarrow> string" where
  "firmware_version_string v =
     pad_left (CHR ''0'') 2 (digits 16 (v div 2 ^ 24 mod 256)) @ ''.'' @
     pad_left (CHR ''0'') 2 (digits 16 (v div 2 ^ 16 mod 256)) @ ''.'' @
     pad_left (CHR ''0'') 4 (digits 16 (v mod 65536))"

definition PrintControllerVersion :: "u8 list \<Rightarrow> log_entry list" where
  "PrintControllerVersion b =
     (let L = ReportFeatureInVersion; u = (\<lambda>f. LInt (int (fld L f b))); i = (\<lambda>f. LInt (sfld L f b));
          chars = (\<lambda>f. map (\<lambda>x. char_of (unat x)) (bfld L f b))
      in [Log Info ''Firmware Info'' [],
          Log Info (tab @ ''ReportID: 0x{:02X}'') [u ''ReportID''],
          Log Info (tab @ ''BuildDate: {}'') [LStr (chars ''BuildDate'')],
          Log Info (tab @ ''BuildTime: {}'') [LStr (chars ''BuildTime'')],
          Log Info (tab @ ''FwType: {}'') [u ''FwType''],
          Log Info (tab @ ''SwSeries: 0x{:04X}'') [u ''SwSeries''],
          Log Info (tab @ ''HardwareInfo: 0x{:08X}'') [u ''HardwareInfo''],
          Log Info (tab @ ''FirmwareVersion: {}'') [LStr (firmware_version_string (fld L ''FirmwareVersion'' b))],
          Log Info (tab @ ''DeviceInfo: {}'') [LStr (c_str (bfld L ''DeviceInfo'' b))],
          Log Info (tab @ ''UpdateVersion: 0x{:04X}'') [u ''UpdateVersion''],
          Log Info (tab @ ''UpdateImageInfo: 0x{:02}'') [i ''UpdateImageInfo''],
          Log Info (tab @ ''UpdateUnk: 0x{:02}'') [i ''UpdateUnk''],
          Log Info (tab @ ''SblFwVersion: 0x{:08X}'') [u ''SblFwVersion''],
          Log Info (tab @ ''VenomFwVersion: 0x{:08X}'') [u ''VenomFwVersion''],
          Log Info (tab @ ''SpiderDspFwVersion: 0x{:08X}'') [u ''SpiderDspFwVersion'']])"

definition calibrated :: "CalibrationData \<Rightarrow> string \<Rightarrow> u8 list \<Rightarrow> int option" where
  "calibrated c f b = mult_frac (cd_sens_numer c) (sfld USBGetStateData f b) (cd_sens_denom c)"

definition usb_line :: "u8 list \<Rightarrow> string \<Rightarrow> log_entry" where
  "usb_line b f = Log Info (tab @ f @ '': {}'') [LInt (int (fld USBGetStateData f b))]"

definition finger_line :: "u8 list \<Rightarrow> string \<Rightarrow> log_entry" where
  "finger_line b finger =
     (let v = (\<lambda>f. LInt (int (fld USBGetStateData (''touchData.'' @ f) b)))
      in Log Info (tab @ ''TouchData: timestamp: {}, index: {}, X: {}, Y: {}, NotTouching: {}'')
           [v ''Timestamp'', v (finger @ ''.Index''), v (finger @ ''.FingerX''), v (finger @ ''.FingerY''),
            v (finger @ ''.NotTouching'')])"

definition PrintControllerStateUsb :: "u8 list \<Rightarrow> HardwareCalibrationData \<Rightarrow> log_entry list option" where
  "PrintControllerStateUsb b cal =
     (let L = USBGetStateData; u = (\<lambda>f. LInt (int (fld L f b))); i = (\<lambda>f. LInt (sfld L f b))
      in Option.bind (calibrated (hc_gyro cal ! 0) ''AngularVelocityX'' b) (\<lambda>gyro_x.
         Option.bind (calibrated (hc_gyro cal ! 1) ''AngularVelocityY'' b) (\<lambda>gyro_y.
         Option.bind (calibrated (hc_gyro cal ! 2) ''AngularVelocityZ'' b) (\<lambda>gyro_z.
         Option.bind (calibrated (hc_accel cal ! 0) ''AccelerometerX'' b) (\<lambda>acc_x.
         Option.bind (calibrated (hc_accel cal ! 1) ''AccelerometerY'' b) (\<lambda>acc_y.
         Option.bind (calibrated (hc_accel cal ! 2) ''AccelerometerZ'' b) (\<lambda>acc_z.
         Some (
           [Log Info ''Controller State (USB)'' [],
            Log Info (tab @ ''LeftStick: {}, {}'') [u ''LeftStickX'', u ''LeftStickY''],
            Log Info (tab @ ''RightStick: {}, {}'') [u ''RightStickX'', u ''RightStickY''],
            Log Info (tab @ ''DPad: {}'') [LStr (dpad_to_string (fld L ''DPad'' b))]] @
           map (usb_line b)
             [''ButtonSquare'', ''ButtonCross'', ''ButtonCircle'', ''ButtonTriangle'', ''ButtonL1'',
              ''ButtonR1'', ''ButtonL2'', ''ButtonR2'', ''ButtonCreate'', ''ButtonOptions'', ''ButtonL3'',
              ''ButtonR3'', ''ButtonHome'', ''ButtonPad'', ''ButtonMute'', ''ButtonLeftFunction'',
              ''ButtonRightFunction'', ''ButtonLeftPaddle'', ''ButtonRightPaddle'', ''TimeStamp''] @
           [Log Info (tab @ ''AngularVelocity (Raw): {}, {}, {}'')
              [i ''AngularVelocityX'', i ''AngularVelocityY'', i ''AngularVelocityZ''],
            Log Info (tab @ ''AngularVelocity (Cal): {}, {}, {}'') [LInt gyro_x, LInt gyro_y, LInt gyro_z],
            Log Info (tab @ ''Accelerometer (Raw): {}, {}, {}'')
              [i ''AccelerometerX'', i ''AccelerometerY'', i ''AccelerometerZ''],
            Log Info (tab @ ''Accelerometer (Cal): {}, {}, {}'') [LInt acc_x, LInt acc_y, LInt acc_z],
            usb_line b ''SensorTimestamp'',
            Log Info (tab @ ''Temperature: {}'') [i ''Temperature''],
            finger_line b ''Finger[0]'', finger_line b ''Finger[1]''] @
           map (usb_line b)
             [''TriggerRightStopLocation'', ''TriggerRightStatus'', ''TriggerLeftStopLocation'',
              ''TriggerLeftStatus'', ''TriggerRightEffect'', ''TriggerLeftEffect'', ''PowerPercent''] @
           [Log Info (tab @ ''PowerState: {}'') [LStr (power_state_to_string (fld L ''powerState'' b))]] @
           map (usb_line b)
             [''PluggedHeadphones'', ''PluggedMic'', ''MicMuted'', ''PluggedUsbData'', ''PluggedUsbPower'',
              ''PluggedExternalMic'', ''HapticLowPassFilter'']))))))))"

definition PrintControllerStateBt :: "u8 list \<Rightarrow> log_entry list" where
  "PrintControllerStateBt b =
     (let L = BTSimpleGetStateData; u = (\<lambda>f. LInt (int (fld L f b)));
          line = (\<lambda>f. Log Info (tab @ f @ '': {}'') [u f])
      in [Log Info ''Controller State (BT)'' [],
          Log Info (tab @ ''LeftStick: {}, {}'') [u ''LeftStickX'', u ''LeftStickY''],
          Log Info (tab @ ''RightStick: {}, {}'') [u ''RightStickX'', u ''RightStickY''],
          Log Info (tab @ ''DPad: {}'') [LStr (dpad_to_string (fld L ''DPad'' b))]] @
         map line
           [''ButtonSquare'', ''ButtonCross'', ''ButtonCircle'', ''ButtonTriangle'', ''ButtonL1'',
            ''ButtonR1'', ''ButtonL2'', ''ButtonR2'', ''ButtonShare'', ''ButtonOptions'', ''ButtonL3'',
            ''ButtonR3'', ''ButtonHome'', ''ButtonPad'', ''Counter'', ''TriggerLeft'', ''TriggerRight''])"

section \<open>Dispatch\<close>

text \<open>\<open>None\<close> is undefined behaviour.\<close>

definition dual_sense_handle :: "u8 list \<Rightarrow> nat \<Rightarrow> dual_sense_reader \<Rightarrow> dual_sense_reader option" where
  "dual_sense_handle buffer n s =
     (if hr_product s = 0x0CE6
      then (let report_id = unat (buffer ! 0)
            in if report_id = 1
               then (let input_report01 = memcpy_zeroed (sizeof_struct USBGetStateData) buffer n
                     in map_option (\<lambda>lg. add_logs lg s) (PrintControllerStateUsb input_report01 (dr_cal s)))
               else if report_id = 49
               then (let input_report31 = memcpy_zeroed ReportIn31_size buffer n
                     in if fld ReportIn31 ''HasHID'' input_report31 \<noteq> 0
                        then (let s = log_msg Info ''[ReportIn31] Has HID'' [] s;
                                  state = take (sizeof_struct USBGetStateData) (drop 2 input_report31)
                              in map_option (\<lambda>lg. add_logs lg s) (PrintControllerStateUsb state (dr_cal s)))
                        else if fld ReportIn31 ''HasMic'' input_report31 \<noteq> 0
                        then Some (log_msg Info ''[ReportIn31] Has Microphone'' [] s)
                        else Some s)
               else Some (log_msg Err ''Unknown report id: {}'' [LInt (int report_id)] s))
      else Some s)"

definition dual_sense_dispatch :: "u16 \<Rightarrow> read_result \<Rightarrow> dual_sense_reader \<Rightarrow> dual_sense_reader option" where
  "dual_sense_dispatch =
     read_report (max (sizeof_struct USBGetStateData) ReportIn31_size) dual_sense_handle Some"

section \<open>Lemmas on the arithmetic\<close>

lemma div_le: "0 \<le> (a::int) \<Longrightarrow> 0 \<le> b \<Longrightarrow> a div b \<le> a"
  by (cases "b = 0") (simp_all add: div_le_dividend zdiv_mono2 [of a 1 b, simplified])

lemma sdiv_sgn: "(x :: int) sdiv d = sgn x * sgn d * (\<bar>x\<bar> div \<bar>d\<bar>)"
  by (simp add: signed_divide_int_def)

lemma sdiv_abs: "\<bar>x sdiv d\<bar> \<le> \<bar>x :: int\<bar>"
proof -
  have "0 \<le> \<bar>x\<bar> div \<bar>d\<bar>" by (cases "d = 0") (simp_all add: pos_imp_zdiv_nonneg_iff)
  then have "\<bar>x sdiv d\<bar> = \<bar>sgn x\<bar> * \<bar>sgn d\<bar> * (\<bar>x\<bar> div \<bar>d\<bar>)"
    by (simp add: sdiv_sgn abs_mult)
  also have "\<dots> \<le> \<bar>x\<bar> div \<bar>d\<bar>"
    using \<open>0 \<le> \<bar>x\<bar> div \<bar>d\<bar>\<close> by (cases "d = 0"; cases "x = 0") (simp_all add: abs_sgn_eq)
  also have "\<dots> \<le> \<bar>x\<bar>" by (rule div_le) simp_all
  finally show ?thesis .
qed

lemma smod_abs: "\<bar>x smod d\<bar> \<le> \<bar>x :: int\<bar>"
proof -
  have "\<bar>x smod d\<bar> = \<bar>sgn x\<bar> * (\<bar>x\<bar> mod \<bar>d\<bar>)"
    by (cases "d = 0") (simp_all add: smod_int_alt_def abs_mult)
  also have "\<dots> \<le> \<bar>x\<bar> mod \<bar>d\<bar>" by (cases "x = 0") (simp_all add: abs_sgn_eq)
  also have "\<dots> \<le> \<bar>x\<bar>" by (cases "d = 0") (simp_all add: zmod_le_nonneg_dividend)
  finally show ?thesis .
qed

lemma sdiv_mult_sgn: "((s :: int) * a) sdiv d = s * (sgn d * (a div \<bar>d\<bar>))" if "s \<in> {-1, 0, 1}" "0 \<le> a"
  using that by (cases "a = 0") (auto simp: sdiv_sgn)

lemma mult_frac_identity:
  assumes "d \<noteq> 0"
  shows "(x sdiv d) * n + ((x smod d) * n) sdiv d = (x * n) sdiv (d :: int)"
proof -
  define X D N where XDN: "X = \<bar>x\<bar>" "D = \<bar>d\<bar>" "N = \<bar>n\<bar>"
  let ?s = "sgn x * sgn n"
  have s: "?s \<in> {-1, 0, 1}" by (simp add: sgn_if)
  have D: "0 < D" and nn: "0 \<le> X" "0 \<le> N" using assms XDN by simp_all
  have x: "x = sgn x * X" "n = sgn n * N" by (simp_all add: XDN sgn_mult_abs)
  have "(x smod d) * n = ?s * (X mod D * N)"
    unfolding smod_int_alt_def using x(2) by (simp add: XDN mult_ac)
  then have r: "((x smod d) * n) sdiv d = ?s * (sgn d * (X mod D * N div D))"
    using sdiv_mult_sgn [OF s, of "X mod D * N" d] D nn by (simp add: XDN)
  have "x * n = ?s * (X * N)" using x by (metis mult.assoc mult.left_commute)
  then have p: "(x * n) sdiv d = ?s * (sgn d * (X * N div D))"
    using sdiv_mult_sgn [OF s, of "X * N" d] nn by (simp add: XDN)
  have "(x sdiv d) * n = (sgn x * sgn d * (X div D)) * (sgn n * N)"
    using x(2) by (simp add: sdiv_sgn XDN)
  then have q: "(x sdiv d) * n = ?s * (sgn d * (X div D * N))" by (simp add: mult_ac)
  have "X * N = X mod D * N + (X div D * N) * D"
    by (metis distrib_right mod_div_mult_eq mult.assoc mult.commute)
  then have "X * N div D = X div D * N + X mod D * N div D"
    using D by (metis add.commute div_mult_self1 less_irrefl mult.commute)
  then show ?thesis unfolding p q r by (simp add: distrib_left)
qed
lemma int32_Some [simp]: "int32 v = Some w \<longleftrightarrow> w = v \<and> int32_min \<le> v \<and> v \<le> int32_max"
  by (auto simp: int32_def)

lemma int32_abs: "\<bar>v\<bar> \<le> int32_max \<Longrightarrow> int32 v = Some v"
  by (simp add: abs_le_iff)

lemma mult_frac_Some: "mult_frac x n d = Some y \<Longrightarrow> d \<noteq> 0 \<and> y = (x * n) sdiv d"
  by (auto simp: mult_frac_def div32_def mod32_def mult_frac_identity bind_eq_Some_conv
      split: if_splits)

lemma mult_frac_defined:
  assumes "d \<noteq> 0" "\<bar>x\<bar> \<le> int32_max" "\<bar>x * n\<bar> \<le> int32_max"
  shows "mult_frac x n d = Some ((x * n) sdiv d)"
proof -
  have q: "\<bar>x sdiv d\<bar> \<le> \<bar>x\<bar>" and r: "\<bar>x smod d\<bar> \<le> \<bar>x\<bar>" by (rule sdiv_abs, rule smod_abs)
  have qn: "\<bar>(x sdiv d) * n\<bar> \<le> \<bar>x * n\<bar>" and rn: "\<bar>(x smod d) * n\<bar> \<le> \<bar>x * n\<bar>"
    using q r by (simp_all add: abs_mult mult_right_mono)
  have f: "\<bar>((x smod d) * n) sdiv d\<bar> \<le> \<bar>x * n\<bar>" using sdiv_abs rn by (rule order_trans)
  have t: "\<bar>(x * n) sdiv d\<bar> \<le> int32_max" using sdiv_abs assms(3) by (rule order_trans)
  have "int32 (x sdiv d) = Some (x sdiv d)" "int32 ((x sdiv d) * n) = Some ((x sdiv d) * n)"
    "int32 ((x smod d) * n) = Some ((x smod d) * n)"
    "int32 (((x smod d) * n) sdiv d) = Some (((x smod d) * n) sdiv d)"
    "int32 ((x * n) sdiv d) = Some ((x * n) sdiv d)"
    by (rule int32_abs, use assms(2,3) q qn rn f t in linarith)+
  then show ?thesis
    using assms(1) by (simp add: mult_frac_def div32_def mod32_def mult_frac_identity del: int32_Some)
qed

lemma mult_frac_zero_denom: "mult_frac x n 0 = None"
  by (simp add: mult_frac_def div32_def)

lemma width_usb_motion:
  assumes "f \<in> {''AccelerometerX'', ''AccelerometerY'', ''AccelerometerZ''}"
  shows "width USBGetStateData f = Suc 15"
proof -
  have "width USBGetStateData ''AccelerometerX'' = 16" "width USBGetStateData ''AccelerometerY'' = 16"
    "width USBGetStateData ''AccelerometerZ'' = 16"
    by (simp_all add: width_def USBGetStateData_def)
  with assms show ?thesis by auto
qed

lemma sfld_accel_abs:
  assumes "f \<in> {''AccelerometerX'', ''AccelerometerY'', ''AccelerometerZ''}"
  shows "\<bar>sfld USBGetStateData f b\<bar> \<le> 32768"
  using sfld_bounds [OF width_usb_motion [OF assms], of b] by (simp add: abs_le_iff)

text \<open>What a successful calibration leaves in the two arrays.\<close>

definition calibrated_axes :: "HardwareCalibrationData \<Rightarrow> bool" where
  "calibrated_axes cal \<longleftrightarrow> length (hc_gyro cal) = 3 \<and> length (hc_accel cal) = 3 \<and>
     (\<forall>c \<in> set (hc_gyro cal). cd_sens_denom c \<noteq> 0) \<and>
     (\<forall>c \<in> set (hc_accel cal). cd_sens_denom c \<noteq> 0 \<and> 0 \<le> cd_sens_numer c \<and> cd_sens_numer c \<le> 32768)"

lemma sane_gyro_denom: "cd_sens_denom (fst (sane_gyro i c)) \<noteq> 0"
  by (simp add: sane_gyro_def)

lemma sane_accel_denom:
  "cd_sens_denom (fst (sane_accel i (accel_axis code a b))) \<noteq> 0"
  "0 \<le> cd_sens_numer (fst (sane_accel i (accel_axis code a b)))"
  "cd_sens_numer (fst (sane_accel i (accel_axis code a b))) \<le> 32768"
  by (simp_all add: sane_accel_def accel_axis_def Let_def ACC_RANGE_def ACC_RES_PER_G_def)

lemma upt_3: "[0..<3] = [0, 1, Suc 1]"
  by (simp add: upt_rec)

lemma calibration_axes:
  assumes "GetControllerCalibrationData k cal = (None, cal', lg)"
  shows "calibrated_axes cal'"
proof -
  obtain b where "cal' = \<lparr>hc_gyro = map (\<lambda>i. fst (sane_gyro i ([gyro_axis ABS_RX ''pitch'' b,
        gyro_axis ABS_RY ''yaw'' b, gyro_axis ABS_RZ ''roll'' b] ! i))) [0..<3],
      hc_accel = map (\<lambda>i. fst (sane_accel i ([accel_axis ABS_X ''x'' b,
        accel_axis ABS_Y ''y'' b, accel_axis ABS_Z ''z'' b] ! i))) [0..<3]\<rparr>"
    using assms by (auto simp: GetControllerCalibrationData_def Let_def comp_def split: sum.splits if_splits)
  then show ?thesis
    by (simp add: calibrated_axes_def upt_3 sane_gyro_denom sane_accel_denom)
qed

lemma dual_sense_frames [simp]:
  "dr_cal (log_msg l f a s) = dr_cal s" "dr_cal (add_logs es s) = dr_cal s"
  "dr_cal (best_effort fmt err s) = dr_cal s" "hr_product (best_effort fmt err s) = hr_product s"
  "hr_product (log_msg l f a s) = hr_product s" "hr_product (add_logs es s) = hr_product s"
  "hr_fd (best_effort fmt err s) = hr_fd s" "hr_fd (add_logs es s) = hr_fd s"
  by (simp_all add: log_msg_def add_logs_def best_effort_def split: option.split)

lemma dr_cal_describe [simp]: "dr_cal (snd (describe_device k s)) = dr_cal s"
  by (auto simp: describe_device_def describe_names_def describe_descriptor_def dump_descriptor_def
      Let_def split: sum.split)

lemma calibration_size: "ReportFeatureCalibrationData_size = 41"
  by (simp add: ReportFeatureCalibrationData_size_def sizeof_struct_def ReportFeatureCalibrationData_def)

definition calibration_request :: "u8 list" where
  "calibration_request = 5 # replicate (ReportFeatureCalibrationData_size - 1) 0"

lemma calibration_request: "(replicate ReportFeatureCalibrationData_size 0)[0 := 0x05] = calibration_request"
  by (simp add: calibration_request_def calibration_size numeral_eq_Suc)

lemma dr_cal_read_features:
  "hk_feature k calibration_request = Inl e \<Longrightarrow> dr_cal (read_features k s) = dr_cal s"
  by (simp add: read_features_def GetControllerCalibrationData_def get_feature_def Let_def calibration_request
      split: prod.split)

lemma read_features_frame: "hr_fd (read_features k s) = hr_fd s" "hr_product (read_features k s) = hr_product s"
  by (simp_all add: read_features_def Let_def split: prod.split)

text \<open>
  A reader whose calibration could not be read keeps the zeros it was constructed with, and is
  kept itself when it could be opened and described.
\<close>

abbreviation open_work :: "hid_kernel \<Rightarrow> dual_sense_reader \<Rightarrow> bool \<times> dual_sense_reader" where
  "open_work k s \<equiv> let (ok, s) = describe_device k s in if ok then (True, read_features k s) else (False, s)"

lemma open_work_effect:
  "fst (open_work k s) = fst (describe_device k s)" "hr_fd (snd (open_work k s)) = hr_fd s"
  "hr_product (snd (open_work k s)) = hr_product (snd (describe_device k s))"
  using hr_fd_describe [of k s] by (cases "describe_device k s"; simp add: read_features_frame)+

lemma uncalibrated_reader:
  assumes "hk_feature k calibration_request = Inl e"
  shows "dr_cal (fst (dual_sense_reader_new k device)) = zero_calibration"
proof -
  have work: "dr_cal (snd (open_work k s)) = dr_cal s" for s
    using dr_cal_describe [of k s] dr_cal_read_features [OF assms]
    by (cases "describe_device k s") simp
  have "dr_cal (fst (with_device k (open_work k) s)) = dr_cal s" for s
    using work [of "log_msg Debug ''hidraw device: {}'' [LStr (hr_device s)] s"]
    unfolding with_device_def by (auto simp: Let_def split: prod.split sum.split)
  then show ?thesis
    by (simp add: dual_sense_reader_new_def dual_sense_open_and_init_def)
qed

lemma opened_reader:
  assumes "0 \<le> fst (hk_open k device open_flags)" and "\<And>s :: dual_sense_reader. fst (describe_device k s)"
    and "hk_rawinfo k = Inr info"
  shows "hr_fd (fst (dual_sense_reader_new k device)) = ufd_own (fst (hk_open k device open_flags))"
    and "hr_product (fst (dual_sense_reader_new k device)) = di_product info"
proof -
  obtain s0 where s0: "dual_sense_reader_new k device = with_device k (open_work k) s0" "hr_device s0 = device"
      "hr_fd s0 = ufd_empty"
    by (simp add: dual_sense_reader_new_def dual_sense_open_and_init_def)
  let ?s = "log_msg Debug ''hidraw device: {}'' [LStr (hr_device s0)] s0"
  obtain ok t where t: "open_work k ?s = (ok, t)" by fastforce
  have ok: ok and prod: "hr_product t = di_product info" and fd: "hr_fd t = ufd_empty"
    using open_work_effect [of k ?s] assms(2) [of ?s] hr_product_describe [of k ?s] assms(3) t s0(3)
    by (auto simp del: open_work_effect)
  show "hr_fd (fst (dual_sense_reader_new k device)) = ufd_own (fst (hk_open k device open_flags))"
    and "hr_product (fst (dual_sense_reader_new k device)) = di_product info"
    unfolding s0(1) with_device_def using assms(1) s0(2) t ok prod fd
    by (auto simp: Let_def open_fd_def make_fd_simp ufd_defs split: prod.split)
qed

lemma usb_sizes: "sizeof_struct USBGetStateData = 64" "ReportIn31_size = 79"
  using report31_sizes by simp_all

lemma usb_stick_fields:
  assumes "2 \<le> length b"
  shows "fld USBGetStateData ''LeftStickX'' b = unat (b ! 0)"
    and "fld USBGetStateData ''LeftStickY'' b = unat (b ! 1)"
    and "fld ReportIn01USB ''State.LeftStickX'' b = unat (b ! 1)"
proof -
  have len: "0 < length b" "1 < length b" using assms by auto
  show "fld USBGetStateData ''LeftStickX'' b = unat (b ! 0)"
    by (rule fld_byte [OF _ _ len(1)]) (simp_all add: width_def USBGetStateData_def)
  show "fld USBGetStateData ''LeftStickY'' b = unat (b ! 1)"
    by (rule fld_byte [OF _ _ len(2)]) (simp_all add: width_def USBGetStateData_def)
  show "fld ReportIn01USB ''State.LeftStickX'' b = unat (b ! 1)"
    by (rule fld_byte [OF _ _ len(2)]) (simp_all add: width_def USBGetStateData_def ReportIn01USB_def nest_def)
qed

lemma PrintControllerStateUsb_sticks:
  "PrintControllerStateUsb b cal = Some lg \<Longrightarrow>
   Log Info (tab @ ''LeftStick: {}, {}'')
     [LInt (int (fld USBGetStateData ''LeftStickX'' b)), LInt (int (fld USBGetStateData ''LeftStickY'' b))] \<in> set lg"
  by (auto simp: PrintControllerStateUsb_def Let_def bind_eq_Some_conv)

text \<open>
  A DualSense whose calibration report has plausible gyroscope values and an empty x range of
  the accelerometer.
\<close>

definition flat_report :: "u8 list" where
  "flat_report = [5, 0, 0, 0, 0, 0, 0, 0, 4, 0, 2, 0, 4, 0, 2, 0, 4, 0, 2, 0, 16, 0, 16,
                  0, 32, 0, 32, 0, 32, 0, 0, 0, 32, 0, 0, 0, 0]"

definition flat_kernel :: hid_kernel where
  "flat_kernel = sample_kernel
     \<lparr>hk_rawinfo := Inr \<lparr>di_bustype = 5, di_vendor = 0x054c, di_product = 0x0CE6\<rparr>,
      hk_feature := (\<lambda>_. Inr flat_report)\<rparr>"

lemma flat_feature:
  "get_feature flat_kernel ((replicate ReportFeatureCalibrationData_size 0)[0 := 0x05]) =
     Inr (flat_report @ [0, 0, 0, 0])"
  by (simp add: calibration_size get_feature_def flat_kernel_def overwrite_def flat_report_def
      numeral_eq_Suc)

lemmas cal_fld_eval = fld_def bits_at_def width_def ReportFeatureCalibrationData_def flat_report_def

lemma flat_fields:
  "fld ReportFeatureCalibrationData ''ReportID'' (flat_report @ [0, 0, 0, 0]) = 5"
  "fld ReportFeatureCalibrationData ''acc.x_plus'' (flat_report @ [0, 0, 0, 0]) = 8192"
  "fld ReportFeatureCalibrationData ''acc.x_minus'' (flat_report @ [0, 0, 0, 0]) = 8192"
  "fld ReportFeatureCalibrationData ''acc.y_plus'' (flat_report @ [0, 0, 0, 0]) = 8192"
  "fld ReportFeatureCalibrationData ''acc.y_minus'' (flat_report @ [0, 0, 0, 0]) = 0"
  by (simp_all add: cal_fld_eval)

section \<open>Properties\<close>

text \<open>
  \<open>mult_frac(x, n, d)\<close> computes \<open>x * n / d\<close> truncated toward zero, exactly as if the product
  were formed first, whenever it is defined at all, and it is defined when \<open>d\<close> is not zero and
  the product fits in 32 bits.
\<close>

theorem mult_frac_exact:
  "(\<forall>y. mult_frac x n d = Some y \<longrightarrow> d \<noteq> 0 \<and> y = (x * n) sdiv d) \<and>
   (d \<noteq> 0 \<longrightarrow> \<bar>x\<bar> \<le> int32_max \<longrightarrow> \<bar>x * n\<bar> \<le> int32_max \<longrightarrow> mult_frac x n d = Some ((x * n) sdiv d))"
  using mult_frac_Some [of x n d] mult_frac_defined [of d x n] by blast

lemma mult_frac_exact_witness: "mult_frac 16384 (- 100) 3 = Some (- 546133)"
proof -
  have "(16384 * - 100) sdiv 3 = (- 546133 :: int)" by code_simp
  moreover have "mult_frac 16384 (- 100) 3 = Some ((16384 * - 100) sdiv 3)"
    by (rule mult_frac_exact [THEN conjunct2, rule_format]) simp_all
  ultimately show ?thesis by (simp only:)
qed

text \<open>
  C6: when the calibration report was read and passed its check, no axis keeps a zero
  denominator, whatever the report contains, and the calibrated accelerometer values of every
  input report are defined and equal to raw * numerator / denominator, truncated.
\<close>

theorem calibrated_accelerometer_defined:
  assumes "GetControllerCalibrationData k cal = (None, cal', lg)"
    and "c \<in> set (hc_accel cal')" "f \<in> {''AccelerometerX'', ''AccelerometerY'', ''AccelerometerZ''}"
  shows "list_all (\<lambda>g. cd_sens_denom g \<noteq> 0) (hc_gyro cal') \<and> cd_sens_denom c \<noteq> 0 \<and>
    calibrated c f b = Some ((cd_sens_numer c * sfld USBGetStateData f b) sdiv cd_sens_denom c)"
proof -
  have ax: "calibrated_axes cal'" using assms(1) by (rule calibration_axes)
  then have c: "cd_sens_denom c \<noteq> 0" "0 \<le> cd_sens_numer c" "cd_sens_numer c \<le> 32768"
    using assms(2) by (auto simp: calibrated_axes_def)
  have "\<bar>cd_sens_numer c * sfld USBGetStateData f b\<bar> \<le> 32768 * 32768"
    unfolding abs_mult using c(2,3) sfld_accel_abs [OF assms(3)] by (intro mult_mono) simp_all
  then have "calibrated c f b = Some ((cd_sens_numer c * sfld USBGetStateData f b) sdiv cd_sens_denom c)"
    unfolding calibrated_def using c by (intro mult_frac_defined) simp_all
  with ax c show ?thesis by (simp add: calibrated_axes_def list_all_iff)
qed

lemma flat_calibration:
  "\<exists>cal' lg. GetControllerCalibrationData flat_kernel zero_calibration = (None, cal', lg) \<and>
     length (hc_accel cal') = 3 \<and> cd_abs_code (hc_accel cal' ! 0) = ABS_RX"
  unfolding GetControllerCalibrationData_def Let_def flat_feature
  by (simp add: flat_fields upt_3 accel_axis_def sane_accel_def Let_def)

lemma calibrated_accelerometer_defined_witness:
  "\<exists>cal' lg. GetControllerCalibrationData flat_kernel zero_calibration = (None, cal', lg) \<and>
     calibrated (hc_accel cal' ! 0) ''AccelerometerX'' (replicate 64 0) \<noteq> None"
proof -
  obtain cal' lg where cal: "GetControllerCalibrationData flat_kernel zero_calibration = (None, cal', lg)"
    "length (hc_accel cal') = 3" using flat_calibration by blast
  have "hc_accel cal' ! 0 \<in> set (hc_accel cal')" using cal(2) by simp
  from calibrated_accelerometer_defined [OF cal(1) this, of "''AccelerometerX''" "replicate 64 0"]
  show ?thesis using cal(1) by auto
qed

text \<open>
  an accelerometer axis with an empty range is disabled under the axis code of a
  gyroscope axis: \<open>ABS_RX + i\<close> instead of \<open>ABS_X + i\<close>.
\<close>

theorem accelerometer_fallback_has_gyro_code:
  assumes "get_feature k ((replicate ReportFeatureCalibrationData_size 0)[0 := 0x05]) = Inr b"
    and "fld ReportFeatureCalibrationData ''ReportID'' b = 0x05"
    and "cal_fld ''acc.x_plus'' b = cal_fld ''acc.x_minus'' b"
  shows "\<exists>cal' lg. GetControllerCalibrationData k cal = (None, cal', lg) \<and>
    cd_abs_code (hc_accel cal' ! 0) = ABS_RX \<and> cd_abs_code (hc_accel cal' ! 0) \<noteq> ABS_X"
  using assms(2,3) unfolding GetControllerCalibrationData_def Let_def assms(1)
  by (simp add: upt_3 accel_axis_def sane_accel_def Let_def ABS_RX_def ABS_X_def)

lemma accelerometer_fallback_has_gyro_code_witness:
  "\<exists>cal' lg. GetControllerCalibrationData flat_kernel zero_calibration = (None, cal', lg) \<and>
    cd_abs_code (hc_accel cal' ! 0) = 3"
  using accelerometer_fallback_has_gyro_code [OF flat_feature, of zero_calibration]
  by (auto simp: flat_fields ABS_RX_def)

text \<open>The gyroscope factors are not bounded like that: extreme reports overflow \<open>int\<close>.\<close>

lemma gyro_calibration_may_overflow: "mult_frac ((65535 + 65535) * GYRO_RES_PER_DEG_S) 32767 1 = None"
  by (simp add: mult_frac_def div32_def mod32_def int32_def GYRO_RES_PER_DEG_S_def sdiv_sgn smod_int_alt_def)

text \<open>
  C21: when the controller can be opened and described but refuses the calibration report (feature
  report 5), whatever it answers to the others, the reader is kept and owns the descriptor, so that
  the loop polls it, but all six of its axes have a zero denominator, and every input report with ID 1
  that is dispatched divides by zero.
\<close>

theorem uncalibrated_report_undefined:
  assumes "0 \<le> fst (hk_open k device open_flags)" "hk_rawinfo k = Inr info" "di_product info = 0x0CE6"
    and "hk_rawname k = Inr name" "hk_rawphys k = Inr phys"
    and "hk_descsize k = Inr n" "0 \<le> n" "n \<le> 4096" "hk_desc k (nat n) = Inr desc"
    and "hk_feature k (5 # replicate 40 0) = Inl e"
    and "revents AND (POLLHUP OR POLLERR) = 0"
  defines "reader \<equiv> fst (dual_sense_reader_new k device)"
  shows "hr_fd reader = ufd_own (fst (hk_open k device open_flags)) \<and>
    map cd_sens_denom (hc_gyro (dr_cal reader) @ hc_accel (dr_cal reader)) = [0, 0, 0, 0, 0, 0] \<and>
    dual_sense_dispatch revents (Read_Bytes (1 # data)) reader = None"
proof -
  have "calibration_request = 5 # replicate 40 0"
    by (simp add: calibration_request_def calibration_size)
  then have cal: "dr_cal reader = zero_calibration"
    unfolding reader_def using assms(10) by (intro uncalibrated_reader [of _ e]) simp
  have "fst (describe_device k s)" for s :: dual_sense_reader
    using assms(2,4-9) by (auto simp: describe_device_ok)
  note opened = opened_reader [OF assms(1) this assms(2), folded reader_def]
  have pos: "0 < max (sizeof_struct USBGetStateData) ReportIn31_size" by (simp add: usb_sizes)
  obtain buf m where buf: "buf ! 0 = 1"
    "dual_sense_dispatch revents (Read_Bytes (1 # data)) reader = dual_sense_handle buf m reader"
    unfolding dual_sense_dispatch_def using read_report_first [OF assms(11) pos] by metis
  have "PrintControllerStateUsb b zero_calibration = None" for b
    by (simp add: PrintControllerStateUsb_def Let_def calibrated_def zero_calibration_def zero_axis_def
        mult_frac_zero_denom numeral_eq_Suc)
  then have "dual_sense_dispatch revents (Read_Bytes (1 # data)) reader = None"
    by (simp add: buf dual_sense_handle_def opened(2) assms(3) cal)
  then show ?thesis using opened(1) by (simp add: cal zero_calibration_def zero_axis_def numeral_eq_Suc)
qed

definition mute_kernel :: hid_kernel where
  "mute_kernel = sample_kernel\<lparr>hk_rawinfo := Inr \<lparr>di_bustype = 5, di_vendor = 0x054c, di_product = 0x0CE6\<rparr>\<rparr>"

lemma uncalibrated_report_undefined_witness:
  "dual_sense_dispatch POLLIN (Read_Bytes [1, 128, 128])
     (fst (dual_sense_reader_new mute_kernel ''/dev/hidraw3'')) = None"
proof -
  have "(POLLIN :: u16) AND (POLLHUP OR POLLERR) = 0" by code_simp
  then show ?thesis
    using uncalibrated_report_undefined [where k = mute_kernel and e = 32 and n = 2]
    by (simp add: mute_kernel_def sample_kernel_def)
qed

text \<open>
  C22: a USB report is decoded one byte off: the struct is copied from the start of the
  buffer, report ID included, though \<open>USBGetStateData\<close> has no ID, so the left stick is printed
  as x = 1 and y = the x of the report (as \<open>ReportIn01USB\<close> has it), in every report.
\<close>

theorem usb_report_decoded_one_byte_off:
  assumes "hr_product s = 0x0CE6" "revents AND (POLLHUP OR POLLERR) = 0"
    and "dual_sense_dispatch revents (Read_Bytes (1 # x # data)) s = Some s'"
  shows "Log Info (tab @ ''LeftStick: {}, {}'')
      [LInt 1, LInt (int (fld ReportIn01USB ''State.LeftStickX'' (1 # x # data)))] \<in> set (log_of s')"
proof -
  let ?sz = "max (sizeof_struct USBGetStateData) ReportIn31_size"
  have pos: "0 < ?sz" by (simp add: usb_sizes)
  obtain buf n where buf: "buf ! 0 = 1" "n = min ?sz (Suc (length (x # data)))"
    "buf = memcpy_zeroed ?sz (1 # x # data) n"
    "dual_sense_handle buf n s = Some s'"
    using read_report_first [OF assms(2) pos, of dual_sense_handle Some 1 "x # data" s] assms(3)
    unfolding dual_sense_dispatch_def by metis
  let ?st = "memcpy_zeroed (sizeof_struct USBGetStateData) buf n"
  obtain m where n: "n = Suc (Suc m)" "n \<le> 79"
    using buf(2) by (cases n; cases "n - 1") (auto simp: usb_sizes)
  have st: "?st ! 0 = 1" "?st ! 1 = x" "2 \<le> length ?st"
    using n by (simp_all add: buf(3) memcpy_zeroed_def usb_sizes nth_append)
  obtain lg where lg: "PrintControllerStateUsb ?st (dr_cal s) = Some lg" "s' = add_logs lg s"
    using buf(1,4) assms(1) by (auto simp: dual_sense_handle_def Let_def)
  have "fld ReportIn01USB ''State.LeftStickX'' (1 # x # data) = unat x"
    using usb_stick_fields(3) [of "1 # x # data"] by simp
  then show ?thesis
    using PrintControllerStateUsb_sticks [OF lg(1)] usb_stick_fields(1,2) [OF st(3)] st lg(2)
    by (simp add: add_logs_def)
qed

definition unit_calibration :: HardwareCalibrationData where
  "unit_calibration =
     (let c = \<lparr>cd_abs_code = 0, cd_bias = 0, cd_sens_numer = 0, cd_sens_denom = 1\<rparr>
      in \<lparr>hc_gyro = [c, c, c], hc_accel = [c, c, c]\<rparr>)"

definition usb_reader :: dual_sense_reader where
  "usb_reader = \<lparr>log_of = [], hr_device = ''/dev/hidraw3'', hr_fd = ufd_own 9, hr_product = 0x0CE6,
     dr_mac = [], dr_version = [], dr_cal = unit_calibration\<rparr>"

lemma usb_report_decoded_one_byte_off_witness:
  "\<exists>s'. dual_sense_dispatch POLLIN (Read_Bytes [1, 127, 130]) usb_reader = Some s' \<and>
     Log Info (tab @ ''LeftStick: {}, {}'')
       [LInt 1, LInt (int (fld ReportIn01USB ''State.LeftStickX'' [1, 127, 130]))] \<in> set (log_of s')"
proof -
  have zero: "mult_frac 0 n 1 = Some 0" for n
    using mult_frac_defined [of 1 0 n] by simp
  have pr: "PrintControllerStateUsb b unit_calibration \<noteq> None" for b
    by (simp add: PrintControllerStateUsb_def Let_def calibrated_def unit_calibration_def zero)
  have in_ok: "(POLLIN :: u16) AND (POLLHUP OR POLLERR) = 0" by code_simp
  have pos: "0 < max (sizeof_struct USBGetStateData) ReportIn31_size" by (simp add: usb_sizes)
  obtain buf n where buf: "buf ! 0 = 1"
    "dual_sense_dispatch POLLIN (Read_Bytes [1, 127, 130]) usb_reader = dual_sense_handle buf n usb_reader"
    unfolding dual_sense_dispatch_def using read_report_first [OF in_ok pos] by metis
  have reader: "hr_product usb_reader = 0x0CE6" "dr_cal usb_reader = unit_calibration"
    by (simp_all add: usb_reader_def)
  have "dual_sense_handle buf n usb_reader \<noteq> None"
    using pr buf(1) by (simp add: dual_sense_handle_def reader Let_def)
  then obtain s' where s': "dual_sense_dispatch POLLIN (Read_Bytes [1, 127, 130]) usb_reader = Some s'"
    using buf(2) by auto
  with usb_report_decoded_one_byte_off [OF _ in_ok s'] show ?thesis by (auto simp: reader)
qed

end
