(* ===== verification/Utils.thy ===== *)
theory Utils
  imports Prelude
begin

text \<open>
  \<open>src/utils/utils.cc\<close>: the rendering of D-Bus property maps and of JSON documents as text.
  \<open>sdbus::Variant\<close> and \<open>glz::generic\<close> are library types: a variant is an element of a type
  \<open>'v\<close> that is only read through a record of its accessors (\<open>peekValueType\<close> and one \<open>get<T>\<close>
  for each \<open>T\<close> the code asks for, each of which may throw), a JSON value is read through
  the record \<open>json_api\<close>. A \<open>std::map\<close> or \<open>std::vector\<close> an accessor returns is the list of its
  elements in iteration order, a \<open>std::tuple\<close> a tuple, a \<open>double\<close> its 64-bit pattern.
\<close>

section \<open>Accessors of \<open>sdbus::Variant\<close>\<close>

record 'v struct_api =
  sa_named_dicts :: "'v \<Rightarrow> exn + (string \<times> (string \<times> 'v) list) list"
  sa_qqy :: "'v \<Rightarrow> exn + (u16 \<times> u16 \<times> u8)"
  sa_qqys :: "'v \<Rightarrow> exn + (u16 \<times> u16 \<times> u8) list"
  sa_ayuays :: "'v \<Rightarrow> exn + (u8 list \<times> u32 \<times> u8 list) list"
  sa_ayuayus :: "'v \<Rightarrow> exn + (u8 list \<times> u32 \<times> u8 list \<times> u32) list"
  sa_dicts :: "'v \<Rightarrow> exn + (string \<times> 'v) list list"
  sa_tt :: "'v \<Rightarrow> exn + (u64 \<times> u64)"
  sa_ttt :: "'v \<Rightarrow> exn + (u64 \<times> u64 \<times> u64)"
  sa_tttt :: "'v \<Rightarrow> exn + (u64 \<times> u64 \<times> u64 \<times> u64)"
  sa_so :: "'v \<Rightarrow> exn + (string \<times> string)"
  sa_st :: "'v \<Rightarrow> exn + (string \<times> u64)"
  sa_uo :: "'v \<Rightarrow> exn + (u32 \<times> string)"
  sa_isbs :: "'v \<Rightarrow> exn + (u32 \<times> string \<times> bool) list"
  sa_iiay :: "'v \<Rightarrow> exn + (u32 \<times> u32 \<times> u8 list)"
  sa_iiays :: "'v \<Rightarrow> exn + (u32 \<times> u32 \<times> u8 list) list"
  sa_iiayqs :: "'v \<Rightarrow> exn + (u32 \<times> u32 \<times> u8 list \<times> u16 \<times> string)"
  sa_iiayqss :: "'v \<Rightarrow> exn + (u32 \<times> u32 \<times> u8 list \<times> u16 \<times> string) list"
  sa_sos :: "'v \<Rightarrow> exn + (string \<times> string) list"

record 'v variant_api =
  va_type :: "'v \<Rightarrow> string"
  va_bool :: "'v \<Rightarrow> exn + bool"
  va_u8 :: "'v \<Rightarrow> exn + u8"
  va_i16 :: "'v \<Rightarrow> exn + u16"
  va_u16 :: "'v \<Rightarrow> exn + u16"
  va_i32 :: "'v \<Rightarrow> exn + u32"
  va_u32 :: "'v \<Rightarrow> exn + u32"
  va_i64 :: "'v \<Rightarrow> exn + u64"
  va_u64 :: "'v \<Rightarrow> exn + u64"
  va_double :: "'v \<Rightarrow> exn + u64"
  va_string :: "'v \<Rightarrow> exn + string"
  va_path :: "'v \<Rightarrow> exn + string"
  va_strings :: "'v \<Rightarrow> exn + string list"
  va_paths :: "'v \<Rightarrow> exn + string list"
  va_u32s :: "'v \<Rightarrow> exn + u32 list"
  va_u32ss :: "'v \<Rightarrow> exn + u32 list list"
  va_bytes :: "'v \<Rightarrow> exn + u8 list"
  va_bytess :: "'v \<Rightarrow> exn + u8 list list"
  va_dict_q :: "'v \<Rightarrow> exn + (u16 \<times> 'v) list"
  va_dict_s :: "'v \<Rightarrow> exn + (string \<times> 'v) list"
  va_structs :: "'v struct_api"

type_synonym 'v props = "(string \<times> 'v) list"

section \<open>\<open>std::ostringstream\<close>\<close>

text \<open>
  The text written so far and the base flag: \<open>std::hex\<close> stays set on the stream until
  another base is chosen, which the code never does. \<open>std::setw(2)\<close> only holds for the next
  output and is always written directly before a byte, so \<open>hex2\<close> includes it.
\<close>

record ostream =
  os_buf :: string
  os_hex :: bool

definition ostringstream :: ostream where
  "ostringstream = \<lparr>os_buf = [], os_hex = False\<rparr>"

definition put :: "string \<Rightarrow> ostream \<Rightarrow> ostream" where
  "put s os = os\<lparr>os_buf := os_buf os @ s\<rparr>"

text \<open>\<open>os << n\<close> for an unsigned and for a signed integer: the base flag decides.\<close>

definition put_unsigned :: "'n::len word \<Rightarrow> ostream \<Rightarrow> ostream" where
  "put_unsigned n os = put (digits (if os_hex os then 16 else 10) (unat n)) os"

definition put_signed :: "'n::len word \<Rightarrow> ostream \<Rightarrow> ostream" where
  "put_signed n os = put (if os_hex os then digits 16 (unat n) else int_to_string (sint n)) os"

text \<open>\<open>os << b\<close> for a \<open>std::uint8_t\<close>: the character with that code.\<close>

definition put_char :: "u8 \<Rightarrow> ostream \<Rightarrow> ostream" where
  "put_char b os = put [char_of (unat b)] os"

text \<open>\<open>os << std::hex << std::setw(2) << std::setfill('0') << static_cast<int>(b) << " "\<close>.\<close>

definition put_byte :: "u8 \<Rightarrow> ostream \<Rightarrow> ostream" where
  "put_byte b os = put (hex2 b @ '' '') (os\<lparr>os_hex := True\<rparr>)"

definition put_bytes :: "u8 list \<Rightarrow> ostream \<Rightarrow> ostream" where
  "put_bytes bs os = fold put_byte bs os"

text \<open>An expression that calls \<open>get<T>\<close>, used by the rest of the statement.\<close>

fun with_value :: "exn + 'a \<Rightarrow> ('a \<Rightarrow> 's \<Rightarrow> 's outcome) \<Rightarrow> 's \<Rightarrow> 's outcome" where
  "with_value (Inl e) f s = Throw e s"
| "with_value (Inr x) f s = f x s"

text \<open>\<open>std::to_string(double)\<close> is \<open>%f\<close>: six decimals, ties to even, on the exact value.\<close>

definition round_even :: "nat \<Rightarrow> nat \<Rightarrow> nat" where
  "round_even n d = (let q = n div d; r = n mod d in
     if 2 * r < d \<or> (2 * r = d \<and> even q) then q else q + 1)"

definition dbl_negative :: "u64 \<Rightarrow> bool" where
  "dbl_negative w = bit w 63"

definition dbl_exponent :: "u64 \<Rightarrow> nat" where
  "dbl_exponent w = unat (drop_bit 52 w) mod 2048"

definition dbl_fraction :: "u64 \<Rightarrow> nat" where
  "dbl_fraction w = unat w mod 2 ^ 52"

definition dbl_finite :: "u64 \<Rightarrow> bool" where
  "dbl_finite w \<longleftrightarrow> dbl_exponent w \<noteq> 2047"

text \<open>A finite double has magnitude \<open>m * 2 ^ e / 2 ^ 1075\<close>.\<close>

definition dbl_mantissa :: "u64 \<Rightarrow> nat" where
  "dbl_mantissa w = (if dbl_exponent w = 0 then dbl_fraction w else dbl_fraction w + 2 ^ 52)"

definition dbl_shift :: "u64 \<Rightarrow> nat" where
  "dbl_shift w = max 1 (dbl_exponent w)"

definition dbl_to_string :: "u64 \<Rightarrow> string" where
  "dbl_to_string w = (if dbl_negative w then ''-'' else []) @
     (if dbl_finite w then
        (let n = round_even (dbl_mantissa w * 10 ^ 6 * 2 ^ dbl_shift w) (2 ^ 1075)
         in nat_to_string (n div 10 ^ 6) @ ''.'' @ pad_left (CHR ''0'') 6 (nat_to_string (n mod 10 ^ 6)))
      else if dbl_fraction w = 0 then ''inf'' else ''nan'')"

section \<open>The handlers of \<open>type_map_\<close>\<close>

text \<open>
  One definition for each entry. The entries whose value holds further variants take the
  renderer of those as an argument, \<open>append_property\<close> closes the recursion.
\<close>

type_synonym 'v handler = "'v \<Rightarrow> ostream \<Rightarrow> ostream outcome"

abbreviation quoted_empty :: string where
  "quoted_empty \<equiv> [CHR 0x22, CHR 0x22]"

definition show_u :: "'v variant_api \<Rightarrow> 'v handler" where
  "show_u api v = with_value (va_u32 api v) (\<lambda>n os. Done (put (nat_to_string (unat n) @ endl) os))"

definition show_d :: "'v variant_api \<Rightarrow> 'v handler" where
  "show_d api v = with_value (va_double api v) (\<lambda>d os. Done (put (dbl_to_string d @ endl) os))"

definition show_n :: "'v variant_api \<Rightarrow> 'v handler" where
  "show_n api v = with_value (va_i16 api v) (\<lambda>n os. Done (put (int_to_string (sint n) @ endl) os))"

definition show_o :: "'v variant_api \<Rightarrow> 'v handler" where
  "show_o api v = with_value (va_path api v) (\<lambda>p os. Done (put (p @ endl) os))"

definition show_ao :: "'v variant_api \<Rightarrow> 'v handler" where
  "show_ao api v = with_value (va_paths api v) (\<lambda>ps os. Done (fold (\<lambda>p. put (p @ endl)) ps os))"

definition show_i :: "'v variant_api \<Rightarrow> 'v handler" where
  "show_i api v = with_value (va_i32 api v) (\<lambda>n os. Done (put (int_to_string (sint n) @ endl) os))"

definition show_b :: "'v variant_api \<Rightarrow> 'v handler" where
  "show_b api v = with_value (va_bool api v)
     (\<lambda>b os. Done (put ((if b then ''True'' else ''False'') @ endl) os))"

definition show_y :: "'v variant_api \<Rightarrow> 'v handler" where
  "show_y api v = with_value (va_u8 api v) (\<lambda>n os. Done (put (nat_to_string (unat n) @ endl) os))"

definition show_q :: "'v variant_api \<Rightarrow> 'v handler" where
  "show_q api v = with_value (va_u16 api v) (\<lambda>n os. Done (put (nat_to_string (unat n) @ endl) os))"

definition show_s :: "'v variant_api \<Rightarrow> 'v handler" where
  "show_s api v = with_value (va_string api v)
     (\<lambda>s os. Done (put ((if s = [] then quoted_empty else s) @ endl) os))"

definition show_x :: "'v variant_api \<Rightarrow> 'v handler" where
  "show_x api v = with_value (va_i64 api v) (\<lambda>n os. Done (put (int_to_string (sint n) @ endl) os))"

definition show_t :: "'v variant_api \<Rightarrow> 'v handler" where
  "show_t api v = with_value (va_u64 api v) (\<lambda>n os. Done (put (nat_to_string (unat n) @ endl) os))"

definition show_as :: "'v variant_api \<Rightarrow> 'v handler" where
  "show_as api v = with_value (va_strings api v) (\<lambda>xs os.
     let os = fold (\<lambda>s. put (tab @ s @ endl)) xs (put endl os)
     in Done (if xs = [] then put (tab @ quoted_empty @ endl) os else os))"

definition show_au :: "'v variant_api \<Rightarrow> 'v handler" where
  "show_au api v = with_value (va_u32s api v) (\<lambda>xs os.
     let os = fold (\<lambda>n. put (tab @ nat_to_string (unat n) @ endl)) xs (put endl os)
     in Done (put (if xs = [] then tab @ quoted_empty @ endl else endl) os))"

definition show_aau :: "'v variant_api \<Rightarrow> 'v handler" where
  "show_aau api v = with_value (va_u32ss api v) (\<lambda>xss os.
     let os = fold (fold (\<lambda>n. put (tab @ nat_to_string (unat n) @ endl))) xss (put endl os)
     in Done (put (if xss = [] then tab @ quoted_empty @ endl else endl) os))"

definition show_ay :: "'v variant_api \<Rightarrow> 'v handler" where
  "show_ay api v = with_value (va_bytes api v) (\<lambda>bs os.
     Done (put (if bs = [] then tab @ quoted_empty @ endl else endl) (put_bytes bs os)))"

definition show_aay :: "'v variant_api \<Rightarrow> 'v handler" where
  "show_aay api v = with_value (va_bytess api v) (\<lambda>bss os.
     Done (put (if bss = [] then tab @ quoted_empty @ endl else endl) (fold put_bytes bss os)))"

definition show_dict_q :: "'v handler \<Rightarrow> 'v variant_api \<Rightarrow> 'v handler" where
  "show_dict_q rec api v os = with_value (va_dict_q api v)
     (for_each (\<lambda>(key, value) os. rec value (put '': '' (put_unsigned key (put tab os)))))
     (put endl os)"

definition show_dict_s :: "'v handler \<Rightarrow> 'v variant_api \<Rightarrow> 'v handler" where
  "show_dict_s rec api v os = with_value (va_dict_s api v)
     (for_each (\<lambda>(key, value) os. rec value (put (tab @ key @ '': '') os)))
     (put endl os)"

definition show_named_dicts :: "'v handler \<Rightarrow> 'v variant_api \<Rightarrow> 'v handler" where
  "show_named_dicts rec api v os = with_value (sa_named_dicts (va_structs api) v)
     (for_each (\<lambda>(name, dict) os.
        for_each (\<lambda>(key, value) os. rec value (put (key @ '': '') os)) dict
          (put (tab @ name @ '': '') os)))
     (put endl os)"

definition show_qqy :: "'v variant_api \<Rightarrow> 'v handler" where
  "show_qqy api v os = with_value (sa_qqy (va_structs api) v)
     (\<lambda>(a, b, c) os. Done (put_char c (put '': '' (put_unsigned b (put '': '' (put_unsigned a (put tab os)))))))
     (put endl os)"

definition show_a_qqy :: "'v variant_api \<Rightarrow> 'v handler" where
  "show_a_qqy api v os = with_value (sa_qqys (va_structs api) v)
     (\<lambda>xs os. Done (fold (\<lambda>(a, b, c) os.
        put endl (put_char c (put '': '' (put_unsigned b (put '': '' (put_unsigned a (put tab os))))))) xs os))
     (put endl os)"

definition put_error :: "'v variant_api \<Rightarrow> 'v \<Rightarrow> exn \<Rightarrow> ostream \<Rightarrow> ostream" where
  "put_error api v e os =
     put (''Type of value: '' @ va_type api v @ endl) (put (''Error: '' @ exn_what e @ endl) os)"

definition show_a_ayuay :: "'v variant_api \<Rightarrow> 'v handler" where
  "show_a_ayuay api v os = catch_dbus
     (with_value (sa_ayuays (va_structs api) v)
        (\<lambda>xs os. Done (fold (\<lambda>(a, n, b) os.
           put endl (put_bytes b (put ('', '' @ nat_to_string (unat n) @ '', '') (put_bytes a (put tab os))))) xs os))
        (put endl os))
     (put_error api v)"

definition show_a_ayuayu :: "'v variant_api \<Rightarrow> 'v handler" where
  "show_a_ayuayu api v os = catch_dbus
     (with_value (sa_ayuayus (va_structs api) v)
        (\<lambda>xs os. Done (fold (\<lambda>(a, n, b, m) os.
           put ('', '' @ nat_to_string (unat m) @ endl)
             (put_bytes b (put ('', '' @ nat_to_string (unat n) @ '', '') (put_bytes a (put tab os))))) xs os))
        (put endl os))
     (put_error api v)"

definition show_dicts :: "'v handler \<Rightarrow> 'v variant_api \<Rightarrow> 'v handler" where
  "show_dicts rec api v os = with_value (sa_dicts (va_structs api) v)
     (for_each (for_each (\<lambda>(key, value) os. rec value (put (tab @ key @ '': '') os))))
     (put endl os)"

definition show_tt :: "'v variant_api \<Rightarrow> 'v handler" where
  "show_tt api v os = with_value (sa_tt (va_structs api) v)
     (\<lambda>(a, b) os. Done (put_unsigned b (put '': '' (put_unsigned a (put tab os)))))
     (put endl os)"

definition show_ttt :: "'v variant_api \<Rightarrow> 'v handler" where
  "show_ttt api v os = with_value (sa_ttt (va_structs api) v)
     (\<lambda>(a, b, c) os. Done (put_unsigned c (put '': '' (put_unsigned b (put '': ''
        (put_unsigned a (put tab os)))))))
     (put endl os)"

definition show_tttt :: "'v variant_api \<Rightarrow> 'v handler" where
  "show_tttt api v os = with_value (sa_tttt (va_structs api) v)
     (\<lambda>(a, b, c, d) os. Done (put_unsigned d (put '': '' (put_unsigned c (put '': ''
        (put_unsigned b (put '': '' (put_unsigned a (put tab os)))))))))
     (put endl os)"

definition show_so :: "'v variant_api \<Rightarrow> 'v handler" where
  "show_so api v os = with_value (sa_so (va_structs api) v)
     (\<lambda>(s, p) os. Done (put (tab @ s @ '': '' @ p) os))
     (put endl os)"

definition show_st :: "'v variant_api \<Rightarrow> 'v handler" where
  "show_st api v os = with_value (sa_st (va_structs api) v)
     (\<lambda>(s, n) os. Done (put_unsigned n (put (tab @ s @ '': '') os)))
     (put endl os)"

definition show_uo :: "'v variant_api \<Rightarrow> 'v handler" where
  "show_uo api v os = with_value (sa_uo (va_structs api) v)
     (\<lambda>(n, p) os. Done (put ('': '' @ p) (put_unsigned n (put tab os))))
     (put endl os)"

definition show_a_isb :: "'v variant_api \<Rightarrow> 'v handler" where
  "show_a_isb api v os = with_value (sa_isbs (va_structs api) v)
     (\<lambda>xs os. Done (fold (\<lambda>(n, s, b) os.
        put ('': '' @ s @ '': '' @ (if b then ''True'' else ''False'')) (put_signed n (put tab os))) xs os))
     (put endl os)"

definition put_iiay :: "u32 \<times> u32 \<times> u8 list \<Rightarrow> ostream \<Rightarrow> ostream" where
  "put_iiay = (\<lambda>(a, b, bs) os.
     put_bytes bs (put '': '' (put_signed b (put '': '' (put_signed a (put tab os))))))"

definition show_iiay :: "'v variant_api \<Rightarrow> 'v handler" where
  "show_iiay api v os = with_value (sa_iiay (va_structs api) v) (\<lambda>x os. Done (put_iiay x os)) (put endl os)"

definition show_a_iiay :: "'v variant_api \<Rightarrow> 'v handler" where
  "show_a_iiay api v os = with_value (sa_iiays (va_structs api) v)
     (\<lambda>xs os. Done (fold put_iiay xs os)) (put endl os)"

definition put_iiayqs :: "u32 \<times> u32 \<times> u8 list \<times> u16 \<times> string \<Rightarrow> ostream \<Rightarrow> ostream" where
  "put_iiayqs = (\<lambda>(a, b, bs, q, s) os.
     put ('', '' @ s) (put_unsigned q (put '', '' (put_bytes bs
       (put '', '' (put_signed b (put '', '' (put_signed a (put tab os)))))))))"

definition show_iiayqs :: "'v variant_api \<Rightarrow> 'v handler" where
  "show_iiayqs api v os = with_value (sa_iiayqs (va_structs api) v)
     (\<lambda>x os. Done (put_iiayqs x os)) (put endl os)"

definition show_a_iiayqs :: "'v variant_api \<Rightarrow> 'v handler" where
  "show_a_iiayqs api v os = with_value (sa_iiayqss (va_structs api) v)
     (\<lambda>xs os. Done (fold put_iiayqs xs os)) (put endl os)"

definition show_a_so :: "'v variant_api \<Rightarrow> 'v handler" where
  "show_a_so api v os = with_value (sa_sos (va_structs api) v)
     (\<lambda>xs os. Done (fold (\<lambda>(s, p). put (tab @ s @ '': '' @ p)) xs os))
     (put endl os)"

definition type_map :: "'v handler \<Rightarrow> 'v variant_api \<Rightarrow> (string \<times> 'v handler) list" where
  "type_map rec api =
     [(''u'', show_u api), (''d'', show_d api), (''n'', show_n api), (''o'', show_o api),
      (''ao'', show_ao api), (''i'', show_i api), (''b'', show_b api), (''y'', show_y api),
      (''q'', show_q api), (''s'', show_s api), (''x'', show_x api), (''t'', show_t api),
      (''as'', show_as api), (''au'', show_au api), (''aau'', show_aau api),
      (''ay'', show_ay api), (''aay'', show_aay api), (''a{qv}'', show_dict_q rec api),
      (''a{sv}'', show_dict_s rec api), (''a(sa{sv})'', show_named_dicts rec api),
      (''(qqy)'', show_qqy api), (''a(qqy)'', show_a_qqy api),
      (''a(ayuay)'', show_a_ayuay api), (''a(ayuayu)'', show_a_ayuayu api),
      (''aa{sv}'', show_dicts rec api), (''(tt)'', show_tt api), (''(ttt)'', show_ttt api),
      (''(tttt)'', show_tttt api), (''(so)'', show_so api), (''(st)'', show_st api),
      (''(uo)'', show_uo api), (''a(isb)'', show_a_isb api), (''(iiay)'', show_iiay api),
      (''a(iiay)'', show_a_iiay api), (''(iiayqs)'', show_iiayqs api),
      (''a(iiayqs)'', show_a_iiayqs api), (''a(so)'', show_a_so api)]"

text \<open>
  \<open>append_property\<close> calls itself on the variants inside a value. The first argument bounds
  the nesting that is followed; \<open>append_property_fuel\<close> below shows that any bound above the
  nesting depth of the value gives the same result.
\<close>

definition too_deep :: exn where
  "too_deep = Std_Exception ''nesting bound of the model''"

fun append_property :: "nat \<Rightarrow> 'v variant_api \<Rightarrow> 'v \<Rightarrow> ostream \<Rightarrow> ostream outcome" where
  "append_property 0 api value os = Throw too_deep os"
| "append_property (Suc n) api value os =
     (let type = va_type api value;
          os = put (''['' @ type @ ''] '') os
      in case map_of (type_map (append_property n api) api) type of
           Some handler \<Rightarrow> handler value os
         | None \<Rightarrow> Done (put (''Unknown type: '' @ type @ endl) os))"

definition append_properties :: "nat \<Rightarrow> 'v variant_api \<Rightarrow> 'v props \<Rightarrow> ostream \<Rightarrow> ostream outcome" where
  "append_properties n api = for_each
     (\<lambda>(key, value) os. append_property n api value (put (''  '' @ key @ '': '') os))"

text \<open>The D-Bus specification bounds the nesting of containers in a message by 64.\<close>

definition max_nesting :: nat where
  "max_nesting = 65"

text \<open>\<open>print_changed_properties\<close> logs one message, or throws what a getter throws.\<close>

definition changed_properties_text ::
    "'v variant_api \<Rightarrow> string \<Rightarrow> 'v props \<Rightarrow> string list \<Rightarrow> ostream outcome" where
  "changed_properties_text api iface changed invalidated =
     seq (append_properties max_nesting api changed
            (put (''['' @ iface @ ''] Properties changed'' @ endl) (put endl ostringstream)))
         (\<lambda>os. Done (fold (\<lambda>name. put (''['' @ iface @ ''] Invalidated property: '' @ name @ endl))
                      invalidated os))"

definition print_changed_properties ::
    "'v variant_api \<Rightarrow> string \<Rightarrow> 'v props \<Rightarrow> string list \<Rightarrow> 'a logged_scheme \<Rightarrow> 'a logged_scheme outcome" where
  "print_changed_properties api iface changed invalidated s =
     (case changed_properties_text api iface changed invalidated of
        Done os \<Rightarrow> Done (log_msg Info (os_buf os) [] s)
      | Throw e _ \<Rightarrow> Throw e s)"

definition isServicePresent :: "string list \<Rightarrow> string \<Rightarrow> bool" where
  "isServicePresent dbus_interfaces service \<longleftrightarrow> service \<in> set dbus_interfaces"

section \<open>JSON documents\<close>

record 'j json_api =
  ja_is_null :: "'j \<Rightarrow> bool"
  ja_is_string :: "'j \<Rightarrow> bool"
  ja_string :: "'j \<Rightarrow> string"
  ja_is_number :: "'j \<Rightarrow> bool"
  ja_number :: "'j \<Rightarrow> u64"
  ja_is_boolean :: "'j \<Rightarrow> bool"
  ja_bool :: "'j \<Rightarrow> bool"
  ja_is_object :: "'j \<Rightarrow> bool"
  ja_object :: "'j \<Rightarrow> (string \<times> 'j) list"
  ja_is_array :: "'j \<Rightarrow> bool"
  ja_array :: "'j \<Rightarrow> 'j list"

text \<open>
  \<open>d >= -2^53 && d <= 2^53 && d == std::floor(d)\<close> on the bit pattern: finite, a whole
  number, of magnitude at most \<open>2 ^ 53\<close>; then \<open>static_cast<int64_t>(d)\<close> is exact.
\<close>

definition dbl_safe_integer :: "u64 \<Rightarrow> bool" where
  "dbl_safe_integer w \<longleftrightarrow> dbl_finite w
     \<and> dbl_mantissa w * 2 ^ dbl_shift w \<le> 2 ^ 53 * 2 ^ 1075
     \<and> 2 ^ 1075 dvd dbl_mantissa w * 2 ^ dbl_shift w"

definition dbl_to_int :: "u64 \<Rightarrow> int" where
  "dbl_to_int w = (let n = int (dbl_mantissa w * 2 ^ dbl_shift w div 2 ^ 1075)
                   in if dbl_negative w then - n else n)"

definition scalarToString :: "'j json_api \<Rightarrow> 'j \<Rightarrow> string" where
  "scalarToString api val =
     (if ja_is_null api val then quoted_empty
      else if ja_is_string api val then ja_string api val
      else if ja_is_number api val then
        (let d = ja_number api val
         in if dbl_safe_integer d then int_to_string (dbl_to_int d) else dbl_to_string d)
      else if ja_is_boolean api val then (if ja_bool api val then ''true'' else ''false'')
      else ''[complex]'')"

text \<open>
  \<open>elementToLines\<close> on the first \<open>n\<close> levels of the document; \<open>None\<close> when it is deeper
  (\<open>element_to_lines_returns\<close> below).
\<close>

fun concat_opt :: "string option list \<Rightarrow> string option" where
  "concat_opt [] = Some []"
| "concat_opt (x # xs) =
     (case x of None \<Rightarrow> None | Some s \<Rightarrow> map_option (\<lambda>t. s @ t) (concat_opt xs))"

definition json_entry ::
    "'j json_api \<Rightarrow> ('j \<Rightarrow> string option) \<Rightarrow> string \<Rightarrow> string \<Rightarrow> 'j \<Rightarrow> string option" where
  "json_entry api rec pad key val =
     (if ja_is_object api val \<or> ja_is_array api val
      then map_option (\<lambda>t. pad @ key @ '':'' @ endl @ t) (rec val)
      else Some (pad @ key @ '': '' @ scalarToString api val @ endl))"

fun elementToLines :: "nat \<Rightarrow> 'j json_api \<Rightarrow> 'j \<Rightarrow> nat \<Rightarrow> string option" where
  "elementToLines 0 api el indent = None"
| "elementToLines (Suc n) api el indent =
     (let pad = replicate (indent * 2) (CHR '' '');
          entry = json_entry api (\<lambda>val. elementToLines n api val (indent + 1)) pad
      in if ja_is_object api el then concat_opt (map (\<lambda>(key, val). entry key val) (ja_object api el))
         else if ja_is_array api el then
           concat_opt (map (\<lambda>(idx, item). entry (''['' @ nat_to_string idx @ '']'') item)
                         (enumerate 0 (ja_array api el)))
         else Some (pad @ scalarToString api el @ endl))"

text \<open>\<open>glz::read_json\<close> gives a document or an error; \<open>glz::format_error\<close> is its text.\<close>

definition parseDescriptionJson ::
    "'j json_api \<Rightarrow> (string \<Rightarrow> string + 'j) \<Rightarrow> nat \<Rightarrow> string \<Rightarrow> string option" where
  "parseDescriptionJson api read_json n json =
     (if json = [] then Some ''<empty>''
      else case read_json json of
        Inl err \<Rightarrow> Some (''json_error: '' @ err)
      | Inr doc \<Rightarrow> elementToLines n api doc 0)"

section \<open>A concrete variant library\<close>

text \<open>
  A small instance of the accessors, for evaluating the definitions on inputs: values of a few
  D-Bus types, read back by the accessor of their type and refused by every other.
\<close>

datatype sample =
  S_str string | S_path string | S_bool bool | S_u32 u32 | S_i16 u16 | S_u8 u8 | S_double u64
| S_strs "string list" | S_bytes "u8 list" | S_tt u64 u64 | S_dict "(string \<times> sample) list"
| S_other string

definition type_error :: "exn + 'a" where
  "type_error = Inl (DBus_Error ''System.Error.ENXIO'' ''Failed to enter a variant'')"

definition sample_structs :: "sample struct_api" where
  "sample_structs =
     \<lparr>sa_named_dicts = \<lambda>_. type_error, sa_qqy = \<lambda>_. type_error, sa_qqys = \<lambda>_. type_error,
      sa_ayuays = \<lambda>_. type_error, sa_ayuayus = \<lambda>_. type_error, sa_dicts = \<lambda>_. type_error,
      sa_tt = (\<lambda>v. case v of S_tt a b \<Rightarrow> Inr (a, b) | _ \<Rightarrow> type_error),
      sa_ttt = \<lambda>_. type_error, sa_tttt = \<lambda>_. type_error, sa_so = \<lambda>_. type_error,
      sa_st = \<lambda>_. type_error, sa_uo = \<lambda>_. type_error, sa_isbs = \<lambda>_. type_error,
      sa_iiay = \<lambda>_. type_error, sa_iiays = \<lambda>_. type_error, sa_iiayqs = \<lambda>_. type_error,
      sa_iiayqss = \<lambda>_. type_error, sa_sos = \<lambda>_. type_error\<rparr>"

fun sample_type :: "sample \<Rightarrow> string" where
  "sample_type (S_str _) = ''s''"
| "sample_type (S_path _) = ''o''"
| "sample_type (S_bool _) = ''b''"
| "sample_type (S_u32 _) = ''u''"
| "sample_type (S_i16 _) = ''n''"
| "sample_type (S_u8 _) = ''y''"
| "sample_type (S_double _) = ''d''"
| "sample_type (S_strs _) = ''as''"
| "sample_type (S_bytes _) = ''ay''"
| "sample_type (S_tt _ _) = ''(tt)''"
| "sample_type (S_dict _) = ''a{sv}''"
| "sample_type (S_other t) = ''v'' @ t"

definition sample_api :: "sample variant_api" where
  "sample_api =
     \<lparr>va_type = sample_type,
      va_bool = (\<lambda>v. case v of S_bool b \<Rightarrow> Inr b | _ \<Rightarrow> type_error),
      va_u8 = (\<lambda>v. case v of S_u8 n \<Rightarrow> Inr n | _ \<Rightarrow> type_error),
      va_i16 = (\<lambda>v. case v of S_i16 n \<Rightarrow> Inr n | _ \<Rightarrow> type_error),
      va_u16 = \<lambda>_. type_error, va_i32 = \<lambda>_. type_error,
      va_u32 = (\<lambda>v. case v of S_u32 n \<Rightarrow> Inr n | _ \<Rightarrow> type_error),
      va_i64 = \<lambda>_. type_error, va_u64 = \<lambda>_. type_error,
      va_double = (\<lambda>v. case v of S_double d \<Rightarrow> Inr d | _ \<Rightarrow> type_error),
      va_string = (\<lambda>v. case v of S_str s \<Rightarrow> Inr s | _ \<Rightarrow> type_error),
      va_path = (\<lambda>v. case v of S_path p \<Rightarrow> Inr p | _ \<Rightarrow> type_error),
      va_strings = (\<lambda>v. case v of S_strs xs \<Rightarrow> Inr xs | _ \<Rightarrow> type_error),
      va_paths = \<lambda>_. type_error, va_u32s = \<lambda>_. type_error, va_u32ss = \<lambda>_. type_error,
      va_bytes = (\<lambda>v. case v of S_bytes bs \<Rightarrow> Inr bs | _ \<Rightarrow> type_error),
      va_bytess = \<lambda>_. type_error, va_dict_q = \<lambda>_. type_error,
      va_dict_s = (\<lambda>v. case v of S_dict xs \<Rightarrow> Inr xs | _ \<Rightarrow> type_error),
      va_structs = sample_structs\<rparr>"

lemma sample_api_simps [simp]:
  "va_type sample_api v = sample_type v"
  "va_structs sample_api = sample_structs"
  "sa_tt sample_structs v = (case v of S_tt a b \<Rightarrow> Inr (a, b) | _ \<Rightarrow> type_error)"
  "va_string sample_api v = (case v of S_str s \<Rightarrow> Inr s | _ \<Rightarrow> type_error)"
  "va_path sample_api v = (case v of S_path s \<Rightarrow> Inr s | _ \<Rightarrow> type_error)"
  "va_bool sample_api v = (case v of S_bool b \<Rightarrow> Inr b | _ \<Rightarrow> type_error)"
  "va_u32 sample_api v = (case v of S_u32 n \<Rightarrow> Inr n | _ \<Rightarrow> type_error)"
  "va_i16 sample_api v = (case v of S_i16 n \<Rightarrow> Inr n | _ \<Rightarrow> type_error)"
  "va_u8 sample_api v = (case v of S_u8 n \<Rightarrow> Inr n | _ \<Rightarrow> type_error)"
  "va_strings sample_api v = (case v of S_strs xs \<Rightarrow> Inr xs | _ \<Rightarrow> type_error)"
  "va_double sample_api v = (case v of S_double d \<Rightarrow> Inr d | _ \<Rightarrow> type_error)"
  "va_bytes sample_api v = (case v of S_bytes bs \<Rightarrow> Inr bs | _ \<Rightarrow> type_error)"
  "va_dict_s sample_api v = (case v of S_dict xs \<Rightarrow> Inr xs | _ \<Rightarrow> type_error)"
  by (simp_all add: sample_api_def sample_structs_def)

text \<open>The same for JSON values.\<close>

datatype sample_json =
  J_null | J_num u64 | J_str string | J_bool bool | J_arr "sample_json list" | J_obj "(string \<times> sample_json) list"

definition sample_json_api :: "sample_json json_api" where
  "sample_json_api =
     \<lparr>ja_is_null = (\<lambda>j. j = J_null),
      ja_is_string = (\<lambda>j. case j of J_str _ \<Rightarrow> True | _ \<Rightarrow> False),
      ja_string = (\<lambda>j. case j of J_str s \<Rightarrow> s | _ \<Rightarrow> []),
      ja_is_number = (\<lambda>j. case j of J_num _ \<Rightarrow> True | _ \<Rightarrow> False),
      ja_number = (\<lambda>j. case j of J_num d \<Rightarrow> d | _ \<Rightarrow> 0),
      ja_is_boolean = (\<lambda>j. case j of J_bool _ \<Rightarrow> True | _ \<Rightarrow> False),
      ja_bool = (\<lambda>j. case j of J_bool b \<Rightarrow> b | _ \<Rightarrow> False),
      ja_is_object = (\<lambda>j. case j of J_obj _ \<Rightarrow> True | _ \<Rightarrow> False),
      ja_object = (\<lambda>j. case j of J_obj xs \<Rightarrow> xs | _ \<Rightarrow> []),
      ja_is_array = (\<lambda>j. case j of J_arr _ \<Rightarrow> True | _ \<Rightarrow> False),
      ja_array = (\<lambda>j. case j of J_arr xs \<Rightarrow> xs | _ \<Rightarrow> [])\<rparr>"

end
