(* ===== verification/Rendering.thy ===== *)
theory Rendering
  imports Utils
begin

text \<open>
  Properties of the renderers of \<open>Utils\<close>: they end and do not throw on any property map,
  numbers are printed exactly, and what the sticky base flag of the stream does to them.
\<close>

section \<open>Rendering is total\<close>

text \<open>
  What the code relies on in the library: \<open>get<T>\<close> does not throw when \<open>peekValueType\<close> is the
  signature of \<open>T\<close> (\<open>honest\<close>), and variants nest finitely (\<open>well_nested\<close>: the variants inside
  a value are less deep than the value).
\<close>

definition typed_getters :: "'v variant_api \<Rightarrow> 'v \<Rightarrow> (string \<times> bool) list" where
  "typed_getters api v = (let st = va_structs api in
     [(''u'', \<not> isl (va_u32 api v)), (''d'', \<not> isl (va_double api v)), (''n'', \<not> isl (va_i16 api v)),
      (''o'', \<not> isl (va_path api v)), (''ao'', \<not> isl (va_paths api v)), (''i'', \<not> isl (va_i32 api v)),
      (''b'', \<not> isl (va_bool api v)), (''y'', \<not> isl (va_u8 api v)), (''q'', \<not> isl (va_u16 api v)),
      (''s'', \<not> isl (va_string api v)), (''x'', \<not> isl (va_i64 api v)), (''t'', \<not> isl (va_u64 api v)),
      (''as'', \<not> isl (va_strings api v)), (''au'', \<not> isl (va_u32s api v)),
      (''aau'', \<not> isl (va_u32ss api v)), (''ay'', \<not> isl (va_bytes api v)),
      (''aay'', \<not> isl (va_bytess api v)), (''a{qv}'', \<not> isl (va_dict_q api v)),
      (''a{sv}'', \<not> isl (va_dict_s api v)), (''a(sa{sv})'', \<not> isl (sa_named_dicts st v)),
      (''(qqy)'', \<not> isl (sa_qqy st v)), (''a(qqy)'', \<not> isl (sa_qqys st v)),
      (''a(ayuay)'', \<not> isl (sa_ayuays st v)), (''a(ayuayu)'', \<not> isl (sa_ayuayus st v)),
      (''aa{sv}'', \<not> isl (sa_dicts st v)), (''(tt)'', \<not> isl (sa_tt st v)),
      (''(ttt)'', \<not> isl (sa_ttt st v)), (''(tttt)'', \<not> isl (sa_tttt st v)),
      (''(so)'', \<not> isl (sa_so st v)), (''(st)'', \<not> isl (sa_st st v)), (''(uo)'', \<not> isl (sa_uo st v)),
      (''a(isb)'', \<not> isl (sa_isbs st v)), (''(iiay)'', \<not> isl (sa_iiay st v)),
      (''a(iiay)'', \<not> isl (sa_iiays st v)), (''(iiayqs)'', \<not> isl (sa_iiayqs st v)),
      (''a(iiayqs)'', \<not> isl (sa_iiayqss st v)), (''a(so)'', \<not> isl (sa_sos st v))])"

definition honest :: "'v variant_api \<Rightarrow> bool" where
  "honest api \<longleftrightarrow> (\<forall>v. \<forall>(t, ok) \<in> set (typed_getters api v). va_type api v = t \<longrightarrow> ok)"

definition ok_values :: "('v \<Rightarrow> exn + 'a list) \<Rightarrow> 'v \<Rightarrow> 'a set" where
  "ok_values getter v = (case getter v of Inl _ \<Rightarrow> {} | Inr xs \<Rightarrow> set xs)"

definition inner_variants :: "'v variant_api \<Rightarrow> 'v \<Rightarrow> 'v set" where
  "inner_variants api v = snd ` ok_values (va_dict_q api) v \<union> snd ` ok_values (va_dict_s api) v
     \<union> (\<Union>(name, dict) \<in> ok_values (sa_named_dicts (va_structs api)) v. snd ` set dict)
     \<union> (\<Union>dict \<in> ok_values (sa_dicts (va_structs api)) v. snd ` set dict)"

definition well_nested :: "'v variant_api \<Rightarrow> ('v \<Rightarrow> nat) \<Rightarrow> bool" where
  "well_nested api depth \<longleftrightarrow> (\<forall>v. \<forall>w \<in> inner_variants api v. depth w < depth v)"



lemmas plain_handler_defs =
  show_u_def show_d_def show_n_def show_o_def show_ao_def show_i_def show_b_def show_y_def show_q_def
  show_s_def show_x_def show_t_def show_as_def show_au_def show_aau_def show_ay_def show_aay_def
  show_qqy_def show_a_qqy_def show_a_ayuay_def show_a_ayuayu_def show_tt_def show_ttt_def
  show_tttt_def show_so_def show_st_def show_uo_def show_a_isb_def show_iiay_def show_a_iiay_def
  show_iiayqs_def show_a_iiayqs_def show_a_so_def



lemmas dict_handler_defs = show_dict_q_def show_dict_s_def show_named_dicts_def show_dicts_def

lemma with_value_cong:
  "(\<And>x. g = Inr x \<Longrightarrow> f x s = h x s) \<Longrightarrow> with_value g f s = with_value g h s"
  by (cases g) auto

lemma is_done_with_value:
  "\<not> isl g \<Longrightarrow> (\<And>x. g = Inr x \<Longrightarrow> is_done (f x s)) \<Longrightarrow> is_done (with_value g f s)"
  by (cases g) auto

lemma is_done_with_value_Done:
  "\<not> isl g \<Longrightarrow> is_done (with_value g (\<lambda>x os. Done (f x os)) s)"
  by (cases g) auto

lemma is_done_catch_dbus: "is_done r \<Longrightarrow> is_done (catch_dbus r h)"
  by (cases r) auto

lemma dict_handlers_cong:
  assumes "\<And>w os. w \<in> inner_variants api v \<Longrightarrow> r1 w os = r2 w os"
  shows "show_dict_q r1 api v os = show_dict_q r2 api v os"
    and "show_dict_s r1 api v os = show_dict_s r2 api v os"
    and "show_named_dicts r1 api v os = show_named_dicts r2 api v os"
    and "show_dicts r1 api v os = show_dicts r2 api v os"
  unfolding dict_handler_defs using assms
  by (auto intro!: with_value_cong for_each_cong simp: inner_variants_def ok_values_def; force)+

lemma dict_handlers_done:
  assumes rec: "\<And>w os. w \<in> inner_variants api v \<Longrightarrow> is_done (r w os)"
  shows "\<not> isl (va_dict_q api v) \<Longrightarrow> is_done (show_dict_q r api v os)"
    and "\<not> isl (va_dict_s api v) \<Longrightarrow> is_done (show_dict_s r api v os)"
    and "\<not> isl (sa_named_dicts (va_structs api) v) \<Longrightarrow> is_done (show_named_dicts r api v os)"
    and "\<not> isl (sa_dicts (va_structs api) v) \<Longrightarrow> is_done (show_dicts r api v os)"
  unfolding dict_handler_defs using rec
  by (auto intro!: is_done_with_value for_each_is_done simp: inner_variants_def ok_values_def; force)+

lemma type_map_cong:
  assumes "\<And>w os. w \<in> inner_variants api v \<Longrightarrow> r1 w os = r2 w os"
  shows "map_option (\<lambda>h. h v os) (map_of (type_map r1 api) t)
       = map_option (\<lambda>h. h v os) (map_of (type_map r2 api) t)"
proof -
  have "map (\<lambda>(t, h). (t, h v os)) (type_map r1 api) = map (\<lambda>(t, h). (t, h v os)) (type_map r2 api)"
    by (simp add: type_map_def dict_handlers_cong [OF assms])
  then have "map_of (map (\<lambda>(t, h). (t, h v os)) (type_map r1 api)) t
      = map_of (map (\<lambda>(t, h). (t, h v os)) (type_map r2 api)) t" by (rule arg_cong)
  then show ?thesis by (simp add: map_of_map)
qed

lemma plain_handlers_done:
  "\<not> isl (va_u32 api v) \<Longrightarrow> is_done (show_u api v os)"
  "\<not> isl (va_double api v) \<Longrightarrow> is_done (show_d api v os)"
  "\<not> isl (va_i16 api v) \<Longrightarrow> is_done (show_n api v os)"
  "\<not> isl (va_path api v) \<Longrightarrow> is_done (show_o api v os)"
  "\<not> isl (va_paths api v) \<Longrightarrow> is_done (show_ao api v os)"
  "\<not> isl (va_i32 api v) \<Longrightarrow> is_done (show_i api v os)"
  "\<not> isl (va_bool api v) \<Longrightarrow> is_done (show_b api v os)"
  "\<not> isl (va_u8 api v) \<Longrightarrow> is_done (show_y api v os)"
  "\<not> isl (va_u16 api v) \<Longrightarrow> is_done (show_q api v os)"
  "\<not> isl (va_string api v) \<Longrightarrow> is_done (show_s api v os)"
  "\<not> isl (va_i64 api v) \<Longrightarrow> is_done (show_x api v os)"
  "\<not> isl (va_u64 api v) \<Longrightarrow> is_done (show_t api v os)"
  "\<not> isl (va_strings api v) \<Longrightarrow> is_done (show_as api v os)"
  "\<not> isl (va_u32s api v) \<Longrightarrow> is_done (show_au api v os)"
  "\<not> isl (va_u32ss api v) \<Longrightarrow> is_done (show_aau api v os)"
  "\<not> isl (va_bytes api v) \<Longrightarrow> is_done (show_ay api v os)"
  "\<not> isl (va_bytess api v) \<Longrightarrow> is_done (show_aay api v os)"
  unfolding plain_handler_defs Let_def by (erule is_done_with_value_Done)+

lemma struct_handlers_done:
  "\<not> isl (sa_qqy (va_structs api) v) \<Longrightarrow> is_done (show_qqy api v os)"
  "\<not> isl (sa_qqys (va_structs api) v) \<Longrightarrow> is_done (show_a_qqy api v os)"
  "\<not> isl (sa_ayuays (va_structs api) v) \<Longrightarrow> is_done (show_a_ayuay api v os)"
  "\<not> isl (sa_ayuayus (va_structs api) v) \<Longrightarrow> is_done (show_a_ayuayu api v os)"
  "\<not> isl (sa_tt (va_structs api) v) \<Longrightarrow> is_done (show_tt api v os)"
  "\<not> isl (sa_ttt (va_structs api) v) \<Longrightarrow> is_done (show_ttt api v os)"
  "\<not> isl (sa_tttt (va_structs api) v) \<Longrightarrow> is_done (show_tttt api v os)"
  "\<not> isl (sa_so (va_structs api) v) \<Longrightarrow> is_done (show_so api v os)"
  "\<not> isl (sa_st (va_structs api) v) \<Longrightarrow> is_done (show_st api v os)"
  "\<not> isl (sa_uo (va_structs api) v) \<Longrightarrow> is_done (show_uo api v os)"
  "\<not> isl (sa_isbs (va_structs api) v) \<Longrightarrow> is_done (show_a_isb api v os)"
  "\<not> isl (sa_iiay (va_structs api) v) \<Longrightarrow> is_done (show_iiay api v os)"
  "\<not> isl (sa_iiays (va_structs api) v) \<Longrightarrow> is_done (show_a_iiay api v os)"
  "\<not> isl (sa_iiayqs (va_structs api) v) \<Longrightarrow> is_done (show_iiayqs api v os)"
  "\<not> isl (sa_iiayqss (va_structs api) v) \<Longrightarrow> is_done (show_a_iiayqs api v os)"
  "\<not> isl (sa_sos (va_structs api) v) \<Longrightarrow> is_done (show_a_so api v os)"
  unfolding plain_handler_defs
  by ((rule is_done_catch_dbus)?, erule is_done_with_value, simp split: prod.split)+

lemma type_map_getters:
  assumes "\<And>w os. w \<in> inner_variants api v \<Longrightarrow> is_done (r w os)"
  shows "list_all2 (\<lambda>(t, h) (t', ok). t = t' \<and> (ok \<longrightarrow> is_done (h v os)))
           (type_map r api) (typed_getters api v)"
proof -
  have dicts:
    "\<not> isl (va_dict_q api v) \<Longrightarrow> is_done (show_dict_q r api v os)"
    "\<not> isl (va_dict_s api v) \<Longrightarrow> is_done (show_dict_s r api v os)"
    "\<not> isl (sa_named_dicts (va_structs api) v) \<Longrightarrow> is_done (show_named_dicts r api v os)"
    "\<not> isl (sa_dicts (va_structs api) v) \<Longrightarrow> is_done (show_dicts r api v os)"
    by (rule dict_handlers_done; use assms in simp)+
  show ?thesis
    unfolding type_map_def typed_getters_def Let_def list_all2_Cons list_all2_Nil prod.case
    by (intro conjI refl TrueI impI) (erule plain_handlers_done struct_handlers_done dicts)+
qed

lemma list_all2_member:
  assumes "x \<in> set xs" and "list_all2 P xs ys"
  obtains y where "y \<in> set ys" and "P x y"
  using assms by (metis in_set_conv_nth list_all2_conv_all_nth)

lemma handler_done:
  assumes "honest api" and "\<And>w os. w \<in> inner_variants api v \<Longrightarrow> is_done (r w os)"
    and "map_of (type_map r api) (va_type api v) = Some h"
  shows "is_done (h v os)"
proof -
  have "(va_type api v, h) \<in> set (type_map r api)" by (rule map_of_SomeD [OF assms(3)])
  moreover have "list_all2 (\<lambda>(t, h) (t', ok). t = t' \<and> (ok \<longrightarrow> is_done (h v os)))
      (type_map r api) (typed_getters api v)"
    by (rule type_map_getters) (rule assms(2))
  ultimately obtain y where y: "y \<in> set (typed_getters api v)"
      "(case (va_type api v, h) of (t, h) \<Rightarrow> \<lambda>(t', ok). t = t' \<and> (ok \<longrightarrow> is_done (h v os))) y"
    by (rule list_all2_member)
  obtain ok where "y = (va_type api v, ok)" using y(2) by (cases y) auto
  with y have ok: "(va_type api v, ok) \<in> set (typed_getters api v)" "ok \<longrightarrow> is_done (h v os)" by auto
  with assms(1) have ok by (auto simp: honest_def)
  with ok(2) show ?thesis ..
qed

lemma append_property_fuel:
  assumes nest: "well_nested api depth"
  shows "depth v < n \<Longrightarrow> depth v < m \<Longrightarrow> append_property n api v os = append_property m api v os"
proof (induction n arbitrary: m v os)
  case (Suc n)
  then obtain k where m: "m = Suc k" by (cases m) auto
  have rec: "append_property n api w os = append_property k api w os"
    if "w \<in> inner_variants api v" for w os
  proof -
    have "depth w < depth v" using nest that by (auto simp: well_nested_def)
    with Suc.prems m show ?thesis by (intro Suc.IH) auto
  qed
  have "map_option (\<lambda>h. h v s) (map_of (type_map (append_property n api) api) t)
      = map_option (\<lambda>h. h v s) (map_of (type_map (append_property k api) api) t)" for s t
    by (rule type_map_cong) (rule rec)
  note eq = this [of "put (''['' @ va_type api v @ ''] '') os" "va_type api v"]
  then show ?case
    by (cases "map_of (type_map (append_property n api) api) (va_type api v)";
        cases "map_of (type_map (append_property k api) api) (va_type api v)")
      (auto simp: m Let_def)
qed simp

lemma append_property_done:
  assumes nest: "well_nested api depth" and "honest api"
  shows "depth v < n \<Longrightarrow> is_done (append_property n api v os)"
proof (induction n arbitrary: v os)
  case (Suc n)
  have "is_done (append_property n api w os)" if "w \<in> inner_variants api v" for w os
  proof -
    have "depth w < depth v" using nest that by (auto simp: well_nested_def)
    with Suc.prems show ?thesis by (intro Suc.IH) auto
  qed
  note * = handler_done [OF assms(2) this]
  show ?case by (auto simp: Let_def split: option.split intro: *)
qed simp

text \<open>
  C23: Rendering a property map ends, whatever the types of its values (unknown signatures
  included), without an exception, for every library whose accessors are honest and whose
  variants nest at most 64 deep; the bound of the model does not show in the result.
\<close>

theorem append_properties_complete:
  assumes "honest api" and "well_nested api depth" and "\<forall>(key, v) \<in> set props. depth v \<le> 64"
  shows "is_done (append_properties max_nesting api props os)
    \<and> (\<forall>n > 64. append_properties n api props os = append_properties max_nesting api props os)"
proof (intro conjI allI impI)
  show "is_done (append_properties max_nesting api props os)"
    unfolding append_properties_def
  proof (rule for_each_is_done)
    fix x s assume "x \<in> set props"
    with assms(3) show "is_done ((case x of (key, value) \<Rightarrow> \<lambda>os.
        append_property max_nesting api value (put (''  '' @ key @ '': '') os)) s)"
      by (auto simp: max_nesting_def intro!: append_property_done [OF assms(2) assms(1)])
  qed
next
  fix n :: nat assume "n > 64"
  show "append_properties n api props os = append_properties max_nesting api props os"
    unfolding append_properties_def
  proof (rule for_each_cong [OF refl])
    fix x t assume x: "x \<in> set props"
    obtain key v where kv: "x = (key, v)" by (cases x)
    have "depth v \<le> 64" using assms(3) x kv by auto
    with \<open>n > 64\<close> have "append_property n api v s = append_property max_nesting api v s" for s
      by (intro append_property_fuel [OF assms(2)]) (auto simp: max_nesting_def)
    then show "(case x of (key, value) \<Rightarrow> \<lambda>os. append_property n api value (put (''  '' @ key @ '': '') os)) t
      = (case x of (key, value) \<Rightarrow> \<lambda>os. append_property max_nesting api value (put (''  '' @ key @ '': '') os)) t"
      by (simp add: kv)
  qed
qed

lemma honest_sample_api: "honest sample_api"
proof -
  have "\<forall>(t, ok) \<in> set (typed_getters sample_api v). sample_type v = t \<longrightarrow> ok" for v
    by (cases v) (simp_all add: typed_getters_def Let_def)
  then show ?thesis by (simp add: honest_def)
qed

lemma well_nested_sample_api: "well_nested sample_api size"
  unfolding well_nested_def
proof (intro allI ballI)
  fix v w assume "w \<in> inner_variants sample_api v"
  then obtain xs key where v: "v = S_dict xs" and w: "(key, w) \<in> set xs"
    by (cases v) (auto simp: inner_variants_def ok_values_def sample_api_def sample_structs_def
        type_error_def)
  from w have "size w < size_list (size_prod (\<lambda>_. 0) size) xs"
    by (induction xs) auto
  then show "size w < size v" by (simp add: v)
qed

theorem append_properties_complete_witness:
  "is_done (append_properties max_nesting sample_api
      [(''Alias'', S_str ''pad''), (''Data'', S_dict [(''k'', S_bytes [1, 2])]), (''Odd'', S_other ''h'')]
      ostringstream)"
  using append_properties_complete [OF honest_sample_api well_nested_sample_api,
      of "[(''Alias'', S_str ''pad''), (''Data'', S_dict [(''k'', S_bytes [1, 2])]), (''Odd'', S_other ''h'')]"
         ostringstream]
  by simp

section \<open>The base flag of the stream\<close>

lemma put_simps [simp]:
  "os_buf (put s os) = os_buf os @ s" "os_hex (put s os) = os_hex os"
  by (simp_all add: put_def)

lemma put_byte_simps [simp]:
  "os_buf (put_byte b os) = os_buf os @ hex2 b @ '' ''" "os_hex (put_byte b os)"
  by (simp_all add: put_byte_def put_def)

lemma put_bytes_hex: "os_hex (put_bytes bs os) \<longleftrightarrow> bs \<noteq> [] \<or> os_hex os"
  by (induction bs arbitrary: os) (simp_all add: put_bytes_def)

lemma map_of_tt: "map_of (type_map r api) ''(tt)'' = Some (show_tt api)"
  by (simp add: type_map_def)

lemma map_of_ay: "map_of (type_map r api) ''ay'' = Some (show_ay api)"
  by (simp add: type_map_def)

lemma append_property_tt:
  assumes "va_type api v = ''(tt)''" and "sa_tt (va_structs api) v = Inr (x, y)" and "0 < n"
  shows "\<exists>pre os'. append_property n api v os = Done os'
    \<and> os_buf os' = pre @ digits (if os_hex os then 16 else 10) (unat x) @ '': ''
        @ digits (if os_hex os then 16 else 10) (unat y)"
proof -
  obtain m where "n = Suc m" using assms(3) by (cases n) auto
  then show ?thesis
    by (simp add: assms(1,2) map_of_tt show_tt_def put_unsigned_def)
qed

lemma append_property_ay:
  assumes "va_type api v = ''ay''" and "va_bytes api v = Inr bs" and "0 < n"
  shows "\<exists>os'. append_property n api v os = Done os' \<and> (os_hex os' \<longleftrightarrow> bs \<noteq> [] \<or> os_hex os)"
proof -
  obtain m where "n = Suc m" using assms(3) by (cases n) auto
  then show ?thesis
    by (simp add: assms(1,2) map_of_ay show_ay_def put_bytes_hex)
qed

text \<open>
  A pair of counters (signature \<open>(tt)\<close>) is printed in decimal when it is the first property
  of a map, but in hexadecimal, without a prefix, when a non-empty byte array was printed
  before it: \<open>std::hex\<close> of the byte dump stays set on the stream.
\<close>

theorem byte_dump_changes_number_base:
  assumes "va_type api blob = ''ay''" and "va_bytes api blob = Inr bs" and "bs \<noteq> []"
    and "va_type api pair = ''(tt)''" and "sa_tt (va_structs api) pair = Inr (x, y)"
  shows "(\<exists>pre. os_buf (state_of (append_properties max_nesting api [(b, pair)] ostringstream))
      = pre @ digits 10 (unat x) @ '': '' @ digits 10 (unat y))
    \<and> (\<exists>pre. os_buf (state_of (append_properties max_nesting api [(a, blob), (b, pair)] ostringstream))
      = pre @ digits 16 (unat x) @ '': '' @ digits 16 (unat y))"
proof -
  have n: "0 < max_nesting" by (simp add: max_nesting_def)
  obtain os1 where os1: "append_property max_nesting api blob (put (''  '' @ a @ '': '') ostringstream)
      = Done os1" "os_hex os1"
    using append_property_ay [OF assms(1,2) n] assms(3) by metis
  have hex0: "\<not> os_hex (put s ostringstream)" for s by (simp add: ostringstream_def)
  obtain pre2 os2 where os2: "append_property max_nesting api pair (put (''  '' @ b @ '': '') ostringstream)
      = Done os2" "os_buf os2 = pre2 @ digits 10 (unat x) @ '': '' @ digits 10 (unat y)"
    using append_property_tt [OF assms(4,5) n, of "put (''  '' @ b @ '': '') ostringstream"] hex0 by auto
  obtain pre3 os3 where os3: "append_property max_nesting api pair (put (''  '' @ b @ '': '') os1)
      = Done os3" "os_buf os3 = pre3 @ digits 16 (unat x) @ '': '' @ digits 16 (unat y)"
    using append_property_tt [OF assms(4,5) n, of "put (''  '' @ b @ '': '') os1"] os1(2) by auto
  show ?thesis
    using os1(1) os2 os3 by (auto simp: append_properties_def)
qed

theorem byte_dump_changes_number_base_witness:
  "\<exists>pre. os_buf (state_of (append_properties max_nesting sample_api
        [(''Id'', S_bytes [7]), (''Size'', S_tt 255 16)] ostringstream)) = pre @ ''ff: 10''"
proof -
  have "digits 16 (unat (255 :: u64)) = ''ff''" "digits 16 (unat (16 :: u64)) = ''10''"
    by code_simp+
  then show ?thesis
    using byte_dump_changes_number_base [of sample_api "S_bytes [7]" "[7]" "S_tt 255 16" 255 16 "''Size''" "''Id''"]
    by simp
qed

section \<open>Numbers of JSON documents\<close>

lemma round_even_error:
  assumes "0 < d"
  shows "2 * \<bar>int (round_even n d) * int d - int n\<bar> \<le> int d"
proof -
  define q r where "q = n div d" and "r = n mod d"
  have n: "int n = int q * int d + int r" and r: "r < d"
    using assms by (simp_all add: q_def r_def flip: of_nat_mult of_nat_add)
  have "round_even n d = q \<and> 2 * r \<le> d \<or> round_even n d = q + 1 \<and> d \<le> 2 * r"
    by (auto simp: round_even_def Let_def q_def r_def)
  then show ?thesis
  proof (elim disjE conjE)
    assume "round_even n d = q" "2 * r \<le> d"
    with n show ?thesis by simp
  next
    assume "round_even n d = q + 1" "d \<le> 2 * r"
    then have "int (round_even n d) * int d - int n = int d - int r"
      by (simp add: n algebra_simps)
    with r \<open>d \<le> 2 * r\<close> show ?thesis by simp
  qed
qed

text \<open>
  A number of a JSON document is printed without loss where the code promises it: a whole
  number of magnitude at most \<open>2 ^ 53\<close> is printed as exactly that integer, and any other
  finite number with six decimals, at most half a unit of the last one away from its value.
\<close>

theorem json_numbers_printed:
  "(dbl_safe_integer w \<longrightarrow>
      \<bar>dbl_to_int w\<bar> \<le> 2 ^ 53
      \<and> int (dbl_mantissa w * 2 ^ dbl_shift w) = \<bar>dbl_to_int w\<bar> * 2 ^ 1075
      \<and> (ja_is_number api v \<and> \<not> ja_is_null api v \<and> \<not> ja_is_string api v \<and> ja_number api v = w \<longrightarrow>
           scalarToString api v = int_to_string (dbl_to_int w)))
   \<and> (dbl_finite w \<longrightarrow> (\<exists>n. dbl_to_string w = (if dbl_negative w then ''-'' else [])
        @ nat_to_string (n div 10 ^ 6) @ ''.'' @ pad_left (CHR ''0'') 6 (nat_to_string (n mod 10 ^ 6))
      \<and> 2 * \<bar>int n * 2 ^ 1075 - int (dbl_mantissa w * 10 ^ 6 * 2 ^ dbl_shift w)\<bar> \<le> 2 ^ 1075))"
proof (intro conjI impI)
  assume safe: "dbl_safe_integer w"
  define p :: nat where "p = 2 ^ 1075"
  have p: "0 < p" and pI: "int p = 2 ^ 1075" by (simp_all add: p_def)
  from safe obtain k where k: "dbl_mantissa w * 2 ^ dbl_shift w = p * k" and le: "p * k \<le> 2 ^ 53 * p"
    by (auto simp: dbl_safe_integer_def p_def)
  have abs: "\<bar>dbl_to_int w\<bar> = int k"
    using p unfolding dbl_to_int_def Let_def k p_def [symmetric] by simp
  from le p have "k \<le> 2 ^ 53" by (simp add: mult.commute)
  then have "int k \<le> int (2 ^ 53)" by (rule zle_int [THEN iffD2])
  then show "\<bar>dbl_to_int w\<bar> \<le> 2 ^ 53" by (simp add: abs)
  show "int (dbl_mantissa w * 2 ^ dbl_shift w) = \<bar>dbl_to_int w\<bar> * 2 ^ 1075"
    unfolding k abs pI [symmetric] by simp
  assume "ja_is_number api v \<and> \<not> ja_is_null api v \<and> \<not> ja_is_string api v \<and> ja_number api v = w"
  with safe show "scalarToString api v = int_to_string (dbl_to_int w)"
    by (simp add: scalarToString_def)
next
  assume "dbl_finite w"
  define p :: nat where "p = 2 ^ 1075"
  have p: "0 < p" and pI: "int p = 2 ^ 1075" by (simp_all add: p_def)
  let ?n = "round_even (dbl_mantissa w * 10 ^ 6 * 2 ^ dbl_shift w) p"
  have "2 * \<bar>int ?n * int p - int (dbl_mantissa w * 10 ^ 6 * 2 ^ dbl_shift w)\<bar> \<le> int p"
    by (rule round_even_error [OF p])
  then have "2 * \<bar>int ?n * 2 ^ 1075 - int (dbl_mantissa w * 10 ^ 6 * 2 ^ dbl_shift w)\<bar> \<le> 2 ^ 1075"
    unfolding pI .
  moreover have "dbl_to_string w = (if dbl_negative w then ''-'' else [])
        @ nat_to_string (?n div 10 ^ 6) @ ''.'' @ pad_left (CHR ''0'') 6 (nat_to_string (?n mod 10 ^ 6))"
    using \<open>dbl_finite w\<close> unfolding dbl_to_string_def Let_def p_def by simp
  ultimately show "\<exists>n. dbl_to_string w = (if dbl_negative w then ''-'' else [])
        @ nat_to_string (n div 10 ^ 6) @ ''.'' @ pad_left (CHR ''0'') 6 (nat_to_string (n mod 10 ^ 6))
      \<and> 2 * \<bar>int n * 2 ^ 1075 - int (dbl_mantissa w * 10 ^ 6 * 2 ^ dbl_shift w)\<bar> \<le> 2 ^ 1075"
    by blast
qed

theorem json_numbers_printed_witness:
  "scalarToString sample_json_api (J_num 4631107791820423168)
     = int_to_string (dbl_to_int 4631107791820423168)"
proof -
  have e: "dbl_exponent 4631107791820423168 = 1028"
    by (simp add: dbl_exponent_def drop_bit_eq_div)
  have f: "dbl_fraction 4631107791820423168 = 0x5000000000000"
    by (simp add: dbl_fraction_def)
  have safe: "dbl_safe_integer 4631107791820423168"
    by (simp add: dbl_safe_integer_def dbl_finite_def dbl_mantissa_def dbl_shift_def e f)
  have "ja_is_number sample_json_api (J_num d) \<and> \<not> ja_is_null sample_json_api (J_num d)
      \<and> \<not> ja_is_string sample_json_api (J_num d) \<and> ja_number sample_json_api (J_num d) = d" for d
    by (simp add: sample_json_api_def)
  then show ?thesis
    by (rule json_numbers_printed [THEN conjunct1, THEN mp, OF safe, THEN conjunct2, THEN conjunct2, THEN mp])
qed

section \<open>JSON documents end\<close>

text \<open>
  Documents nest finitely: the members of an object and the items of an array are less deep
  than the object or array.
\<close>

definition json_nested :: "'j json_api \<Rightarrow> ('j \<Rightarrow> nat) \<Rightarrow> bool" where
  "json_nested api depth \<longleftrightarrow> (\<forall>j.
     (\<forall>(key, val) \<in> set (ja_object api j). depth val < depth j)
     \<and> (\<forall>item \<in> set (ja_array api j). depth item < depth j))"

lemma concat_opt_cong: "(\<And>x. x \<in> set xs \<Longrightarrow> f x = g x) \<Longrightarrow> concat_opt (map f xs) = concat_opt (map g xs)"
  by (metis map_cong)

lemma concat_opt_Some: "(\<And>x. x \<in> set xs \<Longrightarrow> x \<noteq> None) \<Longrightarrow> concat_opt xs \<noteq> None"
proof (induction xs)
  case (Cons x xs)
  obtain t where "x = Some t" using Cons.prems [of x] by auto
  moreover have "concat_opt xs \<noteq> None" using Cons by simp
  ultimately show ?case by auto
qed simp

lemma json_entry_cong: "rec val = rec' val \<Longrightarrow> json_entry api rec pad key val = json_entry api rec' pad key val"
  by (simp add: json_entry_def)

lemma snd_enumerate: "(i, x) \<in> set (enumerate n xs) \<Longrightarrow> x \<in> set xs"
  by (metis in_set_enumerate_eq fst_conv snd_conv nth_mem add.commute le_add_diff_inverse less_diff_conv2)

lemma elementToLines_fuel:
  assumes nest: "json_nested api depth"
  shows "depth el < n \<Longrightarrow> depth el < m \<Longrightarrow>
    elementToLines n api el indent = elementToLines m api el indent \<and> elementToLines n api el indent \<noteq> None"
proof (induction n arbitrary: m el indent)
  case (Suc n)
  then obtain k where m: "m = Suc k" by (cases m) auto
  have IH: "elementToLines n api val i = elementToLines k api val i"
      "elementToLines n api val i \<noteq> None"
    if "depth val < depth el" for val i
    using Suc.IH [of val k i] Suc.prems m that by linarith+
  let ?pad = "replicate (indent * 2) (CHR '' '')"
  let ?e = "\<lambda>l. json_entry api (\<lambda>val. elementToLines l api val (indent + 1)) ?pad"
  have entry: "?e n key val = ?e k key val" "?e n key val \<noteq> None" if "depth val < depth el" for key val
    using IH [OF that, of "indent + 1"] by (auto simp: json_entry_def)
  have obj: "depth val < depth el" if "(key, val) \<in> set (ja_object api el)" for key val
    using nest that by (fastforce simp: json_nested_def)
  have arr: "depth item < depth el" if "(i, item) \<in> set (enumerate 0 (ja_array api el))" for i item
    using nest snd_enumerate [OF that] by (simp add: json_nested_def)
  have "concat_opt (map (\<lambda>(key, val). ?e n key val) (ja_object api el))
      = concat_opt (map (\<lambda>(key, val). ?e k key val) (ja_object api el))"
    and "concat_opt (map (\<lambda>(idx, item). ?e n (''['' @ nat_to_string idx @ '']'') item) (enumerate 0 (ja_array api el)))
      = concat_opt (map (\<lambda>(idx, item). ?e k (''['' @ nat_to_string idx @ '']'') item) (enumerate 0 (ja_array api el)))"
    by (rule concat_opt_cong; use entry(1) [OF obj] entry(1) [OF arr] in auto)+
  moreover have "concat_opt (map (\<lambda>(key, val). ?e n key val) (ja_object api el)) \<noteq> None"
    by (rule concat_opt_Some) (use entry(2) [OF obj] in auto)
  moreover have "concat_opt (map (\<lambda>(idx, item). ?e n (''['' @ nat_to_string idx @ '']'') item)
      (enumerate 0 (ja_array api el))) \<noteq> None"
    by (rule concat_opt_Some) (use entry(2) [OF arr] in auto)
  ultimately show ?case by (simp add: m Let_def)
qed simp

text \<open>
  \<open>parseDescriptionJson\<close> returns a text for every input: for an empty string, for text
  that is not JSON and for every document, however deep, once the bound of the model exceeds
  its nesting depth, and then the bound does not show in the result.
\<close>

theorem parse_description_returns:
  assumes "json_nested api depth" and "\<forall>doc. read_json json = Inr doc \<longrightarrow> depth doc < n"
  shows "\<exists>out. parseDescriptionJson api read_json n json = Some out
    \<and> (\<forall>m. (\<forall>doc. read_json json = Inr doc \<longrightarrow> depth doc < m) \<longrightarrow>
         parseDescriptionJson api read_json m json = Some out)"
proof (cases "json = []")
  case False
  show ?thesis
  proof (cases "read_json json")
    case (Inr doc)
    then have n: "depth doc < n" using assms(2) by simp
    obtain out where out: "elementToLines n api doc 0 = Some out"
      using elementToLines_fuel [OF assms(1) n n] by auto
    have "elementToLines m api doc 0 = Some out" if "depth doc < m" for m
      using elementToLines_fuel [OF assms(1) n that] out by metis
    with out Inr False show ?thesis by (auto simp: parseDescriptionJson_def)
  qed (use False in \<open>simp add: parseDescriptionJson_def\<close>)
qed (simp add: parseDescriptionJson_def)

lemma json_nested_sample: "json_nested sample_json_api size"
  unfolding json_nested_def
proof (intro allI conjI ballI)
  fix j p assume "p \<in> set (ja_object sample_json_api j)"
  then obtain xs where j: "j = J_obj xs" and p: "p \<in> set xs"
    by (cases j) (auto simp: sample_json_api_def)
  from p have "size (snd p) < size_list (size_prod (\<lambda>_. 0) size) xs" by (induction xs) auto
  then show "case p of (key, val) \<Rightarrow> size val < size j" by (cases p) (simp add: j)
next
  fix j item assume "item \<in> set (ja_array sample_json_api j)"
  then obtain xs where j: "j = J_arr xs" and p: "item \<in> set xs"
    by (cases j) (auto simp: sample_json_api_def)
  from p have "size item < size_list size xs" by (induction xs) auto
  then show "size item < size j" by (simp add: j)
qed

theorem parse_description_returns_witness:
  "\<exists>out. parseDescriptionJson sample_json_api (\<lambda>_. Inr (J_obj [(''a'', J_arr [J_null])])) 9 ''{...}'' = Some out"
  using parse_description_returns [OF json_nested_sample,
      of "\<lambda>_. Inr (J_obj [(''a'', J_arr [J_null])])" "''{...}''" 9]
  by auto

end
