(* ===== verification/Property_Utils.thy ===== *)
theory Property_Utils
  imports Utils Hidraw
begin

text \<open>
  \<open>src/utils/property_utils.h\<close> (typed look-ups in a property map),
  \<open>src/utils/resource_limits.h\<close> (the caps of the registries), and the two contracts the
  clients share: a loop over changed properties that dispatches on the key (\<open>keyed_update\<close>) and
  a registry of bounded size (\<open>bounded_registry\<close>).
\<close>

section \<open>Typed property look-ups\<close>

text \<open>The template parameter \<open>T\<close> is the accessor of the variant; the log is returned.\<close>

definition getProperty ::
    "('v \<Rightarrow> exn + 'a) \<Rightarrow> 'v props \<Rightarrow> string \<Rightarrow> 'a option \<times> log_entry list" where
  "getProperty get properties key =
     (case map_of properties key of
        None \<Rightarrow> (None, [Log Debug (''Property '' @ squote @ ''{}'' @ squote @ '' not found'') [LStr key]])
      | Some value \<Rightarrow>
          (case get value of
             Inr x \<Rightarrow> (Some x, [])
           | Inl (DBus_Error name msg) \<Rightarrow>
               (None, [Log Err (''D-Bus error getting property '' @ squote @ ''{}'' @ squote @ '': {} - {}'')
                        [LStr key, LStr name, LStr msg]])
           | Inl (Std_Exception what) \<Rightarrow>
               (None, [Log Err (''Exception getting property '' @ squote @ ''{}'' @ squote @ '': {}'')
                        [LStr key, LStr what]])))"

definition getPropertyOr ::
    "('v \<Rightarrow> exn + 'a) \<Rightarrow> 'v props \<Rightarrow> string \<Rightarrow> 'a \<Rightarrow> 'a \<times> log_entry list" where
  "getPropertyOr get properties key default_value =
     (let (result, lg) = getProperty get properties key
      in (case result of Some x \<Rightarrow> x | None \<Rightarrow> default_value, lg))"

definition hasProperty :: "'v props \<Rightarrow> string \<Rightarrow> bool" where
  "hasProperty properties key = contains properties key"

definition getRequiredProperty ::
    "('v \<Rightarrow> exn + 'a) \<Rightarrow> 'v props \<Rightarrow> string \<Rightarrow> (exn + 'a) \<times> log_entry list" where
  "getRequiredProperty get properties key =
     (let (result, lg) = getProperty get properties key
      in (case result of
            Some x \<Rightarrow> Inr x
          | None \<Rightarrow> Inl (Std_Exception (''Required property '' @ squote @ key @ squote
                       @ '' not found or has wrong type'')), lg))"

lemma getProperty_Some_iff:
  "fst (getProperty get properties key) = Some x \<longleftrightarrow> Option.bind (map_of properties key)
     (\<lambda>v. case get v of Inr y \<Rightarrow> Some y | Inl _ \<Rightarrow> None) = Some x"
  by (auto simp: getProperty_def split: option.split sum.split exn.split)

text \<open>
  The four property look-ups agree: \<open>getProperty\<close> never throws and gives a value exactly
  when the key is present with the asked type, and then logs nothing; \<open>getPropertyOr\<close> and
  \<open>getRequiredProperty\<close> give the same value, and otherwise the default and an exception.
\<close>

theorem property_lookup_contract:
  "(fst (getProperty get properties key) = Some x \<longleftrightarrow>
      (\<exists>v. map_of properties key = Some v \<and> get v = Inr x))
   \<and> (snd (getProperty get properties key) = [] \<longleftrightarrow> fst (getProperty get properties key) \<noteq> None)
   \<and> fst (getPropertyOr get properties key d)
       = (case fst (getProperty get properties key) of Some y \<Rightarrow> y | None \<Rightarrow> d)
   \<and> isl (fst (getRequiredProperty get properties key)) = (fst (getProperty get properties key) = None)
   \<and> (hasProperty properties key \<longleftrightarrow> map_of properties key \<noteq> None)"
  by (auto simp: getProperty_def getPropertyOr_def getRequiredProperty_def hasProperty_def
      contains_def split: option.split sum.split exn.split)

theorem property_lookup_contract_witness:
  "fst (getProperty (va_path sample_api) [(''Service'', S_path ''/s'')] ''Service'') = Some ''/s''"
  using property_lookup_contract [of "va_path sample_api" "[(''Service'', S_path ''/s'')]" "''Service''" "''/s''" "[]"]
  by simp

section \<open>Loops over changed properties\<close>

text \<open>
  What one property of a class promises about a step of its \<open>onPropertiesChanged\<close> loop: the
  step for its own key stores the value read, every other step leaves it alone.
\<close>

definition keeps :: "('s \<Rightarrow> 'a) \<Rightarrow> 's \<Rightarrow> 's outcome \<Rightarrow> bool" where
  "keeps field s r \<longleftrightarrow> field (state_of r) = field s"

lemma keeps_if: "(c \<Longrightarrow> keeps f s a) \<Longrightarrow> keeps f s b \<Longrightarrow> keeps f s (if c then a else b)"
  by simp

lemma keeps_assign: "(\<And>x. f (upd x s) = f s) \<Longrightarrow> keeps f s (assign r upd s)"
  by (cases r) (simp_all add: keeps_def)

lemma keeps_Done: "keeps f s (Done s)"
  by (simp add: keeps_def)

lemma keeps_seq: "keeps f s r \<Longrightarrow> (\<And>t. keeps f t (g t)) \<Longrightarrow> keeps f s (seq r g)"
  by (cases r) (simp_all add: keeps_def)

lemma keepsD: "keeps f s r \<Longrightarrow> r = Done s' \<Longrightarrow> f s' = f s"
  by (simp add: keeps_def)

lemma assign_Done_iff: "assign r upd s = Done s' \<longleftrightarrow> (\<exists>x. r = Inr x \<and> s' = upd x s)"
  by (cases r) auto

lemmas keeps_intros = keeps_if keeps_assign keeps_Done keeps_seq

locale keyed_update =
  fixes step :: "string \<times> 'v \<Rightarrow> 's \<Rightarrow> 's outcome"
    and field :: "'s \<Rightarrow> 'a"
    and key :: string
    and get :: "'v \<Rightarrow> exn + 'a"
  assumes own_key: "step (key, v) s = Done s' \<Longrightarrow> get v = Inr (field s')"
    and other_key: "k \<noteq> key \<Longrightarrow> keeps field s (step (k, v) s)"
begin

lemma unchanged:
  "key \<notin> keys changed \<Longrightarrow> for_each step changed s = Done s' \<Longrightarrow> field s' = field s"
proof (induction changed arbitrary: s)
  case (Cons c changed)
  obtain k v where c: "c = (k, v)" by (cases c)
  from Cons.prems obtain t where t: "step (k, v) s = Done t" "for_each step changed t = Done s'"
    by (cases "step (k, v) s") (auto simp: c)
  have "k \<noteq> key" using Cons.prems(1) by (auto simp: c)
  then have "field t = field s" using t(1) by (intro keepsD [OF other_key])
  with Cons t(2) show ?case by simp
qed simp

lemma tracked:
  assumes "wf_map changed" and "for_each step changed s = Done s'"
  shows "case map_of changed key of None \<Rightarrow> field s' = field s | Some v \<Rightarrow> get v = Inr (field s')"
  using assms
proof (induction changed arbitrary: s)
  case (Cons c changed)
  obtain k v where c: "c = (k, v)" by (cases c)
  from Cons.prems obtain t where t: "step (k, v) s = Done t" "for_each step changed t = Done s'"
    by (cases "step (k, v) s") (auto simp: c)
  have wf: "wf_map changed" "k \<notin> keys changed" using Cons.prems(1) by (auto simp: wf_map_def c)
  show ?case
  proof (cases "k = key")
    case True
    then have "get v = Inr (field t)" "field s' = field t"
      using t own_key wf(2) unchanged by auto
    with True show ?thesis by (simp add: c)
  next
    case False
    then have "field t = field s" using t(1) by (intro keepsD [OF other_key])
    with Cons.IH [OF wf(1) t(2)] False show ?thesis by (simp add: c split: option.splits)
  qed
qed simp

end

text \<open>The same statement, to be used over the definitions of a class.\<close>

definition tracks :: "string \<Rightarrow> ('v \<Rightarrow> exn + 'a) \<Rightarrow> ('s \<Rightarrow> 'a) \<Rightarrow> 'v props \<Rightarrow> 's \<Rightarrow> 's \<Rightarrow> bool" where
  "tracks key get field changed s s' \<longleftrightarrow>
     (case map_of changed key of None \<Rightarrow> field s' = field s | Some v \<Rightarrow> get v = Inr (field s'))"

section \<open>Bounded registries\<close>

definition kMaxAdapters :: nat where "kMaxAdapters = 64"
definition kMaxDevices :: nat where "kMaxDevices = 1024"
definition kMaxGattServices :: nat where "kMaxGattServices = 4096"
definition kMaxGattCharacteristics :: nat where "kMaxGattCharacteristics = 16384"
definition kMaxGattDescriptors :: nat where "kMaxGattDescriptors = 32768"
definition kMaxBatteryEntries :: nat where "kMaxBatteryEntries = 1024"
definition kMaxInputEntries :: nat where "kMaxInputEntries = 1024"
definition kMaxUPowerClients :: nat where "kMaxUPowerClients = 256"
definition kMaxUnits :: nat where "kMaxUnits = 16384"

definition IsAtCapacity :: "nat \<Rightarrow> nat \<Rightarrow> bool" where
  "IsAtCapacity current_size limit \<longleftrightarrow> limit \<le> current_size"

text \<open>A registry within its cap: distinct keys, at most \<open>limit\<close> entries.\<close>

definition within_cap :: "nat \<Rightarrow> ('k \<times> 'v) list \<Rightarrow> bool" where
  "within_cap limit m \<longleftrightarrow> wf_map m \<and> length m \<le> limit"

lemma within_Nil [simp]: "within_cap limit []"
  by (simp add: within_cap_def)

lemma within_update:
  assumes "within_cap limit m" and "contains m k \<or> \<not> IsAtCapacity (length m) limit"
  shows "within_cap limit (AList.update k v m)"
proof (cases "contains m k")
  case True
  with assms show ?thesis by (simp add: within_cap_def length_update_old)
next
  case False
  with assms show ?thesis by (simp add: within_cap_def length_update_new IsAtCapacity_def)
qed

lemma within_delete: "within_cap limit m \<Longrightarrow> within_cap limit (AList.delete k m)"
  using length_delete_le [of k m] by (simp add: within_cap_def)

text \<open>
  The contract of a bounded registry inside the state of a client: adding an entry either
  leaves the registry alone or sets the entry of that key, the latter only when the key is
  there already or the registry is below its cap; removing deletes the entry.
\<close>

locale bounded_registry =
  fixes reg :: "'s \<Rightarrow> ('k \<times> 'e) list"
    and limit :: nat
    and add :: "'k \<Rightarrow> 'a \<Rightarrow> 's \<Rightarrow> 's outcome"
    and remove :: "'k \<Rightarrow> 's \<Rightarrow> 's"
  assumes add_effect: "reg (state_of (add k a s)) = reg s
      \<or> (\<exists>e. reg (state_of (add k a s)) = AList.update k e (reg s)
           \<and> (contains (reg s) k \<or> \<not> IsAtCapacity (length (reg s)) limit))"
    and remove_effect: "reg (remove k s) = AList.delete k (reg s)"
begin

lemma add_within: "within_cap limit (reg s) \<Longrightarrow> within_cap limit (reg (state_of (add k a s)))"
  using add_effect [of k a s] within_update by metis

lemma remove_within: "within_cap limit (reg s) \<Longrightarrow> within_cap limit (reg (remove k s))"
  by (simp add: remove_effect within_delete)

lemma add_other: "k' \<noteq> k \<Longrightarrow> map_of (reg (state_of (add k a s))) k' = map_of (reg s) k'"
  using add_effect [of k a s] by (auto simp: AList.update_conv)

lemma remove_removes: "map_of (reg (remove k s)) k = None"
  by (simp add: remove_effect map_of_eq_None_iff)

lemma remove_other: "k' \<noteq> k \<Longrightarrow> map_of (reg (remove k s)) k' = map_of (reg s) k'"
  by (simp add: remove_effect AList.delete_conv')

lemma remove_after_add:
  assumes "\<not> contains (reg s) k"
  shows "reg (remove k (state_of (add k a s))) = reg s"
proof -
  have del: "AList.delete k (reg s) = reg s"
    using assms by (simp add: contains_keys AList.delete_eq filter_id_conv) force
  show ?thesis
    using add_effect [of k a s] assms del by (auto simp: remove_effect delete_update_new)
qed

end

end
