(* ===== verification/Bluez_Objects.thy ===== *)
theory Bluez_Objects
  imports Property_Utils
begin

text \<open>
  The proxy objects of \<open>src/bluez\<close>: \<open>Adapter1\<close>, \<open>Device1\<close>, \<open>GattService1\<close>,
  \<open>GattCharacteristic1\<close>, \<open>GattDescriptor1\<close>, \<open>LEAdvertisingManager1\<close> and \<open>Battery1\<close>. Each class is a record of its
  \<open>Properties\<close>; its loop over a property map is \<open>for_each\<close> of a step that dispatches on the
  key, and a step that throws keeps what was assigned before.
\<close>

section \<open>Adapter1\<close>

text \<open>
  \<open>a1_discoveries\<close> counts the calls of \<open>StartDiscovery\<close>; the argument \<open>sd\<close> is the exception the
  D-Bus call throws, if it does.
\<close>

record adapter1 =
  a1_path :: string
  a1_address :: string
  a1_address_type :: string
  a1_alias :: string
  a1_class_type :: u32
  a1_discoverable :: bool
  a1_discoverable_timeout :: u32
  a1_discovering :: bool
  a1_modalias :: string
  a1_name :: string
  a1_pairable :: bool
  a1_pairable_timeout :: u32
  a1_powered :: bool
  a1_uuids :: "string list"
  a1_discoveries :: nat

definition StartDiscovery :: "exn option \<Rightarrow> adapter1 \<Rightarrow> adapter1 outcome" where
  "StartDiscovery sd s =
     (let s = s\<lparr>a1_discoveries := Suc (a1_discoveries s)\<rparr>
      in case sd of None \<Rightarrow> Done s | Some e \<Rightarrow> Throw e s)"

definition adapter1_step :: "'v variant_api \<Rightarrow> exn option \<Rightarrow> string \<times> 'v \<Rightarrow> adapter1 \<Rightarrow> adapter1 outcome" where
  "adapter1_step api sd = (\<lambda>(key, value) s.
     if key = ''Address'' then assign (va_string api value) (\<lambda>x s. s\<lparr>a1_address := x\<rparr>) s
     else if key = ''AddressType'' then assign (va_string api value) (\<lambda>x s. s\<lparr>a1_address_type := x\<rparr>) s
     else if key = ''Alias'' then assign (va_string api value) (\<lambda>x s. s\<lparr>a1_alias := x\<rparr>) s
     else if key = ''Class'' then assign (va_u32 api value) (\<lambda>x s. s\<lparr>a1_class_type := x\<rparr>) s
     else if key = ''Discoverable'' then assign (va_bool api value) (\<lambda>x s. s\<lparr>a1_discoverable := x\<rparr>) s
     else if key = ''DiscoverableTimeout'' then assign (va_u32 api value) (\<lambda>x s. s\<lparr>a1_discoverable_timeout := x\<rparr>) s
     else if key = ''Discovering'' then
       seq (assign (va_bool api value) (\<lambda>x s. s\<lparr>a1_discovering := x\<rparr>) s)
         (\<lambda>s. if \<not> a1_discovering s then StartDiscovery sd s else Done s)
     else if key = ''Modalias'' then assign (va_string api value) (\<lambda>x s. s\<lparr>a1_modalias := x\<rparr>) s
     else if key = ''Name'' then assign (va_string api value) (\<lambda>x s. s\<lparr>a1_name := x\<rparr>) s
     else if key = ''Pairable'' then assign (va_bool api value) (\<lambda>x s. s\<lparr>a1_pairable := x\<rparr>) s
     else if key = ''PairableTimeout'' then assign (va_u32 api value) (\<lambda>x s. s\<lparr>a1_pairable_timeout := x\<rparr>) s
     else if key = ''Powered'' then assign (va_bool api value) (\<lambda>x s. s\<lparr>a1_powered := x\<rparr>) s
     else if key = ''UUIDs'' then assign (va_strings api value) (\<lambda>x s. s\<lparr>a1_uuids := x\<rparr>) s
     else Done s)"

definition adapter1_onPropertiesChanged ::
    "'v variant_api \<Rightarrow> exn option \<Rightarrow> 'v props \<Rightarrow> adapter1 \<Rightarrow> adapter1 outcome" where
  "adapter1_onPropertiesChanged api sd changedProperties = for_each (adapter1_step api sd) changedProperties"

definition adapter1_init :: "string \<Rightarrow> adapter1" where
  "adapter1_init path =
     \<lparr>a1_path = path, a1_address = [], a1_address_type = [], a1_alias = [], a1_class_type = 0,
      a1_discoverable = False, a1_discoverable_timeout = 0, a1_discovering = False, a1_modalias = [],
      a1_name = [], a1_pairable = False, a1_pairable_timeout = 0, a1_powered = False, a1_uuids = [],
      a1_discoveries = 0\<rparr>"

definition Adapter1 :: "'v variant_api \<Rightarrow> exn option \<Rightarrow> string \<Rightarrow> 'v props \<Rightarrow> adapter1 outcome" where
  "Adapter1 api sd objectPath properties =
     adapter1_onPropertiesChanged api sd properties (adapter1_init objectPath)"

section \<open>Device1\<close>

record modalias =
  vid :: string
  pid :: string
  did :: string

text \<open>\<open>regex_search\<close> of \<open>usb:v(hex4)p(hex4)d(hex4)\<close>: the leftmost match.\<close>

definition modalias_match_at :: "string \<Rightarrow> modalias option" where
  "modalias_match_at s =
     Option.bind (drop_literal ''usb:v'' s) (\<lambda>s.
     Option.bind (hex4 s) (\<lambda>(v, s).
     Option.bind (drop_literal ''p'' s) (\<lambda>s.
     Option.bind (hex4 s) (\<lambda>(p, s).
     Option.bind (drop_literal ''d'' s) (\<lambda>s.
     Option.bind (hex4 s) (\<lambda>(d, s). Some \<lparr>vid = v, pid = p, did = d\<rparr>))))))"

fun modalias_search :: "string \<Rightarrow> modalias option" where
  "modalias_search s =
     (case modalias_match_at s of
        Some m \<Rightarrow> Some m
      | None \<Rightarrow> (case s of [] \<Rightarrow> None | c # cs \<Rightarrow> modalias_search cs))"

declare modalias_search.simps [simp del]

definition parse_modalias :: "string \<Rightarrow> modalias option \<times> log_entry list" where
  "parse_modalias mod_alias =
     (case modalias_search mod_alias of
        Some m \<Rightarrow> (Some m, [])
      | None \<Rightarrow> (None, [Log Err ''Failed to parse modalias'' []]))"

record 'v device1 = logged +
  d1_path :: string
  d1_adapter :: string
  d1_address :: string
  d1_address_type :: string
  d1_alias :: string
  d1_blocked :: bool
  d1_bonded :: bool
  d1_connected :: bool
  d1_legacy_pairing :: bool
  d1_modalias :: "modalias option"
  d1_name :: string
  d1_paired :: bool
  d1_manufacturer_data :: "(u16 \<times> 'v) list"
  d1_service_data :: "(string \<times> 'v) list"
  d1_rssi :: u16
  d1_services_resolved :: bool
  d1_trusted :: bool
  d1_uuids :: "string list"

definition device1_step :: "'v variant_api \<Rightarrow> string \<times> 'v \<Rightarrow> 'v device1 \<Rightarrow> 'v device1 outcome" where
  "device1_step api = (\<lambda>(key, value) s.
     if key = ''Adapter'' then assign (va_path api value) (\<lambda>x s. s\<lparr>d1_adapter := x\<rparr>) s
     else if key = ''Address'' then assign (va_string api value) (\<lambda>x s. s\<lparr>d1_address := x\<rparr>) s
     else if key = ''AddressType'' then assign (va_string api value) (\<lambda>x s. s\<lparr>d1_address_type := x\<rparr>) s
     else if key = ''Bonded'' then assign (va_bool api value) (\<lambda>x s. s\<lparr>d1_bonded := x\<rparr>) s
     else if key = ''Blocked'' then assign (va_bool api value) (\<lambda>x s. s\<lparr>d1_blocked := x\<rparr>) s
     else if key = ''Connected'' then assign (va_bool api value) (\<lambda>x s. s\<lparr>d1_connected := x\<rparr>) s
     else if key = ''LegacyPairing'' then assign (va_bool api value) (\<lambda>x s. s\<lparr>d1_legacy_pairing := x\<rparr>) s
     else if key = ''Paired'' then assign (va_bool api value) (\<lambda>x s. s\<lparr>d1_paired := x\<rparr>) s
     else if key = ''Modalias'' then
       assign (va_string api value)
         (\<lambda>x s. let (m, lg) = parse_modalias x in (add_logs lg s)\<lparr>d1_modalias := m\<rparr>) s
     else if key = ''Name'' then assign (va_string api value) (\<lambda>x s. s\<lparr>d1_name := x\<rparr>) s
     else if key = ''ServiceData'' then assign (va_dict_s api value) (\<lambda>x s. s\<lparr>d1_service_data := x\<rparr>) s
     else if key = ''RSSI'' then
       assign (va_i16 api value)
         (\<lambda>x s. log_msg Debug ''RSSI: {}'' [LInt (sint x)] (s\<lparr>d1_rssi := x\<rparr>)) s
     else if key = ''ServicesResolved'' then assign (va_bool api value) (\<lambda>x s. s\<lparr>d1_services_resolved := x\<rparr>) s
     else if key = ''Trusted'' then assign (va_bool api value) (\<lambda>x s. s\<lparr>d1_trusted := x\<rparr>) s
     else if key = ''UUIDs'' then assign (va_strings api value) (\<lambda>x s. s\<lparr>d1_uuids := x\<rparr>) s
     else Done s)"

definition device1_onPropertiesChanged ::
    "'v variant_api \<Rightarrow> 'v props \<Rightarrow> 'v device1 \<Rightarrow> 'v device1 outcome" where
  "device1_onPropertiesChanged api changedProperties = for_each (device1_step api) changedProperties"

definition device1_init :: "log_entry list \<Rightarrow> string \<Rightarrow> 'v device1" where
  "device1_init lg path =
     \<lparr>log_of = lg, d1_path = path, d1_adapter = [], d1_address = [], d1_address_type = [], d1_alias = [],
      d1_blocked = False, d1_bonded = False, d1_connected = False, d1_legacy_pairing = False,
      d1_modalias = None, d1_name = [], d1_paired = False, d1_manufacturer_data = [],
      d1_service_data = [], d1_rssi = 0, d1_services_resolved = False, d1_trusted = False,
      d1_uuids = []\<rparr>"

text \<open>The constructor; the log so far goes in and comes out in the object.\<close>

definition Device1 ::
    "'v variant_api \<Rightarrow> log_entry list \<Rightarrow> string \<Rightarrow> 'v props \<Rightarrow> 'v device1 outcome" where
  "Device1 api lg objectPath properties =
     device1_onPropertiesChanged api properties
       (log_msg Debug ''Device1: {}'' [LStr objectPath] (device1_init lg objectPath))"

section \<open>GATT objects\<close>

record gatt_characteristic1 =
  gc_path :: string
  gc_flags :: "string list"
  gc_notify_acquired :: bool
  gc_notifying :: bool
  gc_service :: string
  gc_uuid :: string
  gc_value :: "u8 list"

definition isNotifyFlagSet :: "gatt_characteristic1 \<Rightarrow> bool" where
  "isNotifyFlagSet s \<longleftrightarrow> ''notify'' \<in> set (gc_flags s)"

definition characteristic_step ::
    "'v variant_api \<Rightarrow> string \<times> 'v \<Rightarrow> gatt_characteristic1 \<Rightarrow> gatt_characteristic1 outcome" where
  "characteristic_step api = (\<lambda>(key, value) s.
     if key = ''Flags'' then assign (va_strings api value) (\<lambda>x s. s\<lparr>gc_flags := x\<rparr>) s
     else if key = ''NotifyAcquired'' then
       (if isNotifyFlagSet s then assign (va_bool api value) (\<lambda>x s. s\<lparr>gc_notify_acquired := x\<rparr>) s else Done s)
     else if key = ''Notifying'' then
       (if isNotifyFlagSet s then assign (va_bool api value) (\<lambda>x s. s\<lparr>gc_notifying := x\<rparr>) s else Done s)
     else if key = ''Service'' then assign (va_path api value) (\<lambda>x s. s\<lparr>gc_service := x\<rparr>) s
     else if key = ''UUID'' then assign (va_string api value) (\<lambda>x s. s\<lparr>gc_uuid := x\<rparr>) s
     else if key = ''Value'' then assign (va_bytes api value) (\<lambda>x s. s\<lparr>gc_value := x\<rparr>) s
     else Done s)"

definition characteristic_init :: "string \<Rightarrow> gatt_characteristic1" where
  "characteristic_init path =
     \<lparr>gc_path = path, gc_flags = [], gc_notify_acquired = False, gc_notifying = False,
      gc_service = [], gc_uuid = [], gc_value = []\<rparr>"

definition GattCharacteristic1 :: "'v variant_api \<Rightarrow> string \<Rightarrow> 'v props \<Rightarrow> gatt_characteristic1 outcome" where
  "GattCharacteristic1 api objectPath properties =
     for_each (characteristic_step api) properties (characteristic_init objectPath)"

text \<open>
  The characteristics a service owns are pointers: \<open>getCharacteristic\<close> uses \<open>operator[]\<close>, which
  adds a null pointer for a path it does not know.
\<close>

record gatt_service1 =
  gs_path :: string
  gs_device :: string
  gs_includes :: "string list"
  gs_primary :: bool
  gs_uuid :: string
  gs_characteristics :: "(string \<times> gatt_characteristic1 option) list"

definition service_step ::
    "'v variant_api \<Rightarrow> string \<times> 'v \<Rightarrow> gatt_service1 \<Rightarrow> gatt_service1 outcome" where
  "service_step api = (\<lambda>(key, value) s.
     if key = ''Device'' then assign (va_path api value) (\<lambda>x s. s\<lparr>gs_device := x\<rparr>) s
     else if key = ''Includes'' then assign (va_paths api value) (\<lambda>x s. s\<lparr>gs_includes := x\<rparr>) s
     else if key = ''Primary'' then assign (va_bool api value) (\<lambda>x s. s\<lparr>gs_primary := x\<rparr>) s
     else if key = ''UUID'' then assign (va_string api value) (\<lambda>x s. s\<lparr>gs_uuid := x\<rparr>) s
     else Done s)"

definition GattService1 :: "'v variant_api \<Rightarrow> string \<Rightarrow> 'v props \<Rightarrow> gatt_service1 outcome" where
  "GattService1 api objectPath properties =
     for_each (service_step api) properties
       \<lparr>gs_path = objectPath, gs_device = [], gs_includes = [], gs_primary = False, gs_uuid = [],
        gs_characteristics = []\<rparr>"

definition AddCharacteristic ::
    "'v variant_api \<Rightarrow> string \<Rightarrow> 'v props \<Rightarrow> gatt_service1 \<Rightarrow> gatt_service1 outcome" where
  "AddCharacteristic api objectPath properties s =
     (case GattCharacteristic1 api objectPath properties of
        Throw e _ \<Rightarrow> Throw e s
      | Done c \<Rightarrow> Done (s\<lparr>gs_characteristics := AList.update objectPath (Some c) (gs_characteristics s)\<rparr>))"

definition getCharacteristic :: "string \<Rightarrow> gatt_service1 \<Rightarrow> gatt_characteristic1 option \<times> gatt_service1" where
  "getCharacteristic objectPath s =
     (case map_of (gs_characteristics s) objectPath of
        Some c \<Rightarrow> (c, s)
      | None \<Rightarrow> (None, s\<lparr>gs_characteristics := AList.update objectPath None (gs_characteristics s)\<rparr>))"

record gatt_descriptor1 =
  gd_path :: string
  gd_characteristic :: string
  gd_uuid :: string
  gd_value :: "u8 list"

definition descriptor_step ::
    "'v variant_api \<Rightarrow> string \<times> 'v \<Rightarrow> gatt_descriptor1 \<Rightarrow> gatt_descriptor1 outcome" where
  "descriptor_step api = (\<lambda>(key, value) s.
     if key = ''Characteristic'' then assign (va_path api value) (\<lambda>x s. s\<lparr>gd_characteristic := x\<rparr>) s
     else if key = ''UUID'' then assign (va_string api value) (\<lambda>x s. s\<lparr>gd_uuid := x\<rparr>) s
     else if key = ''Value'' then assign (va_bytes api value) (\<lambda>x s. s\<lparr>gd_value := x\<rparr>) s
     else Done s)"

definition GattDescriptor1 :: "'v variant_api \<Rightarrow> string \<Rightarrow> 'v props \<Rightarrow> gatt_descriptor1 outcome" where
  "GattDescriptor1 api objectPath properties =
     for_each (descriptor_step api) properties
       \<lparr>gd_path = objectPath, gd_characteristic = [], gd_uuid = [], gd_value = []\<rparr>"

section \<open>LEAdvertisingManager1 and Battery1\<close>

record le_advertising_manager1 =
  la_path :: string
  la_active_instances :: u8
  la_supported_includes :: "string list"
  la_supported_instances :: u8
  la_supported_secondary_channels :: "string list"

definition le_advertising_step ::
    "'v variant_api \<Rightarrow> string \<times> 'v \<Rightarrow> le_advertising_manager1 \<Rightarrow> le_advertising_manager1 outcome" where
  "le_advertising_step api = (\<lambda>(key, value) s.
     if key = ''ActiveInstances'' then assign (va_u8 api value) (\<lambda>x s. s\<lparr>la_active_instances := x\<rparr>) s
     else if key = ''SupportedIncludes'' then assign (va_strings api value) (\<lambda>x s. s\<lparr>la_supported_includes := x\<rparr>) s
     else if key = ''SupportedInstances'' then assign (va_u8 api value) (\<lambda>x s. s\<lparr>la_supported_instances := x\<rparr>) s
     else if key = ''SupportedSecondaryChannels'' then assign (va_strings api value) (\<lambda>x s. s\<lparr>la_supported_secondary_channels := x\<rparr>) s
     else Done s)"

definition LEAdvertisingManager1 ::
    "'v variant_api \<Rightarrow> string \<Rightarrow> 'v props \<Rightarrow> le_advertising_manager1 outcome" where
  "LEAdvertisingManager1 api objectPath properties =
     for_each (le_advertising_step api) properties
       \<lparr>la_path = objectPath, la_active_instances = 0, la_supported_includes = [],
        la_supported_instances = 0, la_supported_secondary_channels = []\<rparr>"

record battery1 = logged +
  ba_path :: string

definition battery1_onPropertiesChanged ::
    "'v variant_api \<Rightarrow> string \<Rightarrow> 'v props \<Rightarrow> string list \<Rightarrow> battery1 \<Rightarrow> battery1 outcome" where
  "battery1_onPropertiesChanged api interfaceName changedProperties invalidatedProperties s =
     print_changed_properties api interfaceName changedProperties invalidatedProperties s"

end
