(* ===== verification/Bluez_Laws.thy ===== *)
theory Bluez_Laws
  imports Bluez_Objects
begin

text \<open>
  The laws of the objects of \<open>Bluez_Objects\<close>: after a property map was taken over, every field
  holds the value of its key or is unchanged; when discovery is restarted; the guard of the
  notification flags; the parser of modaliases.
\<close>

lemma seq_Done_iff: "seq r f = Done s' \<longleftrightarrow> (\<exists>t. r = Done t \<and> f t = Done s')"
  by (cases r) auto

section \<open>Adapter1\<close>

lemma StartDiscovery_Done: "StartDiscovery sd s = Done s' \<longleftrightarrow>
    sd = None \<and> s' = s\<lparr>a1_discoveries := Suc (a1_discoveries s)\<rparr>"
  by (auto simp: StartDiscovery_def Let_def split: option.splits)

lemma keeps_StartDiscovery:
  "(\<And>n. f (s\<lparr>a1_discoveries := n\<rparr>) = f s) \<Longrightarrow> keeps f s (StartDiscovery sd s)"
  by (simp add: keeps_def StartDiscovery_def Let_def split: option.split)

lemma discovering_Done:
  "(if \<not> x then StartDiscovery sd (s\<lparr>a1_discovering := x\<rparr>) else Done (s\<lparr>a1_discovering := x\<rparr>)) = Done s' \<Longrightarrow>
     a1_discovering s' = x \<and> a1_discoveries s' = a1_discoveries s + (if x then 0 else 1)"
  by (auto simp: StartDiscovery_Done split: if_splits)

lemmas adapter1_Done = adapter1_step_def assign_Done_iff seq_Done_iff StartDiscovery_Done

interpretation adapter_address: keyed_update "adapter1_step api sd" a1_address "''Address''" "va_string api" for api sd
proof (unfold_locales, goal_cases)
  case (1 v s s') then show ?case by (auto simp: adapter1_Done dest: discovering_Done)
next
  case (2 k s v) then show ?case
    unfolding adapter1_step_def prod.case by (intro keeps_intros keeps_StartDiscovery; simp)
qed

interpretation adapter_address_type: keyed_update "adapter1_step api sd" a1_address_type "''AddressType''" "va_string api" for api sd
proof (unfold_locales, goal_cases)
  case (1 v s s') then show ?case by (auto simp: adapter1_Done dest: discovering_Done)
next
  case (2 k s v) then show ?case
    unfolding adapter1_step_def prod.case by (intro keeps_intros keeps_StartDiscovery; simp)
qed

interpretation adapter_alias: keyed_update "adapter1_step api sd" a1_alias "''Alias''" "va_string api" for api sd
proof (unfold_locales, goal_cases)
  case (1 v s s') then show ?case by (auto simp: adapter1_Done dest: discovering_Done)
next
  case (2 k s v) then show ?case
    unfolding adapter1_step_def prod.case by (intro keeps_intros keeps_StartDiscovery; simp)
qed

interpretation adapter_class_type: keyed_update "adapter1_step api sd" a1_class_type "''Class''" "va_u32 api" for api sd
proof (unfold_locales, goal_cases)
  case (1 v s s') then show ?case by (auto simp: adapter1_Done dest: discovering_Done)
next
  case (2 k s v) then show ?case
    unfolding adapter1_step_def prod.case by (intro keeps_intros keeps_StartDiscovery; simp)
qed

interpretation adapter_discoverable: keyed_update "adapter1_step api sd" a1_discoverable "''Discoverable''" "va_bool api" for api sd
proof (unfold_locales, goal_cases)
  case (1 v s s') then show ?case by (auto simp: adapter1_Done dest: discovering_Done)
next
  case (2 k s v) then show ?case
    unfolding adapter1_step_def prod.case by (intro keeps_intros keeps_StartDiscovery; simp)
qed

interpretation adapter_discoverable_timeout: keyed_update "adapter1_step api sd" a1_discoverable_timeout "''DiscoverableTimeout''" "va_u32 api" for api sd
proof (unfold_locales, goal_cases)
  case (1 v s s') then show ?case by (auto simp: adapter1_Done dest: discovering_Done)
next
  case (2 k s v) then show ?case
    unfolding adapter1_step_def prod.case by (intro keeps_intros keeps_StartDiscovery; simp)
qed

interpretation adapter_discovering: keyed_update "adapter1_step api sd" a1_discovering "''Discovering''" "va_bool api" for api sd
proof (unfold_locales, goal_cases)
  case (1 v s s') then show ?case by (auto simp: adapter1_Done dest: discovering_Done)
next
  case (2 k s v) then show ?case
    unfolding adapter1_step_def prod.case by (intro keeps_intros keeps_StartDiscovery; simp)
qed

interpretation adapter_modalias: keyed_update "adapter1_step api sd" a1_modalias "''Modalias''" "va_string api" for api sd
proof (unfold_locales, goal_cases)
  case (1 v s s') then show ?case by (auto simp: adapter1_Done dest: discovering_Done)
next
  case (2 k s v) then show ?case
    unfolding adapter1_step_def prod.case by (intro keeps_intros keeps_StartDiscovery; simp)
qed

interpretation adapter_name: keyed_update "adapter1_step api sd" a1_name "''Name''" "va_string api" for api sd
proof (unfold_locales, goal_cases)
  case (1 v s s') then show ?case by (auto simp: adapter1_Done dest: discovering_Done)
next
  case (2 k s v) then show ?case
    unfolding adapter1_step_def prod.case by (intro keeps_intros keeps_StartDiscovery; simp)
qed

interpretation adapter_pairable: keyed_update "adapter1_step api sd" a1_pairable "''Pairable''" "va_bool api" for api sd
proof (unfold_locales, goal_cases)
  case (1 v s s') then show ?case by (auto simp: adapter1_Done dest: discovering_Done)
next
  case (2 k s v) then show ?case
    unfolding adapter1_step_def prod.case by (intro keeps_intros keeps_StartDiscovery; simp)
qed

interpretation adapter_pairable_timeout: keyed_update "adapter1_step api sd" a1_pairable_timeout "''PairableTimeout''" "va_u32 api" for api sd
proof (unfold_locales, goal_cases)
  case (1 v s s') then show ?case by (auto simp: adapter1_Done dest: discovering_Done)
next
  case (2 k s v) then show ?case
    unfolding adapter1_step_def prod.case by (intro keeps_intros keeps_StartDiscovery; simp)
qed

interpretation adapter_powered: keyed_update "adapter1_step api sd" a1_powered "''Powered''" "va_bool api" for api sd
proof (unfold_locales, goal_cases)
  case (1 v s s') then show ?case by (auto simp: adapter1_Done dest: discovering_Done)
next
  case (2 k s v) then show ?case
    unfolding adapter1_step_def prod.case by (intro keeps_intros keeps_StartDiscovery; simp)
qed

interpretation adapter_uuids: keyed_update "adapter1_step api sd" a1_uuids "''UUIDs''" "va_strings api" for api sd
proof (unfold_locales, goal_cases)
  case (1 v s s') then show ?case by (auto simp: adapter1_Done dest: discovering_Done)
next
  case (2 k s v) then show ?case
    unfolding adapter1_step_def prod.case by (intro keeps_intros keeps_StartDiscovery; simp)
qed


section \<open>Device1\<close>

text \<open>Reading the \<open>Modalias\<close> property is reading a string and parsing it.\<close>

definition modalias_of :: "'v variant_api \<Rightarrow> 'v \<Rightarrow> exn + modalias option" where
  "modalias_of api v = (case va_string api v of Inl e \<Rightarrow> Inl e | Inr s \<Rightarrow> Inr (fst (parse_modalias s)))"

lemma add_logs_device1 [simp]: "add_logs lg s\<lparr>d1_modalias := m\<rparr> = (add_logs lg (s\<lparr>d1_modalias := m\<rparr>))"
  by (simp add: add_logs_def)

lemma device1_log_frame [frame_simps]:
  "d1_path (log_msg l fmt args d) = d1_path d" "d1_path (add_logs es d) = d1_path d"
  "d1_adapter (log_msg l fmt args d) = d1_adapter d" "d1_adapter (add_logs es d) = d1_adapter d"
  "d1_address (log_msg l fmt args d) = d1_address d" "d1_address (add_logs es d) = d1_address d"
  "d1_address_type (log_msg l fmt args d) = d1_address_type d" "d1_address_type (add_logs es d) = d1_address_type d"
  "d1_alias (log_msg l fmt args d) = d1_alias d" "d1_alias (add_logs es d) = d1_alias d"
  "d1_blocked (log_msg l fmt args d) = d1_blocked d" "d1_blocked (add_logs es d) = d1_blocked d"
  "d1_bonded (log_msg l fmt args d) = d1_bonded d" "d1_bonded (add_logs es d) = d1_bonded d"
  "d1_connected (log_msg l fmt args d) = d1_connected d" "d1_connected (add_logs es d) = d1_connected d"
  "d1_legacy_pairing (log_msg l fmt args d) = d1_legacy_pairing d" "d1_legacy_pairing (add_logs es d) = d1_legacy_pairing d"
  "d1_modalias (log_msg l fmt args d) = d1_modalias d" "d1_modalias (add_logs es d) = d1_modalias d"
  "d1_name (log_msg l fmt args d) = d1_name d" "d1_name (add_logs es d) = d1_name d"
  "d1_paired (log_msg l fmt args d) = d1_paired d" "d1_paired (add_logs es d) = d1_paired d"
  "d1_manufacturer_data (log_msg l fmt args d) = d1_manufacturer_data d" "d1_manufacturer_data (add_logs es d) = d1_manufacturer_data d"
  "d1_service_data (log_msg l fmt args d) = d1_service_data d" "d1_service_data (add_logs es d) = d1_service_data d"
  "d1_rssi (log_msg l fmt args d) = d1_rssi d" "d1_rssi (add_logs es d) = d1_rssi d"
  "d1_services_resolved (log_msg l fmt args d) = d1_services_resolved d" "d1_services_resolved (add_logs es d) = d1_services_resolved d"
  "d1_trusted (log_msg l fmt args d) = d1_trusted d" "d1_trusted (add_logs es d) = d1_trusted d"
  "d1_uuids (log_msg l fmt args d) = d1_uuids d" "d1_uuids (add_logs es d) = d1_uuids d"
  by (simp_all add: log_msg_def add_logs_def)

lemmas device1_Done = device1_step_def assign_Done_iff modalias_of_def frame_simps

interpretation device_adapter: keyed_update "device1_step api" d1_adapter "''Adapter''" "va_path api" for api
proof (unfold_locales, goal_cases)
  case (1 v s s') then show ?case by (auto simp: device1_Done case_prod_beta)
next
  case (2 k s v) then show ?case
    unfolding device1_step_def prod.case by (intro keeps_intros; simp add: frame_simps split: prod.split)
qed

interpretation device_address: keyed_update "device1_step api" d1_address "''Address''" "va_string api" for api
proof (unfold_locales, goal_cases)
  case (1 v s s') then show ?case by (auto simp: device1_Done case_prod_beta)
next
  case (2 k s v) then show ?case
    unfolding device1_step_def prod.case by (intro keeps_intros; simp add: frame_simps split: prod.split)
qed

interpretation device_address_type: keyed_update "device1_step api" d1_address_type "''AddressType''" "va_string api" for api
proof (unfold_locales, goal_cases)
  case (1 v s s') then show ?case by (auto simp: device1_Done case_prod_beta)
next
  case (2 k s v) then show ?case
    unfolding device1_step_def prod.case by (intro keeps_intros; simp add: frame_simps split: prod.split)
qed

interpretation device_bonded: keyed_update "device1_step api" d1_bonded "''Bonded''" "va_bool api" for api
proof (unfold_locales, goal_cases)
  case (1 v s s') then show ?case by (auto simp: device1_Done case_prod_beta)
next
  case (2 k s v) then show ?case
    unfolding device1_step_def prod.case by (intro keeps_intros; simp add: frame_simps split: prod.split)
qed

interpretation device_blocked: keyed_update "device1_step api" d1_blocked "''Blocked''" "va_bool api" for api
proof (unfold_locales, goal_cases)
  case (1 v s s') then show ?case by (auto simp: device1_Done case_prod_beta)
next
  case (2 k s v) then show ?case
    unfolding device1_step_def prod.case by (intro keeps_intros; simp add: frame_simps split: prod.split)
qed

interpretation device_connected: keyed_update "device1_step api" d1_connected "''Connected''" "va_bool api" for api
proof (unfold_locales, goal_cases)
  case (1 v s s') then show ?case by (auto simp: device1_Done case_prod_beta)
next
  case (2 k s v) then show ?case
    unfolding device1_step_def prod.case by (intro keeps_intros; simp add: frame_simps split: prod.split)
qed

interpretation device_legacy_pairing: keyed_update "device1_step api" d1_legacy_pairing "''LegacyPairing''" "va_bool api" for api
proof (unfold_locales, goal_cases)
  case (1 v s s') then show ?case by (auto simp: device1_Done case_prod_beta)
next
  case (2 k s v) then show ?case
    unfolding device1_step_def prod.case by (intro keeps_intros; simp add: frame_simps split: prod.split)
qed

interpretation device_paired: keyed_update "device1_step api" d1_paired "''Paired''" "va_bool api" for api
proof (unfold_locales, goal_cases)
  case (1 v s s') then show ?case by (auto simp: device1_Done case_prod_beta)
next
  case (2 k s v) then show ?case
    unfolding device1_step_def prod.case by (intro keeps_intros; simp add: frame_simps split: prod.split)
qed

interpretation device_modalias: keyed_update "device1_step api" d1_modalias "''Modalias''" "modalias_of api" for api
proof (unfold_locales, goal_cases)
  case (1 v s s') then show ?case by (auto simp: device1_Done case_prod_beta)
next
  case (2 k s v) then show ?case
    unfolding device1_step_def prod.case by (intro keeps_intros; simp add: frame_simps split: prod.split)
qed

interpretation device_name: keyed_update "device1_step api" d1_name "''Name''" "va_string api" for api
proof (unfold_locales, goal_cases)
  case (1 v s s') then show ?case by (auto simp: device1_Done case_prod_beta)
next
  case (2 k s v) then show ?case
    unfolding device1_step_def prod.case by (intro keeps_intros; simp add: frame_simps split: prod.split)
qed

interpretation device_service_data: keyed_update "device1_step api" d1_service_data "''ServiceData''" "va_dict_s api" for api
proof (unfold_locales, goal_cases)
  case (1 v s s') then show ?case by (auto simp: device1_Done case_prod_beta)
next
  case (2 k s v) then show ?case
    unfolding device1_step_def prod.case by (intro keeps_intros; simp add: frame_simps split: prod.split)
qed

interpretation device_rssi: keyed_update "device1_step api" d1_rssi "''RSSI''" "va_i16 api" for api
proof (unfold_locales, goal_cases)
  case (1 v s s') then show ?case by (auto simp: device1_Done case_prod_beta)
next
  case (2 k s v) then show ?case
    unfolding device1_step_def prod.case by (intro keeps_intros; simp add: frame_simps split: prod.split)
qed

interpretation device_services_resolved: keyed_update "device1_step api" d1_services_resolved "''ServicesResolved''" "va_bool api" for api
proof (unfold_locales, goal_cases)
  case (1 v s s') then show ?case by (auto simp: device1_Done case_prod_beta)
next
  case (2 k s v) then show ?case
    unfolding device1_step_def prod.case by (intro keeps_intros; simp add: frame_simps split: prod.split)
qed

interpretation device_trusted: keyed_update "device1_step api" d1_trusted "''Trusted''" "va_bool api" for api
proof (unfold_locales, goal_cases)
  case (1 v s s') then show ?case by (auto simp: device1_Done case_prod_beta)
next
  case (2 k s v) then show ?case
    unfolding device1_step_def prod.case by (intro keeps_intros; simp add: frame_simps split: prod.split)
qed

interpretation device_uuids: keyed_update "device1_step api" d1_uuids "''UUIDs''" "va_strings api" for api
proof (unfold_locales, goal_cases)
  case (1 v s s') then show ?case by (auto simp: device1_Done case_prod_beta)
next
  case (2 k s v) then show ?case
    unfolding device1_step_def prod.case by (intro keeps_intros; simp add: frame_simps split: prod.split)
qed


lemma device_alias_kept: "keeps d1_alias s (device1_step api (k, v) s)"
  unfolding device1_step_def prod.case by (intro keeps_intros; simp add: frame_simps split: prod.split)

lemma device_manufacturer_data_kept: "keeps d1_manufacturer_data s (device1_step api (k, v) s)"
  unfolding device1_step_def prod.case by (intro keeps_intros; simp add: frame_simps split: prod.split)

lemma for_each_keeps:
  assumes "\<And>k v s. keeps f s (step (k, v) s)"
  shows "keeps f s (for_each step changed s)"
proof (induction changed arbitrary: s)
  case (Cons c changed)
  show ?case by (cases c) (simp add: keeps_seq assms Cons.IH)
qed (simp add: keeps_Done)

text \<open>
  C26: When a device has taken over a change without an exception, every one of its fifteen
  tracked fields holds the value its key has in the change, read at the type of the field, and
  is unchanged when the key is missing; the alias and the manufacturer data are never written.
\<close>

theorem device_tracks_properties:
  assumes "wf_map changed" and "device1_onPropertiesChanged api changed s = Done s'"
  shows "tracks ''Adapter'' (va_path api) d1_adapter changed s s' \<and>
     tracks ''Address'' (va_string api) d1_address changed s s' \<and>
     tracks ''AddressType'' (va_string api) d1_address_type changed s s' \<and>
     tracks ''Bonded'' (va_bool api) d1_bonded changed s s' \<and>
     tracks ''Blocked'' (va_bool api) d1_blocked changed s s' \<and>
     tracks ''Connected'' (va_bool api) d1_connected changed s s' \<and>
     tracks ''LegacyPairing'' (va_bool api) d1_legacy_pairing changed s s' \<and>
     tracks ''Paired'' (va_bool api) d1_paired changed s s' \<and>
     tracks ''Modalias'' (modalias_of api) d1_modalias changed s s' \<and>
     tracks ''Name'' (va_string api) d1_name changed s s' \<and>
     tracks ''ServiceData'' (va_dict_s api) d1_service_data changed s s' \<and>
     tracks ''RSSI'' (va_i16 api) d1_rssi changed s s' \<and>
     tracks ''ServicesResolved'' (va_bool api) d1_services_resolved changed s s' \<and>
     tracks ''Trusted'' (va_bool api) d1_trusted changed s s' \<and>
     tracks ''UUIDs'' (va_strings api) d1_uuids changed s s' \<and>
     d1_alias s' = d1_alias s \<and> d1_manufacturer_data s' = d1_manufacturer_data s"
proof -
  have run: "for_each (device1_step api) changed s = Done s'"
    using assms(2) by (simp add: device1_onPropertiesChanged_def)
  have "d1_alias s' = d1_alias s" "d1_manufacturer_data s' = d1_manufacturer_data s"
    by (rule keepsD [OF for_each_keeps run], rule device_alias_kept)
      (rule keepsD [OF for_each_keeps run], rule device_manufacturer_data_kept)
  then show ?thesis
    unfolding tracks_def
    by (intro conjI device_adapter.tracked [OF assms(1) run] device_address.tracked [OF assms(1) run]
      device_address_type.tracked [OF assms(1) run] device_bonded.tracked [OF assms(1) run]
      device_blocked.tracked [OF assms(1) run] device_connected.tracked [OF assms(1) run]
      device_legacy_pairing.tracked [OF assms(1) run] device_paired.tracked [OF assms(1) run]
      device_modalias.tracked [OF assms(1) run] device_name.tracked [OF assms(1) run]
      device_service_data.tracked [OF assms(1) run] device_rssi.tracked [OF assms(1) run]
      device_services_resolved.tracked [OF assms(1) run] device_trusted.tracked [OF assms(1) run]
      device_uuids.tracked [OF assms(1) run])
qed

theorem device_tracks_properties_witness:
  "\<exists>s'. device1_onPropertiesChanged sample_api [(''Connected'', S_bool True), (''RSSI'', S_i16 7)]
        (device1_init [] ''/dev'') = Done s' \<and> d1_connected s' \<and> d1_rssi s' = 7 \<and> d1_alias s' = []"
proof -
  let ?changed = "[(''Connected'', S_bool True), (''RSSI'', S_i16 7)]"
  let ?s = "device1_init [] ''/dev''"
  obtain s' where run: "device1_onPropertiesChanged sample_api ?changed ?s = Done s'"
    by (simp add: device1_onPropertiesChanged_def device1_step_def)
  have "wf_map ?changed" by (simp add: wf_map_def)
  note device_tracks_properties [OF this run]
  then have "d1_connected s'" "d1_rssi s' = 7" "d1_alias s' = []"
    by (simp_all add: tracks_def device1_init_def)
  with run show ?thesis by blast
qed

lemma discoveries_step:
  assumes "adapter1_step api sd (k, v) s = Done s'"
  shows "a1_discoveries s' = a1_discoveries s
    + (if k = ''Discovering'' \<and> va_bool api v = Inr False then 1 else 0)"
proof (cases "k = ''Discovering''")
  case True
  with assms show ?thesis by (auto simp: adapter1_Done dest!: discovering_Done)
next
  case False
  then have "keeps a1_discoveries s (adapter1_step api sd (k, v) s)"
    unfolding adapter1_step_def prod.case by (intro keeps_intros keeps_StartDiscovery; simp)
  from keepsD [OF this assms] False show ?thesis by simp
qed

lemma discoveries_after:
  assumes "for_each (adapter1_step api sd) changed s = Done s'" and "wf_map changed"
  shows "a1_discoveries s' = a1_discoveries s
    + (if \<exists>v. map_of changed ''Discovering'' = Some v \<and> va_bool api v = Inr False then 1 else 0)"
  using assms
proof (induction changed arbitrary: s)
  case (Cons c changed)
  obtain k v where c: "c = (k, v)" by (cases c)
  from Cons.prems obtain t where t: "adapter1_step api sd (k, v) s = Done t"
      "for_each (adapter1_step api sd) changed t = Done s'"
    by (cases "adapter1_step api sd (k, v) s") (auto simp: c)
  have wf: "wf_map changed" "k \<notin> keys changed" using Cons.prems(2) by (auto simp: wf_map_def c)
  then have "map_of changed k = None" by (simp add: map_of_eq_None_iff)
  with Cons.IH [OF t(2) wf(1)] discoveries_step [OF t(1)] show ?case by (auto simp: c)
qed simp

text \<open>
  When an adapter has taken over a change without an exception, each of its thirteen fields
  tracks its key, and discovery was started again, exactly once, if and only if the change
  says that the adapter is no longer discovering.
\<close>

theorem adapter_tracks_and_rediscovers:
  assumes "wf_map changed" and "adapter1_onPropertiesChanged api sd changed s = Done s'"
  shows "tracks ''Address'' (va_string api) a1_address changed s s' \<and>
     tracks ''AddressType'' (va_string api) a1_address_type changed s s' \<and>
     tracks ''Alias'' (va_string api) a1_alias changed s s' \<and>
     tracks ''Class'' (va_u32 api) a1_class_type changed s s' \<and>
     tracks ''Discoverable'' (va_bool api) a1_discoverable changed s s' \<and>
     tracks ''DiscoverableTimeout'' (va_u32 api) a1_discoverable_timeout changed s s' \<and>
     tracks ''Discovering'' (va_bool api) a1_discovering changed s s' \<and>
     tracks ''Modalias'' (va_string api) a1_modalias changed s s' \<and>
     tracks ''Name'' (va_string api) a1_name changed s s' \<and>
     tracks ''Pairable'' (va_bool api) a1_pairable changed s s' \<and>
     tracks ''PairableTimeout'' (va_u32 api) a1_pairable_timeout changed s s' \<and>
     tracks ''Powered'' (va_bool api) a1_powered changed s s' \<and>
     tracks ''UUIDs'' (va_strings api) a1_uuids changed s s' \<and>
     a1_discoveries s' = a1_discoveries s
       + (if \<exists>v. map_of changed ''Discovering'' = Some v \<and> va_bool api v = Inr False then 1 else 0)"
proof -
  have run: "for_each (adapter1_step api sd) changed s = Done s'"
    using assms(2) by (simp add: adapter1_onPropertiesChanged_def)
  show ?thesis
    unfolding tracks_def
    by (intro conjI discoveries_after [OF run assms(1)] adapter_address.tracked [OF assms(1) run] adapter_address_type.tracked [OF assms(1) run]
      adapter_alias.tracked [OF assms(1) run] adapter_class_type.tracked [OF assms(1) run]
      adapter_discoverable.tracked [OF assms(1) run] adapter_discoverable_timeout.tracked [OF
      assms(1) run] adapter_discovering.tracked [OF assms(1) run] adapter_modalias.tracked [OF
      assms(1) run] adapter_name.tracked [OF assms(1) run] adapter_pairable.tracked [OF assms(1) run]
      adapter_pairable_timeout.tracked [OF assms(1) run] adapter_powered.tracked [OF assms(1) run]
      adapter_uuids.tracked [OF assms(1) run])
qed

theorem adapter_tracks_and_rediscovers_witness:
  "\<exists>s'. adapter1_onPropertiesChanged sample_api None [(''Alias'', S_str ''hci''), (''Discovering'', S_bool False)]
        (adapter1_init ''/a'') = Done s' \<and> a1_alias s' = ''hci'' \<and> a1_discoveries s' = 1"
proof -
  let ?changed = "[(''Alias'', S_str ''hci''), (''Discovering'', S_bool False)]"
  let ?s = "adapter1_init ''/a''"
  obtain s' where run: "adapter1_onPropertiesChanged sample_api None ?changed ?s = Done s'"
    by (simp add: adapter1_onPropertiesChanged_def adapter1_step_def StartDiscovery_def)
  have "wf_map ?changed" by (simp add: wf_map_def)
  note adapter_tracks_and_rediscovers [OF this run]
  then have "a1_alias s' = ''hci''" "a1_discoveries s' = 1"
    by (simp_all add: tracks_def adapter1_init_def)
  with run show ?thesis by blast
qed

section \<open>The notification flags of a characteristic\<close>

interpretation characteristic_flags:
    keyed_update "characteristic_step api" gc_flags "''Flags''" "va_strings api" for api
proof (unfold_locales, goal_cases)
  case (1 v s s') then show ?case by (auto simp: characteristic_step_def assign_Done_iff)
next
  case (2 k s v) then show ?case
    unfolding characteristic_step_def prod.case by (intro keeps_intros; simp)
qed

lemma keeps_notifying: "k \<noteq> ''Notifying'' \<Longrightarrow> keeps gc_notifying s (characteristic_step api (k, v) s)"
  unfolding characteristic_step_def prod.case by (intro keeps_intros; simp)

lemma notifying_step: "characteristic_step api (''Notifying'', v) s = Done s' \<Longrightarrow>
    (if isNotifyFlagSet s then va_bool api v = Inr (gc_notifying s') else gc_notifying s' = gc_notifying s)"
  by (auto simp: characteristic_step_def assign_Done_iff split: if_splits)

lemma notifying_unchanged:
  "''Notifying'' \<notin> keys props \<Longrightarrow> for_each (characteristic_step api) props s = Done s' \<Longrightarrow>
     gc_notifying s' = gc_notifying s"
proof (induction props arbitrary: s)
  case (Cons c props)
  obtain k v where c: "c = (k, v)" by (cases c)
  from Cons.prems obtain t where t: "characteristic_step api (k, v) s = Done t"
      "for_each (characteristic_step api) props t = Done s'"
    by (cases "characteristic_step api (k, v) s") (auto simp: c)
  have "k \<noteq> ''Notifying''" using Cons.prems(1) by (auto simp: c)
  from keepsD [OF keeps_notifying [OF this] t(1)] Cons t(2) show ?case by simp
qed simp

text \<open>
  A characteristic built from a property map (in the order of \<open>std::map\<close>) is notifying only
  if its flags contain \<open>notify\<close>, and then it has the value of the property \<open>Notifying\<close>: the
  comment that \<open>Flags\<close> is assigned before the guarded properties are reached is right.
\<close>

theorem notifying_needs_notify_flag:
  assumes "sorted (map fst props)" and "wf_map props"
    and "GattCharacteristic1 api path props = Done s"
  shows "(gc_notifying s \<longrightarrow> ''notify'' \<in> set (gc_flags s))
    \<and> (''notify'' \<in> set (gc_flags s) \<longrightarrow> (case map_of props ''Notifying'' of
         None \<Rightarrow> \<not> gc_notifying s | Some v \<Rightarrow> va_bool api v = Inr (gc_notifying s)))"
proof -
  let ?step = "characteristic_step api"
  have run: "for_each ?step props (characteristic_init path) = Done s"
    using assms(3) by (simp add: GattCharacteristic1_def)
  have init: "\<not> gc_notifying (characteristic_init path)" by (simp add: characteristic_init_def)
  show ?thesis
  proof (cases "map_of props ''Notifying''")
    case None
    then have "gc_notifying s = gc_notifying (characteristic_init path)"
      by (intro notifying_unchanged [OF _ run]) (simp add: map_of_eq_None_iff)
    with init None show ?thesis by simp
  next
    case (Some v)
    then obtain pre post where props: "props = pre @ (''Notifying'', v) # post"
      by (meson map_of_SomeD split_list)
    obtain s1 where s1: "for_each ?step pre (characteristic_init path) = Done s1"
        "for_each ?step ((''Notifying'', v) # post) s1 = Done s"
      using run by (auto simp: props for_each_append seq_Done_iff)
    then obtain s2 where s2: "?step (''Notifying'', v) s1 = Done s2" "for_each ?step post s2 = Done s"
      by (auto simp: seq_Done_iff)
    have pre: "''Notifying'' \<notin> keys pre" and post: "''Notifying'' \<notin> keys post"
      using assms(2) by (auto simp: props wf_map_def)
    have "\<forall>k \<in> keys post. ''Notifying'' \<le> k" using assms(1) by (auto simp: props sorted_append)
    moreover have "\<not> ''Notifying'' \<le> ''Flags''" by code_simp
    ultimately have "''Flags'' \<notin> keys post" by blast
    then have flags: "gc_flags s = gc_flags s2"
      using characteristic_flags.unchanged [OF _ s2(2)] by simp
    have "gc_flags s2 = gc_flags s1"
      by (rule keepsD [OF characteristic_flags.other_key s2(1)]) simp
    moreover have "gc_notifying s = gc_notifying s2" by (rule notifying_unchanged [OF post s2(2)])
    moreover have "gc_notifying s1 = gc_notifying (characteristic_init path)"
      by (rule notifying_unchanged [OF pre s1(1)])
    ultimately show ?thesis
      using notifying_step [OF s2(1)] init flags Some by (auto simp: isNotifyFlagSet_def split: if_splits)
  qed
qed

theorem notifying_needs_notify_flag_witness:
  "\<exists>s. GattCharacteristic1 sample_api ''/c'' [(''Flags'', S_strs [''notify'']), (''Notifying'', S_bool True)] = Done s
      \<and> gc_notifying s \<and> ''notify'' \<in> set (gc_flags s)"
proof -
  let ?props = "[(''Flags'', S_strs [''notify'']), (''Notifying'', S_bool True)]"
  obtain s where run: "GattCharacteristic1 sample_api ''/c'' ?props = Done s" and n: "gc_notifying s"
    by (simp add: GattCharacteristic1_def characteristic_step_def isNotifyFlagSet_def)
  have "wf_map ?props" by (simp add: wf_map_def)
  moreover have "sorted (map fst ?props)" by code_simp
  ultimately show ?thesis using notifying_needs_notify_flag [OF _ _ run] run n by blast
qed

section \<open>Modaliases\<close>

definition is_hex4 :: "string \<Rightarrow> bool" where
  "is_hex4 s \<longleftrightarrow> length s = 4 \<and> list_all is_hex_digit s"

definition modalias_text :: "modalias \<Rightarrow> string" where
  "modalias_text m = ''usb:v'' @ vid m @ ''p'' @ pid m @ ''d'' @ did m"

lemma drop_literal_append [simp]: "drop_literal lit (lit @ s) = Some s"
  by (simp add: drop_literal_def)

lemma drop_literal_Some: "drop_literal lit s = Some t \<longleftrightarrow> s = lit @ t"
  by (auto simp: drop_literal_def) (metis append_take_drop_id)

lemma hex4_append: "is_hex4 h \<Longrightarrow> hex4 (h @ s) = Some (h, s)"
  by (simp add: hex4_def is_hex4_def)

lemma hex4_Some: "hex4 s = Some (h, t) \<longleftrightarrow> s = h @ t \<and> is_hex4 h"
  by (auto simp: hex4_def is_hex4_def)

lemma modalias_match_at_iff: "modalias_match_at s = Some m \<longleftrightarrow>
    (\<exists>t. s = modalias_text m @ t) \<and> is_hex4 (vid m) \<and> is_hex4 (pid m) \<and> is_hex4 (did m)"
proof
  assume "modalias_match_at s = Some m"
  then show "(\<exists>t. s = modalias_text m @ t) \<and> is_hex4 (vid m) \<and> is_hex4 (pid m) \<and> is_hex4 (did m)"
    by (auto simp: modalias_match_at_def bind_eq_Some_conv drop_literal_Some hex4_Some modalias_text_def
        split: prod.splits)
next
  assume "(\<exists>t. s = modalias_text m @ t) \<and> is_hex4 (vid m) \<and> is_hex4 (pid m) \<and> is_hex4 (did m)"
  then obtain t where "s = ''usb:v'' @ vid m @ ''p'' @ pid m @ ''d'' @ did m @ t"
      and h: "is_hex4 (vid m)" "is_hex4 (pid m)" "is_hex4 (did m)"
    by (auto simp: modalias_text_def)
  then show "modalias_match_at s = Some m"
    unfolding modalias_match_at_def by (simp only: drop_literal_append bind.simps hex4_append prod.case) simp
qed

lemma modalias_search_sound: "modalias_search s = Some m \<Longrightarrow>
    (\<exists>pre t. s = pre @ modalias_text m @ t) \<and> is_hex4 (vid m) \<and> is_hex4 (pid m) \<and> is_hex4 (did m)"
proof (induction s rule: modalias_search.induct)
  case (1 s)
  show ?case
  proof (cases "modalias_match_at s")
    case None
    with "1.prems" obtain c cs where s: "s = c # cs" "modalias_search cs = Some m"
      by (auto simp: modalias_search.simps [of s] split: list.splits)
    with "1.IH" [OF None s(1)] obtain pre t where "cs = pre @ modalias_text m @ t"
        and "is_hex4 (vid m) \<and> is_hex4 (pid m) \<and> is_hex4 (did m)" by blast
    moreover have "s = (c # pre) @ modalias_text m @ t" using s(1) calculation(1) by simp
    ultimately show ?thesis by blast
  next
    case (Some m')
    with "1.prems" have "modalias_match_at s = Some m" by (simp add: modalias_search.simps [of s])
    then show ?thesis unfolding modalias_match_at_iff by (metis append_Nil)
  qed
qed

text \<open>
  C27: A vendor, product and device identifier of four hexadecimal digits each, written as a
  modalias and followed by anything, is parsed back to itself; and whatever \<open>parse_modalias\<close>
  returns stands in the text it was given and consists of such identifiers.
\<close>

theorem modalias_roundtrip:
  "(is_hex4 (vid m) \<and> is_hex4 (pid m) \<and> is_hex4 (did m) \<longrightarrow>
      parse_modalias (modalias_text m @ rest) = (Some m, []))
   \<and> (fst (parse_modalias s) = Some m \<longrightarrow>
        is_hex4 (vid m) \<and> is_hex4 (pid m) \<and> is_hex4 (did m) \<and> (\<exists>pre post. s = pre @ modalias_text m @ post))"
proof (intro conjI impI)
  assume "is_hex4 (vid m) \<and> is_hex4 (pid m) \<and> is_hex4 (did m)"
  then have "modalias_match_at (modalias_text m @ rest) = Some m" by (auto simp: modalias_match_at_iff)
  then show "parse_modalias (modalias_text m @ rest) = (Some m, [])"
    by (simp add: parse_modalias_def modalias_search.simps [of "modalias_text m @ rest"])
next
  assume "fst (parse_modalias s) = Some m"
  then have "modalias_search s = Some m" by (simp add: parse_modalias_def split: option.splits)
  from modalias_search_sound [OF this]
  show "is_hex4 (vid m)" "is_hex4 (pid m)" "is_hex4 (did m)" "\<exists>pre post. s = pre @ modalias_text m @ post"
    by blast+
qed

theorem modalias_roundtrip_witness:
  "parse_modalias (modalias_text \<lparr>vid = ''054C'', pid = ''0CE6'', did = ''0100''\<rparr> @ []) =
     (Some \<lparr>vid = ''054C'', pid = ''0CE6'', did = ''0100''\<rparr>, [])"
proof -
  have "is_hex4 ''054C''" "is_hex4 ''0CE6''" "is_hex4 ''0100''" by code_simp+
  then show ?thesis
    using modalias_roundtrip [of "\<lparr>vid = ''054C'', pid = ''0CE6'', did = ''0100''\<rparr>" "[]"] by simp
qed

end
