(* ===== verification/Bluez_Client.thy ===== *)
theory Bluez_Client
  imports Bluez_Objects
begin

text \<open>
  \<open>src/bluez/bluez_client.{h,cc}\<close>: the registries of remote objects kept by \<open>BluezClient\<close>, from
  \<open>GetManagedObjects\<close> and the signals \<open>InterfacesAdded\<close> and \<open>InterfacesRemoved\<close>. The mutexes
  only exclude concurrent handlers and are not modelled; objects without state of their own
  are represented by their path. \<open>sd path\<close> is what the D-Bus call \<open>StartDiscovery\<close> of an adapter
  throws.
\<close>

section \<open>State\<close>

record 'v bluez_client = logged +
  bc_adapters :: "(string \<times> adapter1) list"
  bc_devices :: "(string \<times> 'v device1) list"
  bc_gatt_services :: "(string \<times> gatt_service1) list"
  bc_gatt_descriptors :: "(string \<times> gatt_descriptor1) list"
  bc_gatt_characteristics :: "(string \<times> gatt_characteristic1) list"
  bc_battery1 :: "(string \<times> string) list"
  bc_input1 :: "(string \<times> string) list"
  bc_battery_provider_manager1 :: "string option"
  bc_gatt_manager1 :: "string option"
  bc_le_advertising_manager1 :: "le_advertising_manager1 option"
  bc_media1 :: "string option"
  bc_network_server1 :: "string option"

definition bluez_client_init :: "log_entry list \<Rightarrow> 'v bluez_client" where
  "bluez_client_init lg =
     \<lparr>log_of = lg, bc_adapters = [], bc_devices = [], bc_gatt_services = [], bc_gatt_descriptors = [],
      bc_gatt_characteristics = [], bc_battery1 = [], bc_input1 = [],
      bc_battery_provider_manager1 = None, bc_gatt_manager1 = None, bc_le_advertising_manager1 = None,
      bc_media1 = None, bc_network_server1 = None\<rparr>"

type_synonym 'v interfaces = "(string \<times> 'v props) list"

definition limit_warning :: "string \<Rightarrow> string \<Rightarrow> nat \<Rightarrow> nat \<Rightarrow> 'a logged_scheme \<Rightarrow> 'a logged_scheme" where
  "limit_warning name path count limit =
     log_msg Warn (''Skipping '' @ name @ '' {}: resource limit reached ({}/{})'')
       [LStr path, LInt (int count), LInt (int limit)]"

section \<open>\<open>onInterfacesAdded\<close>\<close>

definition add_adapter ::
    "'v variant_api \<Rightarrow> (string \<Rightarrow> exn option) \<Rightarrow> string \<Rightarrow> 'v props \<Rightarrow> 'v bluez_client \<Rightarrow> 'v bluez_client outcome" where
  "add_adapter api sd path properties s =
     (if contains (bc_adapters s) path then Done s
      else if IsAtCapacity (length (bc_adapters s)) kMaxAdapters
        then Done (limit_warning ''Adapter1'' path (length (bc_adapters s)) kMaxAdapters s)
      else case Adapter1 api (sd path) path properties of
        Throw e _ \<Rightarrow> Throw e s
      | Done adapter \<Rightarrow> Done (s\<lparr>bc_adapters := AList.update path adapter (bc_adapters s)\<rparr>))"

text \<open>The constructor of a device logs; its object is stored with an empty log.\<close>

definition add_device ::
    "'v variant_api \<Rightarrow> string \<Rightarrow> 'v props \<Rightarrow> 'v bluez_client \<Rightarrow> 'v bluez_client outcome" where
  "add_device api path properties s =
     (if contains (bc_devices s) path then Done s
      else if IsAtCapacity (length (bc_devices s)) kMaxDevices
        then Done (limit_warning ''Device1'' path (length (bc_devices s)) kMaxDevices s)
      else case Device1 api (log_of s) path properties of
        Throw e device \<Rightarrow> Throw e (s\<lparr>log_of := log_of device\<rparr>)
      | Done device \<Rightarrow>
          Done (s\<lparr>log_of := log_of device,
                  bc_devices := AList.update path (device\<lparr>log_of := []\<rparr>) (bc_devices s)\<rparr>))"

definition add_gatt_service ::
    "'v variant_api \<Rightarrow> string \<Rightarrow> 'v props \<Rightarrow> 'v bluez_client \<Rightarrow> 'v bluez_client outcome" where
  "add_gatt_service api path properties s =
     (if contains (bc_gatt_services s) path then Done s
      else if IsAtCapacity (length (bc_gatt_services s)) kMaxGattServices
        then Done (limit_warning ''GattService1'' path (length (bc_gatt_services s)) kMaxGattServices s)
      else case GattService1 api path properties of
        Throw e _ \<Rightarrow> Throw e s
      | Done service \<Rightarrow> Done (s\<lparr>bc_gatt_services := AList.update path service (bc_gatt_services s)\<rparr>))"

definition add_gatt_characteristic ::
    "'v variant_api \<Rightarrow> string \<Rightarrow> 'v props \<Rightarrow> 'v bluez_client \<Rightarrow> 'v bluez_client outcome" where
  "add_gatt_characteristic api path properties s =
     (let (object_path, lg) = getProperty (va_path api) properties ''Service''; s = add_logs lg s
      in if object_path = None
         then Done (log_msg Warn (''GattCharacteristic1 at {} missing '' @ squote @ ''Service'' @ squote
                @ '' property'') [LStr path] s)
         else if \<not> contains (bc_gatt_characteristics s) path
              \<and> IsAtCapacity (length (bc_gatt_characteristics s)) kMaxGattCharacteristics
         then Done (limit_warning ''GattCharacteristic1'' path (length (bc_gatt_characteristics s))
                kMaxGattCharacteristics s)
         else case GattCharacteristic1 api path properties of
           Throw e _ \<Rightarrow> Throw e s
         | Done c \<Rightarrow>
             Done (s\<lparr>bc_gatt_characteristics := AList.update path c (bc_gatt_characteristics s)\<rparr>))"

definition add_gatt_descriptor ::
    "'v variant_api \<Rightarrow> string \<Rightarrow> 'v props \<Rightarrow> 'v bluez_client \<Rightarrow> 'v bluez_client outcome" where
  "add_gatt_descriptor api path properties s =
     (let (object_path, lg) = getProperty (va_path api) properties ''Characteristic''; s = add_logs lg s
      in if object_path = None
         then Done (log_msg Warn (''GattDescriptor1 at {} missing '' @ squote @ ''Characteristic'' @ squote
                @ '' property'') [LStr path] s)
         else if \<not> contains (bc_gatt_descriptors s) path
              \<and> IsAtCapacity (length (bc_gatt_descriptors s)) kMaxGattDescriptors
         then Done (limit_warning ''GattDescriptor1'' path (length (bc_gatt_descriptors s))
                kMaxGattDescriptors s)
         else case GattDescriptor1 api path properties of
           Throw e _ \<Rightarrow> Throw e s
         | Done d \<Rightarrow> Done (s\<lparr>bc_gatt_descriptors := AList.update path d (bc_gatt_descriptors s)\<rparr>))"

definition add_battery :: "string \<Rightarrow> 'v bluez_client \<Rightarrow> 'v bluez_client outcome" where
  "add_battery path s =
     (if contains (bc_battery1 s) path then Done s
      else if IsAtCapacity (length (bc_battery1 s)) kMaxBatteryEntries
        then Done (limit_warning ''Battery1'' path (length (bc_battery1 s)) kMaxBatteryEntries s)
      else Done (s\<lparr>bc_battery1 := AList.update path path (bc_battery1 s)\<rparr>))"

definition add_input :: "string \<Rightarrow> 'v bluez_client \<Rightarrow> 'v bluez_client outcome" where
  "add_input path s =
     (if contains (bc_input1 s) path then Done s
      else if IsAtCapacity (length (bc_input1 s)) kMaxInputEntries
        then Done (limit_warning ''Input1'' path (length (bc_input1 s)) kMaxInputEntries s)
      else Done (s\<lparr>bc_input1 := AList.update path path (bc_input1 s)\<rparr>))"

definition set_le_advertising_manager ::
    "'v variant_api \<Rightarrow> string \<Rightarrow> 'v props \<Rightarrow> 'v bluez_client \<Rightarrow> 'v bluez_client outcome" where
  "set_le_advertising_manager api path properties s =
     (case LEAdvertisingManager1 api path properties of
        Throw e _ \<Rightarrow> Throw e s
      | Done m \<Rightarrow> Done (s\<lparr>bc_le_advertising_manager1 := Some m\<rparr>))"

definition dispatch_added ::
    "'v variant_api \<Rightarrow> (string \<Rightarrow> exn option) \<Rightarrow> string \<Rightarrow> string \<Rightarrow> 'v props \<Rightarrow>
     'v bluez_client \<Rightarrow> 'v bluez_client outcome" where
  "dispatch_added api sd path iface properties s =
     (if iface = ''org.bluez.Adapter1'' then add_adapter api sd path properties s
      else if iface = ''org.bluez.Device1'' then add_device api path properties s
      else if iface = ''org.bluez.GattService1'' then add_gatt_service api path properties s
      else if iface = ''org.bluez.GattCharacteristic1'' then add_gatt_characteristic api path properties s
      else if iface = ''org.bluez.GattDescriptor1'' then add_gatt_descriptor api path properties s
      else if iface = ''org.bluez.BatteryProviderManager1'' then Done (s\<lparr>bc_battery_provider_manager1 := Some path\<rparr>)
      else if iface = ''org.bluez.Battery1'' then add_battery path s
      else if iface = ''org.bluez.GattManager1'' then Done (s\<lparr>bc_gatt_manager1 := Some path\<rparr>)
      else if iface = ''org.bluez.Input1'' then add_input path s
      else if iface = ''org.bluez.LEAdvertisingManager1'' then set_le_advertising_manager api path properties s
      else if iface = ''org.bluez.Media1'' then Done (s\<lparr>bc_media1 := Some path\<rparr>)
      else if iface = ''org.bluez.NetworkServer1'' then Done (s\<lparr>bc_network_server1 := Some path\<rparr>)
      else Done s)"

text \<open>One round of the loop, on the stream of the summary and the client.\<close>

definition skipped_interface :: "string \<Rightarrow> bool" where
  "skipped_interface iface \<longleftrightarrow>
     iface = ''org.freedesktop.DBus.Properties'' \<or> iface = ''org.freedesktop.DBus.Introspectable''"

definition added_step ::
    "'v variant_api \<Rightarrow> (string \<Rightarrow> exn option) \<Rightarrow> string \<Rightarrow> string \<times> 'v props \<Rightarrow>
     ostream \<times> 'v bluez_client \<Rightarrow> (ostream \<times> 'v bluez_client) outcome" where
  "added_step api sd path = (\<lambda>(iface, properties) (os, s).
     if skipped_interface iface then Done (os, s)
     else let os = put (''['' @ path @ ''] Add - '' @ iface @ endl) os
          in case append_properties max_nesting api properties os of
               Throw e os \<Rightarrow> Throw e (os, s)
             | Done os \<Rightarrow>
                 (case dispatch_added api sd path iface properties s of
                    Throw e s \<Rightarrow> Throw e (os, s)
                  | Done s \<Rightarrow> Done (os, s)))"

definition log_summary :: "(ostream \<times> 'v bluez_client) outcome \<Rightarrow> 'v bluez_client outcome" where
  "log_summary r =
     (case r of Throw e (os, s) \<Rightarrow> Throw e s | Done (os, s) \<Rightarrow> Done (log_msg Info (os_buf os) [] s))"

definition onInterfacesAdded ::
    "'v variant_api \<Rightarrow> (string \<Rightarrow> exn option) \<Rightarrow> string \<Rightarrow> 'v interfaces \<Rightarrow>
     'v bluez_client \<Rightarrow> 'v bluez_client outcome" where
  "onInterfacesAdded api sd objectPath interfacesAndProperties s =
     log_summary (for_each (added_step api sd objectPath) interfacesAndProperties
       (put endl ostringstream, s))"

text \<open>The constructor, on the objects \<open>GetManagedObjects\<close> returned.\<close>

definition BluezClient ::
    "'v variant_api \<Rightarrow> (string \<Rightarrow> exn option) \<Rightarrow> (string \<times> 'v interfaces) list \<Rightarrow>
     log_entry list \<Rightarrow> 'v bluez_client outcome" where
  "BluezClient api sd managed_objects lg =
     for_each (\<lambda>(object, ifaces). onInterfacesAdded api sd object ifaces) managed_objects
       (bluez_client_init lg)"

section \<open>\<open>onInterfacesRemoved\<close>\<close>

text \<open>\<open>reset()\<close> of a registered object and \<open>erase\<close>.\<close>

definition erase_if_present :: "string \<Rightarrow> (string \<times> 'e) list \<Rightarrow> (string \<times> 'e) list" where
  "erase_if_present path m = (if contains m path then AList.delete path m else m)"

definition dispatch_removed :: "string \<Rightarrow> string \<Rightarrow> 'v bluez_client \<Rightarrow> 'v bluez_client" where
  "dispatch_removed path iface s =
     (if iface = ''org.bluez.Adapter1'' then s\<lparr>bc_adapters := erase_if_present path (bc_adapters s)\<rparr>
      else if iface = ''org.bluez.Device1'' then s\<lparr>bc_devices := erase_if_present path (bc_devices s)\<rparr>
      else if iface = ''org.bluez.GattService1''
        then s\<lparr>bc_gatt_services := erase_if_present path (bc_gatt_services s)\<rparr>
      else if iface = ''org.bluez.GattCharacteristic1''
        then s\<lparr>bc_gatt_characteristics := erase_if_present path (bc_gatt_characteristics s)\<rparr>
      else if iface = ''org.bluez.GattDescriptor1''
        then s\<lparr>bc_gatt_descriptors := erase_if_present path (bc_gatt_descriptors s)\<rparr>
      else if iface = ''org.bluez.Battery1'' then s\<lparr>bc_battery1 := erase_if_present path (bc_battery1 s)\<rparr>
      else if iface = ''org.bluez.Input1'' then s\<lparr>bc_input1 := erase_if_present path (bc_input1 s)\<rparr>
      else if iface = ''org.bluez.BatteryProviderManager1'' then s\<lparr>bc_battery_provider_manager1 := None\<rparr>
      else if iface = ''org.bluez.GattManager1'' then s\<lparr>bc_gatt_manager1 := None\<rparr>
      else if iface = ''org.bluez.LEAdvertisingManager1'' then s\<lparr>bc_le_advertising_manager1 := None\<rparr>
      else if iface = ''org.bluez.Media1'' then s\<lparr>bc_media1 := None\<rparr>
      else if iface = ''org.bluez.NetworkServer1'' then s\<lparr>bc_network_server1 := None\<rparr>
      else s)"

definition onInterfacesRemoved :: "string \<Rightarrow> string list \<Rightarrow> 'v bluez_client \<Rightarrow> 'v bluez_client" where
  "onInterfacesRemoved objectPath interfaces s =
     (let os = fold (\<lambda>iface. put (''['' @ objectPath @ ''] Remove - '' @ iface @ endl)) interfaces
                 (put endl ostringstream)
      in log_msg Info (os_buf os) [] (fold (dispatch_removed objectPath) interfaces s))"

section \<open>Runs\<close>

text \<open>
  The signals a client sees after its construction. A handler that throws ends with what it
  had done; the client lives on.
\<close>

datatype 'v bluez_event = Added string "'v interfaces" | Removed string "string list"

fun bluez_step ::
    "'v variant_api \<Rightarrow> (string \<Rightarrow> exn option) \<Rightarrow> 'v bluez_event \<Rightarrow> 'v bluez_client \<Rightarrow> 'v bluez_client" where
  "bluez_step api sd (Added path ifaces) s = state_of (onInterfacesAdded api sd path ifaces s)"
| "bluez_step api sd (Removed path ifaces) s = onInterfacesRemoved path ifaces s"

definition bluez_run ::
    "'v variant_api \<Rightarrow> (string \<Rightarrow> exn option) \<Rightarrow> 'v bluez_event list \<Rightarrow> 'v bluez_client \<Rightarrow> 'v bluez_client" where
  "bluez_run api sd events s = fold (bluez_step api sd) events s"

end
