(* ===== verification/Bluez_Registry.thy ===== *)
theory Bluez_Registry
  imports Bluez_Client
begin

text \<open>
  The registries of \<open>BluezClient\<close>: each is an instance of \<open>bounded_registry\<close>, and those that keep
  the first object of a path refine a set of announced paths (\<open>announced_registry\<close>).
\<close>

section \<open>Frame\<close>

lemma registry_log_frame [frame_simps]:
  "bc_adapters (log_msg l fmt args s) = bc_adapters s" "bc_adapters (add_logs es s) = bc_adapters s"
    "bc_adapters (limit_warning name path count limit s) = bc_adapters s"
  "bc_devices (log_msg l fmt args s) = bc_devices s" "bc_devices (add_logs es s) = bc_devices s"
    "bc_devices (limit_warning name path count limit s) = bc_devices s"
  "bc_gatt_services (log_msg l fmt args s) = bc_gatt_services s" "bc_gatt_services (add_logs es s) = bc_gatt_services s"
    "bc_gatt_services (limit_warning name path count limit s) = bc_gatt_services s"
  "bc_gatt_characteristics (log_msg l fmt args s) = bc_gatt_characteristics s" "bc_gatt_characteristics (add_logs es s) = bc_gatt_characteristics s"
    "bc_gatt_characteristics (limit_warning name path count limit s) = bc_gatt_characteristics s"
  "bc_gatt_descriptors (log_msg l fmt args s) = bc_gatt_descriptors s" "bc_gatt_descriptors (add_logs es s) = bc_gatt_descriptors s"
    "bc_gatt_descriptors (limit_warning name path count limit s) = bc_gatt_descriptors s"
  "bc_battery1 (log_msg l fmt args s) = bc_battery1 s" "bc_battery1 (add_logs es s) = bc_battery1 s"
    "bc_battery1 (limit_warning name path count limit s) = bc_battery1 s"
  "bc_input1 (log_msg l fmt args s) = bc_input1 s" "bc_input1 (add_logs es s) = bc_input1 s"
    "bc_input1 (limit_warning name path count limit s) = bc_input1 s"
  by (simp_all add: log_msg_def add_logs_def limit_warning_def)

lemmas add_defs = add_adapter_def add_device_def add_gatt_service_def add_gatt_characteristic_def add_gatt_descriptor_def
  add_battery_def add_input_def

lemma add_frame [frame_simps]:
  "bc_devices (state_of (add_adapter api sd path p s)) = bc_devices s"
  "bc_gatt_services (state_of (add_adapter api sd path p s)) = bc_gatt_services s"
  "bc_gatt_characteristics (state_of (add_adapter api sd path p s)) = bc_gatt_characteristics s"
  "bc_gatt_descriptors (state_of (add_adapter api sd path p s)) = bc_gatt_descriptors s"
  "bc_battery1 (state_of (add_adapter api sd path p s)) = bc_battery1 s"
  "bc_input1 (state_of (add_adapter api sd path p s)) = bc_input1 s"
  "bc_adapters (state_of (add_device api path p s)) = bc_adapters s"
  "bc_gatt_services (state_of (add_device api path p s)) = bc_gatt_services s"
  "bc_gatt_characteristics (state_of (add_device api path p s)) = bc_gatt_characteristics s"
  "bc_gatt_descriptors (state_of (add_device api path p s)) = bc_gatt_descriptors s"
  "bc_battery1 (state_of (add_device api path p s)) = bc_battery1 s"
  "bc_input1 (state_of (add_device api path p s)) = bc_input1 s"
  "bc_adapters (state_of (add_gatt_service api path p s)) = bc_adapters s"
  "bc_devices (state_of (add_gatt_service api path p s)) = bc_devices s"
  "bc_gatt_characteristics (state_of (add_gatt_service api path p s)) = bc_gatt_characteristics s"
  "bc_gatt_descriptors (state_of (add_gatt_service api path p s)) = bc_gatt_descriptors s"
  "bc_battery1 (state_of (add_gatt_service api path p s)) = bc_battery1 s"
  "bc_input1 (state_of (add_gatt_service api path p s)) = bc_input1 s"
  "bc_adapters (state_of (add_gatt_characteristic api path p s)) = bc_adapters s"
  "bc_devices (state_of (add_gatt_characteristic api path p s)) = bc_devices s"
  "bc_gatt_services (state_of (add_gatt_characteristic api path p s)) = bc_gatt_services s"
  "bc_gatt_descriptors (state_of (add_gatt_characteristic api path p s)) = bc_gatt_descriptors s"
  "bc_battery1 (state_of (add_gatt_characteristic api path p s)) = bc_battery1 s"
  "bc_input1 (state_of (add_gatt_characteristic api path p s)) = bc_input1 s"
  "bc_adapters (state_of (add_gatt_descriptor api path p s)) = bc_adapters s"
  "bc_devices (state_of (add_gatt_descriptor api path p s)) = bc_devices s"
  "bc_gatt_services (state_of (add_gatt_descriptor api path p s)) = bc_gatt_services s"
  "bc_gatt_characteristics (state_of (add_gatt_descriptor api path p s)) = bc_gatt_characteristics s"
  "bc_battery1 (state_of (add_gatt_descriptor api path p s)) = bc_battery1 s"
  "bc_input1 (state_of (add_gatt_descriptor api path p s)) = bc_input1 s"
  "bc_adapters (state_of (add_battery path s)) = bc_adapters s"
  "bc_devices (state_of (add_battery path s)) = bc_devices s"
  "bc_gatt_services (state_of (add_battery path s)) = bc_gatt_services s"
  "bc_gatt_characteristics (state_of (add_battery path s)) = bc_gatt_characteristics s"
  "bc_gatt_descriptors (state_of (add_battery path s)) = bc_gatt_descriptors s"
  "bc_input1 (state_of (add_battery path s)) = bc_input1 s"
  "bc_adapters (state_of (add_input path s)) = bc_adapters s"
  "bc_devices (state_of (add_input path s)) = bc_devices s"
  "bc_gatt_services (state_of (add_input path s)) = bc_gatt_services s"
  "bc_gatt_characteristics (state_of (add_input path s)) = bc_gatt_characteristics s"
  "bc_gatt_descriptors (state_of (add_input path s)) = bc_gatt_descriptors s"
  "bc_battery1 (state_of (add_input path s)) = bc_battery1 s"
  by (simp_all add: add_defs Let_def frame_simps split: outcome.split prod.split)

lemma le_advertising_frame [frame_simps]:
  "bc_adapters (state_of (set_le_advertising_manager api path p s)) = bc_adapters s"
  "bc_devices (state_of (set_le_advertising_manager api path p s)) = bc_devices s"
  "bc_gatt_services (state_of (set_le_advertising_manager api path p s)) = bc_gatt_services s"
  "bc_gatt_characteristics (state_of (set_le_advertising_manager api path p s)) = bc_gatt_characteristics s"
  "bc_gatt_descriptors (state_of (set_le_advertising_manager api path p s)) = bc_gatt_descriptors s"
  "bc_battery1 (state_of (set_le_advertising_manager api path p s)) = bc_battery1 s"
  "bc_input1 (state_of (set_le_advertising_manager api path p s)) = bc_input1 s"
  by (simp_all add: set_le_advertising_manager_def split: outcome.split)

lemma keys_insert_absorb: "contains m k \<Longrightarrow> insert k (keys m) = keys m"
  by (simp add: contains_keys insert_absorb)

lemma delete_absent: "\<not> contains m k \<Longrightarrow> AList.delete k m = m"
  by (force simp: contains_keys AList.delete_eq filter_id_conv)

lemma erase_if_present_delete [simp]: "erase_if_present k m = AList.delete k m"
  by (simp add: erase_if_present_def delete_absent)

section \<open>The caps\<close>

interpretation adapters: bounded_registry bc_adapters kMaxAdapters "\<lambda>path p. add_adapter api sd path p" "\<lambda>path. dispatch_removed path ''org.bluez.Adapter1''" for api sd
proof (unfold_locales, goal_cases)
  case (1 k a s) show ?case
    by (auto simp: add_defs Let_def frame_simps split: outcome.split prod.split)
next
  case (2 k s) show ?case by (simp add: dispatch_removed_def)
qed

interpretation devices: bounded_registry bc_devices kMaxDevices "\<lambda>path p. add_device api path p" "\<lambda>path. dispatch_removed path ''org.bluez.Device1''" for api
proof (unfold_locales, goal_cases)
  case (1 k a s) show ?case
    by (auto simp: add_defs Let_def frame_simps split: outcome.split prod.split)
next
  case (2 k s) show ?case by (simp add: dispatch_removed_def)
qed

interpretation gatt_services: bounded_registry bc_gatt_services kMaxGattServices "\<lambda>path p. add_gatt_service api path p" "\<lambda>path. dispatch_removed path ''org.bluez.GattService1''" for api
proof (unfold_locales, goal_cases)
  case (1 k a s) show ?case
    by (auto simp: add_defs Let_def frame_simps split: outcome.split prod.split)
next
  case (2 k s) show ?case by (simp add: dispatch_removed_def)
qed

interpretation gatt_characteristics: bounded_registry bc_gatt_characteristics kMaxGattCharacteristics "\<lambda>path p. add_gatt_characteristic api path p" "\<lambda>path. dispatch_removed path ''org.bluez.GattCharacteristic1''" for api
proof (unfold_locales, goal_cases)
  case (1 k a s) show ?case
    by (auto simp: add_defs Let_def frame_simps split: outcome.split prod.split)
next
  case (2 k s) show ?case by (simp add: dispatch_removed_def)
qed

interpretation gatt_descriptors: bounded_registry bc_gatt_descriptors kMaxGattDescriptors "\<lambda>path p. add_gatt_descriptor api path p" "\<lambda>path. dispatch_removed path ''org.bluez.GattDescriptor1''" for api
proof (unfold_locales, goal_cases)
  case (1 k a s) show ?case
    by (auto simp: add_defs Let_def frame_simps split: outcome.split prod.split)
next
  case (2 k s) show ?case by (simp add: dispatch_removed_def)
qed

interpretation battery: bounded_registry bc_battery1 kMaxBatteryEntries "\<lambda>path p. add_battery path" "\<lambda>path. dispatch_removed path ''org.bluez.Battery1''"
proof (unfold_locales, goal_cases)
  case (1 k a s) show ?case
    by (auto simp: add_defs Let_def frame_simps split: outcome.split prod.split)
next
  case (2 k s) show ?case by (simp add: dispatch_removed_def)
qed

interpretation input: bounded_registry bc_input1 kMaxInputEntries "\<lambda>path p. add_input path" "\<lambda>path. dispatch_removed path ''org.bluez.Input1''"
proof (unfold_locales, goal_cases)
  case (1 k a s) show ?case
    by (auto simp: add_defs Let_def frame_simps split: outcome.split prod.split)
next
  case (2 k s) show ?case by (simp add: dispatch_removed_def)
qed

text \<open>Every registry has distinct keys and is within its cap.\<close>

definition registries_within :: "'v bluez_client \<Rightarrow> bool" where
  "registries_within s \<longleftrightarrow>
     within_cap kMaxAdapters (bc_adapters s) \<and>
     within_cap kMaxDevices (bc_devices s) \<and>
     within_cap kMaxGattServices (bc_gatt_services s) \<and>
     within_cap kMaxGattCharacteristics (bc_gatt_characteristics s) \<and>
     within_cap kMaxGattDescriptors (bc_gatt_descriptors s) \<and>
     within_cap kMaxBatteryEntries (bc_battery1 s) \<and>
     within_cap kMaxInputEntries (bc_input1 s)"

lemma registries_within_if:
  "registries_within (state_of a) \<Longrightarrow> registries_within (state_of b) \<Longrightarrow>
     registries_within (state_of (if c then a else b))"
  by simp

lemma registries_within_add:
  assumes "registries_within s"
  shows "registries_within (state_of (add_adapter api sd path p s))"
    and "registries_within (state_of (add_device api path p s))"
    and "registries_within (state_of (add_gatt_service api path p s))"
    and "registries_within (state_of (add_gatt_characteristic api path p s))"
    and "registries_within (state_of (add_gatt_descriptor api path p s))"
    and "registries_within (state_of (add_battery path s))"
    and "registries_within (state_of (add_input path s))"
    and "registries_within (state_of (set_le_advertising_manager api path p s))"
  using assms
  by (simp_all add: registries_within_def frame_simps adapters.add_within
      devices.add_within
      gatt_services.add_within
      gatt_characteristics.add_within
      gatt_descriptors.add_within
      battery.add_within
      input.add_within)

lemma dispatch_added_within:
  assumes "registries_within s"
  shows "registries_within (state_of (dispatch_added api sd path iface p s))"
  unfolding dispatch_added_def
  by (intro registries_within_if registries_within_add [OF assms]; use assms in \<open>simp add: registries_within_def\<close>)

lemma added_step_within:
  assumes "registries_within (snd x)"
  shows "registries_within (snd (state_of (added_step api sd path ip x)))"
proof -
  obtain os s iface p where x: "x = (os, s)" "ip = (iface, p)" by (cases x, cases ip) auto
  have "registries_within (state_of (dispatch_added api sd path iface p s))"
    using assms by (intro dispatch_added_within) (simp add: x)
  with assms show ?thesis
    by (cases "dispatch_added api sd path iface p s")
      (auto simp: added_step_def x Let_def split: outcome.split)
qed

lemma onInterfacesAdded_within:
  assumes "registries_within s"
  shows "registries_within (state_of (onInterfacesAdded api sd path ifaces s))"
proof -
  let ?r = "for_each (added_step api sd path) ifaces (put endl ostringstream, s)"
  have "registries_within (snd (state_of ?r))"
    by (rule for_each_invariant [where P = "\<lambda>x. registries_within (snd x)"])
      (simp_all add: added_step_within assms)
  then show ?thesis
    by (cases ?r) (auto simp: onInterfacesAdded_def log_summary_def registries_within_def frame_simps
        split: prod.split)
qed

lemma dispatch_removed_within: "registries_within s \<Longrightarrow> registries_within (dispatch_removed path iface s)"
  by (simp add: dispatch_removed_def registries_within_def within_delete)

lemma onInterfacesRemoved_within:
  assumes "registries_within s"
  shows "registries_within (onInterfacesRemoved path ifaces s)"
proof -
  have "registries_within (fold (dispatch_removed path) ifaces s)"
    using assms by (induction ifaces arbitrary: s) (simp_all add: dispatch_removed_within)
  then show ?thesis by (simp add: onInterfacesRemoved_def Let_def registries_within_def frame_simps)
qed

lemma bluez_run_within: "registries_within s \<Longrightarrow> registries_within (bluez_run api sd events s)"
  unfolding bluez_run_def
proof (induction events arbitrary: s)
  case (Cons e events)
  have "registries_within (bluez_step api sd e s)"
    using Cons.prems by (cases e) (simp_all add: onInterfacesAdded_within onInterfacesRemoved_within)
  with Cons.IH show ?case by simp
qed simp

lemma BluezClient_within:
  fixes api :: "'v variant_api"
  shows "registries_within (state_of (BluezClient api sd managed lg))"
  unfolding BluezClient_def
proof (rule for_each_invariant [where P = registries_within])
  fix x :: "string \<times> 'v interfaces" and s :: "'v bluez_client"
  assume "registries_within s"
  then show "registries_within (state_of ((case x of (object, ifaces) \<Rightarrow> onInterfacesAdded api sd object ifaces) s))"
    by (cases x) (simp add: onInterfacesAdded_within)
qed (simp add: bluez_client_init_def registries_within_def)

text \<open>
  C24: Whatever objects the service reports, at the start and in any sequence of signals, with
  any properties, and whether or not handlers throw, no registry of the client ever exceeds
  its cap (64 adapters, 1024 devices, 4096 services and so on) or has two entries for a path.
\<close>

theorem bluez_registries_bounded:
  "registries_within (bluez_run api sd events (state_of (BluezClient api sd managed lg)))"
  by (rule bluez_run_within) (rule BluezClient_within)

section \<open>Refinement of a set of announced paths\<close>

text \<open>
  The abstract view of a registry: the set of paths announced with its interface and not removed
  since. \<open>usable\<close> are the property maps an object can be registered with: a characteristic needs the
  path of its service and a descriptor that of its characteristic. \<open>fits\<close> says that the set never
  outgrows the cap.
\<close>

definition names_object :: "'v variant_api \<Rightarrow> string \<Rightarrow> 'v props \<Rightarrow> bool" where
  "names_object api key p \<longleftrightarrow> (case map_of p key of None \<Rightarrow> False | Some v \<Rightarrow> \<not> isl (va_path api v))"

abbreviation any_props :: "'v props \<Rightarrow> bool" where
  "any_props \<equiv> \<lambda>_. True"

fun announced_step :: "('v props \<Rightarrow> bool) \<Rightarrow> string \<Rightarrow> 'v bluez_event \<Rightarrow> string set \<Rightarrow> string set" where
  "announced_step usable i (Added path ifaces) S =
     (if list_ex (\<lambda>(j, p). j = i \<and> usable p) ifaces then insert path S else S)"
| "announced_step usable i (Removed path ifaces) S = (if i \<in> set ifaces then S - {path} else S)"

fun fits :: "('v props \<Rightarrow> bool) \<Rightarrow> string \<Rightarrow> nat \<Rightarrow> 'v bluez_event list \<Rightarrow> string set \<Rightarrow> bool" where
  "fits usable i limit [] S = True"
| "fits usable i limit (e # es) S =
     (card (announced_step usable i e S) \<le> limit \<and> fits usable i limit es (announced_step usable i e S))"

text \<open>No handler of the run throws.\<close>

fun all_complete ::
    "'v variant_api \<Rightarrow> (string \<Rightarrow> exn option) \<Rightarrow> 'v bluez_event list \<Rightarrow> 'v bluez_client \<Rightarrow> bool" where
  "all_complete api sd [] s = True"
| "all_complete api sd (Added path ifaces # es) s =
     (is_done (onInterfacesAdded api sd path ifaces s)
      \<and> all_complete api sd es (bluez_step api sd (Added path ifaces) s))"
| "all_complete api sd (Removed path ifaces # es) s =
     all_complete api sd es (bluez_step api sd (Removed path ifaces) s)"

text \<open>
  A registry that keeps an object for each path announced with usable properties. \<open>iface\<close> is the
  interface it registers.
\<close>

locale announced_registry = bounded_registry reg limit add remove
  for reg :: "'v bluez_client \<Rightarrow> (string \<times> 'e) list"
    and limit :: nat
    and add :: "string \<Rightarrow> 'v props \<Rightarrow> 'v bluez_client \<Rightarrow> 'v bluez_client outcome"
    and remove :: "string \<Rightarrow> 'v bluez_client \<Rightarrow> 'v bluez_client" +
  fixes api :: "'v variant_api" and sd :: "string \<Rightarrow> exn option" and iface :: string
    and usable :: "'v props \<Rightarrow> bool"
  assumes add_completes: "add k p s = Done s' \<Longrightarrow> usable p \<Longrightarrow>
      contains (reg s) k \<or> \<not> IsAtCapacity (length (reg s)) limit \<Longrightarrow> keys (reg s') = insert k (keys (reg s))"
    and add_unusable: "add k p s = Done s' \<Longrightarrow> \<not> usable p \<Longrightarrow> reg s' = reg s"
    and dispatch_own: "dispatch_added api sd path iface p s = add path p s"
    and dispatch_other: "i \<noteq> iface \<Longrightarrow> reg (state_of (dispatch_added api sd path i p s)) = reg s"
    and removed_other: "i \<noteq> iface \<Longrightarrow> reg (dispatch_removed path i s) = reg s"
    and not_skipped: "\<not> skipped_interface iface"
    and removed_own: "dispatch_removed path iface s = remove path s"
    and log_frame: "reg (log_msg l fmt args s) = reg s"
begin

lemma room:
  assumes "within_cap limit (reg s)" and "card (insert k (keys (reg s))) \<le> limit"
  shows "contains (reg s) k \<or> \<not> IsAtCapacity (length (reg s)) limit"
proof (cases "contains (reg s) k")
  case False
  have "card (keys (reg s)) = length (reg s)"
    using assms(1) by (metis distinct_card length_map list.set_map wf_map_def within_cap_def)
  with False assms(2) show ?thesis by (simp add: contains_keys IsAtCapacity_def)
qed simp

lemma step_refines:
  assumes run: "added_step api sd path (i, p) (os, s) = Done (os', s')"
    and inv: "within_cap limit (reg s)" and fit: "i = iface \<and> usable p \<Longrightarrow> card (insert path (keys (reg s))) \<le> limit"
  shows "within_cap limit (reg s') \<and>
    keys (reg s') = (if i = iface \<and> usable p then insert path (keys (reg s)) else keys (reg s))"
proof (cases "skipped_interface i")
  case True
  with run not_skipped inv show ?thesis by (auto simp: added_step_def)
next
  case False
  with run have d: "dispatch_added api sd path i p s = Done s'"
    by (auto simp: added_step_def Let_def split: outcome.splits)
  show ?thesis
  proof (cases "i = iface")
    case True
    with d have "add path p s = Done s'" by (simp add: dispatch_own)
    with True show ?thesis
      using add_completes [OF _ _ room [OF inv fit]] add_unusable [of path p s s'] add_within [OF inv, of path p]
      by auto
  next
    case False
    have "reg s' = reg s" using dispatch_other [OF False, of path p s] d by simp
    with False inv show ?thesis by simp
  qed
qed

lemma loop_refines:
  assumes "for_each (added_step api sd path) ifaces (os, s) = Done (os', s')"
    and "within_cap limit (reg s)"
    and "list_ex (\<lambda>(j, p). j = iface \<and> usable p) ifaces \<Longrightarrow> card (insert path (keys (reg s))) \<le> limit"
  shows "within_cap limit (reg s') \<and> keys (reg s') =
    (if list_ex (\<lambda>(j, p). j = iface \<and> usable p) ifaces then insert path (keys (reg s)) else keys (reg s))"
  using assms
proof (induction ifaces arbitrary: os s)
  case (Cons c ifaces)
  obtain i p where c: "c = (i, p)" by (cases c)
  from Cons.prems(1) obtain os1 s1 where s1: "added_step api sd path (i, p) (os, s) = Done (os1, s1)"
      "for_each (added_step api sd path) ifaces (os1, s1) = Done (os', s')"
    by (cases "added_step api sd path (i, p) (os, s)") (auto simp: c)
  have 1: "within_cap limit (reg s1)"
      "keys (reg s1) = (if i = iface \<and> usable p then insert path (keys (reg s)) else keys (reg s))"
    using step_refines [OF s1(1) Cons.prems(2)] Cons.prems(3) by (auto simp: c)
  have "list_ex (\<lambda>(j, p). j = iface \<and> usable p) ifaces \<Longrightarrow> card (insert path (keys (reg s1))) \<le> limit"
    using Cons.prems(3) by (simp add: 1(2) c)
  from Cons.IH [OF s1(2) 1(1) this] show ?case by (auto simp: 1(2) c)
qed simp

lemma removed_loop:
  "within_cap limit (reg s) \<Longrightarrow> within_cap limit (reg (fold (dispatch_removed path) ifaces s))
     \<and> keys (reg (fold (dispatch_removed path) ifaces s))
       = (if iface \<in> set ifaces then keys (reg s) - {path} else keys (reg s))"
proof (induction ifaces arbitrary: s)
  case (Cons i ifaces)
  show ?case
  proof (cases "i = iface")
    case True
    then show ?thesis
      using Cons.IH [of "remove path s"] remove_within [OF Cons.prems]
      by (auto simp: removed_own remove_effect)
  next
    case False
    then show ?thesis
      using Cons.IH [of "dispatch_removed path i s"] Cons.prems removed_other [OF False, of path s] by simp
  qed
qed simp

lemma event_refines:
  assumes "all_complete api sd [e] s" and "within_cap limit (reg s)"
    and "card (announced_step usable iface e (keys (reg s))) \<le> limit"
  shows "within_cap limit (reg (bluez_step api sd e s))
    \<and> keys (reg (bluez_step api sd e s)) = announced_step usable iface e (keys (reg s))"
proof (cases e)
  case (Added path ifaces)
  let ?r = "for_each (added_step api sd path) ifaces (put endl ostringstream, s)"
  obtain os' s' where run: "?r = Done (os', s')"
    using assms(1) by (cases ?r) (auto simp: Added onInterfacesAdded_def log_summary_def)
  have "list_ex (\<lambda>(j, p). j = iface \<and> usable p) ifaces \<Longrightarrow> card (insert path (keys (reg s))) \<le> limit"
    using assms(3) by (simp add: Added)
  from loop_refines [OF run assms(2) this] show ?thesis
    by (simp add: Added onInterfacesAdded_def log_summary_def run log_frame)
next
  case (Removed path ifaces)
  with removed_loop [OF assms(2), of path ifaces] show ?thesis
    by (simp add: onInterfacesRemoved_def Let_def log_frame)
qed

lemma run_refines:
  "all_complete api sd events s \<Longrightarrow> within_cap limit (reg s) \<Longrightarrow> fits usable iface limit events (keys (reg s)) \<Longrightarrow>
     keys (reg (bluez_run api sd events s)) = fold (announced_step usable iface) events (keys (reg s))"
proof (induction events arbitrary: s)
  case (Cons e events)
  have "all_complete api sd [e] s" "all_complete api sd events (bluez_step api sd e s)"
    using Cons.prems(1) by (cases e; simp)+
  moreover have "card (announced_step usable iface e (keys (reg s))) \<le> limit" using Cons.prems(3) by simp
  ultimately show ?case
    using event_refines [of e s] Cons.prems(2,3) Cons.IH [of "bluez_step api sd e s"]
    by (simp add: bluez_run_def)
qed (simp add: bluez_run_def)

end

lemma getProperty_path: "fst (getProperty (va_path api) p key) = None \<longleftrightarrow> \<not> names_object api key p"
  by (simp add: getProperty_def names_object_def split: option.split sum.split exn.split)

text \<open>What does not touch a registry.\<close>

lemma dispatch_added_other:
  "i \<noteq> ''org.bluez.Adapter1'' \<Longrightarrow> bc_adapters (state_of (dispatch_added api sd path i p s)) = bc_adapters s"
  "i \<noteq> ''org.bluez.Device1'' \<Longrightarrow> bc_devices (state_of (dispatch_added api sd path i p s)) = bc_devices s"
  "i \<noteq> ''org.bluez.GattService1'' \<Longrightarrow> bc_gatt_services (state_of (dispatch_added api sd path i p s)) = bc_gatt_services s"
  "i \<noteq> ''org.bluez.GattCharacteristic1'' \<Longrightarrow>
     bc_gatt_characteristics (state_of (dispatch_added api sd path i p s)) = bc_gatt_characteristics s"
  "i \<noteq> ''org.bluez.GattDescriptor1'' \<Longrightarrow>
     bc_gatt_descriptors (state_of (dispatch_added api sd path i p s)) = bc_gatt_descriptors s"
  "i \<noteq> ''org.bluez.Battery1'' \<Longrightarrow> bc_battery1 (state_of (dispatch_added api sd path i p s)) = bc_battery1 s"
  "i \<noteq> ''org.bluez.Input1'' \<Longrightarrow> bc_input1 (state_of (dispatch_added api sd path i p s)) = bc_input1 s"
  by (simp_all add: dispatch_added_def frame_simps)

lemma dispatch_removed_other:
  "i \<noteq> ''org.bluez.Adapter1'' \<Longrightarrow> bc_adapters (dispatch_removed path i s) = bc_adapters s"
  "i \<noteq> ''org.bluez.Device1'' \<Longrightarrow> bc_devices (dispatch_removed path i s) = bc_devices s"
  "i \<noteq> ''org.bluez.GattService1'' \<Longrightarrow> bc_gatt_services (dispatch_removed path i s) = bc_gatt_services s"
  "i \<noteq> ''org.bluez.GattCharacteristic1'' \<Longrightarrow> bc_gatt_characteristics (dispatch_removed path i s) = bc_gatt_characteristics s"
  "i \<noteq> ''org.bluez.GattDescriptor1'' \<Longrightarrow> bc_gatt_descriptors (dispatch_removed path i s) = bc_gatt_descriptors s"
  "i \<noteq> ''org.bluez.Battery1'' \<Longrightarrow> bc_battery1 (dispatch_removed path i s) = bc_battery1 s"
  "i \<noteq> ''org.bluez.Input1'' \<Longrightarrow> bc_input1 (dispatch_removed path i s) = bc_input1 s"
  by (simp_all add: dispatch_removed_def)

lemma dispatch_added_own:
  "dispatch_added api sd path ''org.bluez.Adapter1'' p s = add_adapter api sd path p s"
  "dispatch_added api sd path ''org.bluez.Device1'' p s = add_device api path p s"
  "dispatch_added api sd path ''org.bluez.GattService1'' p s = add_gatt_service api path p s"
  "dispatch_added api sd path ''org.bluez.GattCharacteristic1'' p s = add_gatt_characteristic api path p s"
  "dispatch_added api sd path ''org.bluez.GattDescriptor1'' p s = add_gatt_descriptor api path p s"
  "dispatch_added api sd path ''org.bluez.Battery1'' p s = add_battery path s"
  "dispatch_added api sd path ''org.bluez.Input1'' p s = add_input path s"
  by (simp_all add: dispatch_added_def)

interpretation adapters_set: announced_registry bc_adapters kMaxAdapters "\<lambda>path p. add_adapter api sd path p" "\<lambda>path. dispatch_removed path ''org.bluez.Adapter1''"
    api sd "''org.bluez.Adapter1''" "any_props" for api sd
proof (unfold_locales, goal_cases)
  case (1 k p s s') then show ?case
    by (cases "contains (bc_adapters s) k"; clarsimp simp: add_defs keys_insert_absorb split: outcome.splits)
next
  case (2 k p s s') then show ?case by simp
qed (simp_all add: dispatch_added_own dispatch_added_other dispatch_removed_other skipped_interface_def frame_simps)

interpretation devices_set: announced_registry bc_devices kMaxDevices "\<lambda>path p. add_device api path p" "\<lambda>path. dispatch_removed path ''org.bluez.Device1''"
    api sd "''org.bluez.Device1''" "any_props" for api sd
proof (unfold_locales, goal_cases)
  case (1 k p s s') then show ?case
    by (cases "contains (bc_devices s) k"; clarsimp simp: add_defs keys_insert_absorb split: outcome.splits)
next
  case (2 k p s s') then show ?case by simp
qed (simp_all add: dispatch_added_own dispatch_added_other dispatch_removed_other skipped_interface_def frame_simps)

interpretation gatt_services_set: announced_registry bc_gatt_services kMaxGattServices "\<lambda>path p. add_gatt_service api path p" "\<lambda>path. dispatch_removed path ''org.bluez.GattService1''"
    api sd "''org.bluez.GattService1''" "any_props" for api sd
proof (unfold_locales, goal_cases)
  case (1 k p s s') then show ?case
    by (cases "contains (bc_gatt_services s) k"; clarsimp simp: add_defs keys_insert_absorb split: outcome.splits)
next
  case (2 k p s s') then show ?case by simp
qed (simp_all add: dispatch_added_own dispatch_added_other dispatch_removed_other skipped_interface_def frame_simps)

interpretation gatt_characteristics_set: announced_registry bc_gatt_characteristics kMaxGattCharacteristics "\<lambda>path p. add_gatt_characteristic api path p" "\<lambda>path. dispatch_removed path ''org.bluez.GattCharacteristic1''"
    api sd "''org.bluez.GattCharacteristic1''" "names_object api ''Service''" for api sd
proof (unfold_locales, goal_cases)
  case (1 k p s s') then show ?case
    by (cases "contains (bc_gatt_characteristics s) k"; clarsimp simp: add_defs keys_insert_absorb getProperty_path Let_def frame_simps split_beta
        split: outcome.splits)
next
  case (2 k p s s') then show ?case
    by (auto simp: add_defs getProperty_path Let_def frame_simps split_beta)
qed (simp_all add: dispatch_added_own dispatch_added_other dispatch_removed_other skipped_interface_def frame_simps)

interpretation gatt_descriptors_set: announced_registry bc_gatt_descriptors kMaxGattDescriptors "\<lambda>path p. add_gatt_descriptor api path p" "\<lambda>path. dispatch_removed path ''org.bluez.GattDescriptor1''"
    api sd "''org.bluez.GattDescriptor1''" "names_object api ''Characteristic''" for api sd
proof (unfold_locales, goal_cases)
  case (1 k p s s') then show ?case
    by (cases "contains (bc_gatt_descriptors s) k"; clarsimp simp: add_defs keys_insert_absorb getProperty_path Let_def frame_simps split_beta
        split: outcome.splits)
next
  case (2 k p s s') then show ?case
    by (auto simp: add_defs getProperty_path Let_def frame_simps split_beta)
qed (simp_all add: dispatch_added_own dispatch_added_other dispatch_removed_other skipped_interface_def frame_simps)

interpretation battery_set: announced_registry bc_battery1 kMaxBatteryEntries "\<lambda>path p. add_battery path" "\<lambda>path. dispatch_removed path ''org.bluez.Battery1''"
    api sd "''org.bluez.Battery1''" "any_props" for api sd
proof (unfold_locales, goal_cases)
  case (1 k p s s') then show ?case
    by (cases "contains (bc_battery1 s) k"; clarsimp simp: add_defs keys_insert_absorb split: outcome.splits)
next
  case (2 k p s s') then show ?case by simp
qed (simp_all add: dispatch_added_own dispatch_added_other dispatch_removed_other skipped_interface_def frame_simps)

interpretation input_set: announced_registry bc_input1 kMaxInputEntries "\<lambda>path p. add_input path" "\<lambda>path. dispatch_removed path ''org.bluez.Input1''"
    api sd "''org.bluez.Input1''" "any_props" for api sd
proof (unfold_locales, goal_cases)
  case (1 k p s s') then show ?case
    by (cases "contains (bc_input1 s) k"; clarsimp simp: add_defs keys_insert_absorb split: outcome.splits)
next
  case (2 k p s s') then show ?case by simp
qed (simp_all add: dispatch_added_own dispatch_added_other dispatch_removed_other skipped_interface_def frame_simps)

text \<open>
  C25: As long as no handler throws and the announced paths fit the caps, the keys of all seven
  registries are at every moment exactly the paths announced with the interface and not removed
  since; of the characteristics and descriptors those announced with a readable path of their
  service or characteristic: others are skipped.
\<close>

theorem bluez_registries_refine_announcements:
  assumes "all_complete api sd events s" and "registries_within s"
  shows "(fits any_props ''org.bluez.Adapter1'' kMaxAdapters events (keys (bc_adapters s)) \<longrightarrow>
        keys (bc_adapters (bluez_run api sd events s)) = fold (announced_step any_props ''org.bluez.Adapter1'') events (keys (bc_adapters s))) \<and>
     (fits any_props ''org.bluez.Device1'' kMaxDevices events (keys (bc_devices s)) \<longrightarrow>
        keys (bc_devices (bluez_run api sd events s)) = fold (announced_step any_props ''org.bluez.Device1'') events (keys (bc_devices s))) \<and>
     (fits any_props ''org.bluez.GattService1'' kMaxGattServices events (keys (bc_gatt_services s)) \<longrightarrow>
        keys (bc_gatt_services (bluez_run api sd events s)) = fold (announced_step any_props ''org.bluez.GattService1'') events (keys (bc_gatt_services s))) \<and>
     (fits (names_object api ''Service'') ''org.bluez.GattCharacteristic1'' kMaxGattCharacteristics events (keys (bc_gatt_characteristics s)) \<longrightarrow>
        keys (bc_gatt_characteristics (bluez_run api sd events s)) = fold (announced_step (names_object api ''Service'') ''org.bluez.GattCharacteristic1'') events (keys (bc_gatt_characteristics s))) \<and>
     (fits (names_object api ''Characteristic'') ''org.bluez.GattDescriptor1'' kMaxGattDescriptors events (keys (bc_gatt_descriptors s)) \<longrightarrow>
        keys (bc_gatt_descriptors (bluez_run api sd events s)) = fold (announced_step (names_object api ''Characteristic'') ''org.bluez.GattDescriptor1'') events (keys (bc_gatt_descriptors s))) \<and>
     (fits any_props ''org.bluez.Battery1'' kMaxBatteryEntries events (keys (bc_battery1 s)) \<longrightarrow>
        keys (bc_battery1 (bluez_run api sd events s)) = fold (announced_step any_props ''org.bluez.Battery1'') events (keys (bc_battery1 s))) \<and>
     (fits any_props ''org.bluez.Input1'' kMaxInputEntries events (keys (bc_input1 s)) \<longrightarrow>
        keys (bc_input1 (bluez_run api sd events s)) = fold (announced_step any_props ''org.bluez.Input1'') events (keys (bc_input1 s)))"
  using assms unfolding registries_within_def
  by (intro conjI impI adapters_set.run_refines devices_set.run_refines gatt_services_set.run_refines gatt_characteristics_set.run_refines gatt_descriptors_set.run_refines battery_set.run_refines input_set.run_refines) auto

text \<open>
  Removing an interface undoes its announcement: for each of the seven kinds of objects, a
  path that was not registered is not registered afterwards and the rest of the registry is as
  it was, even when the constructor threw, a property was missing or the registry was full.
\<close>

theorem bluez_add_remove_roundtrip:
  "(\<not> contains (bc_adapters s) path \<longrightarrow>
        bc_adapters (dispatch_removed path ''org.bluez.Adapter1'' (state_of (dispatch_added api sd path ''org.bluez.Adapter1'' p s))) = bc_adapters s) \<and>
     (\<not> contains (bc_devices s) path \<longrightarrow>
        bc_devices (dispatch_removed path ''org.bluez.Device1'' (state_of (dispatch_added api sd path ''org.bluez.Device1'' p s))) = bc_devices s) \<and>
     (\<not> contains (bc_gatt_services s) path \<longrightarrow>
        bc_gatt_services (dispatch_removed path ''org.bluez.GattService1'' (state_of (dispatch_added api sd path ''org.bluez.GattService1'' p s))) = bc_gatt_services s) \<and>
     (\<not> contains (bc_gatt_characteristics s) path \<longrightarrow>
        bc_gatt_characteristics (dispatch_removed path ''org.bluez.GattCharacteristic1'' (state_of (dispatch_added api sd path ''org.bluez.GattCharacteristic1'' p s))) = bc_gatt_characteristics s) \<and>
     (\<not> contains (bc_gatt_descriptors s) path \<longrightarrow>
        bc_gatt_descriptors (dispatch_removed path ''org.bluez.GattDescriptor1'' (state_of (dispatch_added api sd path ''org.bluez.GattDescriptor1'' p s))) = bc_gatt_descriptors s) \<and>
     (\<not> contains (bc_battery1 s) path \<longrightarrow>
        bc_battery1 (dispatch_removed path ''org.bluez.Battery1'' (state_of (dispatch_added api sd path ''org.bluez.Battery1'' p s))) = bc_battery1 s) \<and>
     (\<not> contains (bc_input1 s) path \<longrightarrow>
        bc_input1 (dispatch_removed path ''org.bluez.Input1'' (state_of (dispatch_added api sd path ''org.bluez.Input1'' p s))) = bc_input1 s)"
  by (simp add: dispatch_added_own adapters.remove_after_add
      devices.remove_after_add
      gatt_services.remove_after_add
      gatt_characteristics.remove_after_add
      gatt_descriptors.remove_after_add
      battery.remove_after_add
      input.remove_after_add)

theorem bluez_add_remove_roundtrip_witness:
  "bc_devices (dispatch_removed ''/d'' ''org.bluez.Device1'' (state_of
      (dispatch_added sample_api (\<lambda>_. None) ''/d'' ''org.bluez.Device1'' [(''Connected'', S_u32 1)]
        (bluez_client_init [])))) = []"
  using bluez_add_remove_roundtrip [of "bluez_client_init []" "''/d''" sample_api "\<lambda>_. None"
      "[(''Connected'', S_u32 1)]"]
  by (simp add: bluez_client_init_def contains_def)

theorem bluez_registries_refine_announcements_witness:
  "keys (bc_devices (bluez_run sample_api (\<lambda>_. None)
      [Added ''/d'' [(''org.bluez.Device1'', [])], Added ''/e'' [(''org.bluez.Device1'', [])],
       Removed ''/d'' [''org.bluez.Device1'']] (bluez_client_init []))) = {''/e''}"
proof -
  let ?es = "[Added ''/d'' [(''org.bluez.Device1'', [])], Added ''/e'' [(''org.bluez.Device1'', [])],
       Removed ''/d'' [''org.bluez.Device1'']] :: sample bluez_event list"
  have dev: "is_done (dispatch_added sample_api (\<lambda>_. None) p ''org.bluez.Device1'' [] s)" for p and s :: "sample bluez_client"
    by (simp add: dispatch_added_def add_device_def Device1_def device1_onPropertiesChanged_def)
  have "is_done (onInterfacesAdded sample_api (\<lambda>_. None) p [(''org.bluez.Device1'', [])] s)"
    for p and s :: "sample bluez_client"
    using dev [of p s]
    by (cases "dispatch_added sample_api (\<lambda>_. None) p ''org.bluez.Device1'' [] s")
      (simp_all add: onInterfacesAdded_def log_summary_def added_step_def skipped_interface_def
        append_properties_def)
  then have "all_complete sample_api (\<lambda>_. None) ?es s" for s by simp
  moreover have "registries_within (bluez_client_init [] :: sample bluez_client)"
    by (simp add: registries_within_def bluez_client_init_def)
  moreover have "fits any_props ''org.bluez.Device1'' kMaxDevices ?es (keys (bc_devices (bluez_client_init [] :: sample bluez_client)))"
    by (simp add: bluez_client_init_def kMaxDevices_def)
  ultimately show ?thesis
    using bluez_registries_refine_announcements [of sample_api "\<lambda>_. None" ?es "bluez_client_init []"]
    by (auto simp: bluez_client_init_def)
qed

end
