(* ===== verification/UPower.thy ===== *)
theory UPower
  imports Property_Utils
begin

text \<open>
  \<open>src/upower/upower_display_device.{h,cc}\<close> and \<open>src/upower/upower_client.h\<close>: a power device with
  its properties, and the client that keeps the devices the service reports, all of them or the
  one of its filter. The asynchronous replies are handlers of their own, run in any order with
  the signals; the error argument of a reply is its D-Bus error.
\<close>

section \<open>UPowerDisplayDevice\<close>

text \<open>Doubles are kept as their bit patterns.\<close>

record display_device = logged +
  dd_path :: string
  dd_battery_level :: u32
  dd_capacity :: u64
  dd_charge_cycles :: u32
  dd_charge_end_threshold :: u32
  dd_charge_start_threshold :: u32
  dd_charge_threshold_enabled :: bool
  dd_charge_threshold_supported :: bool
  dd_energy :: u64
  dd_energy_empty :: u64
  dd_energy_full :: u64
  dd_energy_full_design :: u64
  dd_energy_rate :: u64
  dd_has_history :: bool
  dd_has_statistics :: bool
  dd_icon_name :: string
  dd_is_present :: bool
  dd_is_rechargeable :: bool
  dd_luminosity :: u64
  dd_model :: string
  dd_native_path :: string
  dd_online :: bool
  dd_percentage :: u64
  dd_power_supply :: bool
  dd_serial :: string
  dd_state :: u32
  dd_technology :: u32
  dd_temperature :: u64
  dd_time_to_empty :: u64
  dd_time_to_full :: u64
  dd_type :: u32
  dd_update_time :: u64
  dd_vendor :: string
  dd_voltage :: u64
  dd_warning_level :: u32

definition display_device_step ::
    "'v variant_api \<Rightarrow> string \<times> 'v \<Rightarrow> display_device \<Rightarrow> display_device outcome" where
  "display_device_step api = (\<lambda>(key, value) s.
     if key = ''BatteryLevel'' then assign (va_u32 api value) (\<lambda>x s. s\<lparr>dd_battery_level := x\<rparr>) s
     else if key = ''Capacity'' then assign (va_double api value) (\<lambda>x s. s\<lparr>dd_capacity := x\<rparr>) s
     else if key = ''ChargeCycles'' then assign (va_i32 api value) (\<lambda>x s. s\<lparr>dd_charge_cycles := x\<rparr>) s
     else if key = ''ChargeEndThreshold'' then assign (va_u32 api value) (\<lambda>x s. s\<lparr>dd_charge_end_threshold := x\<rparr>) s
     else if key = ''ChargeStartThreshold'' then assign (va_u32 api value) (\<lambda>x s. s\<lparr>dd_charge_start_threshold := x\<rparr>) s
     else if key = ''ChargeThresholdEnabled'' then assign (va_bool api value) (\<lambda>x s. s\<lparr>dd_charge_threshold_enabled := x\<rparr>) s
     else if key = ''ChargeThresholdSupported'' then assign (va_bool api value) (\<lambda>x s. s\<lparr>dd_charge_threshold_supported := x\<rparr>) s
     else if key = ''Energy'' then assign (va_double api value) (\<lambda>x s. s\<lparr>dd_energy := x\<rparr>) s
     else if key = ''EnergyEmpty'' then assign (va_double api value) (\<lambda>x s. s\<lparr>dd_energy_empty := x\<rparr>) s
     else if key = ''EnergyFull'' then assign (va_double api value) (\<lambda>x s. s\<lparr>dd_energy_full := x\<rparr>) s
     else if key = ''EnergyFullDesign'' then assign (va_double api value) (\<lambda>x s. s\<lparr>dd_energy_full_design := x\<rparr>) s
     else if key = ''EnergyRate'' then assign (va_double api value) (\<lambda>x s. s\<lparr>dd_energy_rate := x\<rparr>) s
     else if key = ''HasHistory'' then assign (va_bool api value) (\<lambda>x s. s\<lparr>dd_has_history := x\<rparr>) s
     else if key = ''HasStatistics'' then assign (va_bool api value) (\<lambda>x s. s\<lparr>dd_has_statistics := x\<rparr>) s
     else if key = ''IconName'' then assign (va_string api value) (\<lambda>x s. s\<lparr>dd_icon_name := x\<rparr>) s
     else if key = ''IsPresent'' then assign (va_bool api value) (\<lambda>x s. s\<lparr>dd_is_present := x\<rparr>) s
     else if key = ''IsRechargeable'' then assign (va_bool api value) (\<lambda>x s. s\<lparr>dd_is_rechargeable := x\<rparr>) s
     else if key = ''Luminosity'' then assign (va_double api value) (\<lambda>x s. s\<lparr>dd_luminosity := x\<rparr>) s
     else if key = ''Model'' then assign (va_string api value) (\<lambda>x s. s\<lparr>dd_model := x\<rparr>) s
     else if key = ''NativePath'' then assign (va_string api value) (\<lambda>x s. s\<lparr>dd_native_path := x\<rparr>) s
     else if key = ''Online'' then assign (va_bool api value) (\<lambda>x s. s\<lparr>dd_online := x\<rparr>) s
     else if key = ''Percentage'' then assign (va_double api value) (\<lambda>x s. s\<lparr>dd_percentage := x\<rparr>) s
     else if key = ''PowerSupply'' then assign (va_bool api value) (\<lambda>x s. s\<lparr>dd_power_supply := x\<rparr>) s
     else if key = ''Serial'' then assign (va_string api value) (\<lambda>x s. s\<lparr>dd_serial := x\<rparr>) s
     else if key = ''State'' then assign (va_u32 api value) (\<lambda>x s. s\<lparr>dd_state := x\<rparr>) s
     else if key = ''Technology'' then assign (va_u32 api value) (\<lambda>x s. s\<lparr>dd_technology := x\<rparr>) s
     else if key = ''Temperature'' then assign (va_double api value) (\<lambda>x s. s\<lparr>dd_temperature := x\<rparr>) s
     else if key = ''TimeToEmpty'' then assign (va_i64 api value) (\<lambda>x s. s\<lparr>dd_time_to_empty := x\<rparr>) s
     else if key = ''TimeToFull'' then assign (va_i64 api value) (\<lambda>x s. s\<lparr>dd_time_to_full := x\<rparr>) s
     else if key = ''Type'' then assign (va_u32 api value) (\<lambda>x s. s\<lparr>dd_type := x\<rparr>) s
     else if key = ''UpdateTime'' then assign (va_u64 api value) (\<lambda>x s. s\<lparr>dd_update_time := x\<rparr>) s
     else if key = ''Vendor'' then assign (va_string api value) (\<lambda>x s. s\<lparr>dd_vendor := x\<rparr>) s
     else if key = ''Voltage'' then assign (va_double api value) (\<lambda>x s. s\<lparr>dd_voltage := x\<rparr>) s
     else if key = ''WarningLevel'' then assign (va_u32 api value) (\<lambda>x s. s\<lparr>dd_warning_level := x\<rparr>) s
     else Done s)"

definition display_device_onPropertiesChanged ::
    "'v variant_api \<Rightarrow> string \<Rightarrow> 'v props \<Rightarrow> string list \<Rightarrow> display_device \<Rightarrow> display_device outcome" where
  "display_device_onPropertiesChanged api interfaceName changedProperties invalidatedProperties s =
     seq (for_each (display_device_step api) changedProperties s)
       (print_changed_properties api interfaceName changedProperties invalidatedProperties)"

definition display_device_init :: "log_entry list \<Rightarrow> string \<Rightarrow> display_device" where
  "display_device_init lg path =
     \<lparr>log_of = lg, dd_path = path,
      dd_battery_level = 0, dd_capacity = 0, dd_charge_cycles = 0, dd_charge_end_threshold = 0,
      dd_charge_start_threshold = 0, dd_charge_threshold_enabled = False,
      dd_charge_threshold_supported = False, dd_energy = 0, dd_energy_empty = 0, dd_energy_full =
      0, dd_energy_full_design = 0, dd_energy_rate = 0, dd_has_history = False, dd_has_statistics
      = False, dd_icon_name = [], dd_is_present = False, dd_is_rechargeable = False, dd_luminosity
      = 0, dd_model = [], dd_native_path = [], dd_online = False, dd_percentage = 0,
      dd_power_supply = False, dd_serial = [], dd_state = 0, dd_technology = 0, dd_temperature =
      0, dd_time_to_empty = 0, dd_time_to_full = 0, dd_type = 0, dd_update_time = 0, dd_vendor =
      [], dd_voltage = 0, dd_warning_level = 0\<rparr>"

text \<open>The reply to the \<open>GetAll\<close> call that the constructor starts.\<close>

definition display_device_reply ::
    "'v variant_api \<Rightarrow> (string \<times> string) option \<Rightarrow> 'v props \<Rightarrow> display_device \<Rightarrow> display_device outcome" where
  "display_device_reply api error properties s =
     (case error of
        Some (name, msg) \<Rightarrow> Done (log_msg Err ''UPowerDisplayDevice GetAll failed: {} - {}'' [LStr name, LStr msg] s)
      | None \<Rightarrow> catch_dbus
          (display_device_onPropertiesChanged api ''org.freedesktop.UPower.Device'' properties [] s)
          (\<lambda>e. log_msg Err ''UPowerDisplayDevice property parse failed: {}'' [LStr (exn_what e)]))"

section \<open>UPowerClient\<close>

text \<open>A device is stored with an empty log: it logs to the log of the process.\<close>

record upower_client = logged +
  uc_filter :: string
  uc_devices :: "(string \<times> display_device) list"

definition upower_client_new :: "log_entry list \<Rightarrow> string \<Rightarrow> upower_client" where
  "upower_client_new lg device_filter = \<lparr>log_of = lg, uc_filter = device_filter, uc_devices = []\<rparr>"

definition passes_filter :: "string \<Rightarrow> string \<Rightarrow> bool" where
  "passes_filter device_filter device \<longleftrightarrow> device_filter = [] \<or> device_filter = device"

definition onDeviceAdded :: "string \<Rightarrow> upower_client \<Rightarrow> upower_client" where
  "onDeviceAdded device s =
     (if passes_filter (uc_filter s) device
      then (let s = log_msg Info ''onDeviceAdded: {}'' [LStr device] s
            in if contains (uc_devices s) device then s
               else s\<lparr>uc_devices := AList.update device (display_device_init [] device) (uc_devices s)\<rparr>)
      else s)"

definition onDeviceRemoved :: "string \<Rightarrow> upower_client \<Rightarrow> upower_client" where
  "onDeviceRemoved device s =
     (if passes_filter (uc_filter s) device
      then (let s = log_msg Info ''onDeviceRemoved: {}'' [LStr device] s
            in if contains (uc_devices s) device
               then s\<lparr>uc_devices := AList.delete device (uc_devices s)\<rparr> else s)
      else s)"

definition upower_onPropertiesChanged ::
    "'v variant_api \<Rightarrow> string \<Rightarrow> 'v props \<Rightarrow> string list \<Rightarrow> upower_client \<Rightarrow> upower_client outcome" where
  "upower_onPropertiesChanged api interfaceName changedProperties invalidatedProperties s =
     print_changed_properties api interfaceName changedProperties invalidatedProperties
       (log_msg Info ''onPropertiesChanged: {}'' [LStr interfaceName] s)"

definition upower_get_all_reply ::
    "'v variant_api \<Rightarrow> (string \<times> string) option \<Rightarrow> 'v props \<Rightarrow> upower_client \<Rightarrow> upower_client outcome" where
  "upower_get_all_reply api error properties s =
     (case error of
        Some (name, msg) \<Rightarrow> Done (log_msg Err ''UPower GetAll failed: {} - {}'' [LStr name, LStr msg] s)
      | None \<Rightarrow> catch_dbus (upower_onPropertiesChanged api ''org.freedesktop.UPower'' properties [] s)
          (\<lambda>e. log_msg Err ''UPower property parse failed: {}'' [LStr (exn_what e)]))"

definition upower_enumerate_reply ::
    "(string \<times> string) option \<Rightarrow> string list \<Rightarrow> upower_client \<Rightarrow> upower_client" where
  "upower_enumerate_reply error devices s =
     (case error of
        Some (name, msg) \<Rightarrow> log_msg Err ''UPower EnumerateDevices failed: {} - {}'' [LStr name, LStr msg] s
      | None \<Rightarrow> fold onDeviceAdded devices s)"

text \<open>Destruction resets every device; the entries are destroyed with the map.\<close>

definition upower_client_destroy :: "upower_client \<Rightarrow> upower_client" where
  "upower_client_destroy s = s\<lparr>uc_devices := []\<rparr>"

text \<open>What reaches a client after its construction, in any order.\<close>

datatype 'v upower_event =
    UE_Get_All "(string \<times> string) option" "'v props"
  | UE_Enumerate "(string \<times> string) option" "string list"
  | UE_Added string
  | UE_Removed string
  | UE_Properties string "'v props" "string list"
  | UE_Device_Reply string "(string \<times> string) option" "'v props"
  | UE_Device_Properties string string "'v props" "string list"

text \<open>A handler of a registered device runs on the log of the client.\<close>

definition on_device ::
    "string \<Rightarrow> (display_device \<Rightarrow> display_device outcome) \<Rightarrow> upower_client \<Rightarrow> upower_client outcome" where
  "on_device path f s =
     (case map_of (uc_devices s) path of
        None \<Rightarrow> Done s
      | Some d \<Rightarrow>
          (let r = f (d\<lparr>log_of := log_of s\<rparr>); d' = state_of r;
               s' = s\<lparr>log_of := log_of d', uc_devices := AList.update path (d'\<lparr>log_of := []\<rparr>) (uc_devices s)\<rparr>
           in case r of Done _ \<Rightarrow> Done s' | Throw e _ \<Rightarrow> Throw e s'))"

fun upower_step :: "'v variant_api \<Rightarrow> 'v upower_event \<Rightarrow> upower_client \<Rightarrow> upower_client outcome" where
  "upower_step api (UE_Get_All error props) s = upower_get_all_reply api error props s"
| "upower_step api (UE_Enumerate error devices) s = Done (upower_enumerate_reply error devices s)"
| "upower_step api (UE_Added device) s = Done (onDeviceAdded device s)"
| "upower_step api (UE_Removed device) s = Done (onDeviceRemoved device s)"
| "upower_step api (UE_Properties iface changed invalidated) s =
     upower_onPropertiesChanged api iface changed invalidated s"
| "upower_step api (UE_Device_Reply path error props) s = on_device path (display_device_reply api error props) s"
| "upower_step api (UE_Device_Properties path iface changed invalidated) s =
     on_device path (display_device_onPropertiesChanged api iface changed invalidated) s"

definition upower_run :: "'v variant_api \<Rightarrow> 'v upower_event list \<Rightarrow> upower_client \<Rightarrow> upower_client" where
  "upower_run api events s = fold (\<lambda>e s. state_of (upower_step api e s)) events s"

end
