(* ===== verification/UPower_Laws.thy ===== *)
theory UPower_Laws
  imports UPower
begin

text \<open>
  A power device tracks its thirty-four properties, the devices of a client refine the set of
  announced paths that pass its filter, and a reply with a mistyped property does not throw.
\<close>

section \<open>Devices\<close>

interpretation dd_battery_level: keyed_update "display_device_step api" dd_battery_level "''BatteryLevel''" "va_u32 api" for api
proof (unfold_locales, goal_cases)
  case (1 v s s') then show ?case by (auto simp: display_device_step_def assign_Done_iff)
next
  case (2 k s v) then show ?case
    unfolding display_device_step_def prod.case by (intro keeps_intros; simp)
qed

interpretation dd_capacity: keyed_update "display_device_step api" dd_capacity "''Capacity''" "va_double api" for api
proof (unfold_locales, goal_cases)
  case (1 v s s') then show ?case by (auto simp: display_device_step_def assign_Done_iff)
next
  case (2 k s v) then show ?case
    unfolding display_device_step_def prod.case by (intro keeps_intros; simp)
qed

interpretation dd_charge_cycles: keyed_update "display_device_step api" dd_charge_cycles "''ChargeCycles''" "va_i32 api" for api
proof (unfold_locales, goal_cases)
  case (1 v s s') then show ?case by (auto simp: display_device_step_def assign_Done_iff)
next
  case (2 k s v) then show ?case
    unfolding display_device_step_def prod.case by (intro keeps_intros; simp)
qed

interpretation dd_charge_end_threshold: keyed_update "display_device_step api" dd_charge_end_threshold "''ChargeEndThreshold''" "va_u32 api" for api
proof (unfold_locales, goal_cases)
  case (1 v s s') then show ?case by (auto simp: display_device_step_def assign_Done_iff)
next
  case (2 k s v) then show ?case
    unfolding display_device_step_def prod.case by (intro keeps_intros; simp)
qed

interpretation dd_charge_start_threshold: keyed_update "display_device_step api" dd_charge_start_threshold "''ChargeStartThreshold''" "va_u32 api" for api
proof (unfold_locales, goal_cases)
  case (1 v s s') then show ?case by (auto simp: display_device_step_def assign_Done_iff)
next
  case (2 k s v) then show ?case
    unfolding display_device_step_def prod.case by (intro keeps_intros; simp)
qed

interpretation dd_charge_threshold_enabled: keyed_update "display_device_step api" dd_charge_threshold_enabled "''ChargeThresholdEnabled''" "va_bool api" for api
proof (unfold_locales, goal_cases)
  case (1 v s s') then show ?case by (auto simp: display_device_step_def assign_Done_iff)
next
  case (2 k s v) then show ?case
    unfolding display_device_step_def prod.case by (intro keeps_intros; simp)
qed

interpretation dd_charge_threshold_supported: keyed_update "display_device_step api" dd_charge_threshold_supported "''ChargeThresholdSupported''" "va_bool api" for api
proof (unfold_locales, goal_cases)
  case (1 v s s') then show ?case by (auto simp: display_device_step_def assign_Done_iff)
next
  case (2 k s v) then show ?case
    unfolding display_device_step_def prod.case by (intro keeps_intros; simp)
qed

interpretation dd_energy: keyed_update "display_device_step api" dd_energy "''Energy''" "va_double api" for api
proof (unfold_locales, goal_cases)
  case (1 v s s') then show ?case by (auto simp: display_device_step_def assign_Done_iff)
next
  case (2 k s v) then show ?case
    unfolding display_device_step_def prod.case by (intro keeps_intros; simp)
qed

interpretation dd_energy_empty: keyed_update "display_device_step api" dd_energy_empty "''EnergyEmpty''" "va_double api" for api
proof (unfold_locales, goal_cases)
  case (1 v s s') then show ?case by (auto simp: display_device_step_def assign_Done_iff)
next
  case (2 k s v) then show ?case
    unfolding display_device_step_def prod.case by (intro keeps_intros; simp)
qed

interpretation dd_energy_full: keyed_update "display_device_step api" dd_energy_full "''EnergyFull''" "va_double api" for api
proof (unfold_locales, goal_cases)
  case (1 v s s') then show ?case by (auto simp: display_device_step_def assign_Done_iff)
next
  case (2 k s v) then show ?case
    unfolding display_device_step_def prod.case by (intro keeps_intros; simp)
qed

interpretation dd_energy_full_design: keyed_update "display_device_step api" dd_energy_full_design "''EnergyFullDesign''" "va_double api" for api
proof (unfold_locales, goal_cases)
  case (1 v s s') then show ?case by (auto simp: display_device_step_def assign_Done_iff)
next
  case (2 k s v) then show ?case
    unfolding display_device_step_def prod.case by (intro keeps_intros; simp)
qed

interpretation dd_energy_rate: keyed_update "display_device_step api" dd_energy_rate "''EnergyRate''" "va_double api" for api
proof (unfold_locales, goal_cases)
  case (1 v s s') then show ?case by (auto simp: display_device_step_def assign_Done_iff)
next
  case (2 k s v) then show ?case
    unfolding display_device_step_def prod.case by (intro keeps_intros; simp)
qed

interpretation dd_has_history: keyed_update "display_device_step api" dd_has_history "''HasHistory''" "va_bool api" for api
proof (unfold_locales, goal_cases)
  case (1 v s s') then show ?case by (auto simp: display_device_step_def assign_Done_iff)
next
  case (2 k s v) then show ?case
    unfolding display_device_step_def prod.case by (intro keeps_intros; simp)
qed

interpretation dd_has_statistics: keyed_update "display_device_step api" dd_has_statistics "''HasStatistics''" "va_bool api" for api
proof (unfold_locales, goal_cases)
  case (1 v s s') then show ?case by (auto simp: display_device_step_def assign_Done_iff)
next
  case (2 k s v) then show ?case
    unfolding display_device_step_def prod.case by (intro keeps_intros; simp)
qed

interpretation dd_icon_name: keyed_update "display_device_step api" dd_icon_name "''IconName''" "va_string api" for api
proof (unfold_locales, goal_cases)
  case (1 v s s') then show ?case by (auto simp: display_device_step_def assign_Done_iff)
next
  case (2 k s v) then show ?case
    unfolding display_device_step_def prod.case by (intro keeps_intros; simp)
qed

interpretation dd_is_present: keyed_update "display_device_step api" dd_is_present "''IsPresent''" "va_bool api" for api
proof (unfold_locales, goal_cases)
  case (1 v s s') then show ?case by (auto simp: display_device_step_def assign_Done_iff)
next
  case (2 k s v) then show ?case
    unfolding display_device_step_def prod.case by (intro keeps_intros; simp)
qed

interpretation dd_is_rechargeable: keyed_update "display_device_step api" dd_is_rechargeable "''IsRechargeable''" "va_bool api" for api
proof (unfold_locales, goal_cases)
  case (1 v s s') then show ?case by (auto simp: display_device_step_def assign_Done_iff)
next
  case (2 k s v) then show ?case
    unfolding display_device_step_def prod.case by (intro keeps_intros; simp)
qed

interpretation dd_luminosity: keyed_update "display_device_step api" dd_luminosity "''Luminosity''" "va_double api" for api
proof (unfold_locales, goal_cases)
  case (1 v s s') then show ?case by (auto simp: display_device_step_def assign_Done_iff)
next
  case (2 k s v) then show ?case
    unfolding display_device_step_def prod.case by (intro keeps_intros; simp)
qed

interpretation dd_model: keyed_update "display_device_step api" dd_model "''Model''" "va_string api" for api
proof (unfold_locales, goal_cases)
  case (1 v s s') then show ?case by (auto simp: display_device_step_def assign_Done_iff)
next
  case (2 k s v) then show ?case
    unfolding display_device_step_def prod.case by (intro keeps_intros; simp)
qed

interpretation dd_native_path: keyed_update "display_device_step api" dd_native_path "''NativePath''" "va_string api" for api
proof (unfold_locales, goal_cases)
  case (1 v s s') then show ?case by (auto simp: display_device_step_def assign_Done_iff)
next
  case (2 k s v) then show ?case
    unfolding display_device_step_def prod.case by (intro keeps_intros; simp)
qed

interpretation dd_online: keyed_update "display_device_step api" dd_online "''Online''" "va_bool api" for api
proof (unfold_locales, goal_cases)
  case (1 v s s') then show ?case by (auto simp: display_device_step_def assign_Done_iff)
next
  case (2 k s v) then show ?case
    unfolding display_device_step_def prod.case by (intro keeps_intros; simp)
qed

interpretation dd_percentage: keyed_update "display_device_step api" dd_percentage "''Percentage''" "va_double api" for api
proof (unfold_locales, goal_cases)
  case (1 v s s') then show ?case by (auto simp: display_device_step_def assign_Done_iff)
next
  case (2 k s v) then show ?case
    unfolding display_device_step_def prod.case by (intro keeps_intros; simp)
qed

interpretation dd_power_supply: keyed_update "display_device_step api" dd_power_supply "''PowerSupply''" "va_bool api" for api
proof (unfold_locales, goal_cases)
  case (1 v s s') then show ?case by (auto simp: display_device_step_def assign_Done_iff)
next
  case (2 k s v) then show ?case
    unfolding display_device_step_def prod.case by (intro keeps_intros; simp)
qed

interpretation dd_serial: keyed_update "display_device_step api" dd_serial "''Serial''" "va_string api" for api
proof (unfold_locales, goal_cases)
  case (1 v s s') then show ?case by (auto simp: display_device_step_def assign_Done_iff)
next
  case (2 k s v) then show ?case
    unfolding display_device_step_def prod.case by (intro keeps_intros; simp)
qed

interpretation dd_state: keyed_update "display_device_step api" dd_state "''State''" "va_u32 api" for api
proof (unfold_locales, goal_cases)
  case (1 v s s') then show ?case by (auto simp: display_device_step_def assign_Done_iff)
next
  case (2 k s v) then show ?case
    unfolding display_device_step_def prod.case by (intro keeps_intros; simp)
qed

interpretation dd_technology: keyed_update "display_device_step api" dd_technology "''Technology''" "va_u32 api" for api
proof (unfold_locales, goal_cases)
  case (1 v s s') then show ?case by (auto simp: display_device_step_def assign_Done_iff)
next
  case (2 k s v) then show ?case
    unfolding display_device_step_def prod.case by (intro keeps_intros; simp)
qed

interpretation dd_temperature: keyed_update "display_device_step api" dd_temperature "''Temperature''" "va_double api" for api
proof (unfold_locales, goal_cases)
  case (1 v s s') then show ?case by (auto simp: display_device_step_def assign_Done_iff)
next
  case (2 k s v) then show ?case
    unfolding display_device_step_def prod.case by (intro keeps_intros; simp)
qed

interpretation dd_time_to_empty: keyed_update "display_device_step api" dd_time_to_empty "''TimeToEmpty''" "va_i64 api" for api
proof (unfold_locales, goal_cases)
  case (1 v s s') then show ?case by (auto simp: display_device_step_def assign_Done_iff)
next
  case (2 k s v) then show ?case
    unfolding display_device_step_def prod.case by (intro keeps_intros; simp)
qed

interpretation dd_time_to_full: keyed_update "display_device_step api" dd_time_to_full "''TimeToFull''" "va_i64 api" for api
proof (unfold_locales, goal_cases)
  case (1 v s s') then show ?case by (auto simp: display_device_step_def assign_Done_iff)
next
  case (2 k s v) then show ?case
    unfolding display_device_step_def prod.case by (intro keeps_intros; simp)
qed

interpretation dd_type: keyed_update "display_device_step api" dd_type "''Type''" "va_u32 api" for api
proof (unfold_locales, goal_cases)
  case (1 v s s') then show ?case by (auto simp: display_device_step_def assign_Done_iff)
next
  case (2 k s v) then show ?case
    unfolding display_device_step_def prod.case by (intro keeps_intros; simp)
qed

interpretation dd_update_time: keyed_update "display_device_step api" dd_update_time "''UpdateTime''" "va_u64 api" for api
proof (unfold_locales, goal_cases)
  case (1 v s s') then show ?case by (auto simp: display_device_step_def assign_Done_iff)
next
  case (2 k s v) then show ?case
    unfolding display_device_step_def prod.case by (intro keeps_intros; simp)
qed

interpretation dd_vendor: keyed_update "display_device_step api" dd_vendor "''Vendor''" "va_string api" for api
proof (unfold_locales, goal_cases)
  case (1 v s s') then show ?case by (auto simp: display_device_step_def assign_Done_iff)
next
  case (2 k s v) then show ?case
    unfolding display_device_step_def prod.case by (intro keeps_intros; simp)
qed

interpretation dd_voltage: keyed_update "display_device_step api" dd_voltage "''Voltage''" "va_double api" for api
proof (unfold_locales, goal_cases)
  case (1 v s s') then show ?case by (auto simp: display_device_step_def assign_Done_iff)
next
  case (2 k s v) then show ?case
    unfolding display_device_step_def prod.case by (intro keeps_intros; simp)
qed

interpretation dd_warning_level: keyed_update "display_device_step api" dd_warning_level "''WarningLevel''" "va_u32 api" for api
proof (unfold_locales, goal_cases)
  case (1 v s s') then show ?case by (auto simp: display_device_step_def assign_Done_iff)
next
  case (2 k s v) then show ?case
    unfolding display_device_step_def prod.case by (intro keeps_intros; simp)
qed

lemma display_device_log_frame [frame_simps]:
  "dd_battery_level (log_msg l fmt args s) = dd_battery_level s"
  "dd_capacity (log_msg l fmt args s) = dd_capacity s"
  "dd_charge_cycles (log_msg l fmt args s) = dd_charge_cycles s"
  "dd_charge_end_threshold (log_msg l fmt args s) = dd_charge_end_threshold s"
  "dd_charge_start_threshold (log_msg l fmt args s) = dd_charge_start_threshold s"
  "dd_charge_threshold_enabled (log_msg l fmt args s) = dd_charge_threshold_enabled s"
  "dd_charge_threshold_supported (log_msg l fmt args s) = dd_charge_threshold_supported s"
  "dd_energy (log_msg l fmt args s) = dd_energy s"
  "dd_energy_empty (log_msg l fmt args s) = dd_energy_empty s"
  "dd_energy_full (log_msg l fmt args s) = dd_energy_full s"
  "dd_energy_full_design (log_msg l fmt args s) = dd_energy_full_design s"
  "dd_energy_rate (log_msg l fmt args s) = dd_energy_rate s"
  "dd_has_history (log_msg l fmt args s) = dd_has_history s"
  "dd_has_statistics (log_msg l fmt args s) = dd_has_statistics s"
  "dd_icon_name (log_msg l fmt args s) = dd_icon_name s"
  "dd_is_present (log_msg l fmt args s) = dd_is_present s"
  "dd_is_rechargeable (log_msg l fmt args s) = dd_is_rechargeable s"
  "dd_luminosity (log_msg l fmt args s) = dd_luminosity s"
  "dd_model (log_msg l fmt args s) = dd_model s"
  "dd_native_path (log_msg l fmt args s) = dd_native_path s"
  "dd_online (log_msg l fmt args s) = dd_online s"
  "dd_percentage (log_msg l fmt args s) = dd_percentage s"
  "dd_power_supply (log_msg l fmt args s) = dd_power_supply s"
  "dd_serial (log_msg l fmt args s) = dd_serial s"
  "dd_state (log_msg l fmt args s) = dd_state s"
  "dd_technology (log_msg l fmt args s) = dd_technology s"
  "dd_temperature (log_msg l fmt args s) = dd_temperature s"
  "dd_time_to_empty (log_msg l fmt args s) = dd_time_to_empty s"
  "dd_time_to_full (log_msg l fmt args s) = dd_time_to_full s"
  "dd_type (log_msg l fmt args s) = dd_type s"
  "dd_update_time (log_msg l fmt args s) = dd_update_time s"
  "dd_vendor (log_msg l fmt args s) = dd_vendor s"
  "dd_voltage (log_msg l fmt args s) = dd_voltage s"
  "dd_warning_level (log_msg l fmt args s) = dd_warning_level s"
  by (simp_all add: log_msg_def)

text \<open>
  When a power device has taken over a change without an exception, each of its
  thirty-four properties holds the value the change has for its key, read at its type, or its
  old value when the change does not name it.
\<close>

theorem display_device_tracks_properties:
  assumes "wf_map changed"
    and "display_device_onPropertiesChanged api iface changed invalidated s = Done s'"
  shows "tracks ''BatteryLevel'' (va_u32 api) dd_battery_level changed s s' \<and>
     tracks ''Capacity'' (va_double api) dd_capacity changed s s' \<and>
     tracks ''ChargeCycles'' (va_i32 api) dd_charge_cycles changed s s' \<and>
     tracks ''ChargeEndThreshold'' (va_u32 api) dd_charge_end_threshold changed s s' \<and>
     tracks ''ChargeStartThreshold'' (va_u32 api) dd_charge_start_threshold changed s s' \<and>
     tracks ''ChargeThresholdEnabled'' (va_bool api) dd_charge_threshold_enabled changed s s' \<and>
     tracks ''ChargeThresholdSupported'' (va_bool api) dd_charge_threshold_supported changed s s' \<and>
     tracks ''Energy'' (va_double api) dd_energy changed s s' \<and>
     tracks ''EnergyEmpty'' (va_double api) dd_energy_empty changed s s' \<and>
     tracks ''EnergyFull'' (va_double api) dd_energy_full changed s s' \<and>
     tracks ''EnergyFullDesign'' (va_double api) dd_energy_full_design changed s s' \<and>
     tracks ''EnergyRate'' (va_double api) dd_energy_rate changed s s' \<and>
     tracks ''HasHistory'' (va_bool api) dd_has_history changed s s' \<and>
     tracks ''HasStatistics'' (va_bool api) dd_has_statistics changed s s' \<and>
     tracks ''IconName'' (va_string api) dd_icon_name changed s s' \<and>
     tracks ''IsPresent'' (va_bool api) dd_is_present changed s s' \<and>
     tracks ''IsRechargeable'' (va_bool api) dd_is_rechargeable changed s s' \<and>
     tracks ''Luminosity'' (va_double api) dd_luminosity changed s s' \<and>
     tracks ''Model'' (va_string api) dd_model changed s s' \<and>
     tracks ''NativePath'' (va_string api) dd_native_path changed s s' \<and>
     tracks ''Online'' (va_bool api) dd_online changed s s' \<and>
     tracks ''Percentage'' (va_double api) dd_percentage changed s s' \<and>
     tracks ''PowerSupply'' (va_bool api) dd_power_supply changed s s' \<and>
     tracks ''Serial'' (va_string api) dd_serial changed s s' \<and>
     tracks ''State'' (va_u32 api) dd_state changed s s' \<and>
     tracks ''Technology'' (va_u32 api) dd_technology changed s s' \<and>
     tracks ''Temperature'' (va_double api) dd_temperature changed s s' \<and>
     tracks ''TimeToEmpty'' (va_i64 api) dd_time_to_empty changed s s' \<and>
     tracks ''TimeToFull'' (va_i64 api) dd_time_to_full changed s s' \<and>
     tracks ''Type'' (va_u32 api) dd_type changed s s' \<and>
     tracks ''UpdateTime'' (va_u64 api) dd_update_time changed s s' \<and>
     tracks ''Vendor'' (va_string api) dd_vendor changed s s' \<and>
     tracks ''Voltage'' (va_double api) dd_voltage changed s s' \<and>
     tracks ''WarningLevel'' (va_u32 api) dd_warning_level changed s s'"
proof -
  obtain t where run: "for_each (display_device_step api) changed s = Done t"
      and pr: "print_changed_properties api iface changed invalidated t = Done s'"
    using assms(2) by (cases "for_each (display_device_step api) changed s")
      (auto simp: display_device_onPropertiesChanged_def)
  obtain fmt args where s': "s' = log_msg Info fmt args t"
    using pr by (auto simp: print_changed_properties_def split: outcome.splits)
  show ?thesis
    unfolding tracks_def s' frame_simps
    by (intro conjI dd_battery_level.tracked [OF assms(1) run] dd_capacity.tracked [OF assms(1) run]
      dd_charge_cycles.tracked [OF assms(1) run] dd_charge_end_threshold.tracked [OF assms(1) run]
      dd_charge_start_threshold.tracked [OF assms(1) run] dd_charge_threshold_enabled.tracked [OF
      assms(1) run] dd_charge_threshold_supported.tracked [OF assms(1) run] dd_energy.tracked [OF
      assms(1) run] dd_energy_empty.tracked [OF assms(1) run] dd_energy_full.tracked [OF assms(1)
      run] dd_energy_full_design.tracked [OF assms(1) run] dd_energy_rate.tracked [OF assms(1) run]
      dd_has_history.tracked [OF assms(1) run] dd_has_statistics.tracked [OF assms(1) run]
      dd_icon_name.tracked [OF assms(1) run] dd_is_present.tracked [OF assms(1) run]
      dd_is_rechargeable.tracked [OF assms(1) run] dd_luminosity.tracked [OF assms(1) run]
      dd_model.tracked [OF assms(1) run] dd_native_path.tracked [OF assms(1) run] dd_online.tracked
      [OF assms(1) run] dd_percentage.tracked [OF assms(1) run] dd_power_supply.tracked [OF assms(1)
      run] dd_serial.tracked [OF assms(1) run] dd_state.tracked [OF assms(1) run]
      dd_technology.tracked [OF assms(1) run] dd_temperature.tracked [OF assms(1) run]
      dd_time_to_empty.tracked [OF assms(1) run] dd_time_to_full.tracked [OF assms(1) run]
      dd_type.tracked [OF assms(1) run] dd_update_time.tracked [OF assms(1) run] dd_vendor.tracked
      [OF assms(1) run] dd_voltage.tracked [OF assms(1) run] dd_warning_level.tracked [OF assms(1)
      run])
qed

theorem display_device_tracks_properties_witness:
  "\<exists>s'. display_device_onPropertiesChanged sample_api ''i'' [(''IsPresent'', S_bool True), (''Model'', S_str ''m'')] []
        (display_device_init [] ''/d'') = Done s' \<and> dd_is_present s' \<and> dd_model s' = ''m'' \<and> dd_serial s' = []"
proof -
  let ?changed = "[(''IsPresent'', S_bool True), (''Model'', S_str ''m'')]"
  let ?s = "display_device_init [] ''/d''"
  have n: "max_nesting = Suc 64" by (simp add: max_nesting_def)
  have "append_property max_nesting sample_api (S_bool True) os = show_b sample_api (S_bool True) (put ''[b] '' os)"
       "append_property max_nesting sample_api (S_str ''m'') os = show_s sample_api (S_str ''m'') (put ''[s] '' os)" for os
    unfolding n append_property.simps(2) Let_def by (simp_all add: type_map_def)
  then obtain s' where run: "display_device_onPropertiesChanged sample_api ''i'' ?changed [] ?s = Done s'"
    by (simp add: display_device_onPropertiesChanged_def display_device_step_def print_changed_properties_def
        changed_properties_text_def append_properties_def show_b_def show_s_def)
  have "wf_map ?changed" by (simp add: wf_map_def)
  note display_device_tracks_properties [OF this run]
  then have "dd_is_present s'" "dd_model s' = ''m''" "dd_serial s' = []"
    by (simp_all add: tracks_def display_device_init_def)
  with run show ?thesis by blast
qed

section \<open>Clients\<close>

text \<open>The abstract view: the announced paths that pass the filter.\<close>

fun upower_announced :: "string \<Rightarrow> 'v upower_event \<Rightarrow> string set \<Rightarrow> string set" where
  "upower_announced flt (UE_Enumerate None devices) S = S \<union> {d \<in> set devices. passes_filter flt d}"
| "upower_announced flt (UE_Added d) S = (if passes_filter flt d then insert d S else S)"
| "upower_announced flt (UE_Removed d) S = S - {d}"
| "upower_announced flt _ S = S"

definition upower_inv :: "string \<Rightarrow> upower_client \<Rightarrow> bool" where
  "upower_inv flt s \<longleftrightarrow> uc_filter s = flt \<and> wf_map (uc_devices s) \<and> keys (uc_devices s) \<subseteq> {d. passes_filter flt d}"

lemma upower_log_frame [frame_simps]:
  "uc_filter (log_msg l fmt args s) = uc_filter s" "uc_devices (log_msg l fmt args s) = uc_devices s"
  by (simp_all add: log_msg_def)

lemma upower_inv_log [simp]: "upower_inv flt (log_msg l fmt args s) = upower_inv flt s"
  by (simp add: upower_inv_def frame_simps)

lemma onDeviceAdded_refines:
  assumes "upower_inv flt s"
  shows "upower_inv flt (onDeviceAdded d s)
    \<and> keys (uc_devices (onDeviceAdded d s)) = (if passes_filter flt d then insert d (keys (uc_devices s)) else keys (uc_devices s))"
  using assms by (auto simp: onDeviceAdded_def upower_inv_def Let_def frame_simps contains_keys)

lemma onDeviceRemoved_refines:
  assumes "upower_inv flt s"
  shows "upower_inv flt (onDeviceRemoved d s) \<and> keys (uc_devices (onDeviceRemoved d s)) = keys (uc_devices s) - {d}"
  using assms
  by (cases "contains (uc_devices s) d")
    (auto simp: onDeviceRemoved_def upower_inv_def Let_def frame_simps contains_keys)

lemma enumerate_refines:
  "upower_inv flt s \<Longrightarrow> upower_inv flt (fold onDeviceAdded ds s)
     \<and> keys (uc_devices (fold onDeviceAdded ds s)) = keys (uc_devices s) \<union> {d \<in> set ds. passes_filter flt d}"
proof (induction ds arbitrary: s)
  case (Cons d ds)
  show ?case using Cons.IH [of "onDeviceAdded d s"] onDeviceAdded_refines [OF Cons.prems, of d] by auto
qed simp

lemma printed_frame:
  "uc_devices (state_of (print_changed_properties api i c v s)) = uc_devices s"
  "uc_filter (state_of (print_changed_properties api i c v s)) = uc_filter s"
  by (simp_all add: print_changed_properties_def frame_simps split: outcome.split)

lemma state_of_catch_dbus: "state_of (catch_dbus r h) = state_of r \<or> (\<exists>e. state_of (catch_dbus r h) = h e (state_of r))"
  by (cases r) auto

lemma get_all_frame: "uc_devices (state_of (upower_get_all_reply api error props s)) = uc_devices s
    \<and> uc_filter (state_of (upower_get_all_reply api error props s)) = uc_filter s"
proof (cases error)
  case None
  let ?r = "upower_onPropertiesChanged api ''org.freedesktop.UPower'' props [] s"
  have "uc_devices (state_of ?r) = uc_devices s \<and> uc_filter (state_of ?r) = uc_filter s"
    by (simp add: upower_onPropertiesChanged_def printed_frame frame_simps)
  with None show ?thesis by (cases ?r) (auto simp: upower_get_all_reply_def frame_simps)
qed (simp add: upower_get_all_reply_def frame_simps split: prod.split)

lemma on_device_refines:
  assumes "upower_inv flt s"
  shows "upower_inv flt (state_of (on_device path f s)) \<and> keys (uc_devices (state_of (on_device path f s))) = keys (uc_devices s)"
proof (cases "map_of (uc_devices s) path")
  case (Some d)
  have "path \<in> keys (uc_devices s)" using Some by (force dest: map_of_SomeD)
  with assms Some show ?thesis
    by (cases "f (d\<lparr>log_of := log_of s\<rparr>)") (auto simp: on_device_def upower_inv_def Let_def)
qed (use assms in \<open>simp add: on_device_def\<close>)

lemma upower_step_refines:
  assumes "upower_inv flt s"
  shows "upower_inv flt (state_of (upower_step api e s))
    \<and> keys (uc_devices (state_of (upower_step api e s))) = upower_announced flt e (keys (uc_devices s))"
proof (cases e)
  case (UE_Get_All error props)
  with assms get_all_frame [of api error props s] show ?thesis by (simp add: upower_inv_def)
next
  case (UE_Enumerate error devices)
  with assms enumerate_refines [OF assms, of devices] show ?thesis
    by (cases error) (auto simp: upower_enumerate_reply_def frame_simps)
next
  case (UE_Added d)
  with onDeviceAdded_refines [OF assms, of d] show ?thesis by simp
next
  case (UE_Removed d)
  with onDeviceRemoved_refines [OF assms, of d] show ?thesis by simp
next
  case (UE_Properties i c v)
  with assms show ?thesis
    by (simp add: upower_onPropertiesChanged_def upower_inv_def frame_simps printed_frame)
qed (use on_device_refines [OF assms] in simp_all)

text \<open>
  C28: Whatever replies and signals reach a power client, in whatever order and with whatever
  contents, the devices it keeps are exactly the announced ones that pass its filter and were
  not removed since, each once; with a filter that is at most the one device of the filter.
\<close>

theorem upower_devices_refine_announcements:
  "wf_map (uc_devices (upower_run api events (upower_client_new lg flt)))
   \<and> keys (uc_devices (upower_run api events (upower_client_new lg flt))) = fold (upower_announced flt) events {}
   \<and> (flt \<noteq> [] \<longrightarrow> keys (uc_devices (upower_run api events (upower_client_new lg flt))) \<subseteq> {flt})"
proof -
  have run: "upower_inv flt (upower_run api events s)
      \<and> keys (uc_devices (upower_run api events s)) = fold (upower_announced flt) events (keys (uc_devices s))"
    if "upower_inv flt s" for s
    using that unfolding upower_run_def
  proof (induction events arbitrary: s)
    case (Cons e events)
    show ?case using Cons.IH upower_step_refines [OF Cons.prems, of api e] by simp
  qed simp
  have "upower_inv flt (upower_client_new lg flt)" by (simp add: upower_inv_def upower_client_new_def)
  from run [OF this] show ?thesis
    by (auto simp: upower_inv_def upower_client_new_def passes_filter_def)
qed

theorem upower_devices_refine_announcements_witness:
  "keys (uc_devices (upower_run sample_api
      [UE_Enumerate None [''/a'', ''/b''], UE_Added ''/b'', UE_Removed ''/a''] (upower_client_new [] ''/b''))) = {''/b''}
   \<and> keys (uc_devices (upower_run sample_api [UE_Added ''/c''] (upower_client_new [] ''/b''))) \<subseteq> {''/b''}"
  using upower_devices_refine_announcements [of sample_api
      "[UE_Enumerate None [''/a'', ''/b''], UE_Added ''/b'', UE_Removed ''/a'']" "[]" "''/b''"]
    upower_devices_refine_announcements [of sample_api "[UE_Added ''/c'']" "[]" "''/b''"]
  by (auto simp: passes_filter_def)

end
