(* ===== verification/Controllers.thy ===== *)
theory Controllers
  imports Bluez_Client UPower Event_Loop Dual_Sense_Reader
begin

text \<open>
  \<open>src/bluez/udev_monitor.hpp\<close> and the three controller classes \<open>DualSense\<close>, \<open>XboxController\<close> and
  \<open>HoripadSteam\<close>: they watch the BlueZ object tree and the udev events of hidraw nodes, keep the
  registries of what they saw, and own at most one input reader, which they hand to the event
  loop and take back. The classes share their text; what differs (identifiers, udev matches,
  log lines, whether power clients are kept, the reader class) is a \<open>controller_class\<close>.
\<close>

section \<open>UdevMonitor\<close>

text \<open>
  The constructor, on the results of the libudev calls: the descriptor to poll (-1 when a step
  failed) and the log.
\<close>

definition UdevMonitor ::
    "bool \<Rightarrow> bool \<Rightarrow> (string \<Rightarrow> int) \<Rightarrow> int \<Rightarrow> string list \<Rightarrow> int \<times> log_entry list" where
  "UdevMonitor udev_new_ok monitor_new_ok add_match get_fd sub_systems =
     (if \<not> udev_new_ok then (-1, [Log Err ''Failed to create udev context'' []])
      else if \<not> monitor_new_ok then (-1, [Log Err ''Failed to create udev monitor'' []])
      else (get_fd, concat (map (\<lambda>sub_system.
              if add_match sub_system \<noteq> 0
              then [Log Err ''udev_monitor_filter_add_match_subsystem_devtype failed on {} = {}''
                      [LStr sub_system, LInt (add_match sub_system)]]
              else []) sub_systems)))"

text \<open>A queued device event: action, device node and subsystem, each possibly null.\<close>

type_synonym udev_event = "string option \<times> string option \<times> string option"

definition or_null :: "string option \<Rightarrow> larg" where
  "or_null x = LStr (case x of Some s \<Rightarrow> s | None \<Rightarrow> ''null'')"

definition udev_event_step ::
    "(string \<Rightarrow> string option \<Rightarrow> string \<Rightarrow> 'a logged_scheme \<Rightarrow> 'a logged_scheme) option \<Rightarrow>
     udev_event \<Rightarrow> 'a logged_scheme \<Rightarrow> 'a logged_scheme" where
  "udev_event_step callback = (\<lambda>(action, devnode, subsystem) s.
     case callback of
       None \<Rightarrow> s
     | Some f \<Rightarrow>
         (case (action, subsystem) of
            (Some a, Some sub) \<Rightarrow> f a devnode sub s
          | _ \<Rightarrow> log_msg Debug ''Skipping callback for device with missing properties: action={}, devnode={}, subsystem={}''
                  [or_null action, or_null devnode, or_null subsystem] s))"

text \<open>\<open>dispatch\<close> drains the events that are queued.\<close>

definition UdevMonitor_dispatch ::
    "(string \<Rightarrow> string option \<Rightarrow> string \<Rightarrow> 'a logged_scheme \<Rightarrow> 'a logged_scheme) option \<Rightarrow>
     udev_event list \<Rightarrow> 'a logged_scheme \<Rightarrow> 'a logged_scheme" where
  "UdevMonitor_dispatch callback queued s = fold (udev_event_step callback) queued s"

section \<open>The controller classes\<close>

record controller_class =
  cc_vendor :: string
  cc_products :: "string list"
  cc_match_bt :: "(string \<times> string) list"
  cc_match_usb :: "(string \<times> string) list"
  cc_log_candidates :: bool   \<comment> \<open>logs the identifiers before the check\<close>
  cc_log_matches :: bool      \<comment> \<open>logs the identifiers after the check\<close>
  cc_power :: bool            \<comment> \<open>keeps power clients\<close>
  cc_reader_valid :: "hid_kernel \<Rightarrow> string \<Rightarrow> bool"

definition quoted :: "string \<Rightarrow> string" where
  "quoted s = [dquote] @ s @ [dquote]"

definition DualSense :: controller_class where
  "DualSense =
     \<lparr>cc_vendor = ''054C'', cc_products = [''0CE6''],
      cc_match_bt = [(''ID_BUS'', ''bluetooth''), (''NAME'', quoted ''DualSense Wireless Controller''),
        (''PRODUCT'', ''5/54c/ce6/8100'')],
      cc_match_usb = [(''ID_BUS'', ''usb''), (''ID_MODEL'', ''DualSense_Wireless_Controller''),
        (''ID_VENDOR_ID'', ''054c''), (''ID_MODEL_ID'', ''0ce6''), (''TAGS'', '':seat:'')],
      cc_log_candidates = True, cc_log_matches = False, cc_power = True,
      cc_reader_valid = (\<lambda>k node. reader_valid (fst (dual_sense_reader_new k node)))\<rparr>"

definition XboxController :: controller_class where
  "XboxController =
     \<lparr>cc_vendor = ''045E'', cc_products = [''02FD'', ''0B13''],
      cc_match_bt = [(''ID_BUS'', ''bluetooth''), (''NAME'', quoted ''Xbox Wireless Controller''),
        (''TAGS'', '':seat:'')],
      cc_match_usb = [(''ID_BUS'', ''usb''), (''NAME'', quoted ''Xbox Wireless Controller''),
        (''ID_USB_VENDOR_ID'', ''045e''), (''ID_USB_MODEL_ID'', ''02ea''), (''TAGS'', '':seat:'')],
      cc_log_candidates = False, cc_log_matches = True, cc_power = True,
      cc_reader_valid = (\<lambda>k node. reader_valid (fst (xbox_reader_new k node)))\<rparr>"

definition HoripadSteam :: controller_class where
  "HoripadSteam =
     \<lparr>cc_vendor = ''0F0D'', cc_products = [''0196''],
      cc_match_bt = [(''ID_BUS'', ''bluetooth''), (''NAME'', quoted ''HORIPAD STEAM''), (''TAGS'', '':seat:'')],
      cc_match_usb = [(''ID_BUS'', ''usb''), (''ID_MODEL'', ''HORIPAD_STEAM''), (''ID_VENDOR_ID'', ''0f0d''),
        (''ID_MODEL_ID'', ''01ab''), (''TAGS'', '':seat:'')],
      cc_log_candidates = True, cc_log_matches = True, cc_power = False,
      cc_reader_valid = (\<lambda>k node. reader_valid (fst (horipad_reader_new k node)))\<rparr>"

text \<open>
  The state: the registries, the reader and what the controller asked the event loop for.
  Readers are numbered by \<open>ct_next\<close> in the order they are created, so a number stands for one
  object; \<open>ct_calls\<close> are the calls of \<open>add\<close> and \<open>retire\<close> as the loop records them.
\<close>

record 'v controller = hidraw +
  ct_adapters :: "(string \<times> adapter1) list"
  ct_devices :: "(string \<times> 'v device1) list"
  ct_input1 :: "(string \<times> string) list"
  ct_upower_clients :: "(string \<times> upower_client) list"
  ct_reader :: "source option"
  ct_next :: source
  ct_calls :: "event list"

definition controller_init :: "log_entry list \<Rightarrow> source \<Rightarrow> 'v controller" where
  "controller_init lg first_reader =
     \<lparr>log_of = lg, hw_devices = [], ct_adapters = [], ct_devices = [], ct_input1 = [],
      ct_upower_clients = [], ct_reader = None, ct_next = first_reader, ct_calls = []\<rparr>"

definition convert_mac_to_path :: "string \<Rightarrow> string" where
  "convert_mac_to_path mac_address =
     ''/org/freedesktop/UPower/devices/battery_ps_controller_battery_''
       @ map to_lower (replace_char (CHR '':'') (CHR ''o'') mac_address)"

section \<open>Readers\<close>

text \<open>\<open>loop_.retire(std::move(input_reader_))\<close> and the scan for hidraw nodes.\<close>

definition retire_reader :: "'v controller \<Rightarrow> 'v controller" where
  "retire_reader s =
     (case ct_reader s of
        None \<Rightarrow> s
      | Some p \<Rightarrow> s\<lparr>ct_reader := None, ct_calls := ct_calls s @ [Ev_Retire p]\<rparr>)"

definition rescan :: "controller_class \<Rightarrow> udev_api \<Rightarrow> 'v controller \<Rightarrow> 'v controller" where
  "rescan cc udev s =
     (let (found, s) = get_hidraw_devices udev (cc_match_bt cc) s
      in if found then s else snd (get_hidraw_devices udev (cc_match_usb cc) s))"

definition udev_callback ::
    "controller_class \<Rightarrow> udev_api \<Rightarrow> string \<Rightarrow> string option \<Rightarrow> string \<Rightarrow> 'v controller \<Rightarrow> 'v controller" where
  "udev_callback cc udev action dev_node sub_system s =
     (let s = log_msg Debug ''Action: {}, Device: {}, Subsystem: {}''
                [LStr action, LStr (case dev_node of Some n \<Rightarrow> n | None \<Rightarrow> []), LStr sub_system] s
      in if sub_system = ''hidraw''
         then rescan cc udev (if action = ''remove'' then retire_reader s else s)
         else s)"

definition attach_reader :: "controller_class \<Rightarrow> hid_kernel \<Rightarrow> string \<Rightarrow> 'v controller \<Rightarrow> 'v controller" where
  "attach_reader cc k hidraw_device_key s =
     (if hidraw_device_key = [] then s
      else let hidraw_device = FindHidDevice hidraw_device_key s
           in if hidraw_device = [] then s
              else let s = log_msg Info ''Adding hidraw device: {}'' [LStr hidraw_device_key] s
                   in if ct_reader s \<noteq> None then s
                      else if cc_reader_valid cc k hidraw_device
                        then s\<lparr>ct_reader := Some (ct_next s), ct_next := Suc (ct_next s),
                               ct_calls := ct_calls s @ [Ev_Add (ct_next s)]\<rparr>
                      else log_msg Err ''Failed to initialize hidraw reader: {}'' [LStr hidraw_device] s)"

section \<open>\<open>onInterfacesAdded\<close>\<close>

definition controller_add_adapter ::
    "'v variant_api \<Rightarrow> (string \<Rightarrow> exn option) \<Rightarrow> string \<Rightarrow> 'v props \<Rightarrow> 'v controller \<Rightarrow> 'v controller outcome" where
  "controller_add_adapter api sd path properties s =
     (if contains (ct_adapters s) path then Done s
      else if IsAtCapacity (length (ct_adapters s)) kMaxAdapters
        then Done (limit_warning ''Adapter1'' path (length (ct_adapters s)) kMaxAdapters s)
      else case Adapter1 api (sd path) path properties of
        Throw e _ \<Rightarrow> Throw e s
      | Done adapter \<Rightarrow> Done (s\<lparr>ct_adapters := AList.update path adapter (ct_adapters s)\<rparr>))"

definition controller_add_input :: "string \<Rightarrow> 'v controller \<Rightarrow> 'v controller" where
  "controller_add_input path s =
     (if contains (ct_input1 s) path then s
      else if IsAtCapacity (length (ct_input1 s)) kMaxInputEntries
        then limit_warning ''Input1'' path (length (ct_input1 s)) kMaxInputEntries s
      else s\<lparr>ct_input1 := AList.update path path (ct_input1 s)\<rparr>)"

text \<open>The check of the \<open>Modalias\<close> property: whether the device is one of the class.\<close>

definition wanted :: "controller_class \<Rightarrow> modalias \<Rightarrow> bool" where
  "wanted cc m \<longleftrightarrow> vid m = cc_vendor cc \<and> pid m \<in> set (cc_products cc)"

definition log_ids :: "bool \<Rightarrow> modalias \<Rightarrow> 'a logged_scheme \<Rightarrow> 'a logged_scheme" where
  "log_ids enabled m s =
     (if enabled then log_msg Debug ''VID: {}, PID: {}, DID: {}'' [LStr (vid m), LStr (pid m), LStr (did m)] s
      else s)"

definition check_modalias ::
    "controller_class \<Rightarrow> 'v variant_api \<Rightarrow> string \<Rightarrow> 'v props \<Rightarrow> 'v controller \<Rightarrow> bool \<times> 'v controller" where
  "check_modalias cc api path properties s =
     (let (mod_alias_str, lg) = getProperty (va_string api) properties ''Modalias''; s = add_logs lg s
      in case mod_alias_str of
           None \<Rightarrow> (False, s)
         | Some str \<Rightarrow>
             (let (mod_alias, lg) = parse_modalias str; s = add_logs lg s
              in case mod_alias of
                   None \<Rightarrow> (False, log_msg Debug ''modalias has no value assigned: {}'' [LStr path] s)
                 | Some m \<Rightarrow>
                     (let s = log_ids (cc_log_candidates cc) m s
                      in if wanted cc m then (True, log_ids (cc_log_matches cc) m s) else (False, s))))"

text \<open>The hidraw key and the power path a new device gives.\<close>

definition device_paths ::
    "controller_class \<Rightarrow> 'v device1 \<Rightarrow> 'v controller \<Rightarrow> string \<times> string \<times> 'v controller" where
  "device_paths cc d s =
     (case d1_modalias d of
        None \<Rightarrow> ([], [], s)
      | Some m \<Rightarrow>
          (let s = log_msg Info ''Adding: {}, {}, {}'' [LStr (vid m), LStr (pid m), LStr (did m)] s
           in if wanted cc m
              then (if d1_connected d \<and> d1_paired d \<and> d1_trusted d
                      then create_device_key_from_serial_number (d1_address d) else [],
                    if cc_power cc then convert_mac_to_path (d1_address d) else [], s)
              else ([], [], s)))"

definition add_power_client :: "string \<Rightarrow> 'v controller \<Rightarrow> 'v controller" where
  "add_power_client power_path s =
     (if power_path = [] \<or> contains (ct_upower_clients s) power_path then s
      else if IsAtCapacity (length (ct_upower_clients s)) kMaxUPowerClients
        then limit_warning ''UPower client'' power_path (length (ct_upower_clients s)) kMaxUPowerClients s
      else let s = log_msg Info ''[Add] UPower Display Device: {}'' [LStr power_path] s
           in s\<lparr>ct_upower_clients :=
                  AList.update power_path (upower_client_new [] power_path) (ct_upower_clients s)\<rparr>)"

definition controller_add_device ::
    "controller_class \<Rightarrow> 'v variant_api \<Rightarrow> hid_kernel \<Rightarrow> string \<Rightarrow> 'v props \<Rightarrow> 'v controller \<Rightarrow> 'v controller outcome" where
  "controller_add_device cc api k path properties s =
     (let (go, s) = check_modalias cc api path properties s
      in if \<not> go \<or> contains (ct_devices s) path then Done s
         else if IsAtCapacity (length (ct_devices s)) kMaxDevices
           then Done (limit_warning ''Device1'' path (length (ct_devices s)) kMaxDevices s)
         else case Device1 api (log_of s) path properties of
           Throw e device \<Rightarrow> Throw e (s\<lparr>log_of := log_of device\<rparr>)
         | Done device \<Rightarrow>
             (let (key, power_path, s) = device_paths cc device (s\<lparr>log_of := log_of device\<rparr>);
                  s = s\<lparr>ct_devices := AList.update path (device\<lparr>log_of := []\<rparr>) (ct_devices s)\<rparr>
              in Done (add_power_client power_path (attach_reader cc k key s))))"

definition controller_added_step ::
    "controller_class \<Rightarrow> 'v variant_api \<Rightarrow> (string \<Rightarrow> exn option) \<Rightarrow> hid_kernel \<Rightarrow> string \<Rightarrow>
     string \<times> 'v props \<Rightarrow> 'v controller \<Rightarrow> 'v controller outcome" where
  "controller_added_step cc api sd k path = (\<lambda>(iface, properties) s.
     if skipped_interface iface then Done s
     else if iface = ''org.bluez.Adapter1'' then controller_add_adapter api sd path properties s
     else if iface = ''org.bluez.Device1'' then controller_add_device cc api k path properties s
     else if iface = ''org.bluez.Input1'' then Done (controller_add_input path s)
     else Done s)"

definition controller_onInterfacesAdded ::
    "controller_class \<Rightarrow> 'v variant_api \<Rightarrow> (string \<Rightarrow> exn option) \<Rightarrow> hid_kernel \<Rightarrow> string \<Rightarrow>
     'v interfaces \<Rightarrow> 'v controller \<Rightarrow> 'v controller outcome" where
  "controller_onInterfacesAdded cc api sd k path ifaces = for_each (controller_added_step cc api sd k path) ifaces"

section \<open>\<open>onInterfacesRemoved\<close>\<close>

definition remove_power_client :: "string \<Rightarrow> 'v controller \<Rightarrow> 'v controller" where
  "remove_power_client power_path s =
     (if power_path = [] \<or> \<not> contains (ct_upower_clients s) power_path then s
      else let s = log_msg Info ''[Remove] UPower Display Device: {}'' [LStr power_path] s
           in s\<lparr>ct_upower_clients := AList.delete power_path (ct_upower_clients s)\<rparr>)"

definition controller_remove_device :: "controller_class \<Rightarrow> string \<Rightarrow> 'v controller \<Rightarrow> 'v controller" where
  "controller_remove_device cc path s =
     (case map_of (ct_devices s) path of
        None \<Rightarrow> s
      | Some d \<Rightarrow>
          (let drop_device = (\<lambda>s. s\<lparr>ct_devices := AList.delete path (ct_devices s)\<rparr>)
           in if \<not> cc_power cc then drop_device s
              else case d1_modalias d of
                None \<Rightarrow> drop_device s
              | Some m \<Rightarrow>
                  (let s = log_msg Info ''Removing: {}, {}, {}'' [LStr (vid m), LStr (pid m), LStr (did m)] s
                   in remove_power_client (if wanted cc m then convert_mac_to_path (d1_address d) else [])
                        (drop_device s))))"

definition controller_removed_step :: "controller_class \<Rightarrow> string \<Rightarrow> string \<Rightarrow> 'v controller \<Rightarrow> 'v controller" where
  "controller_removed_step cc path iface s =
     (if iface = ''org.bluez.Adapter1'' then s\<lparr>ct_adapters := erase_if_present path (ct_adapters s)\<rparr>
      else if iface = ''org.bluez.Device1'' then controller_remove_device cc path s
      else if iface = ''org.bluez.Input1'' then s\<lparr>ct_input1 := erase_if_present path (ct_input1 s)\<rparr>
      else s)"

definition controller_onInterfacesRemoved ::
    "controller_class \<Rightarrow> string \<Rightarrow> string list \<Rightarrow> 'v controller \<Rightarrow> 'v controller" where
  "controller_onInterfacesRemoved cc path ifaces s = fold (controller_removed_step cc path) ifaces s"

section \<open>Construction and runs\<close>

definition controller_new ::
    "controller_class \<Rightarrow> 'v variant_api \<Rightarrow> (string \<Rightarrow> exn option) \<Rightarrow> hid_kernel \<Rightarrow> udev_api \<Rightarrow>
     (string \<times> 'v interfaces) list \<Rightarrow> log_entry list \<Rightarrow> source \<Rightarrow> 'v controller outcome" where
  "controller_new cc api sd k udev managed_objects lg first_reader =
     for_each (\<lambda>(object, ifaces). controller_onInterfacesAdded cc api sd k object ifaces) managed_objects
       (rescan cc udev (controller_init lg first_reader))"

text \<open>
  What the loop delivers to a controller: the signals of the bus and the udev events. The
  kernel and udev may answer differently every time, so they come with the event.
\<close>

datatype 'v controller_event =
    CE_Added hid_kernel string "'v interfaces"
  | CE_Removed string "string list"
  | CE_Udev udev_api "udev_event list"

fun controller_step ::
    "controller_class \<Rightarrow> 'v variant_api \<Rightarrow> (string \<Rightarrow> exn option) \<Rightarrow> 'v controller_event \<Rightarrow>
     'v controller \<Rightarrow> 'v controller" where
  "controller_step cc api sd (CE_Added k path ifaces) s =
     state_of (controller_onInterfacesAdded cc api sd k path ifaces s)"
| "controller_step cc api sd (CE_Removed path ifaces) s = controller_onInterfacesRemoved cc path ifaces s"
| "controller_step cc api sd (CE_Udev udev queued) s =
     UdevMonitor_dispatch (Some (udev_callback cc udev)) queued s"

definition controller_run ::
    "controller_class \<Rightarrow> 'v variant_api \<Rightarrow> (string \<Rightarrow> exn option) \<Rightarrow> 'v controller_event list \<Rightarrow>
     'v controller \<Rightarrow> 'v controller" where
  "controller_run cc api sd events s = fold (controller_step cc api sd) events s"

end
