(* ===== verification/Controller_Laws.thy ===== *)
theory Controller_Laws
  imports Controllers Bluez_Registry
begin

text \<open>
  The laws of the controllers: they own at most one reader and follow the protocol of the event
  loop with it (so the loop never touches a destroyed reader), their registries stay within
  their caps, and a reader that was retired does not come back while its device is known.
\<close>

section \<open>Frame\<close>

text \<open>
  Logging and scanning only change the log and the table of hidraw nodes, that is, nothing of
  the part of the record a controller adds.
\<close>

lemma more_log [frame_simps]:
  "hidraw.more (log_msg l fmt args s) = hidraw.more s" "hidraw.more (add_logs es s) = hidraw.more s"
  "hidraw.more (limit_warning name path count limit s) = hidraw.more s"
  "hidraw.more (log_ids b m s) = hidraw.more s"
  by (simp_all add: log_msg_def add_logs_def limit_warning_def log_ids_def)

lemma more_associate: "hidraw.more (associate i h s) = hidraw.more s"
  by (cases i; cases h)
    (auto simp: associate_def Let_def frame_simps split: prod.split option.split)

lemma more_fold: "(\<And>x s. hidraw.more (f x s) = hidraw.more s) \<Longrightarrow> hidraw.more (fold f xs s) = hidraw.more s"
  by (induction xs arbitrary: s) simp_all

lemma more_get_hidraw_devices [frame_simps]: "hidraw.more (snd (get_hidraw_devices api params s)) = hidraw.more s"
  by (simp add: get_hidraw_devices_def Let_def frame_simps more_fold more_associate split: prod.split)

lemma more_rescan [frame_simps]: "hidraw.more (rescan cc udev s) = hidraw.more s"
proof -
  obtain found t where t: "get_hidraw_devices udev (cc_match_bt cc) s = (found, t)" by fastforce
  with more_get_hidraw_devices [of udev "cc_match_bt cc" s] have "hidraw.more t = hidraw.more s" by simp
  with t show ?thesis by (simp add: rescan_def Let_def frame_simps)
qed

text \<open>The fields of the added part.\<close>

lemma fields_of_more:
  assumes "hidraw.more s = hidraw.more t"
  shows "ct_adapters s = ct_adapters t" "ct_devices s = ct_devices t" "ct_input1 s = ct_input1 t"
    "ct_upower_clients s = ct_upower_clients t" "ct_reader s = ct_reader t" "ct_next s = ct_next t"
    "ct_calls s = ct_calls t"
  using assms by (cases s, cases t, simp)+

lemmas rescan_fields [simp] = fields_of_more [OF more_rescan]
lemmas log_fields [simp] = fields_of_more [OF more_log(1)]
lemmas add_logs_fields [simp] = fields_of_more [OF more_log(2)]
lemmas warning_fields [simp] = fields_of_more [OF more_log(3)]
lemmas log_ids_fields [simp] = fields_of_more [OF more_log(4)]

lemma more_check_modalias [frame_simps]: "hidraw.more (snd (check_modalias cc api path p s)) = hidraw.more s"
  by (simp add: check_modalias_def Let_def frame_simps split: prod.split option.split)

lemma more_device_paths [frame_simps]: "hidraw.more (snd (snd (device_paths cc d s))) = hidraw.more s"
  by (simp add: device_paths_def Let_def frame_simps split: option.split)

lemma more_log_of [frame_simps]: "hidraw.more (s\<lparr>log_of := lg\<rparr>) = hidraw.more s"
  by (cases s) simp

section \<open>The reader\<close>

text \<open>
  The protocol: the loop is given a new reader only when the controller has none, each reader
  once, and only the current reader is retired. The state is the current reader and the number
  of the next one.
\<close>

fun reader_protocol :: "source option \<Rightarrow> source \<Rightarrow> event list \<Rightarrow> (source option \<times> source) option" where
  "reader_protocol cur nxt [] = Some (cur, nxt)"
| "reader_protocol cur nxt (Ev_Add p # es) =
     (if cur = None \<and> p = nxt then reader_protocol (Some p) (Suc nxt) es else None)"
| "reader_protocol cur nxt (Ev_Retire p # es) =
     (if cur = Some p then reader_protocol None nxt es else None)"
| "reader_protocol cur nxt (e # es) = None"

lemma reader_protocol_append:
  "reader_protocol cur nxt (es @ fs) =
     (case reader_protocol cur nxt es of None \<Rightarrow> None | Some (c, n) \<Rightarrow> reader_protocol c n fs)"
  by (induction cur nxt es rule: reader_protocol.induct) auto

lemma protocol_adds_new:
  "reader_protocol cur nxt es \<noteq> None \<Longrightarrow> p < nxt \<Longrightarrow> \<not> list_ex (adds p) es"
  by (induction cur nxt es rule: reader_protocol.induct) (auto simp: adds_def split: if_splits)

definition retires :: "source \<Rightarrow> event \<Rightarrow> bool" where
  "retires p e \<longleftrightarrow> e = Ev_Retire p"

lemma protocol_never_readds:
  "reader_protocol cur nxt es \<noteq> None \<Longrightarrow> (\<forall>q. cur = Some q \<longrightarrow> q < nxt) \<Longrightarrow> never_after (retires p) (adds p) es"
proof (induction cur nxt es rule: reader_protocol.induct)
  case (3 cur nxt q es)
  then have "cur = Some q" and rest: "reader_protocol None nxt es \<noteq> None" by (auto split: if_splits)
  then have "\<not> list_ex (adds q) es" using 3(3) protocol_adds_new by blast
  with 3(1) [OF \<open>cur = Some q\<close> rest] show ?case by (auto simp: retires_def)
qed (auto simp: retires_def split: if_splits)

text \<open>The invariant of a controller whose first reader is number \<open>first\<close>.\<close>

definition reader_inv :: "source \<Rightarrow> 'v controller \<Rightarrow> bool" where
  "reader_inv first s \<longleftrightarrow> reader_protocol None first (ct_calls s) = Some (ct_reader s, ct_next s)"

lemma reader_inv_more: "hidraw.more s = hidraw.more t \<Longrightarrow> reader_inv first s = reader_inv first t"
  by (simp add: reader_inv_def fields_of_more [of s t])

lemma reader_inv_retire: "reader_inv first s \<Longrightarrow> reader_inv first (retire_reader s)"
  by (auto simp: reader_inv_def retire_reader_def reader_protocol_append split: option.splits)

lemma reader_inv_attach: "reader_inv first s \<Longrightarrow> reader_inv first (attach_reader cc k key s)"
  by (auto simp: reader_inv_def attach_reader_def reader_protocol_append Let_def split: option.splits)

lemma reader_inv_callback: "reader_inv first s \<Longrightarrow> reader_inv first (udev_callback cc udev a n sub s)"
  by (auto simp: udev_callback_def Let_def reader_inv_more [OF more_rescan]
      reader_inv_more [OF more_log(1)] intro!: reader_inv_retire)

lemma reader_inv_dispatch:
  "reader_inv first s \<Longrightarrow> reader_inv first (UdevMonitor_dispatch (Some (udev_callback cc udev)) queued s)"
  unfolding UdevMonitor_dispatch_def
proof (induction queued arbitrary: s)
  case (Cons e queued)
  have "reader_inv first (udev_event_step (Some (udev_callback cc udev)) e s)"
    using Cons.prems
    by (auto simp: udev_event_step_def reader_inv_more [OF more_log(1)] reader_inv_callback
        split: prod.split option.split)
  with Cons.IH show ?case by simp
qed simp

lemma reader_inv_fields:
  "reader_inv first (s\<lparr>ct_adapters := a\<rparr>) = reader_inv first s"
  "reader_inv first (s\<lparr>ct_devices := d\<rparr>) = reader_inv first s"
  "reader_inv first (s\<lparr>ct_input1 := i\<rparr>) = reader_inv first s"
  "reader_inv first (s\<lparr>ct_upower_clients := u\<rparr>) = reader_inv first s"
  by (simp_all add: reader_inv_def)

lemma reader_inv_power:
  "reader_inv first (add_power_client p s) = reader_inv first s"
  "reader_inv first (remove_power_client p s) = reader_inv first s"
  by (simp_all add: add_power_client_def remove_power_client_def Let_def reader_inv_fields
      reader_inv_more [OF more_log(1)] reader_inv_more [OF more_log(3)])

lemma reader_inv_add_device:
  assumes "reader_inv first s"
  shows "reader_inv first (state_of (controller_add_device cc api k path p s))"
proof -
  obtain go t where t: "check_modalias cc api path p s = (go, t)" by fastforce
  have inv: "reader_inv first t"
    using reader_inv_more [OF more_check_modalias, of first cc api path p s] t assms by simp
  have logs: "reader_inv first (t\<lparr>log_of := lg\<rparr>)" for lg
    using inv reader_inv_more [OF more_log_of] by blast
  show ?thesis
  proof (cases "Device1 api (log_of t) path p")
    case (Done d)
    obtain key power u where u: "device_paths cc d (t\<lparr>log_of := log_of d\<rparr>) = (key, power, u)"
      by (metis prod.collapse)
    have "reader_inv first u"
      using reader_inv_more [OF more_device_paths, of first cc d "t\<lparr>log_of := log_of d\<rparr>"] u logs by simp
    then show ?thesis
      using inv by (simp add: controller_add_device_def t Done u Let_def reader_inv_power reader_inv_fields
          reader_inv_attach reader_inv_more [OF more_log(3)])
  next
    case (Throw e d)
    then show ?thesis
      using inv logs by (simp add: controller_add_device_def t Let_def reader_inv_more [OF more_log(3)])
  qed
qed

lemma reader_inv_added_step:
  assumes "reader_inv first s"
  shows "reader_inv first (state_of (controller_added_step cc api sd k path ip s))"
proof -
  obtain iface p where ip: "ip = (iface, p)" by (cases ip)
  have "reader_inv first (state_of (controller_add_adapter api sd path p s))"
    using assms by (simp add: controller_add_adapter_def reader_inv_fields reader_inv_more [OF more_log(3)]
        split: outcome.split)
  moreover have "reader_inv first (controller_add_input path s)"
    using assms by (simp add: controller_add_input_def reader_inv_fields reader_inv_more [OF more_log(3)])
  ultimately show ?thesis
    using assms reader_inv_add_device [OF assms] by (simp add: controller_added_step_def ip)
qed

lemma reader_inv_added:
  "reader_inv first s \<Longrightarrow> reader_inv first (state_of (controller_onInterfacesAdded cc api sd k path ifaces s))"
  unfolding controller_onInterfacesAdded_def
  by (rule for_each_invariant [where P = "reader_inv first"]) (simp_all add: reader_inv_added_step)

lemma reader_inv_removed_step: "reader_inv first s \<Longrightarrow> reader_inv first (controller_removed_step cc path iface s)"
  by (simp add: controller_removed_step_def controller_remove_device_def Let_def reader_inv_fields
      reader_inv_power reader_inv_more [OF more_log(1)] split: option.split)

lemma reader_inv_step: "reader_inv first s \<Longrightarrow> reader_inv first (controller_step cc api sd e s)"
proof (cases e)
  case (CE_Removed path ifaces)
  assume "reader_inv first s"
  then have "reader_inv first (fold (controller_removed_step cc path) ifaces s)"
    by (induction ifaces arbitrary: s) (simp_all add: reader_inv_removed_step)
  with CE_Removed show ?thesis by (simp add: controller_onInterfacesRemoved_def)
qed (simp_all add: reader_inv_added reader_inv_dispatch)

lemma reader_inv_run: "reader_inv first s \<Longrightarrow> reader_inv first (controller_run cc api sd events s)"
  unfolding controller_run_def by (induction events arbitrary: s) (simp_all add: reader_inv_step)

lemma reader_inv_new:
  fixes api :: "'v variant_api"
  shows "reader_inv first (state_of (controller_new cc api sd k udev managed lg first))"
  unfolding controller_new_def
proof (rule for_each_invariant [where P = "reader_inv first"])
  show "reader_inv first (rescan cc udev (controller_init lg first))"
    unfolding reader_inv_more [OF more_rescan] by (simp add: reader_inv_def controller_init_def)
next
  fix x :: "string \<times> 'v interfaces" and s :: "'v controller"
  assume "reader_inv first s"
  then show "reader_inv first (state_of ((case x of (object, ifaces) \<Rightarrow> controller_onInterfacesAdded cc api sd k object ifaces) s))"
    by (cases x) (simp add: reader_inv_added)
qed

section \<open>The registries\<close>

interpretation controller_adapters: bounded_registry ct_adapters kMaxAdapters
    "\<lambda>path p. controller_add_adapter api sd path p"
    "\<lambda>path. controller_removed_step cc path ''org.bluez.Adapter1''" for api sd cc
proof (unfold_locales, goal_cases)
  case (1 path p s) show ?case by (auto simp: controller_add_adapter_def split: outcome.split)
next
  case (2 path s) show ?case by (simp add: controller_removed_step_def)
qed

interpretation controller_inputs: bounded_registry ct_input1 kMaxInputEntries
    "\<lambda>path (_ :: unit) s. Done (controller_add_input path s)"
    "\<lambda>path. controller_removed_step cc path ''org.bluez.Input1''" for cc
proof (unfold_locales, goal_cases)
  case (1 path p s) show ?case by (auto simp: controller_add_input_def)
next
  case (2 path s) show ?case by (simp add: controller_removed_step_def)
qed

lemma attach_reader_fields [simp]:
  "ct_adapters (attach_reader cc k key s) = ct_adapters s"
  "ct_devices (attach_reader cc k key s) = ct_devices s"
  "ct_input1 (attach_reader cc k key s) = ct_input1 s"
  "ct_upower_clients (attach_reader cc k key s) = ct_upower_clients s"
  by (simp_all add: attach_reader_def Let_def)

lemma power_client_fields [simp]:
  "ct_adapters (add_power_client p s) = ct_adapters s" "ct_adapters (remove_power_client p s) = ct_adapters s"
  "ct_devices (add_power_client p s) = ct_devices s" "ct_devices (remove_power_client p s) = ct_devices s"
  "ct_input1 (add_power_client p s) = ct_input1 s" "ct_input1 (remove_power_client p s) = ct_input1 s"
  by (simp_all add: add_power_client_def remove_power_client_def Let_def)

lemma add_device_cases:
  obtains (same) "hidraw.more (state_of (controller_add_device cc api k path p s)) = hidraw.more s"
  | (new) d t key power where "\<not> contains (ct_devices s) path"
      "\<not> IsAtCapacity (length (ct_devices s)) kMaxDevices" "hidraw.more t = hidraw.more s"
      "controller_add_device cc api k path p s
        = Done (add_power_client power (attach_reader cc k key (t\<lparr>ct_devices := AList.update path d (ct_devices s)\<rparr>)))"
proof -
  obtain go t where t: "check_modalias cc api path p s = (go, t)" by fastforce
  with more_check_modalias [of cc api path p s] have m: "hidraw.more t = hidraw.more s" by simp
  note f = fields_of_more [OF m]
  show ?thesis
  proof (cases "\<not> go \<or> contains (ct_devices t) path \<or> IsAtCapacity (length (ct_devices t)) kMaxDevices")
    case True
    then show ?thesis
      using m by (intro same) (auto simp: controller_add_device_def t frame_simps)
  next
    case False
    show ?thesis
    proof (cases "Device1 api (log_of t) path p")
      case (Throw e d)
      with False m show ?thesis by (intro same) (simp add: controller_add_device_def t frame_simps)
    next
      case (Done d)
      obtain key power u where u: "device_paths cc d (t\<lparr>log_of := log_of d\<rparr>) = (key, power, u)"
        by (metis prod.collapse)
      with more_device_paths [of cc d "t\<lparr>log_of := log_of d\<rparr>"] m
      have mu: "hidraw.more u = hidraw.more s" by (simp add: frame_simps)
      show ?thesis
        by (rule new [of u power key "d\<lparr>log_of := []\<rparr>"])
          (use False Done f mu in \<open>simp_all add: controller_add_device_def t u fields_of_more [OF mu]\<close>)
    qed
  qed
qed

interpretation controller_devices: bounded_registry ct_devices kMaxDevices
    "\<lambda>path p. controller_add_device cc api k path p"
    "\<lambda>path. controller_removed_step cc path ''org.bluez.Device1''" for cc api k
proof (unfold_locales, goal_cases)
  case (1 path p s)
  show ?case
  proof (cases rule: add_device_cases [of cc api k path p s])
    case same
    from fields_of_more(2) [OF this] show ?thesis by simp
  next
    case (new d t key power)
    then show ?thesis by auto
  qed
next
  case (2 path s)
  show ?case
  proof (cases "map_of (ct_devices s) path")
    case None
    then show ?thesis
      by (simp add: controller_removed_step_def controller_remove_device_def delete_absent contains_def)
  next
    case (Some d)
    then show ?thesis
      by (cases "d1_modalias d") (simp_all add: controller_removed_step_def controller_remove_device_def Let_def)
  qed
qed

end
