(* ===== verification/Controller_Properties.thy ===== *)
theory Controller_Properties
  imports Controller_Laws
begin

text \<open>
  Properties of the controllers alone and together with the event loop they hand their reader to.
\<close>

section \<open>Registries\<close>

definition controller_within :: "'v controller \<Rightarrow> bool" where
  "controller_within s \<longleftrightarrow> within_cap kMaxAdapters (ct_adapters s) \<and> within_cap kMaxDevices (ct_devices s)
     \<and> within_cap kMaxInputEntries (ct_input1 s) \<and> within_cap kMaxUPowerClients (ct_upower_clients s)"

lemma controller_within_more: "hidraw.more s = hidraw.more t \<Longrightarrow> controller_within s = controller_within t"
  by (simp add: controller_within_def fields_of_more [of s t])

lemma within_add_power:
  "controller_within s \<Longrightarrow> controller_within (add_power_client p s)"
  by (simp add: controller_within_def add_power_client_def Let_def within_update)

lemma within_remove_power:
  "controller_within s \<Longrightarrow> controller_within (remove_power_client p s)"
  by (simp add: controller_within_def remove_power_client_def Let_def within_delete)

lemma within_attach [simp]: "controller_within (attach_reader cc k key s) = controller_within s"
  by (simp add: controller_within_def)

lemma within_retire [simp]: "controller_within (retire_reader s) = controller_within s"
  by (simp add: controller_within_def retire_reader_def split: option.split)

lemma within_add_device:
  assumes "controller_within s"
  shows "controller_within (state_of (controller_add_device cc api k path p s))"
proof (cases rule: add_device_cases [of cc api k path p s])
  case same
  with assms show ?thesis using controller_within_more by blast
next
  case (new d t key power)
  have "controller_within (t\<lparr>ct_devices := AList.update path d (ct_devices s)\<rparr>)"
    using assms new(1,2) fields_of_more [OF new(3)]
    by (simp add: controller_within_def within_update)
  then show ?thesis by (simp add: new(4) within_add_power)
qed

lemma within_added_step:
  assumes "controller_within s"
  shows "controller_within (state_of (controller_added_step cc api sd k path ip s))"
proof -
  obtain iface p where ip: "ip = (iface, p)" by (cases ip)
  have "controller_within (state_of (controller_add_adapter api sd path p s))"
    using assms controller_adapters.add_within [of s api sd path p]
    by (simp add: controller_within_def controller_add_adapter_def split: outcome.split)
  moreover have "controller_within (controller_add_input path s)"
    using assms by (simp add: controller_within_def controller_add_input_def within_update)
  ultimately show ?thesis
    using assms within_add_device [OF assms] by (simp add: controller_added_step_def ip)
qed

lemma within_added:
  "controller_within s \<Longrightarrow> controller_within (state_of (controller_onInterfacesAdded cc api sd k path ifaces s))"
  unfolding controller_onInterfacesAdded_def
  by (rule for_each_invariant [where P = controller_within]) (simp_all add: within_added_step)

lemma within_drop:
  assumes "controller_within s"
  shows "controller_within (s\<lparr>ct_devices := AList.delete path (ct_devices s)\<rparr>)"
    and "controller_within ((log_msg l f a s)\<lparr>ct_devices := AList.delete path (ct_devices s)\<rparr>)"
  using assms by (simp_all add: controller_within_def within_delete)

lemma within_removed_step:
  assumes "controller_within s"
  shows "controller_within (controller_removed_step cc path iface s)"
proof -
  have "controller_within (controller_remove_device cc path s)"
  proof (cases "map_of (ct_devices s) path")
    case None
    with assms show ?thesis by (simp add: controller_remove_device_def)
  next
    case (Some d)
    with assms show ?thesis
      by (simp add: controller_remove_device_def Let_def within_remove_power within_drop split: option.split)
  qed
  with assms show ?thesis
    by (simp add: controller_removed_step_def controller_within_def within_delete)
qed

lemma within_callback:
  "controller_within s \<Longrightarrow> controller_within (udev_callback cc udev a n sub s)"
  by (simp add: udev_callback_def Let_def controller_within_more [OF more_rescan]
      controller_within_more [OF more_log(1)])

lemma within_dispatch:
  "controller_within s \<Longrightarrow> controller_within (UdevMonitor_dispatch (Some (udev_callback cc udev)) queued s)"
  unfolding UdevMonitor_dispatch_def
proof (induction queued arbitrary: s)
  case (Cons e queued)
  have "controller_within (udev_event_step (Some (udev_callback cc udev)) e s)"
    using Cons.prems
    by (auto simp: udev_event_step_def controller_within_more [OF more_log(1)] within_callback
        split: prod.split option.split)
  with Cons.IH show ?case by simp
qed simp

lemma within_step: "controller_within s \<Longrightarrow> controller_within (controller_step cc api sd e s)"
proof (cases e)
  case (CE_Removed path ifaces)
  assume "controller_within s"
  then have "controller_within (fold (controller_removed_step cc path) ifaces s)"
    by (induction ifaces arbitrary: s) (simp_all add: within_removed_step)
  with CE_Removed show ?thesis by (simp add: controller_onInterfacesRemoved_def)
qed (simp_all add: within_added within_dispatch)

lemma within_run: "controller_within s \<Longrightarrow> controller_within (controller_run cc api sd events s)"
  unfolding controller_run_def by (induction events arbitrary: s) (simp_all add: within_step)

lemma within_new:
  fixes api :: "'v variant_api"
  shows "controller_within (state_of (controller_new cc api sd k udev managed lg first))"
  unfolding controller_new_def
proof (rule for_each_invariant [where P = controller_within])
  show "controller_within (rescan cc udev (controller_init lg first))"
    unfolding controller_within_more [OF more_rescan] by (simp add: controller_within_def controller_init_def)
next
  fix x :: "string \<times> 'v interfaces" and s :: "'v controller"
  assume "controller_within s"
  then show "controller_within (state_of ((case x of (object, ifaces) \<Rightarrow> controller_onInterfacesAdded cc api sd k object ifaces) s))"
    by (cases x) (simp add: within_added)
qed

lemma controller_run_inv:
  "reader_inv first (controller_run cc api sd events (state_of (controller_new cc api sd k udev managed lg first)))
   \<and> controller_within (controller_run cc api sd events (state_of (controller_new cc api sd k udev managed lg first)))"
  by (intro conjI reader_inv_run reader_inv_new within_run within_new)

text \<open>
  C4: Every controller, from its construction on and for any signals, udev events and answers
  of the kernel, follows the reader protocol: it adds a reader to the loop only when it owns
  none, each one once, retires only the one it owns, and what it owns is the reader added and
  not retired; and its four registries stay within their caps.
\<close>

theorem controller_owns_one_reader_within_caps:
  assumes "c = controller_run cc api sd events (state_of (controller_new cc api sd k udev managed lg first))"
  shows "reader_protocol None first (ct_calls c) = Some (ct_reader c, ct_next c)
    \<and> length (ct_adapters c) \<le> 64 \<and> length (ct_devices c) \<le> 1024 \<and> length (ct_input1 c) \<le> 1024
    \<and> length (ct_upower_clients c) \<le> 256"
  using controller_run_inv [of first cc api sd events k udev managed lg]
  by (simp add: assms reader_inv_def controller_within_def within_cap_def kMaxAdapters_def kMaxDevices_def
      kMaxInputEntries_def kMaxUPowerClients_def)

section \<open>A controller and the event loop\<close>

definition concerns :: "source \<Rightarrow> event \<Rightarrow> bool" where
  "concerns p e \<longleftrightarrow> e = Ev_Add p \<or> e = Ev_Retire p"

lemma never_after_filter:
  "(\<And>e. P e \<Longrightarrow> R e) \<Longrightarrow> (\<And>e. Q e \<Longrightarrow> R e) \<Longrightarrow> never_after P Q (filter R es) = never_after P Q es"
proof (induction es)
  case (Cons e es)
  have "list_ex Q (filter R es) = list_ex Q es" using Cons.prems(2) by (induction es) auto
  with Cons show ?case by auto
qed simp

lemma never_after_prefix: "never_after P Q (es @ fs) \<Longrightarrow> never_after P Q es"
  by (induction es) (auto split: if_splits)

lemma never_after_concerns:
  "never_after (retires p) (adds p) (filter (concerns p) es) = never_after (retires p) (adds p) es"
  by (rule never_after_filter) (simp_all add: retires_def adds_def concerns_def)

text \<open>A source is destroyed only after it was retired.\<close>

lemma list_ex_count:
  "list_ex (destroys p) es \<longleftrightarrow> 0 < count_list es (Ev_Destroy p)"
  "list_ex (retires p) es \<longleftrightarrow> 0 < count_list es (Ev_Retire p)"
  by (induction es) (auto simp: destroys_def retires_def)

lemma destroy_needs_retire:
  assumes "el_accounts p s" and "list_ex (destroys p) (el_trace s)"
  shows "list_ex (retires p) (el_trace s)"
  using assms by (simp add: el_accounts_def list_ex_count)

lemma adds_self: "adds p (Ev_Add p)"
  by (simp add: adds_def)

lemma el_steps_destroys:
  "el_steps s t \<Longrightarrow> el_accounts p s \<Longrightarrow>
     (never_after (retires p) (adds p) (el_trace s) \<Longrightarrow> never_after (destroys p) (adds p) (el_trace s)) \<Longrightarrow>
     never_after (retires p) (adds p) (el_trace t) \<Longrightarrow> never_after (destroys p) (adds p) (el_trace t)"
proof (induction rule: rtranclp_induct)
  case (step t u)
  have acc: "el_accounts p t" by (rule el_steps_accounts [OF step.hyps(1) step.prems(1)])
  have same: "never_after (destroys p) (adds p) (el_trace t @ es)"
    if "el_trace u = el_trace t @ es" "\<not> list_ex (adds p) es" for es
  proof -
    have "never_after (retires p) (adds p) (el_trace t)"
      using step.prems(3) never_after_prefix that(1) by metis
    then have "never_after (destroys p) (adds p) (el_trace t)" using step.IH step.prems by blast
    with that(2) show ?thesis by (simp add: never_after_append_other)
  qed
  from step(2) show ?case
  proof cases
    case (Call c)
    show ?thesis
    proof (cases "\<exists>w. c = Call_Add p w")
      case True
      then obtain w where c: "c = Call_Add p w" ..
      with Call have tr: "el_trace u = el_trace t @ [Ev_Add p]" by (simp add: el_add_def)
      with step.prems(3) have "\<not> list_ex (retires p) (el_trace t)"
          and "never_after (retires p) (adds p) (el_trace t)"
        using adds_self [of p] by (simp_all add: never_after_snoc)
      with destroy_needs_retire [OF acc] step.IH step.prems(1,2) show ?thesis
        by (auto simp: tr never_after_snoc)
    next
      case False
      obtain es where "el_trace u = el_trace t @ es" "\<not> list_ex (adds p) es"
        using False Call by (cases c) (auto simp: el_add_def el_remove_def el_retire_def el_stop_def adds_def)
      with same show ?thesis by metis
    qed
  next
    case Apply
    have "\<not> list_ex (adds p) (map Ev_Destroy ps)" for ps by (induction ps) (auto simp: adds_def)
    then have "\<not> list_ex (adds p) (Ev_Apply # map Ev_Destroy (el_to_retire t))" by (simp add: adds_def)
    from same [OF _ this] Apply show ?thesis by simp
  next
    case Frame
    with same [of "[]"] show ?thesis by simp
  next
    case Bus
    have "\<not> list_ex (adds p) [Ev_Bus]" by (simp add: adds_def)
    from same [OF _ this] Bus show ?thesis by simp
  next
    case (Dispatch q rvs)
    have "\<not> list_ex (adds p) [Ev_Dispatch q rvs]" by (simp add: adds_def)
    from same [OF _ this] Dispatch show ?thesis by simp
  next
    case (Poll run w)
    have "\<not> list_ex (adds p) [Ev_Poll (el_sources t) run w]" by (simp add: adds_def)
    from same [OF _ this] Poll show ?thesis by simp
  qed
qed simp

text \<open>
  C3: The event loop and a controller together: when the registrations and retirements of a
  reader that the loop sees are those the controller made, in their order, the loop never polls
  or dispatches that reader after it destroyed it, whatever other sources, callbacks and
  signals do in between.
\<close>

theorem loop_never_uses_destroyed_reader:
  assumes "c = controller_run cc api sd events (state_of (controller_new cc api sd k udev managed lg first))"
    and "s = snd (el_run rounds (el_calls before_run (event_loop_new eventfd)))"
    and "filter (concerns p) (ct_calls c) = filter (concerns p) (el_trace s) @ later"
  shows "never_after (destroys p) (uses_source p) (el_trace s)"
proof -
  have "reader_protocol None first (ct_calls c) \<noteq> None"
    using controller_run_inv [of first cc api sd events k udev managed lg] by (simp add: assms(1) reader_inv_def)
  then have "never_after (retires p) (adds p) (filter (concerns p) (ct_calls c))"
    unfolding never_after_concerns by (rule protocol_never_readds) simp
  then have "never_after (retires p) (adds p) (filter (concerns p) (el_trace s))"
    unfolding assms(3) by (rule never_after_prefix)
  then have readds: "never_after (retires p) (adds p) (el_trace s)" by (simp add: never_after_concerns)
  have "el_steps (event_loop_new eventfd) s"
    unfolding assms(2) by (rule rtranclp_trans [OF el_steps_calls el_steps_run])
  then have "never_after (destroys p) (adds p) (el_trace s)"
    by (rule el_steps_destroys) (simp_all add: el_accounts_def readds)
  with el_reached [of rounds before_run eventfd p] show ?thesis
    unfolding assms(2) el_gone_def by blast
qed

section \<open>A reader that does not come back\<close>

definition known_without_reader :: "string \<Rightarrow> 'v controller \<Rightarrow> bool" where
  "known_without_reader path s \<longleftrightarrow> contains (ct_devices s) path \<and> ct_reader s = None"

lemma known_more: "hidraw.more s = hidraw.more t \<Longrightarrow> known_without_reader path s = known_without_reader path t"
  by (simp add: known_without_reader_def fields_of_more [of s t])

lemma known_added_step:
  assumes "known_without_reader path s"
  shows "known_without_reader path (state_of (controller_added_step cc api sd k path ip s))"
proof -
  obtain iface p where ip: "ip = (iface, p)" by (cases ip)
  have "known_without_reader path (state_of (controller_add_device cc api k path p s))"
  proof (cases rule: add_device_cases [of cc api k path p s])
    case same
    with assms show ?thesis using known_more by blast
  next
    case (new d t key power)
    with assms show ?thesis by (simp add: known_without_reader_def)
  qed
  moreover have "known_without_reader path (state_of (controller_add_adapter api sd path p s))"
    using assms by (simp add: known_without_reader_def controller_add_adapter_def split: outcome.split)
  moreover have "known_without_reader path (controller_add_input path s)"
    using assms by (simp add: known_without_reader_def controller_add_input_def)
  ultimately show ?thesis using assms by (simp add: controller_added_step_def ip)
qed

lemma known_added:
  "known_without_reader path s \<Longrightarrow>
     known_without_reader path (state_of (controller_onInterfacesAdded cc api sd k path ifaces s))"
  unfolding controller_onInterfacesAdded_def
  by (rule for_each_invariant [where P = "known_without_reader path"]) (simp_all add: known_added_step)

lemma known_callback:
  "known_without_reader path s \<Longrightarrow> known_without_reader path (udev_callback cc udev a n sub s)"
  by (simp add: udev_callback_def Let_def known_more [OF more_rescan] known_more [OF more_log(1)])
    (simp add: known_without_reader_def retire_reader_def)

lemma known_dispatch:
  "known_without_reader path s \<Longrightarrow>
     known_without_reader path (UdevMonitor_dispatch (Some (udev_callback cc udev)) queued s)"
  unfolding UdevMonitor_dispatch_def
proof (induction queued arbitrary: s)
  case (Cons e queued)
  have "known_without_reader path (udev_event_step (Some (udev_callback cc udev)) e s)"
    using Cons.prems
    by (auto simp: udev_event_step_def known_more [OF more_log(1)] known_callback
        split: prod.split option.split)
  with Cons.IH show ?case by simp
qed simp

lemma no_reader_dispatch:
  "ct_reader s = None \<Longrightarrow> ct_reader (UdevMonitor_dispatch (Some (udev_callback cc udev)) queued s) = None"
  unfolding UdevMonitor_dispatch_def
proof (induction queued arbitrary: s)
  case (Cons e queued)
  have "ct_reader (udev_callback cc udev a n sub s) = None" for a n sub
    using Cons.prems by (simp add: udev_callback_def Let_def retire_reader_def)
  then have "ct_reader (udev_event_step (Some (udev_callback cc udev)) e s) = None"
    using Cons.prems
    by (auto simp: udev_event_step_def split: prod.split option.split)
  with Cons.IH show ?case by simp
qed simp

lemma reader_removed: "ct_reader (controller_onInterfacesRemoved cc path ifaces s) = ct_reader s"
  unfolding controller_onInterfacesRemoved_def
proof (induction ifaces arbitrary: s)
  case (Cons iface ifaces)
  have "ct_reader (controller_removed_step cc path iface s) = ct_reader s"
    by (simp add: controller_removed_step_def controller_remove_device_def remove_power_client_def Let_def
        split: option.split)
  with Cons.IH show ?case by simp
qed simp

lemma no_reader_without_device:
  fixes s :: "'v controller"
  assumes "ct_reader s = None" "''org.bluez.Device1'' \<notin> fst ` set ifaces"
  shows "ct_reader (state_of (controller_onInterfacesAdded cc api sd k path ifaces s)) = None"
  unfolding controller_onInterfacesAdded_def
proof (rule for_each_invariant [where P = "\<lambda>s. ct_reader s = None"])
  fix ip and s :: "'v controller"
  assume "ip \<in> set ifaces" and s: "ct_reader s = None"
  then have "fst ip \<noteq> ''org.bluez.Device1''" using assms(2) by force
  then show "ct_reader (state_of (controller_added_step cc api sd k path ip s)) = None"
    using s by (cases ip) (simp add: controller_added_step_def controller_add_adapter_def controller_add_input_def
        split: outcome.split)
qed (rule assms(1))

lemma no_reader_step:
  assumes "ct_reader s = None"
    and "\<And>k path ifaces. e = CE_Added k path ifaces \<Longrightarrow>
      contains (ct_devices s) path \<or> ''org.bluez.Device1'' \<notin> fst ` set ifaces"
  shows "ct_reader (controller_step cc api sd e s) = None"
proof (cases e)
  case (CE_Added k path ifaces)
  with assms(2) consider "known_without_reader path s" | "''org.bluez.Device1'' \<notin> fst ` set ifaces"
    using assms(1) by (auto simp: known_without_reader_def)
  then show ?thesis
  proof cases
    case 1
    from known_added [OF this] show ?thesis by (simp add: CE_Added known_without_reader_def)
  next
    case 2
    from no_reader_without_device [OF assms(1) this] show ?thesis by (simp add: CE_Added)
  qed
qed (use assms(1) in \<open>simp_all add: reader_removed no_reader_dispatch\<close>)

lemma removal_retires:
  "ct_reader (udev_callback cc udev ''remove'' node ''hidraw'' s) = None"
  "ct_calls (udev_callback cc udev ''remove'' node ''hidraw'' s)
     = ct_calls s @ (case ct_reader s of None \<Rightarrow> [] | Some p \<Rightarrow> [Ev_Retire p])"
  by (simp_all add: udev_callback_def Let_def retire_reader_def split: option.split)

text \<open>
  C29: The removal of any hidraw node, the controller's own or another, makes the controller retire the
  reader it owns. Whatever happens afterwards (udev events, removals, announcements), as long as no
  \<open>Device1\<close> object is announced at a path the controller does not know at that moment, it has no reader:
  in particular its own device, which it still knows, does not get it one again.
\<close>

theorem retired_reader_stays_away:
  "ct_calls (udev_callback cc udev ''remove'' node ''hidraw'' s)
     = ct_calls s @ (case ct_reader s of None \<Rightarrow> [] | Some p \<Rightarrow> [Ev_Retire p])
   \<and> (ct_reader (controller_run cc api sd events (udev_callback cc udev ''remove'' node ''hidraw'' s)) = None
      \<or> (\<exists>before k path ifaces later. events = before @ CE_Added k path ifaces # later
          \<and> ''org.bluez.Device1'' \<in> fst ` set ifaces
          \<and> \<not> contains (ct_devices (controller_run cc api sd before
                (udev_callback cc udev ''remove'' node ''hidraw'' s))) path))"
proof (rule conjI [OF removal_retires(2)])
  let ?s = "udev_callback cc udev ''remove'' node ''hidraw'' s"
  have run: "controller_run cc api sd (events @ [e]) ?s = controller_step cc api sd e (controller_run cc api sd events ?s)"
    for events e by (simp add: controller_run_def)
  show "ct_reader (controller_run cc api sd events ?s) = None
      \<or> (\<exists>before k path ifaces later. events = before @ CE_Added k path ifaces # later
          \<and> ''org.bluez.Device1'' \<in> fst ` set ifaces
          \<and> \<not> contains (ct_devices (controller_run cc api sd before ?s)) path)" (is "_ \<or> ?new events")
  proof (induction events rule: rev_induct)
    case Nil
    then show ?case by (simp add: controller_run_def removal_retires(1))
  next
    case (snoc e events)
    show ?case
    proof (cases "ct_reader (controller_run cc api sd events ?s) = None")
      case True
      show ?thesis
      proof (cases "\<exists>k path ifaces. e = CE_Added k path ifaces \<and> ''org.bluez.Device1'' \<in> fst ` set ifaces
          \<and> \<not> contains (ct_devices (controller_run cc api sd events ?s)) path")
        case False
        with no_reader_step [OF True, of e cc api sd] show ?thesis unfolding run by blast
      qed blast
    next
      case False
      with snoc obtain before k path ifaces later where "events = before @ CE_Added k path ifaces # later"
        "''org.bluez.Device1'' \<in> fst ` set ifaces" "\<not> contains (ct_devices (controller_run cc api sd before ?s)) path"
        by blast
      then have "?new (events @ [e])"
        by (intro exI [of _ before] exI [of _ k] exI [of _ path] exI [of _ ifaces] exI [of _ "later @ [e]"]) simp
      then show ?thesis ..
    qed
  qed
qed

section \<open>A run\<close>

text \<open>A HoriPad that is found by udev, connects and is unplugged.\<close>

definition pad_udev :: udev_api where
  "pad_udev = \<lparr>ud_new = True, ud_enumerate_new = True, ud_add_match = (\<lambda>_. 0), ud_scan = 0,
     ud_entries = (\<lambda>sub. if sub = ''input'' then [Some ''/sys/devices/usb1/input/input7'']
                         else [Some ''/sys/devices/usb1/hidraw/hidraw2'']),
     ud_device = (\<lambda>path. if path = ''/sys/devices/usb1/input/input7''
                         then Some [(Some ''ID_BUS'', Some ''bluetooth''), (Some ''NAME'', Some (quoted ''HORIPAD STEAM'')),
                                    (Some ''TAGS'', Some '':seat:''), (Some ''UNIQ'', Some ''a0:ab'')]
                         else Some [(Some ''DEVNAME'', Some ''/dev/hidraw2'')])\<rparr>"

definition pad_events :: "sample controller_event list" where
  "pad_events =
     [CE_Added sample_kernel ''/dev_A0_AB''
        [(''org.bluez.Device1'',
           [(''Address'', S_str ''A0:AB''), (''Connected'', S_bool True),
            (''Modalias'', S_str ''usb:v0F0Dp0196d0100''), (''Paired'', S_bool True), (''Trusted'', S_bool True)])],
      CE_Udev pad_udev [(Some ''remove'', Some ''/dev/hidraw2'', Some ''hidraw'')]]"

definition pad_run :: "sample controller" where
  "pad_run = controller_run HoripadSteam sample_api (\<lambda>_. None) pad_events
     (state_of (controller_new HoripadSteam sample_api (\<lambda>_. None) sample_kernel pad_udev [] [] 7))"

lemma pad_run_calls: "ct_calls pad_run = [Ev_Add 7, Ev_Retire 7]"
  by code_simp

theorem loop_never_uses_destroyed_reader_witness:
  "never_after (destroys 7) (uses_source 7) (el_trace hangup_run) \<and> Ev_Destroy 7 \<in> set (el_trace hangup_run)"
proof
  have "filter (concerns 7) (ct_calls pad_run) = filter (concerns 7) (el_trace hangup_run) @ []"
    by (simp add: pad_run_calls hangup_run_trace concerns_def)
  from loop_never_uses_destroyed_reader [OF pad_run_def hangup_run_def this]
  show "never_after (destroys 7) (uses_source 7) (el_trace hangup_run)" .
qed (simp add: hangup_run_trace)

theorem controller_owns_one_reader_within_caps_witness:
  "reader_protocol None 7 (ct_calls pad_run) = Some (ct_reader pad_run, ct_next pad_run)
   \<and> ct_calls pad_run = [Ev_Add 7, Ev_Retire 7] \<and> ct_reader pad_run = None"
  using controller_owns_one_reader_within_caps [OF pad_run_def] by (simp add: pad_run_calls)

text \<open>The pad announced again after another hidraw node went away.\<close>

definition orphaned_pad :: "sample controller" where
  "orphaned_pad = controller_init [] 7
     \<lparr>ct_devices := [(''/dev_A0_AB'', device1_init [] ''/dev_A0_AB'')], ct_reader := Some 6\<rparr>"

lemma single_event: "[e] = before @ f # later \<longleftrightarrow> before = [] \<and> later = [] \<and> e = f"
  by (cases before) auto

lemma orphaned_pad_known:
  "contains (ct_devices (udev_callback HoripadSteam pad_udev ''remove'' None ''hidraw'' orphaned_pad)) ''/dev_A0_AB''"
  by (simp add: udev_callback_def Let_def retire_reader_def orphaned_pad_def contains_def)

theorem retired_reader_stays_away_witness:
  "ct_reader (controller_run HoripadSteam sample_api (\<lambda>_. None) [hd pad_events]
      (udev_callback HoripadSteam pad_udev ''remove'' None ''hidraw'' orphaned_pad)) = None"
proof (rule ccontr)
  let ?s = "udev_callback HoripadSteam pad_udev ''remove'' None ''hidraw'' orphaned_pad"
  assume "ct_reader (controller_run HoripadSteam sample_api (\<lambda>_. None) [hd pad_events] ?s) \<noteq> None"
  with retired_reader_stays_away [of HoripadSteam pad_udev None orphaned_pad sample_api "\<lambda>_. None" "[hd pad_events]"]
  obtain before k path ifaces later where e: "[hd pad_events] = before @ CE_Added k path ifaces # later"
    and unknown: "\<not> contains (ct_devices (controller_run HoripadSteam sample_api (\<lambda>_. None) before ?s)) path"
    by blast
  have "before = []" "path = ''/dev_A0_AB''" using e unfolding single_event by (simp_all add: pad_events_def)
  with unknown orphaned_pad_known show False by (simp add: controller_run_def)
qed

end
