(* ===== verification/Logging.thy ===== *)
theory Logging
  imports Prelude
begin

text \<open>
  \<open>src/utils/logging.h\<close>: the validation of the environment variables that configure the log,
  and the construction of the logger from them. A string is its bytes; the sinks, the registry
  of loggers and the names of the levels are \<open>spdlog\<close>'s and are the record \<open>spdlog_api\<close>, built with or
  without exceptions.
\<close>

section \<open>Validation of the path\<close>

text \<open>
  The walk over the components: \<open>pos\<close> is the start of the component under inspection, \<open>find\<close>
  gives the position of the next slash.
\<close>

definition find_from :: "char \<Rightarrow> nat \<Rightarrow> string \<Rightarrow> nat option" where
  "find_from c pos sv = map_option (\<lambda>i. pos + i) (str_find [c] (drop pos sv))"

lemma find_from_ge: "find_from c pos sv = Some i \<Longrightarrow> pos \<le> i \<and> i < length sv"
proof -
  assume "find_from c pos sv = Some i"
  then obtain j where "str_find [c] (drop pos sv) = Some j" "i = pos + j"
    by (auto simp: find_from_def)
  with str_find_Some [of "[c]" "drop pos sv" j] show ?thesis by auto
qed

function no_traversal :: "string \<Rightarrow> nat \<Rightarrow> bool" where
  "no_traversal sv pos =
     (if pos < length sv
      then (let slash = find_from (CHR ''/'') pos sv;
                component = (case slash of None \<Rightarrow> drop pos sv | Some i \<Rightarrow> substr pos (i - pos) sv)
            in if component = ''..'' then False
               else (case slash of None \<Rightarrow> True | Some i \<Rightarrow> no_traversal sv (i + 1)))
      else True)"
  by pat_completeness auto

termination
proof (relation "measure (\<lambda>(sv, pos). length sv - pos)", goal_cases)
  case (2 sv pos slash component i)
  then have "pos \<le> i" using find_from_ge by metis
  with 2(1) show ?case by simp
qed simp

declare no_traversal.simps [simp del]

text \<open>The answer, with the warnings emitted on the way.\<close>

definition isLogFilePathSafe :: "string \<Rightarrow> 'a logged_scheme \<Rightarrow> bool \<times> 'a logged_scheme" where
  "isLogFilePathSafe path s =
     (if path = [] then (True, s)
      else if CHR 0x00 \<in> set path then (False, log_msg Warn ''LOG_FILE rejected: contains null byte'' [] s)
      else if CHR 0x0A \<in> set path \<or> CHR 0x0D \<in> set path
        then (False, log_msg Warn ''LOG_FILE rejected: contains newline character'' [] s)
      else if hd path = CHR ''-''
        then (False, log_msg Warn (''LOG_FILE rejected: starts with '' @ squote @ ''-'' @ squote) [] s)
      else if \<not> no_traversal path 0
        then (False, log_msg Warn (''LOG_FILE rejected: path traversal component '' @ squote @ ''..''
                                    @ squote @ '' detected'') [] s)
      else (True, s))"

section \<open>Validation of the pattern\<close>

definition pattern_byte :: "char \<Rightarrow> bool" where
  "pattern_byte ch \<longleftrightarrow> \<not> (code_of ch \<noteq> 0x09 \<and> (code_of ch < 0x20 \<or> 0x7E < code_of ch))"

text \<open>The loop stops at the first byte that is refused and names it.\<close>

fun check_pattern :: "string \<Rightarrow> 'a logged_scheme \<Rightarrow> bool \<times> 'a logged_scheme" where
  "check_pattern [] s = (True, s)"
| "check_pattern (ch # pattern) s =
     (if pattern_byte ch then check_pattern pattern s
      else (False, log_msg Warn ''LOG_PATTERN rejected: contains non-printable or non-ASCII byte (0x{:02X})''
                     [LInt (int (code_of ch))] s))"

definition isLogPatternSafe :: "string \<Rightarrow> 'a logged_scheme \<Rightarrow> bool \<times> 'a logged_scheme" where
  "isLogPatternSafe pattern s = (if pattern = [] then (True, s) else check_pattern pattern s)"

section \<open>The environment\<close>

text \<open>\<open>std::getenv\<close>: absent, or the value.\<close>

record environment =
  env_level :: "string option"
  env_file :: "string option"
  env_pattern :: "string option"

definition getLogLevelFromEnv :: "environment \<Rightarrow> 'a logged_scheme \<Rightarrow> level \<times> 'a logged_scheme" where
  "getLogLevelFromEnv env s =
     (case env_level env of
        None \<Rightarrow> (Info, s)
      | Some level \<Rightarrow>
          (if level = ''trace'' then (Trace, s)
           else if level = ''debug'' then (Debug, s)
           else if level = ''info'' then (Info, s)
           else if level = ''warn'' then (Warn, s)
           else if level = ''err'' then (Err, s)
           else if level = ''critical'' then (Critical, s)
           else if level = ''off'' then (Off, s)
           else (Info, log_msg Warn (''LOG_LEVEL '' @ squote @ ''{}'' @ squote @ '' is not recognized; defaulting to ''
                                      @ squote @ ''info'' @ squote) [LStr level] s)))"

definition getLogFilePathFromEnv :: "environment \<Rightarrow> 'a logged_scheme \<Rightarrow> string \<times> 'a logged_scheme" where
  "getLogFilePathFromEnv env s =
     (case env_file env of
        None \<Rightarrow> ([], s)
      | Some path \<Rightarrow> (let (safe, s) = isLogFilePathSafe path s in (if safe then path else [], s)))"

section \<open>The logger\<close>

datatype sink = Console_Sink level | Rotating_File_Sink string nat nat level

record logger =
  lg_name :: string
  lg_sinks :: "sink list"
  lg_level :: level
  lg_pattern :: string
  lg_flush_on :: level

text \<open>
  The state of \<open>spdlog\<close> the program sets: the default logger and the flush interval (in
  seconds), what was written to \<open>stderr\<close>, and whether the error handler is installed.
\<close>

record log_system = logged +
  ls_default :: "logger option"
  ls_level :: "level option"
  ls_flush_every :: "nat option"
  ls_handler :: bool
  ls_stderr :: string

text \<open>
  What \<open>spdlog\<close> does when it opens a file and when it registers a name: it succeeds, it hands an error
  to the error handler and goes on (a build without exceptions), or it throws \<open>spdlog_ex\<close> (a build with
  exceptions).
\<close>

datatype spdlog_result = Works | Reports string | Throws string

record spdlog_api =
  sp_file_sink :: "string \<Rightarrow> spdlog_result"
  sp_register :: "string \<Rightarrow> spdlog_result"
  sp_level_name :: "level \<Rightarrow> string"

definition error_handler :: "string \<Rightarrow> log_system \<Rightarrow> log_system" where
  "error_handler msg s = s\<lparr>ls_stderr := ls_stderr s @ ''[spdlog error] '' @ msg @ endl\<rparr>"

text \<open>A call of \<open>spdlog\<close>: the handler runs when it is installed.\<close>

definition spdlog_call :: "spdlog_result \<Rightarrow> log_system \<Rightarrow> log_system outcome" where
  "spdlog_call r s =
     (case r of
        Works \<Rightarrow> Done s
      | Reports msg \<Rightarrow> Done (if ls_handler s then error_handler msg s else s)
      | Throws msg \<Rightarrow> Throw (Std_Exception msg) s)"

definition init_failed :: "string \<Rightarrow> log_system \<Rightarrow> log_system" where
  "init_failed what s =
     log_msg Err ''Log initialization failed: {}'' [LStr what]
       (s\<lparr>ls_stderr := ls_stderr s @ ''[spdlog error] Log initialization failed: '' @ what @ endl\<rparr>)"

definition kDefaultPattern :: string where
  "kDefaultPattern = ''[%Y-%m-%d %H:%M:%S.%e] [%l] %v''"

definition log_pattern :: "environment \<Rightarrow> 'a logged_scheme \<Rightarrow> string \<times> 'a logged_scheme" where
  "log_pattern env s =
     (case env_pattern env of
        None \<Rightarrow> (kDefaultPattern, s)
      | Some candidate \<Rightarrow>
          (let (safe, s) = isLogPatternSafe candidate s in (if safe then candidate else kDefaultPattern, s)))"

text \<open>The sinks: the console, and the file when there is one, whose constructor may fail.\<close>

definition make_sinks :: "level \<Rightarrow> string \<Rightarrow> sink list" where
  "make_sinks level log_file =
     Console_Sink level # (if log_file = [] then [] else [Rotating_File_Sink log_file (10 * 1024 * 1024) 3 level])"

definition open_file_sink :: "spdlog_api \<Rightarrow> string \<Rightarrow> log_system \<Rightarrow> log_system outcome" where
  "open_file_sink sp log_file s = (if log_file = [] then Done s else spdlog_call (sp_file_sink sp log_file) s)"

definition install_logger ::
    "spdlog_api \<Rightarrow> string \<Rightarrow> level \<Rightarrow> string \<Rightarrow> string \<Rightarrow> log_system \<Rightarrow> log_system outcome" where
  "install_logger sp logger_name level log_file pattern s =
     seq (open_file_sink sp log_file s) (\<lambda>s.
     seq (spdlog_call (sp_register sp logger_name) s) (\<lambda>s.
       Done (log_msg Info ''Logging initialized - Level: {}, File: {}''
               [LStr (sp_level_name sp level), LStr (if log_file = [] then ''console only'' else log_file)]
               (s\<lparr>ls_default := Some \<lparr>lg_name = logger_name, lg_sinks = make_sinks level log_file, lg_level = level,
                                      lg_pattern = pattern, lg_flush_on = Err\<rparr>\<rparr>))))"

definition initializeLogging :: "spdlog_api \<Rightarrow> environment \<Rightarrow> string \<Rightarrow> log_system \<Rightarrow> log_system" where
  "initializeLogging sp env logger_name s =
     (let s = s\<lparr>ls_handler := True\<rparr>;
          (level, s) = getLogLevelFromEnv env s;
          (log_file, s) = getLogFilePathFromEnv env s;
          (pattern, s) = log_pattern env s
      in state_of (catch_std (install_logger sp logger_name level log_file pattern s) (\<lambda>e. init_failed (exn_what e))))"

definition setLevelDebug :: "log_system \<Rightarrow> log_system" where
  "setLevelDebug s = s\<lparr>ls_level := Some Debug\<rparr>"

definition setLevelInfo :: "log_system \<Rightarrow> log_system" where
  "setLevelInfo s = s\<lparr>ls_level := Some Info\<rparr>"

definition setFlushInterval :: "nat \<Rightarrow> log_system \<Rightarrow> log_system" where
  "setFlushInterval interval s = s\<lparr>ls_flush_every := Some interval\<rparr>"

section \<open>What is accepted\<close>

text \<open>The components of a path, between slashes.\<close>

fun components :: "string \<Rightarrow> string list" where
  "components [] = [[]]"
| "components (c # cs) =
     (if c = CHR ''/'' then [] # components cs
      else (c # hd (components cs)) # tl (components cs))"

lemma components_not_Nil [simp]: "components cs \<noteq> []"
  by (cases cs) auto

lemma components_no_slash: "CHR ''/'' \<notin> set p \<Longrightarrow> components p = [p]"
  by (induction p) auto

lemma components_slash: "CHR ''/'' \<notin> set p \<Longrightarrow> components (p @ CHR ''/'' # q) = p # components q"
  by (induction p) auto

lemma str_find_char: "str_find [c] s = (if c \<in> set s then Some (length (takeWhile (\<lambda>d. d \<noteq> c) s)) else None)"
proof (induction s)
  case Nil
  then show ?case by (simp add: str_find.simps [of "[c]" "[]"])
next
  case (Cons d s)
  then show ?case by (simp add: str_find.simps [of "[c]" "d # s"])
qed

text \<open>
  The walk is the search for a \<open>..\<close> among the components; positions past the end start an
  empty component.
\<close>

lemma no_traversal_components:
  "pos \<le> length sv \<Longrightarrow> no_traversal sv pos \<longleftrightarrow> ''..'' \<notin> set (components (drop pos sv))"
proof (induction sv pos rule: no_traversal.induct)
  case (1 sv pos)
  let ?rest = "drop pos sv"
  show ?case
  proof (cases "pos < length sv")
    case False
    then show ?thesis unfolding no_traversal.simps [of sv pos] by simp
  next
    case pos: True
    show ?thesis
    proof (cases "CHR ''/'' \<in> set ?rest")
      case False
      then have f: "find_from (CHR ''/'') pos sv = None" by (simp add: find_from_def str_find_char)
      show ?thesis unfolding no_traversal.simps [of sv pos] f components_no_slash [OF False]
        using pos by (simp add: eq_commute [of "''..''"])
    next
      case True
      define p where "p = takeWhile (\<lambda>d. d \<noteq> CHR ''/'') ?rest"
      define q where "q = tl (dropWhile (\<lambda>d. d \<noteq> CHR ''/'') ?rest)"
      have "dropWhile (\<lambda>d. d \<noteq> CHR ''/'') ?rest = CHR ''/'' # q"
        using True hd_dropWhile [of "\<lambda>d. d \<noteq> CHR ''/''" ?rest]
        by (simp add: q_def list.expand dropWhile_eq_Nil_conv)
      then have rest: "?rest = p @ CHR ''/'' # q"
        by (metis p_def takeWhile_dropWhile_id)
      have p: "CHR ''/'' \<notin> set p" by (auto simp: p_def dest: set_takeWhileD)
      have f: "find_from (CHR ''/'') pos sv = Some (pos + length p)"
        using True by (simp add: find_from_def str_find_char p_def)
      have q: "drop (pos + length p + 1) sv = q"
        using arg_cong [OF rest, of "drop (length p + 1)"] by (simp add: add.commute)
      have len: "pos + length p + 1 \<le> length sv"
        using find_from_ge [OF f] by simp
      have sub: "substr pos (pos + length p - pos) sv = p" using rest by (simp add: substr_def)
      have ih: "no_traversal sv (pos + length p + 1) \<longleftrightarrow> ''..'' \<notin> set (components q)" if "p \<noteq> ''..''"
        using 1(1) [OF pos refl refl _ f] that len q sub f by simp
      show ?thesis
        unfolding no_traversal.simps [of sv pos] f rest components_slash [OF p]
        using pos ih sub by (auto simp: Let_def)
    qed
  qed
qed

text \<open>Resolving the components below a directory: empty ones and \<open>.\<close> stay, \<open>..\<close> goes up.\<close>

definition enter :: "string \<Rightarrow> string list \<Rightarrow> string list" where
  "enter c dir = (if c = [] \<or> c = ''.'' then dir else if c = ''..'' then butlast dir else dir @ [c])"

definition resolve :: "string list \<Rightarrow> string \<Rightarrow> string list" where
  "resolve dir path = fold enter (components path) dir"

lemma enter_below: "''..'' \<notin> set cs \<Longrightarrow> \<exists>below. fold enter cs dir = dir @ below"
proof (induction cs arbitrary: dir)
  case (Cons c cs)
  then have "enter c dir = dir \<or> enter c dir = dir @ [c]" by (auto simp: enter_def)
  moreover obtain b1 b2 where "fold enter cs dir = dir @ b1" "fold enter cs (dir @ [c]) = (dir @ [c]) @ b2"
    using Cons.IH [of dir] Cons.IH [of "dir @ [c]"] Cons.prems by auto
  ultimately show ?case by auto
qed simp

definition acceptable_path :: "string \<Rightarrow> bool" where
  "acceptable_path path \<longleftrightarrow> path = [] \<or>
     (CHR 0x00 \<notin> set path \<and> CHR 0x0A \<notin> set path \<and> CHR 0x0D \<notin> set path \<and> hd path \<noteq> CHR ''-''
      \<and> ''..'' \<notin> set (components path))"

lemma isLogFilePathSafe_iff: "fst (isLogFilePathSafe path s) \<longleftrightarrow> acceptable_path path"
  using no_traversal_components [of 0 path]
  by (simp add: isLogFilePathSafe_def acceptable_path_def)

lemma check_pattern_iff: "fst (check_pattern pattern s) \<longleftrightarrow> list_all pattern_byte pattern"
  by (induction pattern) auto

lemma isLogPatternSafe_iff: "fst (isLogPatternSafe pattern s) \<longleftrightarrow> list_all pattern_byte pattern"
  by (auto simp: isLogPatternSafe_def check_pattern_iff)

lemma default_pattern_ok: "list_all pattern_byte kDefaultPattern"
  by code_simp

text \<open>The steps before the sinks only add to the log.\<close>

definition only_logs :: "log_system \<Rightarrow> log_system \<Rightarrow> bool" where
  "only_logs s t \<longleftrightarrow> (\<exists>l. t = s\<lparr>log_of := l\<rparr>)"

lemma only_logs_refl [simp]: "only_logs s s"
  unfolding only_logs_def by (rule exI [of _ "log_of s"]) simp

lemma only_logs_msg [simp]: "only_logs s (log_msg l fmt args s)"
  by (auto simp: only_logs_def log_msg_def)

lemma only_logs_trans: "only_logs s t \<Longrightarrow> only_logs t u \<Longrightarrow> only_logs s u"
  by (auto simp: only_logs_def)

lemma only_logs_default: "only_logs s t \<Longrightarrow> ls_default t = ls_default s \<and> ls_stderr t = ls_stderr s \<and> ls_handler t = ls_handler s"
  by (auto simp: only_logs_def)

lemma check_pattern_logs: "only_logs s (snd (check_pattern pattern s))"
  by (induction pattern) auto

lemma env_steps_log:
  "only_logs s (snd (getLogLevelFromEnv env s))"
  "only_logs s (snd (getLogFilePathFromEnv env s))"
  "only_logs s (snd (log_pattern env s))"
  by (auto simp: getLogLevelFromEnv_def getLogFilePathFromEnv_def isLogFilePathSafe_def log_pattern_def
      isLogPatternSafe_def Let_def split_beta intro: check_pattern_logs split: option.split)

lemma env_values:
  "acceptable_path (fst (getLogFilePathFromEnv env s))"
  "fst (getLogFilePathFromEnv env s) \<noteq> [] \<Longrightarrow> env_file env = Some (fst (getLogFilePathFromEnv env s))"
  "list_all pattern_byte (fst (log_pattern env s))"
  using isLogFilePathSafe_iff [of _ s] default_pattern_ok isLogPatternSafe_iff [of _ s]
  by (auto simp: getLogFilePathFromEnv_def log_pattern_def Let_def split_beta acceptable_path_def
      split: option.splits if_splits)

lemma level_value: "fst (getLogLevelFromEnv env s) = fst (getLogLevelFromEnv env t)"
  by (simp add: getLogLevelFromEnv_def split: option.split)

section \<open>Properties\<close>

text \<open>
  C30: The hand-written walk over \<open>LOG_FILE\<close> agrees with a reference that splits the path at its
  slashes: a path is accepted exactly when it is empty or has no NUL, newline or carriage return,
  does not start with a dash and has no component \<open>..\<close>; each rejection logs exactly one warning.
  An accepted path, resolved below any directory, stays below it.
\<close>

theorem log_file_path_validation:
  "(fst (isLogFilePathSafe path s) \<longleftrightarrow> acceptable_path path)
   \<and> (if fst (isLogFilePathSafe path s) then snd (isLogFilePathSafe path s) = s \<and> (\<exists>below. resolve dir path = dir @ below)
      else \<exists>msg. snd (isLogFilePathSafe path s) = log_msg Warn msg [] s)"
proof -
  have "acceptable_path path \<Longrightarrow> \<exists>below. resolve dir path = dir @ below"
    using enter_below [of "components path" dir]
    by (cases "path = []") (auto simp: resolve_def acceptable_path_def)
  moreover have "if fst (isLogFilePathSafe path s) then snd (isLogFilePathSafe path s) = s
      else \<exists>msg. snd (isLogFilePathSafe path s) = log_msg Warn msg [] s"
    by (auto simp: isLogFilePathSafe_def)
  ultimately show ?thesis using isLogFilePathSafe_iff [of path s] by auto
qed

text \<open>The calls of \<open>spdlog\<close> that may fail, in their order, and what they leave on \<open>stderr\<close>.\<close>

definition spdlog_calls :: "spdlog_api \<Rightarrow> string \<Rightarrow> string \<Rightarrow> spdlog_result list" where
  "spdlog_calls sp name file = (if file = [] then [] else [sp_file_sink sp file]) @ [sp_register sp name]"

fun throws :: "spdlog_result \<Rightarrow> bool" where
  "throws (Throws what) = True" | "throws _ = False"

fun stderr_lines :: "spdlog_result list \<Rightarrow> string" where
  "stderr_lines [] = []"
| "stderr_lines (Works # calls) = stderr_lines calls"
| "stderr_lines (Reports msg # calls) = ''[spdlog error] '' @ msg @ endl @ stderr_lines calls"
| "stderr_lines (Throws what # calls) = ''[spdlog error] Log initialization failed: '' @ what @ endl"

lemma installed_logger:
  assumes "ls_handler s"
  shows "ls_handler (state_of (catch_std (install_logger sp name level file pattern s) (\<lambda>e. init_failed (exn_what e))))
    \<and> ls_stderr (state_of (catch_std (install_logger sp name level file pattern s) (\<lambda>e. init_failed (exn_what e))))
      = ls_stderr s @ stderr_lines (spdlog_calls sp name file)
    \<and> ls_default (state_of (catch_std (install_logger sp name level file pattern s) (\<lambda>e. init_failed (exn_what e))))
      = (if list_ex throws (spdlog_calls sp name file) then ls_default s
         else Some \<lparr>lg_name = name, lg_sinks = make_sinks level file, lg_level = level, lg_pattern = pattern,
                    lg_flush_on = Err\<rparr>)"
  using assms
  by (cases "file = []"; cases "sp_register sp name"; cases "sp_file_sink sp file")
    (simp_all add: install_logger_def open_file_sink_def spdlog_call_def spdlog_calls_def error_handler_def
      init_failed_def log_msg_def)

text \<open>
  C31: Whatever the environment holds and whether \<open>spdlog\<close> throws its errors or hands them to the
  error handler and goes on: initialising the log installs the error handler first, so every failed
  call (the file sink's, the registration's) leaves its line on \<open>stderr\<close>. If none throws, the default
  logger is a new one: its pattern is printable ASCII and tabs only, its file, if any, is the
  validated \<open>LOG_FILE\<close>, and the logger and all its sinks have the one level of \<open>LOG_LEVEL\<close>. If one
  throws, the previous logger stays, and the failure is on \<open>stderr\<close> as a failed initialisation.
\<close>

theorem logging_initialized_safely:
  fixes s :: log_system and env :: environment and sp :: spdlog_api and name :: string
  defines "file \<equiv> fst (getLogFilePathFromEnv env s)" and "t \<equiv> initializeLogging sp env name s"
  shows "ls_handler t \<and> ls_stderr t = ls_stderr s @ stderr_lines (spdlog_calls sp name file) \<and>
    (if list_ex throws (spdlog_calls sp name file) then ls_default t = ls_default s
     else \<exists>lg. ls_default t = Some lg \<and> lg_name lg = name \<and> list_all pattern_byte (lg_pattern lg)
          \<and> lg_level lg = fst (getLogLevelFromEnv env s)
          \<and> lg_sinks lg = Console_Sink (lg_level lg)
              # (if file = [] then [] else [Rotating_File_Sink file 10485760 3 (lg_level lg)])
          \<and> acceptable_path file \<and> (file = [] \<or> env_file env = Some file))"
proof -
  define s0 where "s0 = s\<lparr>ls_handler := True\<rparr>"
  define s1 where "s1 = snd (getLogLevelFromEnv env s0)"
  define s2 where "s2 = snd (getLogFilePathFromEnv env s1)"
  define s3 where "s3 = snd (log_pattern env s2)"
  have f: "fst (getLogFilePathFromEnv env s1) = file"
    using isLogFilePathSafe_iff [of _ s1] isLogFilePathSafe_iff [of _ s]
    by (simp add: file_def getLogFilePathFromEnv_def Let_def split_beta split: option.split)
  have l: "fst (getLogLevelFromEnv env s0) = fst (getLogLevelFromEnv env s)" by (rule level_value)
  have log: "only_logs s0 s3" unfolding s3_def s2_def s1_def
    by (metis env_steps_log only_logs_trans)
  from only_logs_default [OF log]
  have old: "ls_handler s3" "ls_stderr s3 = ls_stderr s" "ls_default s3 = ls_default s" by (simp_all add: s0_def)
  have t: "t = state_of (catch_std (install_logger sp name (fst (getLogLevelFromEnv env s)) file
      (fst (log_pattern env s2)) s3) (\<lambda>e. init_failed (exn_what e)))"
    unfolding t_def initializeLogging_def Let_def split_beta s0_def [symmetric] s1_def [symmetric] l f
      s2_def [symmetric] s3_def [symmetric] ..
  have "acceptable_path file" "file = [] \<or> env_file env = Some file"
    unfolding file_def using env_values by blast+
  then show ?thesis
    using installed_logger [OF old(1), of sp name "fst (getLogLevelFromEnv env s)" "file" "fst (log_pattern env s2)"]
      env_values(3) [of env s2]
    by (simp add: t [symmetric] old(2,3) make_sinks_def)
qed

text \<open>
  A library that opens every file and registers every name, and one without exceptions that cannot
  open files.
\<close>

definition sample_spdlog :: spdlog_api where
  "sample_spdlog = \<lparr>sp_file_sink = \<lambda>_. Works, sp_register = \<lambda>_. Works, sp_level_name = \<lambda>_. ''info''\<rparr>"

definition full_disk_spdlog :: spdlog_api where
  "full_disk_spdlog = sample_spdlog\<lparr>sp_file_sink := \<lambda>_. Reports ''disk full''\<rparr>"

definition sample_system :: log_system where
  "sample_system = \<lparr>log_of = [], ls_default = None, ls_level = None, ls_flush_every = None, ls_handler = False, ls_stderr = []\<rparr>"

definition sample_env :: environment where
  "sample_env = \<lparr>env_level = Some ''debug'', env_file = Some ''../x.log'', env_pattern = Some [CHR 0x1B]\<rparr>"

theorem logging_initialized_safely_witness:
  "(\<exists>lg. ls_default (initializeLogging sample_spdlog sample_env ''app'' sample_system) = Some lg
     \<and> lg_level lg = Debug \<and> lg_sinks lg = [Console_Sink Debug])
   \<and> ls_stderr (initializeLogging full_disk_spdlog (sample_env\<lparr>env_file := Some ''x.log''\<rparr>) ''app'' sample_system)
     = ''[spdlog error] disk full'' @ endl"
proof
  have "fst (getLogFilePathFromEnv sample_env sample_system) = []"
    and "fst (getLogLevelFromEnv sample_env sample_system) = Debug" by code_simp+
  with logging_initialized_safely [where sp = sample_spdlog and name = "''app''" and env = sample_env and s = sample_system]
  show "\<exists>lg. ls_default (initializeLogging sample_spdlog sample_env ''app'' sample_system) = Some lg
     \<and> lg_level lg = Debug \<and> lg_sinks lg = [Console_Sink Debug]"
    by (auto simp: sample_spdlog_def spdlog_calls_def)
  have "fst (getLogFilePathFromEnv (sample_env\<lparr>env_file := Some ''x.log''\<rparr>) sample_system) = ''x.log''" by code_simp
  with logging_initialized_safely [where sp = full_disk_spdlog and name = "''app''"
      and env = "sample_env\<lparr>env_file := Some ''x.log''\<rparr>" and s = sample_system]
  show "ls_stderr (initializeLogging full_disk_spdlog (sample_env\<lparr>env_file := Some ''x.log''\<rparr>) ''app'' sample_system)
     = ''[spdlog error] disk full'' @ endl"
    by (simp add: full_disk_spdlog_def sample_spdlog_def spdlog_calls_def sample_system_def)
qed

theorem log_file_path_validation_witness:
  "fst (isLogFilePathSafe ''/var/log/a..b.log'' sample_system)
   \<and> \<not> fst (isLogFilePathSafe ''logs/../../etc'' sample_system)"
  using log_file_path_validation [of "''/var/log/a..b.log''" sample_system "[]"]
    log_file_path_validation [of "''logs/../../etc''" sample_system "[]"]
  by (simp add: acceptable_path_def)

end
