(* ===== verification/Client_Registry.thy ===== *)
theory Client_Registry
  imports Property_Utils
begin

text \<open>
  The contract that the clients which only keep a set of announced objects share: each event, a
  reply or a signal, changes the set of keys the way an abstract operation on sets does, and
  keeps the invariant of the client. The consequences for whole runs are proved here once.
\<close>

definition run_events :: "('e \<Rightarrow> 's \<Rightarrow> 's outcome) \<Rightarrow> 'e list \<Rightarrow> 's \<Rightarrow> 's" where
  "run_events step events s = fold (\<lambda>e s. state_of (step e s)) events s"

lemma run_events_simps [simp]:
  "run_events step [] s = s"
  "run_events step (e # events) s = run_events step events (state_of (step e s))"
  by (simp_all add: run_events_def)

lemma run_events_append: "run_events step (xs @ ys) s = run_events step ys (run_events step xs s)"
  by (simp add: run_events_def)

lemma run_events_invariant:
  assumes "\<And>e s. I s \<Longrightarrow> I (state_of (step e s))" and "I s"
  shows "I (run_events step events s)"
  using assms(2) by (induction events arbitrary: s) (auto intro: assms(1))

text \<open>
  A loop that constructs the objects of a list of paths, which \<open>mk\<close> may refuse: the paths taken up to
  the first that is new and refused, and whether the loop came to its end.
\<close>

fun taken :: "(string \<Rightarrow> exn option) \<Rightarrow> string list \<Rightarrow> string set \<Rightarrow> string set \<times> bool" where
  "taken mk [] A = (A, True)"
| "taken mk (path # paths) A =
     (if path \<in> A \<or> mk path = None then taken mk paths (insert path A) else (A, False))"

text \<open>
  The contract of such a loop's body, for the one of the sets of a client that \<open>sel\<close> reads and \<open>put\<close>
  replaces.
\<close>

locale constructing_loop =
  fixes body :: "'x \<Rightarrow> 's \<Rightarrow> 's outcome" and key :: "'x \<Rightarrow> string" and mk :: "string \<Rightarrow> exn option"
    and view :: "'s \<Rightarrow> 'v" and sel :: "'v \<Rightarrow> string set" and put :: "string set \<Rightarrow> 'v \<Rightarrow> 'v"
    and inv :: "'s \<Rightarrow> bool"
  assumes sel_put: "sel (put A v) = A" and put_put: "put A (put B v) = put A v" and put_sel: "put (sel v) v = v"
    and body_done: "is_done (body x s) \<longleftrightarrow> key x \<in> sel (view s) \<or> mk (key x) = None"
    and body_view: "view (state_of (body x s)) =
      (if key x \<in> sel (view s) \<or> mk (key x) = None then put (insert (key x) (sel (view s))) (view s) else view s)"
    and body_inv: "inv s \<Longrightarrow> inv (state_of (body x s))"
begin

lemma loop:
  "is_done (for_each body xs s) = snd (taken mk (map key xs) (sel (view s)))
   \<and> view (state_of (for_each body xs s)) = put (fst (taken mk (map key xs) (sel (view s)))) (view s)
   \<and> (inv s \<longrightarrow> inv (state_of (for_each body xs s)))"
proof (induction xs arbitrary: s)
  case Nil
  then show ?case by (simp add: put_sel)
next
  case (Cons x xs)
  note b = body_done [of x s] body_view [of x s] body_inv [of s x]
  show ?case
  proof (cases "body x s")
    case (Done t)
    with b Cons.IH [of t] show ?thesis by (auto simp: sel_put put_put)
  next
    case (Throw e t)
    with b show ?thesis by (auto simp: put_sel)
  qed
qed

end

locale announced_set =
  fixes step :: "'e \<Rightarrow> 's \<Rightarrow> 's outcome"
    and view :: "'s \<Rightarrow> 'a"
    and announced :: "'e \<Rightarrow> 'a \<Rightarrow> 'a"
    and inv :: "'s \<Rightarrow> bool"
  assumes step_inv: "inv s \<Longrightarrow> inv (state_of (step e s))"
    and step_view: "inv s \<Longrightarrow> view (state_of (step e s)) = announced e (view s)"
begin

lemma run_inv: "inv s \<Longrightarrow> inv (run_events step events s)"
  by (rule run_events_invariant) (rule step_inv)

lemma run_view: "inv s \<Longrightarrow> view (run_events step events s) = fold announced events (view s)"
proof (induction events arbitrary: s)
  case (Cons e events)
  then show ?case by (simp add: step_view step_inv)
qed simp

end

text \<open>
  A loop whose body may throw does a prefix of its work: its body changes the view if it
  completes and leaves it alone if it throws.
\<close>

lemma for_each_prefix:
  assumes "\<And>x s. view (state_of (f x s)) = (if is_done (f x s) then upd x (view s) else view s)"
  shows "\<exists>k \<le> length xs. view (state_of (for_each f xs s)) = fold upd (take k xs) (view s)
           \<and> (is_done (for_each f xs s) \<longleftrightarrow> k = length xs)"
proof (induction xs arbitrary: s)
  case (Cons x xs)
  show ?case
  proof (cases "f x s")
    case (Done t)
    with assms [of x s] have t: "view t = upd x (view s)" by simp
    from Cons.IH [of t] obtain k where "k \<le> length xs"
      "view (state_of (for_each f xs t)) = fold upd (take k xs) (view t)"
      "is_done (for_each f xs t) \<longleftrightarrow> k = length xs" by blast
    with Done t show ?thesis by (intro exI [of _ "Suc k"]) simp
  next
    case (Throw e t)
    with assms [of x s] show ?thesis by (intro exI [of _ 0]) simp
  qed
qed simp

text \<open>
  The weaker contract of a client whose handlers may throw half way: it holds at most what was
  announced, and exactly that if no handler threw.
\<close>

fun all_done :: "('e \<Rightarrow> 's \<Rightarrow> 's outcome) \<Rightarrow> 'e list \<Rightarrow> 's \<Rightarrow> bool" where
  "all_done step [] s = True"
| "all_done step (e # events) s \<longleftrightarrow> is_done (step e s) \<and> all_done step events (state_of (step e s))"

lemma all_done_append:
  "all_done step (xs @ ys) s \<longleftrightarrow> all_done step xs s \<and> all_done step ys (run_events step xs s)"
  by (induction xs arbitrary: s) auto

lemma for_each_events:
  assumes "for_each f xs s = Done t" and "\<And>x. step (ev x) = f x"
  shows "run_events step (map ev xs) s = t \<and> all_done step (map ev xs) s"
  using assms(1)
proof (induction xs arbitrary: s)
  case (Cons x xs)
  then show ?case by (cases "f x s") (auto simp: assms(2))
qed simp

locale announced_bound =
  fixes step :: "'e \<Rightarrow> 's \<Rightarrow> 's outcome"
    and view :: "'s \<Rightarrow> 'a set"
    and announced :: "'e \<Rightarrow> 'a set \<Rightarrow> 'a set"
  assumes announced_mono: "A \<subseteq> B \<Longrightarrow> announced e A \<subseteq> announced e B"
    and step_bound: "view (state_of (step e s)) \<subseteq> announced e (view s)"
begin

lemma run_bound: "view s \<subseteq> A \<Longrightarrow> view (run_events step events s) \<subseteq> fold announced events A"
proof (induction events arbitrary: s A)
  case (Cons e events)
  then have "view (state_of (step e s)) \<subseteq> announced e A"
    using step_bound [of e s] announced_mono [of "view s" A e] by blast
  with Cons.IH show ?case by simp
qed simp

end

locale announced_complete =
  fixes step :: "'e \<Rightarrow> 's \<Rightarrow> 's outcome"
    and view :: "'s \<Rightarrow> 'a"
    and announced :: "'e \<Rightarrow> 'a \<Rightarrow> 'a"
  assumes step_exact: "is_done (step e s) \<Longrightarrow> view (state_of (step e s)) = announced e (view s)"
begin

lemma run_exact: "all_done step events s \<Longrightarrow> view (run_events step events s) = fold announced events (view s)"
  by (induction events arbitrary: s) (simp_all add: step_exact)

end

locale announced_exact = announced_bound step view announced + announced_complete step view announced
  for step :: "'e \<Rightarrow> 's \<Rightarrow> 's outcome" and view :: "'s \<Rightarrow> 'a set" and announced :: "'e \<Rightarrow> 'a set \<Rightarrow> 'a set"

end
