(* ===== verification/Systemd1.thy ===== *)
theory Systemd1
  imports Client_Registry
begin

text \<open>
  \<open>src/systemd1/systemd1_manager_client.{h,cc}\<close>: the client of the systemd manager, which keeps
  the identifiers of the units it was told of, without duplicates and up to a cap.
\<close>

record systemd_client = logged +
  activeUnits :: "string list"

definition systemd_client_new :: "log_entry list \<Rightarrow> systemd_client" where
  "systemd_client_new lg = \<lparr>log_of = lg, activeUnits = []\<rparr>"

text \<open>The reply to the \<open>GetAll\<close> call that the constructor starts.\<close>

definition systemd_reply ::
    "'v variant_api \<Rightarrow> (string \<times> string) option \<Rightarrow> 'v props \<Rightarrow> systemd_client \<Rightarrow> systemd_client outcome" where
  "systemd_reply api error values s =
     (case error of
        Some (name, msg) \<Rightarrow> Done (log_msg Warn ''systemd1.Manager GetAllAsync failed: {} - {}'' [LStr name, LStr msg] s)
      | None \<Rightarrow> print_changed_properties api ''org.freedesktop.systemd1.Manager'' values [] s)"

definition systemd_onPropertiesChanged ::
    "'v variant_api \<Rightarrow> string \<Rightarrow> 'v props \<Rightarrow> string list \<Rightarrow> systemd_client \<Rightarrow> systemd_client outcome" where
  "systemd_onPropertiesChanged api interfaceName changedProperties invalidatedProperties s =
     (if changedProperties \<noteq> []
      then print_changed_properties api interfaceName changedProperties invalidatedProperties s
      else Done s)"

definition onUnitNew :: "string \<Rightarrow> string \<Rightarrow> systemd_client \<Rightarrow> systemd_client" where
  "onUnitNew uid unit s =
     (let s = (if uid \<notin> set (activeUnits s)
               then (if IsAtCapacity (length (activeUnits s)) kMaxUnits
                     then log_msg Warn ''[systemd1] Skipping UnitNew id={}: resource limit reached ({})''
                            [LStr uid, LInt (int kMaxUnits)] s
                     else s\<lparr>activeUnits := activeUnits s @ [uid]\<rparr>)
               else s)
      in log_msg Info ''[systemd1] UnitNew id={} path={}'' [LStr uid, LStr unit] s)"

definition onUnitRemoved :: "string \<Rightarrow> string \<Rightarrow> systemd_client \<Rightarrow> systemd_client" where
  "onUnitRemoved uid unit s =
     log_msg Info ''[systemd1] UnitRemoved id={} path={}'' [LStr uid, LStr unit]
       (s\<lparr>activeUnits := filter (\<lambda>u. u \<noteq> uid) (activeUnits s)\<rparr>)"

definition onJobNew :: "u32 \<Rightarrow> string \<Rightarrow> string \<Rightarrow> systemd_client \<Rightarrow> systemd_client" where
  "onJobNew uid job unit =
     log_msg Info ''[systemd1] JobNew job_id={} job_path={} unit={}'' [LInt (uint uid), LStr job, LStr unit]"

definition onJobRemoved :: "u32 \<Rightarrow> string \<Rightarrow> string \<Rightarrow> string \<Rightarrow> systemd_client \<Rightarrow> systemd_client" where
  "onJobRemoved uid job unit result =
     log_msg Info ''[systemd1] JobRemoved job_id={} job_path={} unit={} result={}''
       [LInt (uint uid), LStr job, LStr unit, LStr result]"

definition onStartupFinished ::
    "u64 \<Rightarrow> u64 \<Rightarrow> u64 \<Rightarrow> u64 \<Rightarrow> u64 \<Rightarrow> u64 \<Rightarrow> systemd_client \<Rightarrow> systemd_client" where
  "onStartupFinished firmware loader kern initrd userspace tot =
     log_msg Info ''[systemd1] StartupFinished firmware={} loader={} kernel={} initrd={} userspace={} total={}''
       [LInt (uint firmware), LInt (uint loader), LInt (uint kern), LInt (uint initrd), LInt (uint userspace),
        LInt (uint tot)]"

definition onUnitFilesChanged :: "systemd_client \<Rightarrow> systemd_client" where
  "onUnitFilesChanged = log_msg Info ''[systemd1] UnitFilesChanged'' []"

definition onReloading :: "bool \<Rightarrow> systemd_client \<Rightarrow> systemd_client" where
  "onReloading active = log_msg Info ''[systemd1] Reloading active={}'' [LBool active]"

section \<open>Runs\<close>

datatype 'v systemd_event =
    SE_Reply "(string \<times> string) option" "'v props"
  | SE_Properties string "'v props" "string list"
  | SE_Unit_New string string
  | SE_Unit_Removed string string
  | SE_Job_New u32 string string
  | SE_Job_Removed u32 string string string
  | SE_Startup_Finished u64 u64 u64 u64 u64 u64
  | SE_Unit_Files_Changed
  | SE_Reloading bool

fun systemd_step :: "'v variant_api \<Rightarrow> 'v systemd_event \<Rightarrow> systemd_client \<Rightarrow> systemd_client outcome" where
  "systemd_step api (SE_Reply error values) s = systemd_reply api error values s"
| "systemd_step api (SE_Properties i changed invalidated) s = systemd_onPropertiesChanged api i changed invalidated s"
| "systemd_step api (SE_Unit_New i path) s = Done (onUnitNew i path s)"
| "systemd_step api (SE_Unit_Removed i path) s = Done (onUnitRemoved i path s)"
| "systemd_step api (SE_Job_New i job unit) s = Done (onJobNew i job unit s)"
| "systemd_step api (SE_Job_Removed i job unit result) s = Done (onJobRemoved i job unit result s)"
| "systemd_step api (SE_Startup_Finished f l k i u t) s = Done (onStartupFinished f l k i u t s)"
| "systemd_step api SE_Unit_Files_Changed s = Done (onUnitFilesChanged s)"
| "systemd_step api (SE_Reloading active) s = Done (onReloading active s)"

definition systemd_run :: "'v variant_api \<Rightarrow> log_entry list \<Rightarrow> 'v systemd_event list \<Rightarrow> systemd_client" where
  "systemd_run api lg events = run_events (systemd_step api) events (systemd_client_new lg)"

text \<open>The abstract client: a set of at most \<open>kMaxUnits\<close> identifiers.\<close>

fun units_announced :: "'v systemd_event \<Rightarrow> string set \<Rightarrow> string set" where
  "units_announced (SE_Unit_New i path) S = (if card S < kMaxUnits then insert i S else S)"
| "units_announced (SE_Unit_Removed i path) S = S - {i}"
| "units_announced _ S = S"

definition units_inv :: "systemd_client \<Rightarrow> bool" where
  "units_inv s \<longleftrightarrow> distinct (activeUnits s) \<and> length (activeUnits s) \<le> kMaxUnits"

lemma activeUnits_log [frame_simps]: "activeUnits (log_msg l fmt args s) = activeUnits s"
  by (simp add: log_msg_def)

lemma activeUnits_printed: "activeUnits (state_of (print_changed_properties api i c v s)) = activeUnits s"
  by (simp add: print_changed_properties_def frame_simps split: outcome.split)

lemma activeUnits_new: "activeUnits (onUnitNew i path s) =
    (if i \<in> set (activeUnits s) \<or> kMaxUnits \<le> length (activeUnits s) then activeUnits s else activeUnits s @ [i])"
  by (simp add: onUnitNew_def Let_def frame_simps IsAtCapacity_def)

lemma activeUnits_removed: "activeUnits (onUnitRemoved i path s) = filter (\<lambda>u. u \<noteq> i) (activeUnits s)"
  by (simp add: onUnitRemoved_def frame_simps)

lemma units_step: "units_inv s \<Longrightarrow> units_inv (state_of (systemd_step api e s))
    \<and> set (activeUnits (state_of (systemd_step api e s))) = units_announced e (set (activeUnits s))"
proof (cases e)
  case (SE_Unit_New i path)
  assume "units_inv s"
  then show ?thesis
    by (auto simp: SE_Unit_New units_inv_def activeUnits_new distinct_card)
next
  case (SE_Unit_Removed i path)
  assume "units_inv s"
  then show ?thesis
    by (auto simp: SE_Unit_Removed units_inv_def activeUnits_removed intro: order_trans [OF length_filter_le])
qed (auto simp: units_inv_def systemd_reply_def systemd_onPropertiesChanged_def frame_simps activeUnits_printed
    onJobNew_def onJobRemoved_def onStartupFinished_def onUnitFilesChanged_def onReloading_def
    split: option.split)

interpretation units: announced_set "systemd_step api" "\<lambda>s. set (activeUnits s)" units_announced units_inv
  by unfold_locales (use units_step in blast)+

text \<open>
  C32: Whatever replies and signals reach the systemd client, the units it keeps are distinct and at
  most \<open>kMaxUnits\<close>, and as a set they are those of the abstract client, which adds each announced
  unit while there is room and drops each removed one.
\<close>

theorem active_units_refine_bounded_set:
  "distinct (activeUnits (systemd_run api lg events)) \<and> length (activeUnits (systemd_run api lg events)) \<le> kMaxUnits
   \<and> set (activeUnits (systemd_run api lg events)) = fold units_announced events {}"
proof -
  have "units_inv (systemd_client_new lg)" by (simp add: units_inv_def systemd_client_new_def)
  with units.run_inv [of _ api events] units.run_view [of _ api events] show ?thesis
    by (simp add: systemd_run_def units_inv_def systemd_client_new_def)
qed

end
