(* ===== verification/Login1.thy ===== *)
theory Login1
  imports Client_Registry
begin

text \<open>
  \<open>src/login1/login1_{seat,session,user}.h\<close> and \<open>src/login1/login1_manager_client.{h,cc}\<close>: the
  client of the login manager and its registries of seats, sessions and users. The synchronous
  D-Bus calls are arguments of the handlers: what \<open>GetAll\<close>, \<open>ListSeats\<close>, \<open>ListSessions\<close> and
  \<open>ListUsers\<close> returned or threw, and what the construction of a proxy threw.
\<close>

section \<open>Seats, sessions and users\<close>

text \<open>
  The three classes share their text; they differ in the heading they print, the name of their
  interface and the text of their error messages. An object has no state but its path.
\<close>

record login_class =
  lo_heading :: string
  lo_interface :: string
  lo_reply_error :: string
  lo_getall_error :: string

definition Login1Seat :: login_class where
  "Login1Seat = \<lparr>lo_heading = ''SEAT: '', lo_interface = ''org.freedesktop.login1.Seat'',
     lo_reply_error = ''login1.Seat: {} - {}'', lo_getall_error = ''Failed to get seat properties for {}: {} - {}''\<rparr>"

definition Login1Session :: login_class where
  "Login1Session = \<lparr>lo_heading = ''SESSION: '', lo_interface = ''org.freedesktop.login1.Session'',
     lo_reply_error = ''login1.Session: {} - {}'', lo_getall_error = ''Failed to get session properties for {}: {} - {}''\<rparr>"

definition Login1User :: login_class where
  "Login1User = \<lparr>lo_heading = ''USER: '', lo_interface = ''org.freedesktop.login1.User'',
     lo_reply_error = ''login1.User: {} - {}'', lo_getall_error = ''Failed to get user properties for {}: {} - {}''\<rparr>"

definition rule_line :: string where
  "rule_line = ''========================================'' @ endl"

fun exn_name :: "exn \<Rightarrow> string" where
  "exn_name (DBus_Error name _) = name"
| "exn_name (Std_Exception _) = []"

definition login_properties_text :: "'v variant_api \<Rightarrow> login_class \<Rightarrow> string \<Rightarrow> 'v props \<Rightarrow> ostream outcome" where
  "login_properties_text api cls path props =
     seq (append_properties max_nesting api props
            (put (endl @ rule_line @ lo_heading cls @ path @ endl @ rule_line) ostringstream))
         (\<lambda>os. Done (put rule_line os))"

definition login_printProperties ::
    "'v variant_api \<Rightarrow> login_class \<Rightarrow> string \<Rightarrow> exn + 'v props \<Rightarrow> 'a logged_scheme \<Rightarrow> 'a logged_scheme outcome" where
  "login_printProperties api cls path getall s =
     catch_dbus
       (with_value getall (\<lambda>props s.
          case login_properties_text api cls path props of
            Done os \<Rightarrow> Done (log_msg Info (os_buf os) [] s)
          | Throw e _ \<Rightarrow> Throw e s) s)
       (\<lambda>e. log_msg Err (lo_getall_error cls) [LStr path, LStr (exn_name e), LStr (exn_what e)])"

definition login_object_onPropertiesChanged ::
    "'v variant_api \<Rightarrow> login_class \<Rightarrow> string \<Rightarrow> exn + 'v props \<Rightarrow> string \<Rightarrow> 'v props \<Rightarrow> string list \<Rightarrow>
     'a logged_scheme \<Rightarrow> 'a logged_scheme outcome" where
  "login_object_onPropertiesChanged api cls path getall interfaceName changedProperties invalidatedProperties s =
     seq (print_changed_properties api interfaceName changedProperties invalidatedProperties s)
         (\<lambda>s. if changedProperties \<noteq> [] then login_printProperties api cls path getall s else Done s)"

definition login_object_reply ::
    "'v variant_api \<Rightarrow> login_class \<Rightarrow> string \<Rightarrow> exn + 'v props \<Rightarrow> (string \<times> string) option \<Rightarrow> 'v props \<Rightarrow>
     'a logged_scheme \<Rightarrow> 'a logged_scheme outcome" where
  "login_object_reply api cls path getall error values s =
     (case error of
        None \<Rightarrow> login_object_onPropertiesChanged api cls path getall (lo_interface cls) values [] s
      | Some (name, msg) \<Rightarrow> Done (log_msg Err (lo_reply_error cls) [LStr name, LStr msg] s))"

definition onPauseDevice :: "u32 \<Rightarrow> u32 \<Rightarrow> string \<Rightarrow> 'a logged_scheme \<Rightarrow> 'a logged_scheme" where
  "onPauseDevice major minor type =
     log_msg Info ''[Login1Session] onPauseDevice: major={}, minor={}, type={}'' [LInt (uint major), LInt (uint minor), LStr type]"

definition onResumeDevice :: "u32 \<Rightarrow> u32 \<Rightarrow> int \<Rightarrow> 'a logged_scheme \<Rightarrow> 'a logged_scheme" where
  "onResumeDevice major minor fd =
     log_msg Info ''[Login1Session] onResumeDevice: major={}, minor={}, fd={}'' [LInt (uint major), LInt (uint minor), LInt fd]"

definition onLock :: "'a logged_scheme \<Rightarrow> 'a logged_scheme" where
  "onLock = log_msg Info ''[Login1Session] onLock'' []"

definition onUnlock :: "'a logged_scheme \<Rightarrow> 'a logged_scheme" where
  "onUnlock = log_msg Info ''[Login1Session] onUnlock'' []"

section \<open>Login1ManagerClient\<close>

text \<open>A registry maps a path to its object, which has no state but that path.\<close>

record login_client = logged +
  lc_seats :: "(string \<times> login_class) list"
  lc_sessions :: "(string \<times> login_class) list"
  lc_users :: "(string \<times> login_class) list"

definition login_client_new :: "log_entry list \<Rightarrow> login_client" where
  "login_client_new lg = \<lparr>log_of = lg, lc_seats = [], lc_sessions = [], lc_users = []\<rparr>"

definition login_client_destroy :: "login_client \<Rightarrow> login_client" where
  "login_client_destroy s = s\<lparr>lc_seats := [], lc_sessions := [], lc_users := []\<rparr>"

definition login_onPropertiesChanged ::
    "'v variant_api \<Rightarrow> string \<Rightarrow> 'v props \<Rightarrow> string list \<Rightarrow> login_client \<Rightarrow> login_client outcome" where
  "login_onPropertiesChanged api interfaceName changedProperties invalidatedProperties s =
     print_changed_properties api interfaceName changedProperties invalidatedProperties s"

text \<open>\<open>mk path\<close> is what the constructor of the object throws, if anything; then no entry is made.\<close>

fun construct :: "exn option \<Rightarrow> (login_client \<Rightarrow> login_client) \<Rightarrow> login_client \<Rightarrow> login_client outcome" where
  "construct (Some e) store s = Throw e s"
| "construct None store s = Done (store s)"

definition onSessionNew :: "(string \<Rightarrow> exn option) \<Rightarrow> string \<Rightarrow> string \<Rightarrow> login_client \<Rightarrow> login_client outcome" where
  "onSessionNew mk session_id path s =
     (let s = log_msg Info ''onSessionNew: {}: {}'' [LStr session_id, LStr path] s
      in if contains (lc_sessions s) path then Done s
         else construct (mk path) (\<lambda>s. s\<lparr>lc_sessions := AList.update path Login1Session (lc_sessions s)\<rparr>) s)"

definition onUserNew :: "(string \<Rightarrow> exn option) \<Rightarrow> u32 \<Rightarrow> string \<Rightarrow> login_client \<Rightarrow> login_client outcome" where
  "onUserNew mk uid path s =
     (let s = log_msg Info ''onUserNew: {}: {}'' [LInt (uint uid), LStr path] s
      in if contains (lc_users s) path then Done s
         else construct (mk path) (\<lambda>s. s\<lparr>lc_users := AList.update path Login1User (lc_users s)\<rparr>) s)"

definition onSeatNew :: "(string \<Rightarrow> exn option) \<Rightarrow> string \<Rightarrow> string \<Rightarrow> login_client \<Rightarrow> login_client outcome" where
  "onSeatNew mk seat_id path s =
     (let s = log_msg Info ''onSeatNew: {}: {}'' [LStr seat_id, LStr path] s
      in if contains (lc_seats s) path then Done s
         else construct (mk path) (\<lambda>s. s\<lparr>lc_seats := AList.update path Login1Seat (lc_seats s)\<rparr>) s)"

definition removed_text :: "string \<Rightarrow> string \<Rightarrow> string \<Rightarrow> string" where
  "removed_text title path field = endl @ rule_line @ title @ '' REMOVED: '' @ path @ endl @ field @ endl @ rule_line"

definition onSessionRemoved :: "string \<Rightarrow> string \<Rightarrow> login_client \<Rightarrow> login_client" where
  "onSessionRemoved session_id path s =
     (let s = log_msg Info (removed_text ''SESSION'' path (''  Session ID: '' @ session_id)) [] s
      in if contains (lc_sessions s) path then s\<lparr>lc_sessions := AList.delete path (lc_sessions s)\<rparr> else s)"

definition onUserRemoved :: "u32 \<Rightarrow> string \<Rightarrow> login_client \<Rightarrow> login_client" where
  "onUserRemoved uid path s =
     (let s = log_msg Info (removed_text ''USER'' path (''  UID: '' @ nat_to_string (unat uid))) [] s
      in if contains (lc_users s) path then s\<lparr>lc_users := AList.delete path (lc_users s)\<rparr> else s)"

definition onSeatRemoved :: "string \<Rightarrow> string \<Rightarrow> login_client \<Rightarrow> login_client" where
  "onSeatRemoved seat_id path s =
     (let s = log_msg Info (removed_text ''SEAT'' path (''  Seat ID: '' @ seat_id)) [] s
      in if contains (lc_seats s) path then s\<lparr>lc_seats := AList.delete path (lc_seats s)\<rparr> else s)"

definition onPrepareForShutdown :: "bool \<Rightarrow> login_client \<Rightarrow> login_client" where
  "onPrepareForShutdown start = log_msg Info ''onPrepareForShutdown: {}'' [LBool start]"

definition onPrepareForShutdownWithMetadata ::
    "'v variant_api \<Rightarrow> bool \<Rightarrow> 'v props \<Rightarrow> login_client \<Rightarrow> login_client outcome" where
  "onPrepareForShutdownWithMetadata api start metadata s =
     (let s = log_msg Info ''onPrepareForShutdownWithMetadata: {}'' [LBool start] s
      in case append_properties max_nesting api metadata (put endl ostringstream) of
           Done os \<Rightarrow> Done (log_msg Info (os_buf os) [] s)
         | Throw e _ \<Rightarrow> Throw e s)"

definition onPrepareForSleep :: "bool \<Rightarrow> login_client \<Rightarrow> login_client" where
  "onPrepareForSleep start = log_msg Info ''onPrepareForSleep: {}'' [LBool start]"

text \<open>
  The reply to the \<open>GetAll\<close> call of the constructor. The found have the elements of the structs
  that are used: name and path of a seat, user name and path of a session, number and path of a
  user.
\<close>

record login_lists =
  ll_seats :: "exn + (string \<times> string) list"
  ll_sessions :: "exn + (string \<times> string) list"
  ll_users :: "exn + (u32 \<times> string) list"

definition login_enumerate :: "(string \<Rightarrow> exn option) \<Rightarrow> login_lists \<Rightarrow> login_client \<Rightarrow> login_client outcome" where
  "login_enumerate mk found s =
     seq (seq (with_value (ll_seats found) (for_each (\<lambda>(name, path). onSeatNew mk name path)) s)
              (with_value (ll_sessions found) (for_each (\<lambda>(user_name, path). onSessionNew mk user_name path))))
         (with_value (ll_users found) (for_each (\<lambda>(uid, path). onUserNew mk uid path)))"

definition login_manager_interface :: string where
  "login_manager_interface = ''org.freedesktop.login1.Manager''"

definition login_reply ::
    "'v variant_api \<Rightarrow> (string \<Rightarrow> exn option) \<Rightarrow> (string \<times> string) option \<Rightarrow> 'v props \<Rightarrow> login_lists \<Rightarrow>
     login_client \<Rightarrow> login_client outcome" where
  "login_reply api mk error values found s =
     (case error of
        None \<Rightarrow>
          seq (login_onPropertiesChanged api login_manager_interface values [] s)
              (\<lambda>s. catch_dbus (login_enumerate mk found s)
                 (\<lambda>e. log_msg Err ''[{}] enumerate failed: {} - {}''
                    [LStr login_manager_interface, LStr (exn_name e), LStr (exn_what e)]))
      | Some (name, msg) \<Rightarrow>
          Done (log_msg Err ''[{}] {} - {}'' [LStr login_manager_interface, LStr name, LStr msg] s))"

section \<open>Runs\<close>

text \<open>Handlers of a registered object only log; they reach the client with their class and path.\<close>

datatype 'v login_event =
    LE_Reply "(string \<times> string) option" "'v props" login_lists
  | LE_Properties string "'v props" "string list"
  | LE_Session_New string string
  | LE_Session_Removed string string
  | LE_User_New u32 string
  | LE_User_Removed u32 string
  | LE_Seat_New string string
  | LE_Seat_Removed string string
  | LE_Prepare_For_Shutdown bool
  | LE_Prepare_For_Shutdown_With_Metadata bool "'v props"
  | LE_Prepare_For_Sleep bool
  | LE_Object_Reply login_class string "exn + 'v props" "(string \<times> string) option" "'v props"
  | LE_Object_Properties login_class string "exn + 'v props" string "'v props" "string list"

fun login_step ::
    "'v variant_api \<Rightarrow> (string \<Rightarrow> exn option) \<Rightarrow> 'v login_event \<Rightarrow> login_client \<Rightarrow> login_client outcome" where
  "login_step api mk (LE_Reply error values found) s = login_reply api mk error values found s"
| "login_step api mk (LE_Properties i changed invalidated) s = login_onPropertiesChanged api i changed invalidated s"
| "login_step api mk (LE_Session_New i path) s = onSessionNew mk i path s"
| "login_step api mk (LE_Session_Removed i path) s = Done (onSessionRemoved i path s)"
| "login_step api mk (LE_User_New i path) s = onUserNew mk i path s"
| "login_step api mk (LE_User_Removed i path) s = Done (onUserRemoved i path s)"
| "login_step api mk (LE_Seat_New i path) s = onSeatNew mk i path s"
| "login_step api mk (LE_Seat_Removed i path) s = Done (onSeatRemoved i path s)"
| "login_step api mk (LE_Prepare_For_Shutdown start) s = Done (onPrepareForShutdown start s)"
| "login_step api mk (LE_Prepare_For_Shutdown_With_Metadata start metadata) s =
     onPrepareForShutdownWithMetadata api start metadata s"
| "login_step api mk (LE_Prepare_For_Sleep start) s = Done (onPrepareForSleep start s)"
| "login_step api mk (LE_Object_Reply cls path getall error values) s =
     login_object_reply api cls path getall error values s"
| "login_step api mk (LE_Object_Properties cls path getall i changed invalidated) s =
     login_object_onPropertiesChanged api cls path getall i changed invalidated s"

text \<open>Whether an object can be constructed may differ from event to event.\<close>

definition login_run ::
    "'v variant_api \<Rightarrow> log_entry list \<Rightarrow> ((string \<Rightarrow> exn option) \<times> 'v login_event) list \<Rightarrow> login_client" where
  "login_run api lg events = run_events (\<lambda>(mk, e). login_step api mk e) events (login_client_new lg)"

section \<open>The abstract client\<close>

text \<open>Three sets of paths.\<close>

type_synonym login_view = "string set \<times> string set \<times> string set"

definition login_view :: "login_client \<Rightarrow> login_view" where
  "login_view s = (keys (lc_seats s), keys (lc_sessions s), keys (lc_users s))"

text \<open>
  What an enumeration takes: the three lists in order, up to the first list call that failed or the
  first new object that could not be constructed.
\<close>

definition enumerated :: "(string \<Rightarrow> exn option) \<Rightarrow> login_lists \<Rightarrow> login_view \<Rightarrow> login_view" where
  "enumerated mk found = (\<lambda>(seats, sessions, users).
     case ll_seats found of
       Inl _ \<Rightarrow> (seats, sessions, users)
     | Inr xs \<Rightarrow>
         (let (seats, all_seats) = taken mk (map snd xs) seats
          in case (all_seats, ll_sessions found) of
               (True, Inr ys) \<Rightarrow>
                 (let (sessions, all_sessions) = taken mk (map snd ys) sessions
                  in case (all_sessions, ll_users found) of
                       (True, Inr zs) \<Rightarrow> (seats, sessions, fst (taken mk (map snd zs) users))
                     | _ \<Rightarrow> (seats, sessions, users))
             | _ \<Rightarrow> (seats, sessions, users)))"

definition created :: "(string \<Rightarrow> exn option) \<Rightarrow> string \<Rightarrow> string set \<Rightarrow> string set" where
  "created mk path A = (if mk path = None then insert path A else A)"

fun login_announced :: "'v variant_api \<Rightarrow> (string \<Rightarrow> exn option) \<Rightarrow> 'v login_event \<Rightarrow> login_view \<Rightarrow> login_view" where
  "login_announced api mk (LE_Reply error values found) v =
     (if error = None \<and> is_done (changed_properties_text api login_manager_interface values [])
      then enumerated mk found v else v)"
| "login_announced api mk (LE_Session_New i path) (seats, sessions, users) = (seats, created mk path sessions, users)"
| "login_announced api mk (LE_Session_Removed i path) (seats, sessions, users) = (seats, sessions - {path}, users)"
| "login_announced api mk (LE_User_New u path) (seats, sessions, users) = (seats, sessions, created mk path users)"
| "login_announced api mk (LE_User_Removed u path) (seats, sessions, users) = (seats, sessions, users - {path})"
| "login_announced api mk (LE_Seat_New i path) (seats, sessions, users) = (created mk path seats, sessions, users)"
| "login_announced api mk (LE_Seat_Removed i path) (seats, sessions, users) = (seats - {path}, sessions, users)"
| "login_announced api mk _ v = v"

definition login_inv :: "login_client \<Rightarrow> bool" where
  "login_inv s \<longleftrightarrow> wf_map (lc_seats s) \<and> wf_map (lc_sessions s) \<and> wf_map (lc_users s)"

text \<open>What a handler that only logs keeps.\<close>

definition registries :: "login_client \<Rightarrow> (string \<times> login_class) list \<times> (string \<times> login_class) list \<times> (string \<times> login_class) list" where
  "registries s = (lc_seats s, lc_sessions s, lc_users s)"

lemma registries_log [simp]: "registries (log_msg l fmt args s) = registries s"
  by (simp add: registries_def log_msg_def)

lemma registries_printed [simp]: "registries (state_of (print_changed_properties api i c v s)) = registries s"
  by (simp add: print_changed_properties_def split: outcome.split)

lemma same_registries:
  assumes "registries s = registries t"
  shows "login_inv s = login_inv t" "login_view s = login_view t"
  using assms by (simp_all add: login_inv_def login_view_def registries_def)

lemma registries_object: "registries (state_of (login_printProperties api cls path getall s)) = registries s"
  by (cases getall) (auto simp: login_printProperties_def registries_def log_msg_def split: outcome.split exn.split)

lemma registries_object_changed:
  "registries (state_of (login_object_onPropertiesChanged api cls path getall i c v s)) = registries s"
proof (cases "print_changed_properties api i c v s")
  case (Done t)
  with registries_printed [of api i c v s] show ?thesis
    by (simp add: login_object_onPropertiesChanged_def registries_object)
next
  case (Throw e t)
  with registries_printed [of api i c v s] show ?thesis by (simp add: login_object_onPropertiesChanged_def)
qed

lemma log_fields [frame_simps]:
  "lc_seats (log_msg l fmt args s) = lc_seats s"
  "lc_sessions (log_msg l fmt args s) = lc_sessions s"
  "lc_users (log_msg l fmt args s) = lc_users s"
  by (simp_all add: log_msg_def)

lemma construct_cases: "construct e store s = (case e of None \<Rightarrow> Done (store s) | Some x \<Rightarrow> Throw x s)"
  by (cases e) simp_all

text \<open>The six handlers of the registries.\<close>

lemmas new_defs = onSeatNew_def onSessionNew_def onUserNew_def

lemma new_view_parts:
  "login_view (state_of (onSeatNew mk i path s)) =
     (created mk path (keys (lc_seats s)), keys (lc_sessions s), keys (lc_users s))"
  "login_view (state_of (onSessionNew mk i path s)) =
     (keys (lc_seats s), created mk path (keys (lc_sessions s)), keys (lc_users s))"
  "login_view (state_of (onUserNew mk u path s)) =
     (keys (lc_seats s), keys (lc_sessions s), created mk path (keys (lc_users s)))"
  by (auto simp: login_view_def new_defs Let_def frame_simps contains_keys created_def construct_cases split: option.split)

lemma new_view:
  "login_view (state_of (onSeatNew mk i path s)) = login_announced api mk (LE_Seat_New i path) (login_view s)"
  "login_view (state_of (onSessionNew mk i path s)) = login_announced api mk (LE_Session_New i path) (login_view s)"
  "login_view (state_of (onUserNew mk u path s)) = login_announced api mk (LE_User_New u path) (login_view s)"
  unfolding new_view_parts by (simp_all add: login_view_def)

lemma new_done:
  "is_done (onSeatNew mk i path s) \<longleftrightarrow> path \<in> keys (lc_seats s) \<or> mk path = None"
  "is_done (onSessionNew mk i path s) \<longleftrightarrow> path \<in> keys (lc_sessions s) \<or> mk path = None"
  "is_done (onUserNew mk u path s) \<longleftrightarrow> path \<in> keys (lc_users s) \<or> mk path = None"
  by (auto simp: new_defs Let_def frame_simps contains_keys construct_cases split: option.split)

lemma new_inv:
  assumes "login_inv s"
  shows "login_inv (state_of (onSeatNew mk i path s))" "login_inv (state_of (onSessionNew mk i path s))"
    "login_inv (state_of (onUserNew mk u path s))"
  using assms by (cases "mk path"; simp add: login_inv_def new_defs Let_def frame_simps)+

lemma removed_view:
  "login_view (onSeatRemoved i path s) = login_announced api mk (LE_Seat_Removed i path) (login_view s)"
  "login_view (onSessionRemoved i path s) = login_announced api mk (LE_Session_Removed i path) (login_view s)"
  "login_view (onUserRemoved u path s) = login_announced api mk (LE_User_Removed u path) (login_view s)"
  by (auto simp: login_view_def onSeatRemoved_def onSessionRemoved_def onUserRemoved_def Let_def frame_simps
      contains_keys)

lemma removed_inv:
  assumes "login_inv s"
  shows "login_inv (onSeatRemoved i path s)" "login_inv (onSessionRemoved i path s)" "login_inv (onUserRemoved u path s)"
  using assms by (simp_all add: login_inv_def onSeatRemoved_def onSessionRemoved_def onUserRemoved_def Let_def frame_simps)

section \<open>The enumeration\<close>

lemma login_view_parts:
  "fst (login_view s) = keys (lc_seats s)" "fst (snd (login_view s)) = keys (lc_sessions s)"
  "snd (snd (login_view s)) = keys (lc_users s)"
  "(case login_view s of (A, B, C) \<Rightarrow> f A B C) = f (keys (lc_seats s)) (keys (lc_sessions s)) (keys (lc_users s))"
  by (simp_all add: login_view_def)

lemmas enumeration_simps = split_beta new_done new_view_parts new_inv login_view_parts

interpretation seats: constructing_loop "\<lambda>(name, path). onSeatNew mk name path" snd mk login_view
    fst "\<lambda>A (seats, sessions, users). (A, sessions, users)" login_inv for mk
  by unfold_locales (simp_all add: enumeration_simps,
      simp_all add: login_view_def created_def insert_absorb)

interpretation sessions: constructing_loop "\<lambda>(name, path). onSessionNew mk name path" snd mk login_view
    "\<lambda>v. fst (snd v)" "\<lambda>A (seats, sessions, users). (seats, A, users)" login_inv for mk
  by unfold_locales (simp_all add: enumeration_simps,
      simp_all add: login_view_def created_def insert_absorb)

interpretation users: constructing_loop "\<lambda>(uid, path). onUserNew mk uid path" snd mk login_view
    "\<lambda>v. snd (snd v)" "\<lambda>A (seats, sessions, users). (seats, sessions, A)" login_inv for mk
  by unfold_locales (simp_all add: enumeration_simps,
      simp_all add: login_view_def created_def insert_absorb)

lemma enumerate_view:
  "login_view (state_of (login_enumerate mk found s)) = enumerated mk found (login_view s)
   \<and> (login_inv s \<longrightarrow> login_inv (state_of (login_enumerate mk found s)))"
proof (cases "ll_seats found")
  case (Inl e)
  then show ?thesis by (cases "login_view s") (simp add: login_enumerate_def enumerated_def)
next
  case xs: (Inr xs)
  let ?loop1 = "for_each (\<lambda>(name, path). onSeatNew mk name path) xs s"
  obtain A B C where v: "login_view s = (A, B, C)" by (cases "login_view s")
  obtain A' ok1 where t1: "taken mk (map snd xs) A = (A', ok1)" by fastforce
  have l1: "is_done ?loop1 = ok1" "login_view (state_of ?loop1) = (A', B, C)" "login_inv s \<longrightarrow> login_inv (state_of ?loop1)"
    using seats.loop [of mk xs s] by (simp_all add: v t1)
  show ?thesis
  proof (cases "?loop1")
    case (Throw e t)
    with xs l1 show ?thesis by (simp add: login_enumerate_def enumerated_def v t1)
  next
    case t: (Done t)
    show ?thesis
    proof (cases "ll_sessions found")
      case (Inl e)
      with xs t l1 show ?thesis by (simp add: login_enumerate_def enumerated_def v t1 split: bool.split)
    next
      case ys: (Inr ys)
      let ?loop2 = "for_each (\<lambda>(name, path). onSessionNew mk name path) ys t"
      obtain B' ok2 where t2: "taken mk (map snd ys) B = (B', ok2)" by fastforce
      have l2: "is_done ?loop2 = ok2" "login_view (state_of ?loop2) = (A', B', C)"
          "login_inv s \<longrightarrow> login_inv (state_of ?loop2)"
        using sessions.loop [of mk ys t] l1 t by (simp_all add: t2)
      show ?thesis
      proof (cases "?loop2")
        case (Throw e u)
        with xs ys t l1 l2 show ?thesis by (simp add: login_enumerate_def enumerated_def v t1 t2)
      next
        case u: (Done u)
        then show ?thesis using xs ys t l1 l2 users.loop [of mk _ u]
          by (cases "ll_users found") (simp_all add: login_enumerate_def enumerated_def v t1 t2)
      qed
    qed
  qed
qed

lemma reply_view:
  assumes "login_inv s"
  shows "login_view (state_of (login_reply api mk error values found s))
      = login_announced api mk (LE_Reply error values found) (login_view s)
    \<and> login_inv (state_of (login_reply api mk error values found s))"
proof (cases "error = None \<and> is_done (changed_properties_text api login_manager_interface values [])")
  case False
  then have "registries (state_of (login_reply api mk error values found s)) = registries s"
    by (auto simp: login_reply_def login_onPropertiesChanged_def print_changed_properties_def
        split: option.split outcome.split)
  with False assms same_registries [of "state_of (login_reply api mk error values found s)" s] show ?thesis
    by auto
next
  case True
  then obtain os where os: "changed_properties_text api login_manager_interface values [] = Done os"
    by (cases "changed_properties_text api login_manager_interface values []") auto
  let ?s = "log_msg Info (os_buf os) [] s"
  let ?r = "login_enumerate mk found ?s"
  have s: "login_view ?s = login_view s" "login_inv ?s" using assms same_registries [of ?s s] by simp_all
  have r: "registries (state_of (login_reply api mk error values found s)) = registries (state_of ?r)"
    using True os by (cases ?r) (auto simp: login_reply_def login_onPropertiesChanged_def print_changed_properties_def)
  show ?thesis
    unfolding same_registries [OF r] using enumerate_view [of mk found ?s] True s by simp
qed

text \<open>The events that only log.\<close>

fun only_logging :: "'v login_event \<Rightarrow> bool" where
  "only_logging (LE_Reply _ _ _) = False"
| "only_logging (LE_Session_New _ _) = False"
| "only_logging (LE_Session_Removed _ _) = False"
| "only_logging (LE_User_New _ _) = False"
| "only_logging (LE_User_Removed _ _) = False"
| "only_logging (LE_Seat_New _ _) = False"
| "only_logging (LE_Seat_Removed _ _) = False"
| "only_logging _ = True"

lemma only_logging_keeps: "only_logging e \<Longrightarrow> registries (state_of (login_step api mk e s)) = registries s"
  by (cases e) (auto simp: login_onPropertiesChanged_def registries_object_changed login_object_reply_def
      onPrepareForShutdown_def onPrepareForSleep_def onPrepareForShutdownWithMetadata_def Let_def
      split: option.splits outcome.splits)

lemma login_step_refines:
  assumes "login_inv s"
  shows "login_inv (state_of (login_step api mk e s))
    \<and> login_view (state_of (login_step api mk e s)) = login_announced api mk e (login_view s)"
proof (cases "only_logging e")
  case True
  then have "login_announced api mk e (login_view s) = login_view s" by (cases e) auto
  with same_registries [OF only_logging_keeps [OF True]] assms show ?thesis by simp
next
  case False
  then show ?thesis
    using reply_view [OF assms]
    by (cases e) (simp_all only: only_logging.simps simp_thms login_step.simps state_of.simps
        new_view [of _ _ _ _ api] removed_view [of _ _ _ api mk] new_inv [OF assms] removed_inv [OF assms], blast)
qed

interpretation logins: announced_set "\<lambda>(mk, e). login_step api mk e" login_view "\<lambda>(mk, e). login_announced api mk e" login_inv
  by unfold_locales (use login_step_refines in \<open>auto split: prod.split\<close>)

section \<open>Properties\<close>

text \<open>
  C33: Whatever replies and signals reach the login client in whatever order, and whichever of its
  objects cannot be constructed, its seats, sessions and users are, each once, the announced and
  listed ones that could be constructed and were not removed since. An enumeration takes the seats,
  then the sessions, then the users, and stops at the first list call that fails or new object that
  cannot be constructed, with what came before kept; it does not start when the manager's own
  properties cannot be rendered.
\<close>

theorem login_registries_refine_announcements:
  "login_view (login_run api lg events) = fold (\<lambda>(mk, e). login_announced api mk e) events ({}, {}, {})
   \<and> wf_map (lc_seats (login_run api lg events))
   \<and> wf_map (lc_sessions (login_run api lg events))
   \<and> wf_map (lc_users (login_run api lg events))"
proof -
  have "login_inv (login_client_new lg)" "login_view (login_client_new lg) = ({}, {}, {})"
    by (simp_all add: login_inv_def login_view_def login_client_new_def)
  with logins.run_inv [of _ api events] logins.run_view [of _ api events] show ?thesis
    by (simp add: login_run_def login_inv_def)
qed

text \<open>
  C34: The reply handler contains every D-Bus error of the enumeration, but not one of the rendering of
  the manager's own properties, which comes before the \<open>try\<close>: such an error leaves the handler and
  nothing is enumerated.
\<close>

theorem login_reply_contains_enumeration_errors:
  "(changed_properties_text api login_manager_interface values [] = Throw e os
      \<longrightarrow> login_reply api mk None values found s = Throw e s)
   \<and> (login_reply api mk None values found s = Throw e t \<and> is_dbus_error e
      \<longrightarrow> t = s \<and> (\<exists>os. changed_properties_text api login_manager_interface values [] = Throw e os))"
proof (cases "changed_properties_text api login_manager_interface values []")
  case (Throw e' os')
  then show ?thesis by (simp add: login_reply_def login_onPropertiesChanged_def print_changed_properties_def)
next
  case (Done os')
  then show ?thesis
    by (cases "login_enumerate mk found (log_msg Info (os_buf os') [] s)")
      (auto simp: login_reply_def login_onPropertiesChanged_def print_changed_properties_def split: if_splits)
qed

text \<open>A variant library whose strings cannot be read.\<close>

definition unreadable_api :: "sample variant_api" where
  "unreadable_api = sample_api\<lparr>va_string := \<lambda>_. type_error\<rparr>"

definition no_lists :: login_lists where
  "no_lists = \<lparr>ll_seats = Inr [(''seat0'', ''/seat0'')], ll_sessions = Inr [], ll_users = Inr []\<rparr>"

lemma unreadable_text:
  "\<exists>os. changed_properties_text unreadable_api login_manager_interface [(''K'', S_str ''x'')] []
     = Throw (DBus_Error ''System.Error.ENXIO'' ''Failed to enter a variant'') os"
proof -
  have n: "max_nesting = Suc 64" by (simp add: max_nesting_def)
  have t: "va_type unreadable_api v = sample_type v" for v by (simp add: unreadable_api_def)
  have "append_property max_nesting unreadable_api (S_str ''x'') os = show_s unreadable_api (S_str ''x'') (put ''[s] '' os)" for os
    unfolding n append_property.simps(2) Let_def t by (simp add: type_map_def)
  moreover have "show_s unreadable_api v os = Throw (DBus_Error ''System.Error.ENXIO'' ''Failed to enter a variant'') os" for v os
    by (simp add: show_s_def unreadable_api_def type_error_def)
  ultimately show ?thesis by (simp add: changed_properties_text_def append_properties_def)
qed

theorem login_reply_contains_enumeration_errors_witness:
  "login_reply unreadable_api (\<lambda>_. None) None [(''K'', S_str ''x'')] no_lists (login_client_new [])
     = Throw (DBus_Error ''System.Error.ENXIO'' ''Failed to enter a variant'') (login_client_new [])"
proof -
  obtain os where "changed_properties_text unreadable_api login_manager_interface [(''K'', S_str ''x'')] []
      = Throw (DBus_Error ''System.Error.ENXIO'' ''Failed to enter a variant'') os"
    using unreadable_text by blast
  with login_reply_contains_enumeration_errors show ?thesis by blast
qed

end
