(* ===== verification/Udisks2_Monitor.thy ===== *)
theory Udisks2_Monitor
  imports Client_Registry
begin

text \<open>
  \<open>src/udisks2/udisks2_monitor_daemon.cc\<close>: the daemon that reports each removable block device once
  it carries a file system, and the report it prints. The synchronous D-Bus calls of a handler are
  its argument: a record of what each returned or threw. The mutex around the watchers is not
  modelled: one thread runs all handlers.
\<close>

section \<open>Helpers of the report\<close>

text \<open>\<open>byteArrayToString\<close>: the loop moves \<open>end\<close> down over trailing zero bytes.\<close>

fun trim_end :: "u8 list \<Rightarrow> nat \<Rightarrow> nat" where
  "trim_end bytes 0 = 0"
| "trim_end bytes (Suc n) = (if bytes ! n = 0 then trim_end bytes n else Suc n)"

definition byteArrayToString :: "u8 list \<Rightarrow> string" where
  "byteArrayToString bytes =
     (if bytes = [] then [] else map (\<lambda>b. char_of (unat b)) (take (trim_end bytes (length bytes)) bytes))"

text \<open>
  \<open>static_cast<double>(bytes)\<close>: a 53-bit significand, rounded to nearest, ties to even. Division by
  1024 is exact on the values that occur, so \<open>size\<close> after \<open>unit\<close> divisions is \<open>m / 1024 ^ unit\<close>.
\<close>

fun bit_length :: "nat \<Rightarrow> nat" where
  "bit_length n = (if n = 0 then 0 else Suc (bit_length (n div 2)))"

declare bit_length.simps [simp del]

definition to_double :: "nat \<Rightarrow> nat" where
  "to_double n = (let k = bit_length n - 53 in round_even n (2 ^ k) * 2 ^ k)"

definition size_units :: "string list" where
  "size_units = [''B'', ''KB'', ''MB'', ''GB'', ''TB'']"

definition max_unit :: nat where
  "max_unit = length size_units - 1"

text \<open>The condition of the loop: \<open>size >= 1024.0 && unit < max_unit && size / 1024.0 < size\<close>.\<close>

definition divides_again :: "nat \<Rightarrow> nat \<Rightarrow> bool" where
  "divides_again m unit \<longleftrightarrow> 1024 * 1024 ^ unit \<le> m \<and> unit < max_unit \<and> m < 1024 * m"

function size_unit :: "nat \<Rightarrow> nat \<Rightarrow> nat" where
  "size_unit m unit = (if divides_again m unit then size_unit m (unit + 1) else unit)"
  by pat_completeness auto

termination
  by (relation "measure (\<lambda>(m, unit). max_unit - unit)") (auto simp: divides_again_def)

declare size_unit.simps [simp del]

text \<open>\<open>std::fixed << std::setprecision(2)\<close>: hundredths, rounded to nearest, ties to even.\<close>

definition hundredths :: "nat \<Rightarrow> nat \<Rightarrow> nat" where
  "hundredths m unit = round_even (100 * m) (1024 ^ unit)"

definition fixed2 :: "nat \<Rightarrow> string" where
  "fixed2 h = nat_to_string (h div 100) @ ''.'' @ pad_left (CHR ''0'') 2 (nat_to_string (h mod 100))"

definition formatSize :: "u64 \<Rightarrow> string" where
  "formatSize bytes =
     (let m = to_double (unat bytes); unit = size_unit m 0
      in fixed2 (hundredths m unit) @ '' '' @ size_units ! unit)"

section \<open>The report\<close>

text \<open>
  Output of a label and a value read while the statement runs: the label is out before \<open>get\<close>
  throws. The others read the value before they write.
\<close>

definition print_prop :: "('v \<Rightarrow> exn + 'a) \<Rightarrow> ('a \<Rightarrow> string) \<Rightarrow> 'v props \<Rightarrow> string \<times> string \<Rightarrow> ostream \<Rightarrow> ostream outcome" where
  "print_prop get render properties = (\<lambda>(key, label) cout.
     case map_of properties key of
       None \<Rightarrow> Done cout
     | Some v \<Rightarrow> with_value (get v) (\<lambda>x cout. Done (put (render x @ endl) cout)) (put label cout))"

definition read_prop :: "('v \<Rightarrow> exn + 'a) \<Rightarrow> ('a \<Rightarrow> ostream \<Rightarrow> ostream) \<Rightarrow> 'v props \<Rightarrow> string \<Rightarrow> ostream \<Rightarrow> ostream outcome" where
  "read_prop get show_value properties key cout =
     (case map_of properties key of
        None \<Rightarrow> Done cout
      | Some v \<Rightarrow> with_value (get v) (\<lambda>x cout. Done (show_value x cout)) cout)"

definition yes_no :: "bool \<Rightarrow> string" where
  "yes_no b = (if b then ''Yes'' else ''No'')"

definition print_size :: "string \<Rightarrow> u64 \<Rightarrow> ostream \<Rightarrow> ostream" where
  "print_size label n cout = put (label @ formatSize n @ '' ('' @ nat_to_string (unat n) @ '' bytes)'' @ endl) cout"

definition print_path :: "string \<Rightarrow> u8 list \<Rightarrow> ostream \<Rightarrow> ostream" where
  "print_path label bytes cout = put (label @ byteArrayToString bytes @ endl) cout"

text \<open>Statements one after the other.\<close>

definition statements :: "('s \<Rightarrow> 's outcome) list \<Rightarrow> 's \<Rightarrow> 's outcome" where
  "statements fs s = for_each (\<lambda>f s. f s) fs s"

definition print_block :: "'v variant_api \<Rightarrow> 'v props \<Rightarrow> ostream \<Rightarrow> ostream outcome" where
  "print_block api p = statements
     [read_prop (va_bytes api) (print_path ''  Device: '') p ''Device'',
      read_prop (va_bytes api) (print_path ''  Preferred Device: '') p ''PreferredDevice'',
      read_prop (va_u64 api) (print_size ''  Size: '') p ''Size'',
      print_prop (va_string api) id p (''IdUUID'', ''  UUID: ''),
      print_prop (va_string api) id p (''IdLabel'', ''  Label: ''),
      print_prop (va_string api) id p (''IdType'', ''  Filesystem Type: ''),
      print_prop (va_string api) id p (''IdUsage'', ''  Usage: ''),
      print_prop (va_string api) id p (''IdVersion'', ''  Version: ''),
      print_prop (va_bool api) yes_no p (''ReadOnly'', ''  Read-Only: ''),
      read_prop (va_bytess api)
        (\<lambda>symlinks cout. if symlinks = [] then cout
           else fold (print_path ''    - '') symlinks (put (''  Symlinks:'' @ endl) cout)) p ''Symlinks'']"

definition print_rotation :: "u32 \<Rightarrow> ostream \<Rightarrow> ostream" where
  "print_rotation rate cout =
     (if 0 < sint rate then put (''  Rotation Rate: '' @ int_to_string (sint rate) @ '' RPM'' @ endl) cout
      else if sint rate = 0 then put (''  Type: SSD (Solid State Drive)'' @ endl) cout
      else cout)"

definition print_drive :: "'v variant_api \<Rightarrow> 'v props \<Rightarrow> ostream \<Rightarrow> ostream outcome" where
  "print_drive api p cout =
     (if p = [] then Done cout
      else statements
        [print_prop (va_string api) id p (''Vendor'', ''  Vendor: ''),
         print_prop (va_string api) id p (''Model'', ''  Model: ''),
         print_prop (va_string api) id p (''Revision'', ''  Revision: ''),
         print_prop (va_string api) id p (''Serial'', ''  Serial: ''),
         print_prop (va_string api) id p (''WWN'', ''  WWN: ''),
         print_prop (va_string api) id p (''ConnectionBus'', ''  Bus: ''),
         read_prop (va_u64 api) (print_size ''  Drive Size: '') p ''Size'',
         print_prop (va_bool api) yes_no p (''Removable'', ''  Removable: ''),
         print_prop (va_bool api) yes_no p (''MediaRemovable'', ''  Media Removable: ''),
         print_prop (va_bool api) yes_no p (''Ejectable'', ''  Ejectable: ''),
         print_prop (va_string api) id p (''Media'', ''  Media: ''),
         read_prop (va_i32 api) print_rotation p ''RotationRate'']
        (put (endl @ ''--- DRIVE INFORMATION ---'' @ endl) cout))"

definition print_filesystem :: "'v variant_api \<Rightarrow> 'v props \<Rightarrow> ostream \<Rightarrow> ostream outcome" where
  "print_filesystem api p cout =
     (if p = [] then Done cout
      else statements
        [read_prop (va_bytess api)
           (\<lambda>mountPoints cout.
              if mountPoints = [] then put (''  Mount Points: (not mounted)'' @ endl) cout
              else fold (print_path ''    - '') mountPoints (put (''  Mount Points:'' @ endl) cout)) p ''MountPoints'',
         read_prop (va_u64 api) (print_size ''  Filesystem Size: '') p ''Size'']
        (put (endl @ ''--- FILESYSTEM INFORMATION ---'' @ endl) cout))"

abbreviation double_rule :: string where
  "double_rule \<equiv> ''========================================'' @ endl"

type_synonym 'v callback = "string \<Rightarrow> 'v props \<Rightarrow> 'v props \<Rightarrow> 'v props \<Rightarrow> ostream \<Rightarrow> ostream outcome"

definition printDeviceInformation :: "'v variant_api \<Rightarrow> 'v callback" where
  "printDeviceInformation api blockPath blockProperties driveProperties filesystemProperties cout =
     statements
       [print_block api blockProperties, print_drive api driveProperties, print_filesystem api filesystemProperties,
        (\<lambda>cout. Done (put (double_rule @ endl) cout))]
       (put (endl @ double_rule @ ''REMOVABLE DEVICE DETECTED'' @ endl @ double_rule
             @ ''Block Device Path: '' @ blockPath @ endl @ endl
             @ ''--- BLOCK DEVICE INFORMATION ---'' @ endl) cout)"

section \<open>BlockDeviceWatcher\<close>

record watcher =
  wt_drive_path :: string
  wt_reported :: bool

text \<open>
  The answers of one handler run: the drive's properties for the removability check, the
  registration of the watcher's proxy, then the block, file system and drive properties the
  watcher asks for.
\<close>

record 'v answers =
  da_removable :: "exn + 'v props"
  da_register :: "exn option"
  da_block :: "exn + 'v props"
  da_filesystem :: "exn + 'v props"
  da_drive :: "exn + 'v props"

text \<open>
  The monitor with its watchers, what was written to \<open>std::cout\<close>, and the history of reports and of
  watchers destroyed.
\<close>

datatype monitor_event = Report string | Forget string

record monitor = logged +
  um_watchers :: "(string \<times> watcher) list"
  um_cout :: ostream
  um_trace :: "monitor_event list"

definition kBlockInterface :: string where
  "kBlockInterface = ''org.freedesktop.UDisks2.Block''"

definition id_usage :: "'v variant_api \<Rightarrow> 'v props \<Rightarrow> exn + string" where
  "id_usage api blockProps = (case map_of blockProps ''IdUsage'' of None \<Rightarrow> Inr [] | Some v \<Rightarrow> va_string api v)"

definition not_ready :: "exn \<Rightarrow> monitor \<Rightarrow> monitor" where
  "not_ready e = log_msg Debug ''Error checking device readiness: {}'' [LStr (exn_what e)]"

definition report_device ::
    "'v callback option \<Rightarrow> string \<Rightarrow> 'v props \<Rightarrow> 'v props \<Rightarrow> 'v props \<Rightarrow> monitor \<Rightarrow> monitor" where
  "report_device callback path blockProps driveProps filesystemProps s =
     (case callback of
        None \<Rightarrow> s
      | Some f \<Rightarrow>
          (case f path blockProps driveProps filesystemProps (um_cout s) of
             Done cout \<Rightarrow> s\<lparr>um_cout := cout, um_trace := um_trace s @ [Report path]\<rparr>
           | Throw e cout \<Rightarrow> not_ready e (s\<lparr>um_cout := cout, um_trace := um_trace s @ [Report path]\<rparr>)))"

definition checkAndReportIfReady ::
    "'v variant_api \<Rightarrow> 'v callback option \<Rightarrow> 'v answers \<Rightarrow> string \<Rightarrow> watcher \<Rightarrow> monitor \<Rightarrow> watcher \<times> monitor" where
  "checkAndReportIfReady api callback ans path w s =
     (if wt_reported w then (w, s)
      else case da_block ans of
        Inl e \<Rightarrow> (w, not_ready e s)
      | Inr blockProps \<Rightarrow>
          (case id_usage api blockProps of
             Inl e \<Rightarrow> (w, not_ready e s)
           | Inr idUsage \<Rightarrow>
               (let isFilesystem = (idUsage = ''filesystem'');
                    (hasFilesystem, filesystemProps) =
                      (case da_filesystem ans of Inl _ \<Rightarrow> (False, []) | Inr props \<Rightarrow> (True, props))
                in if isFilesystem \<or> hasFilesystem
                   then (let (driveProps, s) =
                               (case da_drive ans of
                                  Inl e \<Rightarrow> ([], log_msg Warn ''Failed to get drive properties: {}'' [LStr (exn_what e)] s)
                                | Inr props \<Rightarrow> (props, s))
                         in (w\<lparr>wt_reported := True\<rparr>,
                             report_device callback path blockProps driveProps filesystemProps s))
                   else (w, s))))"

definition watcher_onPropertiesChanged ::
    "'v variant_api \<Rightarrow> 'v callback option \<Rightarrow> 'v answers \<Rightarrow> string \<Rightarrow> string \<Rightarrow> 'v props \<Rightarrow> watcher \<Rightarrow> monitor \<Rightarrow>
     watcher \<times> monitor" where
  "watcher_onPropertiesChanged api callback ans path interfaceName changedProperties w s =
     (if interfaceName = kBlockInterface \<and> \<not> wt_reported w
         \<and> (contains changedProperties ''IdUsage'' \<or> contains changedProperties ''IdType'')
      then checkAndReportIfReady api callback ans path w s
      else (w, s))"

definition BlockDeviceWatcher ::
    "'v variant_api \<Rightarrow> 'v callback option \<Rightarrow> 'v answers \<Rightarrow> string \<Rightarrow> string \<Rightarrow> monitor \<Rightarrow> exn + (watcher \<times> monitor)" where
  "BlockDeviceWatcher api callback ans path drivePath s =
     (case da_register ans of
        Some e \<Rightarrow> Inl e
      | None \<Rightarrow> Inr (checkAndReportIfReady api callback ans path
                       \<lparr>wt_drive_path = drivePath, wt_reported = False\<rparr> s))"

section \<open>RemovableDeviceMonitor\<close>

definition drive_path :: "'v variant_api \<Rightarrow> 'v props \<Rightarrow> exn + string" where
  "drive_path api blockProps = (case map_of blockProps ''Drive'' of None \<Rightarrow> Inr ''/'' | Some v \<Rightarrow> va_path api v)"

definition is_removable :: "'v variant_api \<Rightarrow> 'v props \<Rightarrow> exn + bool" where
  "is_removable api driveProps = (case map_of driveProps ''Removable'' of None \<Rightarrow> Inr False | Some v \<Rightarrow> va_bool api v)"

definition watch ::
    "'v variant_api \<Rightarrow> 'v callback option \<Rightarrow> 'v answers \<Rightarrow> string \<Rightarrow> string \<Rightarrow> monitor \<Rightarrow> monitor outcome" where
  "watch api callback ans objectPath drivePath s =
     (let s = log_msg Info ''Detected removable device: {}'' [LStr objectPath] s
      in if contains (um_watchers s) objectPath then Done s
         else case BlockDeviceWatcher api callback ans objectPath drivePath s of
           Inl e \<Rightarrow> Throw e s
         | Inr (w, s) \<Rightarrow> Done (s\<lparr>um_watchers := AList.update objectPath w (um_watchers s)\<rparr>))"

definition monitor_onInterfacesAdded ::
    "'v variant_api \<Rightarrow> 'v callback option \<Rightarrow> string \<Rightarrow> (string \<times> 'v props) list \<Rightarrow> 'v answers \<Rightarrow> monitor \<Rightarrow> monitor outcome" where
  "monitor_onInterfacesAdded api callback objectPath ifaces ans s =
     (case map_of ifaces kBlockInterface of
        None \<Rightarrow> Done s
      | Some blockProps \<Rightarrow>
          with_value (drive_path api blockProps) (\<lambda>drivePath s.
            if drivePath = ''/'' then Done s
            else catch_std
              (with_value (da_removable ans) (\<lambda>driveProps.
                 with_value (is_removable api driveProps) (\<lambda>isRemovable s.
                   if isRemovable then watch api callback ans objectPath drivePath s else Done s)) s)
              (\<lambda>e. log_msg Debug ''Error checking drive removability for {}: {}'' [LStr objectPath, LStr (exn_what e)])) s)"

definition monitor_removed_step :: "string \<Rightarrow> string \<Rightarrow> monitor \<Rightarrow> monitor" where
  "monitor_removed_step objectPath interface s =
     (if interface = kBlockInterface \<and> contains (um_watchers s) objectPath
      then (let s = log_msg Info ''Removable device removed: {}'' [LStr objectPath] s
            in s\<lparr>um_watchers := AList.delete objectPath (um_watchers s), um_trace := um_trace s @ [Forget objectPath]\<rparr>)
      else s)"

definition monitor_onInterfacesRemoved :: "string \<Rightarrow> string list \<Rightarrow> monitor \<Rightarrow> monitor" where
  "monitor_onInterfacesRemoved objectPath interfaces s = fold (monitor_removed_step objectPath) interfaces s"

definition monitor_init :: "log_entry list \<Rightarrow> ostream \<Rightarrow> monitor" where
  "monitor_init lg cout = \<lparr>log_of = lg, um_watchers = [], um_cout = cout, um_trace = []\<rparr>"

text \<open>The constructor, on what \<open>GetManagedObjects\<close> returned or threw.\<close>

definition RemovableDeviceMonitor ::
    "'v variant_api \<Rightarrow> 'v callback option \<Rightarrow> exn + (string \<times> (string \<times> 'v props) list \<times> 'v answers) list \<Rightarrow>
     monitor \<Rightarrow> monitor outcome" where
  "RemovableDeviceMonitor api callback managed s =
     seq (with_value managed
            (for_each (\<lambda>(path, ifaces, ans). monitor_onInterfacesAdded api callback path ifaces ans))
            (log_msg Info ''Scanning for existing removable devices...'' [] s))
         (\<lambda>s. Done (log_msg Info ''Initial scan complete. Monitoring for new devices...'' [] s))"

text \<open>A property signal reaches the watcher of its path.\<close>

definition monitor_changed ::
    "'v variant_api \<Rightarrow> 'v callback option \<Rightarrow> string \<Rightarrow> string \<Rightarrow> 'v props \<Rightarrow> 'v answers \<Rightarrow> monitor \<Rightarrow> monitor" where
  "monitor_changed api callback path interfaceName changed ans s =
     (case map_of (um_watchers s) path of
        None \<Rightarrow> s
      | Some w \<Rightarrow>
          (let (w', s') = watcher_onPropertiesChanged api callback ans path interfaceName changed w s
           in s'\<lparr>um_watchers := AList.update path w' (um_watchers s')\<rparr>))"

datatype 'v udisks_event =
    UD_Added string "(string \<times> 'v props) list" "'v answers"
  | UD_Removed string "string list"
  | UD_Changed string string "'v props" "'v answers"

fun monitor_step :: "'v variant_api \<Rightarrow> 'v callback option \<Rightarrow> 'v udisks_event \<Rightarrow> monitor \<Rightarrow> monitor outcome" where
  "monitor_step api callback (UD_Added path ifaces ans) s = monitor_onInterfacesAdded api callback path ifaces ans s"
| "monitor_step api callback (UD_Removed path ifaces) s = Done (monitor_onInterfacesRemoved path ifaces s)"
| "monitor_step api callback (UD_Changed path iface changed ans) s =
     Done (monitor_changed api callback path iface changed ans s)"

definition monitor_run ::
    "'v variant_api \<Rightarrow> 'v callback option \<Rightarrow> log_entry list \<Rightarrow> ostream \<Rightarrow> 'v udisks_event list \<Rightarrow> monitor" where
  "monitor_run api callback lg cout events = run_events (monitor_step api callback) events (monitor_init lg cout)"

end
