(* ===== verification/Udisks2_Laws.thy ===== *)
theory Udisks2_Laws
  imports Udisks2_Monitor Rendering
begin

text \<open>
  What the removable-device daemon guarantees: its watchers refine a table of devices, each device is
  reported at most once while it is watched, errors of the bus leave the daemon only where the code
  reads the drive path outside its \<open>try\<close>, and the sizes it prints are within half a hundredth of
  the chosen unit.
\<close>

section \<open>Watchers\<close>

definition ready :: "'v variant_api \<Rightarrow> 'v answers \<Rightarrow> bool" where
  "ready api ans \<longleftrightarrow>
     (case da_block ans of
        Inl _ \<Rightarrow> False
      | Inr p \<Rightarrow> (case id_usage api p of
                    Inl _ \<Rightarrow> False
                  | Inr usage \<Rightarrow> usage = ''filesystem'' \<or> \<not> isl (da_filesystem ans)))"

lemma um_log [frame_simps]:
  "um_watchers (log_msg l fmt args s) = um_watchers s"
  "um_trace (log_msg l fmt args s) = um_trace s"
  "um_watchers (not_ready e s) = um_watchers s"
  "um_trace (not_ready e s) = um_trace s"
  by (simp_all add: log_msg_def not_ready_def)

lemma report_frame [frame_simps]:
  "um_watchers (report_device callback path b d f s) = um_watchers s"
  "um_trace (report_device callback path b d f s) =
     um_trace s @ (if callback = None then [] else [Report path])"
  by (simp_all add: report_device_def frame_simps split: option.split outcome.split)

lemma check_ready:
  "wt_reported (fst (checkAndReportIfReady api callback ans path w s)) \<longleftrightarrow> wt_reported w \<or> ready api ans"
  "um_watchers (snd (checkAndReportIfReady api callback ans path w s)) = um_watchers s"
  "um_trace (snd (checkAndReportIfReady api callback ans path w s)) = um_trace s @
     (if \<not> wt_reported w \<and> ready api ans \<and> callback \<noteq> None then [Report path] else [])"
  by (auto simp: checkAndReportIfReady_def ready_def frame_simps split: sum.split)

section \<open>The table of devices\<close>

text \<open>The abstract monitor: for each watched path, whether it has been reported.\<close>

definition device_table :: "(string \<times> watcher) list \<Rightarrow> string \<Rightarrow> bool option" where
  "device_table m path = map_option wt_reported (map_of m path)"

definition removable_block :: "'v variant_api \<Rightarrow> (string \<times> 'v props) list \<Rightarrow> 'v answers \<Rightarrow> bool" where
  "removable_block api ifaces ans \<longleftrightarrow>
     (case map_of ifaces kBlockInterface of
        None \<Rightarrow> False
      | Some b \<Rightarrow>
          (case drive_path api b of
             Inl _ \<Rightarrow> False
           | Inr d \<Rightarrow> d \<noteq> ''/'' \<and> (case da_removable ans of Inl _ \<Rightarrow> False | Inr p \<Rightarrow> is_removable api p = Inr True)))"

fun devices_announced :: "'v variant_api \<Rightarrow> 'v udisks_event \<Rightarrow> (string \<Rightarrow> bool option) \<Rightarrow> string \<Rightarrow> bool option" where
  "devices_announced api (UD_Added path ifaces ans) t =
     (if removable_block api ifaces ans \<and> da_register ans = None \<and> t path = None
      then t(path \<mapsto> ready api ans) else t)"
| "devices_announced api (UD_Removed path ifaces) t = (if kBlockInterface \<in> set ifaces then t(path := None) else t)"
| "devices_announced api (UD_Changed path iface changed ans) t =
     (if t path = Some False \<and> iface = kBlockInterface \<and> (''IdUsage'' \<in> keys changed \<or> ''IdType'' \<in> keys changed)
      then t(path \<mapsto> ready api ans) else t)"

lemma contains_table: "contains m path \<longleftrightarrow> device_table m path \<noteq> None"
  by (simp add: contains_def device_table_def)

lemma device_table_update [simp]:
  "device_table (AList.update path w m) = (device_table m)(path \<mapsto> wt_reported w)"
  by (rule ext) (simp add: device_table_def AList.update_conv)

lemma device_table_delete [simp]: "device_table (AList.delete path m) = (device_table m)(path := None)"
  by (rule ext) (simp add: device_table_def AList.delete_conv')

text \<open>What \<open>watch\<close> and the whole handler of additions do to the watchers and the history.\<close>

lemma watch_effect:
  assumes t: "t = state_of (watch api callback ans path drive s)"
  shows "if da_register ans = None \<and> device_table (um_watchers s) path = None
    then device_table (um_watchers t) = (device_table (um_watchers s))(path \<mapsto> ready api ans) \<and>
      (wf_map (um_watchers s) \<longrightarrow> wf_map (um_watchers t)) \<and>
      um_trace t = um_trace s @ (if ready api ans \<and> callback \<noteq> None then [Report path] else [])
    else um_watchers t = um_watchers s \<and> um_trace t = um_trace s"
proof -
  let ?s = "log_msg Info ''Detected removable device: {}'' [LStr path] s"
  let ?c = "checkAndReportIfReady api callback ans path \<lparr>wt_drive_path = drive, wt_reported = False\<rparr> ?s"
  have "t = (if contains (um_watchers s) path \<or> da_register ans \<noteq> None then ?s
      else (snd ?c)\<lparr>um_watchers := AList.update path (fst ?c) (um_watchers (snd ?c))\<rparr>)"
    by (simp add: t watch_def BlockDeviceWatcher_def Let_def frame_simps split_beta split: option.split)
  then show ?thesis by (auto simp: contains_table check_ready frame_simps)
qed

lemma added_effect:
  assumes "t = state_of (monitor_onInterfacesAdded api callback path ifaces ans s)"
  shows "if removable_block api ifaces ans \<and> da_register ans = None \<and> device_table (um_watchers s) path = None
    then device_table (um_watchers t) = (device_table (um_watchers s))(path \<mapsto> ready api ans) \<and>
      (wf_map (um_watchers s) \<longrightarrow> wf_map (um_watchers t)) \<and>
      um_trace t = um_trace s @ (if ready api ans \<and> callback \<noteq> None then [Report path] else [])
    else um_watchers t = um_watchers s \<and> um_trace t = um_trace s"
proof (cases "removable_block api ifaces ans")
  case True
  then obtain b d p where b: "map_of ifaces kBlockInterface = Some b" "drive_path api b = Inr d" "d \<noteq> ''/''"
      "da_removable ans = Inr p" "is_removable api p = Inr True"
    by (auto simp: removable_block_def split: option.splits sum.splits)
  obtain h where "t = state_of (catch_std (watch api callback ans path d s)
      (\<lambda>e. log_msg Debug h [LStr path, LStr (exn_what e)]))"
    using assms b by (simp add: monitor_onInterfacesAdded_def)
  then have "um_watchers t = um_watchers (state_of (watch api callback ans path d s))"
    "um_trace t = um_trace (state_of (watch api callback ans path d s))"
    by (cases "watch api callback ans path d s"; simp add: frame_simps)+
  with watch_effect [OF refl, of ans s path api callback d] True show ?thesis by simp
next
  case False
  have "um_watchers t = um_watchers s \<and> um_trace t = um_trace s"
  proof (cases "map_of ifaces kBlockInterface")
    case (Some b)
    show ?thesis
    proof (cases "drive_path api b")
      case (Inr d)
      show ?thesis
      proof (cases "da_removable ans")
        case (Inr p)
        with False Some \<open>drive_path api b = Inr d\<close> show ?thesis unfolding assms
          by (cases "is_removable api p")
            (auto simp: monitor_onInterfacesAdded_def removable_block_def frame_simps)
      qed (use Some Inr in \<open>simp add: assms monitor_onInterfacesAdded_def frame_simps\<close>)
    qed (use Some in \<open>simp add: assms monitor_onInterfacesAdded_def frame_simps\<close>)
  qed (simp add: assms monitor_onInterfacesAdded_def)
  with False show ?thesis by simp
qed

lemma removed_effect:
  "device_table (um_watchers (monitor_onInterfacesRemoved path ifaces s))
     = (if kBlockInterface \<in> set ifaces then (device_table (um_watchers s))(path := None) else device_table (um_watchers s))"
  "wf_map (um_watchers s) \<Longrightarrow> wf_map (um_watchers (monitor_onInterfacesRemoved path ifaces s))"
  "um_trace (monitor_onInterfacesRemoved path ifaces s) = um_trace s @
     (if kBlockInterface \<in> set ifaces \<and> device_table (um_watchers s) path \<noteq> None then [Forget path] else [])"
proof -
  have step: "device_table (um_watchers (monitor_removed_step path i t))
      = (if i = kBlockInterface then (device_table (um_watchers t))(path := None) else device_table (um_watchers t))"
    "wf_map (um_watchers t) \<Longrightarrow> wf_map (um_watchers (monitor_removed_step path i t))"
    "um_trace (monitor_removed_step path i t) = um_trace t @
       (if i = kBlockInterface \<and> device_table (um_watchers t) path \<noteq> None then [Forget path] else [])" for i t
    by (auto simp: monitor_removed_step_def Let_def frame_simps contains_table)
  show "device_table (um_watchers (monitor_onInterfacesRemoved path ifaces s))
     = (if kBlockInterface \<in> set ifaces then (device_table (um_watchers s))(path := None) else device_table (um_watchers s))"
    unfolding monitor_onInterfacesRemoved_def by (induction ifaces arbitrary: s) (auto simp: step)
  show "wf_map (um_watchers s) \<Longrightarrow> wf_map (um_watchers (monitor_onInterfacesRemoved path ifaces s))"
    unfolding monitor_onInterfacesRemoved_def by (induction ifaces arbitrary: s) (auto simp: step)
  show "um_trace (monitor_onInterfacesRemoved path ifaces s) = um_trace s @
     (if kBlockInterface \<in> set ifaces \<and> device_table (um_watchers s) path \<noteq> None then [Forget path] else [])"
    unfolding monitor_onInterfacesRemoved_def by (induction ifaces arbitrary: s) (auto simp: step)
qed

lemma changed_effect:
  fixes s :: monitor
  assumes "t = monitor_changed api callback path iface changed ans s"
  shows "device_table (um_watchers t) = devices_announced api (UD_Changed path iface changed ans) (device_table (um_watchers s))"
    "wf_map (um_watchers s) \<Longrightarrow> wf_map (um_watchers t)"
    "um_trace t = um_trace s @
       (if devices_announced api (UD_Changed path iface changed ans) (device_table (um_watchers s)) path = Some True
            \<and> device_table (um_watchers s) path = Some False \<and> callback \<noteq> None then [Report path] else [])"
proof -
  have same: "(device_table m)(path \<mapsto> wt_reported w) = device_table m" if "map_of m path = Some w" for m w
    using that by (intro ext) (simp add: device_table_def)
  show "device_table (um_watchers t) = devices_announced api (UD_Changed path iface changed ans) (device_table (um_watchers s))"
  proof (cases "map_of (um_watchers s) path")
    case (Some w)
    then show ?thesis
      by (auto simp: assms monitor_changed_def watcher_onPropertiesChanged_def Let_def split_beta check_ready
          contains_keys same, auto simp: device_table_def)
  qed (simp add: assms monitor_changed_def device_table_def)
  show "wf_map (um_watchers s) \<Longrightarrow> wf_map (um_watchers t)"
    by (auto simp: assms monitor_changed_def watcher_onPropertiesChanged_def Let_def split_beta check_ready
        split: option.split)
  show "um_trace t = um_trace s @
       (if devices_announced api (UD_Changed path iface changed ans) (device_table (um_watchers s)) path = Some True
            \<and> device_table (um_watchers s) path = Some False \<and> callback \<noteq> None then [Report path] else [])"
    by (auto simp: assms monitor_changed_def watcher_onPropertiesChanged_def Let_def split_beta check_ready
        device_table_def contains_keys split: option.split)
qed

definition watchers_wf :: "monitor \<Rightarrow> bool" where
  "watchers_wf s \<longleftrightarrow> wf_map (um_watchers s)"

lemma monitor_step_refines:
  assumes "watchers_wf s"
  shows "watchers_wf (state_of (monitor_step api callback e s))
    \<and> device_table (um_watchers (state_of (monitor_step api callback e s))) = devices_announced api e (device_table (um_watchers s))"
proof (cases e)
  case (UD_Added path ifaces ans)
  with added_effect [OF refl, of api ifaces ans s path callback] assms show ?thesis
    by (auto simp: watchers_wf_def split: if_splits)
next
  case (UD_Removed path ifaces)
  with assms removed_effect [where path = path and ifaces = ifaces and s = s] show ?thesis by (simp add: watchers_wf_def)
next
  case (UD_Changed path iface changed ans)
  note c = changed_effect(1,2) [OF refl, where api = api and callback = callback and path = path
      and iface = iface and changed = changed and ans = ans and s = s]
  show ?thesis unfolding UD_Changed watchers_wf_def monitor_step.simps state_of.simps
    using c assms [unfolded watchers_wf_def] by blast
qed

interpretation devices: announced_set "monitor_step api callback" "\<lambda>s. device_table (um_watchers s)"
    "devices_announced api" watchers_wf
  by unfold_locales (use monitor_step_refines in blast)+

section \<open>Reports\<close>

text \<open>
  In a history, the reports of a path since its watcher was last destroyed: \<open>reported_since\<close> says
  whether there is one, \<open>reports_once\<close> that there never are two.
\<close>

fun reported_since :: "string \<Rightarrow> bool \<Rightarrow> monitor_event list \<Rightarrow> bool" where
  "reported_since p b [] = b"
| "reported_since p b (Report q # es) = reported_since p (q = p \<or> b) es"
| "reported_since p b (Forget q # es) = reported_since p (q \<noteq> p \<and> b) es"

fun reports_once :: "string \<Rightarrow> bool \<Rightarrow> monitor_event list \<Rightarrow> bool" where
  "reports_once p b [] = True"
| "reports_once p b (Report q # es) = (\<not> (q = p \<and> b) \<and> reports_once p (q = p \<or> b) es)"
| "reports_once p b (Forget q # es) = reports_once p (q \<noteq> p \<and> b) es"

lemma reported_since_append: "reported_since p b (xs @ ys) = reported_since p (reported_since p b xs) ys"
  by (induction p b xs rule: reported_since.induct) auto

lemma reports_once_append:
  "reports_once p b (xs @ ys) \<longleftrightarrow> reports_once p b xs \<and> reports_once p (reported_since p b xs) ys"
  by (induction p b xs rule: reports_once.induct) auto

definition once_inv :: "string \<Rightarrow> monitor \<Rightarrow> bool" where
  "once_inv p s \<longleftrightarrow> reports_once p False (um_trace s)
     \<and> (reported_since p False (um_trace s) \<longrightarrow> device_table (um_watchers s) p = Some True)"

lemma once_step: "once_inv p s \<Longrightarrow> once_inv p (state_of (monitor_step api callback e s))"
proof (cases e)
  case (UD_Added path ifaces ans)
  assume "once_inv p s"
  with UD_Added added_effect [OF refl, of api ifaces ans s path callback] show ?thesis
    by (auto simp: once_inv_def reports_once_append reported_since_append split: if_splits)
next
  case (UD_Removed path ifaces)
  assume "once_inv p s"
  with UD_Removed removed_effect [where path = path and ifaces = ifaces and s = s] show ?thesis
    by (auto simp: once_inv_def reports_once_append reported_since_append)
next
  case (UD_Changed path iface changed ans)
  assume inv: "once_inv p s"
  let ?t = "monitor_changed api callback path iface changed ans s"
  let ?d = "devices_announced api (UD_Changed path iface changed ans) (device_table (um_watchers s))"
  have keeps: "device_table (um_watchers s) p = Some True \<Longrightarrow> ?d p = Some True" by auto
  show ?thesis
  proof (cases "um_trace ?t = um_trace s")
    case True
    then show ?thesis using inv keeps changed_effect(1) [OF refl, of api callback path iface changed ans s]
      by (simp add: UD_Changed once_inv_def del: devices_announced.simps)
  next
    case False
    then have t: "um_trace ?t = um_trace s @ [Report path]" "?d path = Some True"
        "device_table (um_watchers s) path = Some False"
      using changed_effect(3) [OF refl, of api callback path iface changed ans s] by (auto split: if_splits)
    then show ?thesis using inv keeps changed_effect(1) [OF refl, of api callback path iface changed ans s]
      by (cases "path = p") (auto simp: UD_Changed once_inv_def reports_once_append reported_since_append
          simp del: devices_announced.simps)
  qed
qed

section \<open>Errors\<close>

lemma added_throws_iff:
  "monitor_onInterfacesAdded api callback path ifaces ans s = Throw e t \<longleftrightarrow>
      (\<exists>b. map_of ifaces kBlockInterface = Some b \<and> drive_path api b = Inl e \<and> t = s)"
proof (cases "map_of ifaces kBlockInterface")
  case (Some b)
  have caught: "is_done (catch_std r h)" for r :: "monitor outcome" and h by (cases r) auto
  show ?thesis
  proof (cases "drive_path api b")
    case (Inr d)
    then have "is_done (monitor_onInterfacesAdded api callback path ifaces ans s)"
      using Some caught by (simp add: monitor_onInterfacesAdded_def)
    with Some Inr show ?thesis by auto
  qed (use Some in \<open>auto simp: monitor_onInterfacesAdded_def\<close>)
qed (simp add: monitor_onInterfacesAdded_def)

definition drive_path_readable :: "'v variant_api \<Rightarrow> (string \<times> 'v props) list \<Rightarrow> bool" where
  "drive_path_readable api ifaces \<longleftrightarrow>
     (case map_of ifaces kBlockInterface of None \<Rightarrow> True | Some b \<Rightarrow> \<not> isl (drive_path api b))"

lemma added_done_iff:
  "is_done (monitor_onInterfacesAdded api callback path ifaces ans s) \<longleftrightarrow> drive_path_readable api ifaces"
proof (cases "monitor_onInterfacesAdded api callback path ifaces ans s")
  case (Throw e t)
  with added_throws_iff [THEN iffD1, OF Throw] show ?thesis by (auto simp: drive_path_readable_def)
next
  case (Done t)
  have "\<not> isl (drive_path api b)" if "map_of ifaces kBlockInterface = Some b" for b
    using added_throws_iff [of api callback path ifaces ans s _ s] that Done by (cases "drive_path api b") auto
  with Done show ?thesis by (auto simp: drive_path_readable_def split: option.split)
qed

lemma scan_done_iff:
  "is_done (for_each (\<lambda>(p, ifaces, a). monitor_onInterfacesAdded api callback p ifaces a) objects s)
     \<longleftrightarrow> list_all (\<lambda>(p, ifaces, a). drive_path_readable api ifaces) objects"
proof (induction objects arbitrary: s)
  case (Cons x objects)
  obtain p ifaces a where x: "x = (p, ifaces, a)" by (cases x)
  show ?case using Cons.IH added_done_iff [of api callback p ifaces a s]
    by (cases "monitor_onInterfacesAdded api callback p ifaces a s") (auto simp: x)
qed simp

section \<open>Sizes\<close>

lemma bit_length_bounds: "0 < n \<Longrightarrow> 2 ^ (bit_length n - 1) \<le> n \<and> 0 < bit_length n"
proof (induction n rule: bit_length.induct)
  case (1 n)
  show ?case
  proof (cases "n div 2 = 0")
    case True
    then have "bit_length n = 1" using 1(2) bit_length.simps [of n] bit_length.simps [of 0] by simp
    with 1(2) show ?thesis by simp
  next
    case False
    then have ih: "2 ^ (bit_length (n div 2) - 1) \<le> n div 2" "0 < bit_length (n div 2)" using 1 by auto
    have "(2 :: nat) ^ bit_length (n div 2) = 2 * 2 ^ (bit_length (n div 2) - 1)"
      using ih(2) by (simp flip: power_Suc)
    also have "\<dots> \<le> 2 * (n div 2)" using ih(1) by simp
    also have "\<dots> \<le> n" by simp
    finally show ?thesis using 1(2) by (simp add: bit_length.simps [of n])
  qed
qed

text \<open>The conversion to \<open>double\<close> is exact below \<open>2 ^ 53\<close> and otherwise off by at most one part in \<open>2 ^ 53\<close>.\<close>

lemma to_double_error: "2 ^ 53 * \<bar>int (to_double n) - int n\<bar> \<le> int n"
proof (cases "bit_length n \<le> 53")
  case True
  then have "to_double n = n" by (simp add: to_double_def round_even_def)
  then show ?thesis by simp
next
  case False
  let ?k = "bit_length n - 53"
  have n: "0 < n" using False by (cases "n = 0") (simp_all add: bit_length.simps [of 0])
  have "2 * \<bar>int (to_double n) - int n\<bar> \<le> 2 ^ ?k"
    using round_even_error [of "2 ^ ?k" n] by (simp add: to_double_def Let_def)
  then have "2 ^ 52 * (2 * \<bar>int (to_double n) - int n\<bar>) \<le> 2 ^ 52 * 2 ^ ?k" by (rule mult_left_mono) simp
  also have "2 ^ 52 * 2 ^ ?k = (2 :: int) ^ (52 + ?k)" by (rule power_add [symmetric])
  also have "\<dots> = int (2 ^ (bit_length n - 1))" using False by (simp add: of_nat_power)
  also have "\<dots> \<le> int n" using bit_length_bounds [OF n] by (simp only: of_nat_le_iff)
  finally show ?thesis by simp
qed

lemma size_unit_bounds:
  assumes "unit \<le> max_unit" and "unit = 0 \<or> 1024 ^ unit \<le> m" and u: "u = size_unit m unit"
  shows "u \<le> max_unit \<and> (u = 0 \<or> 1024 ^ u \<le> m) \<and> (u = max_unit \<or> m < 1024 ^ (u + 1))"
  using assms
proof (induction m unit rule: size_unit.induct)
  case (1 m unit)
  show ?case
  proof (cases "divides_again m unit")
    case True
    then have "u = size_unit m (unit + 1)" using 1(4) by (simp add: size_unit.simps [of m unit])
    moreover have "unit + 1 \<le> max_unit" "1024 ^ (unit + 1) \<le> m" using True by (simp_all add: divides_again_def)
    ultimately show ?thesis using 1(1) [OF True] by simp
  next
    case False
    then have "u = unit" using 1(4) by (simp add: size_unit.simps [of m unit])
    moreover have "unit = max_unit \<or> m < 1024 ^ (unit + 1)"
      using False 1(2) by (cases "m = 0") (auto simp: divides_again_def)
    ultimately show ?thesis using 1(2,3) by simp
  qed
qed

section \<open>Properties\<close>

text \<open>
  C12: Whatever objects appear, change and vanish, and whatever the bus answers, the watchers of the
  daemon are the abstract table of devices: a path enters when a block object with a removable
  drive is announced, leaves when its block interface goes, and counts as reported from the
  first check that found a file system on it.
\<close>

theorem monitor_refines_device_table:
  "device_table (um_watchers (monitor_run api callback lg cout events)) = fold (devices_announced api) events (\<lambda>_. None)
   \<and> wf_map (um_watchers (monitor_run api callback lg cout events))"
proof -
  have "watchers_wf (monitor_init lg cout)" "device_table (um_watchers (monitor_init lg cout)) = (\<lambda>_. None)"
    by (auto simp: watchers_wf_def monitor_init_def device_table_def)
  with devices.run_inv [of _ api callback events] devices.run_view [of _ api callback events] show ?thesis
    by (simp add: monitor_run_def watchers_wf_def)
qed

text \<open>
  C11: In every run each device is reported at most once between two removals of its block
  interface, also when the callback throws, the signals repeat or the object is announced again.
\<close>

theorem device_reported_once:
  "reports_once path False (um_trace (monitor_run api callback lg cout events))"
proof -
  have "once_inv path (monitor_init lg cout)" by (simp add: once_inv_def monitor_init_def)
  then have "once_inv path (monitor_run api callback lg cout events)"
    unfolding monitor_run_def by (rule run_events_invariant [rotated]) (rule once_step)
  then show ?thesis by (simp add: once_inv_def)
qed

text \<open>
  C35: No error of the bus leaves the handler of new objects except one of reading the \<open>Drive\<close>
  property, which the code does before its \<open>try\<close>; then nothing was changed. At start-up such an
  object ends the constructor, with the objects before it scanned and those after it not.
\<close>

theorem monitor_throws_only_on_drive_path:
  "(monitor_onInterfacesAdded api callback path ifaces ans s = Throw e t \<longleftrightarrow>
      (\<exists>b. map_of ifaces kBlockInterface = Some b \<and> drive_path api b = Inl e \<and> t = s))
   \<and> (is_done (RemovableDeviceMonitor api callback managed s) \<longleftrightarrow>
      (case managed of
         Inl _ \<Rightarrow> False
       | Inr objects \<Rightarrow> list_all (\<lambda>(p, ifaces, a). drive_path_readable api ifaces) objects))"
proof -
  have "is_done (seq r (\<lambda>s. Done (f s))) = is_done r" for r :: "monitor outcome" and f by (cases r) auto
  then show ?thesis
    by (simp add: RemovableDeviceMonitor_def scan_done_iff added_throws_iff split: sum.split)
qed

text \<open>
  C36: The human-readable size of every 64-bit byte count: the loop ends with a unit of the table, the
  number shown is below 1024 of that unit before rounding unless the unit is the largest, it
  is within half a hundredth of a unit of the value converted to \<open>double\<close>, and that is within
  one part in \<open>2 ^ 53\<close> of the byte count.
\<close>

theorem format_size_accurate:
  "\<exists>m u. formatSize bytes = fixed2 (hundredths m u) @ '' '' @ size_units ! u
    \<and> u < length size_units \<and> (u = 0 \<or> 1024 ^ u \<le> m) \<and> (u = max_unit \<or> m < 1024 ^ (u + 1))
    \<and> 2 * \<bar>int (hundredths m u * 1024 ^ u) - 100 * int m\<bar> \<le> 1024 ^ u
    \<and> 2 ^ 53 * \<bar>int m - int (unat bytes)\<bar> \<le> int (unat bytes)"
proof (intro exI conjI)
  let ?m = "to_double (unat bytes)" and ?u = "size_unit (to_double (unat bytes)) 0"
  show "formatSize bytes = fixed2 (hundredths ?m ?u) @ '' '' @ size_units ! ?u"
    by (simp add: formatSize_def Let_def)
  note u = size_unit_bounds [OF _ _ refl, of 0 ?m]
  show "?u < length size_units" using u by (auto simp: max_unit_def size_units_def)
  show "?u = 0 \<or> 1024 ^ ?u \<le> ?m" "?u = max_unit \<or> ?m < 1024 ^ (?u + 1)" using u by simp_all
  show "2 * \<bar>int (hundredths ?m ?u * 1024 ^ ?u) - 100 * int ?m\<bar> \<le> 1024 ^ ?u"
    using round_even_error [of "1024 ^ ?u" "100 * ?m"] by (simp add: hundredths_def)
  show "2 ^ 53 * \<bar>int ?m - int (unat bytes)\<bar> \<le> int (unat bytes)" by (rule to_double_error)
qed

end
