(* ===== verification/Connman.thy ===== *)
theory Connman
  imports Client_Registry
begin

text \<open>
  \<open>src/utils/signal_handler.h\<close>, \<open>src/connman/connman_client.{h,cc}\<close> and \<open>src/connman/main.cc\<close>: the
  ConnMan monitor, the one program that runs its handlers on a second thread and reconnects when
  the bus goes away. Every handler of the client holds \<open>maps_mutex_\<close> from its first to its last
  access of the maps, and so does the loading of the constructor, so an execution of the two
  threads is a sequence of whole handlers. Signals of the process set \<open>g_running\<close> between any two
  reads of it.
\<close>

section \<open>Signals and the monitor loop\<close>

definition SIGINT :: int where "SIGINT = 2"
definition SIGTERM :: int where "SIGTERM = 15"
definition SIGPIPE :: int where "SIGPIPE = 13"

datatype disposition = Default_Action | Handled | Ignored

text \<open>The process: the flag, what its handlers wrote to \<open>stderr\<close>, and the dispositions.\<close>

record process = logged +
  g_running :: bool
  pr_stderr :: string
  pr_signals :: "(int \<times> disposition) list"
  pr_slept :: "nat list"

definition signalHandler :: "int \<Rightarrow> process \<Rightarrow> process" where
  "signalHandler signum s =
     (let signame = (if signum = SIGINT then ''SIGINT'' else if signum = SIGTERM then ''SIGTERM'' else ''UNKNOWN'')
      in s\<lparr>pr_stderr := pr_stderr s @ ''Received signal '' @ signame @ '' - initiating graceful shutdown'' @ endl,
           g_running := False\<rparr>)"

definition installSignalHandlers :: "process \<Rightarrow> process" where
  "installSignalHandlers s =
     s\<lparr>pr_signals := AList.update SIGPIPE Ignored
         (AList.update SIGTERM Handled (AList.update SIGINT Handled (pr_signals s)))\<rparr>"

text \<open>A signal that arrives: the handler runs when it is installed; the others are not modelled.\<close>

definition deliver :: "int option \<Rightarrow> process \<Rightarrow> process" where
  "deliver sig s = (case sig of
     None \<Rightarrow> s
   | Some n \<Rightarrow> (if map_of (pr_signals s) n = Some Handled then signalHandler n s else s))"

text \<open>\<open>isConnectionAlive\<close> on what creating the proxy and calling \<open>GetId\<close> threw.\<close>

definition isConnectionAlive :: "exn option \<Rightarrow> process \<Rightarrow> bool \<times> process" where
  "isConnectionAlive answer s =
     (case answer of
        None \<Rightarrow> (True, s)
      | Some (DBus_Error name msg) \<Rightarrow> (False, log_msg Warn ''D-Bus connection check failed: {}'' [LStr msg] s)
      | Some (Std_Exception msg) \<Rightarrow> (False, log_msg Warn ''Connection check exception: {}'' [LStr msg] s))"

text \<open>
  One turn of \<open>monitorLoop\<close>: a signal that arrives before \<open>g_running\<close> is read, the steady clock
  after the sleep (in milliseconds), and the answer to a connection check.
\<close>

record tick =
  tk_signal :: "int option"
  tk_now :: int
  tk_answer :: "exn option"

datatype monitor_result = Shutdown | Connection_Lost | Monitoring

definition kConnectionCheckInterval :: int where "kConnectionCheckInterval = 30000"

fun monitorLoop :: "int \<Rightarrow> int \<Rightarrow> tick list \<Rightarrow> process \<Rightarrow> monitor_result \<times> process" where
  "monitorLoop check_interval last_check [] s = (Monitoring, s)"
| "monitorLoop check_interval last_check (t # ts) s =
     (let s = deliver (tk_signal t) s
      in if \<not> g_running s then (Shutdown, s)
         else if check_interval \<le> tk_now t - last_check
         then (let (alive, s) = isConnectionAlive (tk_answer t) s
               in if \<not> alive then (Connection_Lost, s) else monitorLoop check_interval (tk_now t) ts s)
         else monitorLoop check_interval last_check ts s)"

section \<open>The client\<close>

text \<open>Technology and service clients have no state; the registries map a path to one.\<close>

record connman_client = logged +
  cm_technologies :: "(string \<times> unit) list"
  cm_services :: "(string \<times> unit) list"

definition connman_client_init :: "log_entry list \<Rightarrow> connman_client" where
  "connman_client_init lg = \<lparr>log_of = lg, cm_technologies = [], cm_services = []\<rparr>"

text \<open>\<open>mk path\<close> is what constructing the object of a path throws, if anything.\<close>

definition add_technology :: "(string \<Rightarrow> exn option) \<Rightarrow> string \<Rightarrow> connman_client \<Rightarrow> connman_client outcome" where
  "add_technology mk path s =
     (let s = log_msg Info ''Technology added: {}'' [LStr path] s
      in if contains (cm_technologies s) path then Done s
         else case mk path of
           Some e \<Rightarrow> Throw e s
         | None \<Rightarrow> Done (s\<lparr>cm_technologies := AList.update path () (cm_technologies s)\<rparr>))"

definition load_service :: "(string \<Rightarrow> exn option) \<Rightarrow> string \<Rightarrow> connman_client \<Rightarrow> connman_client outcome" where
  "load_service mk path s =
     (if contains (cm_services s) path then Done s
      else case mk path of
        Some e \<Rightarrow> Throw e s
      | None \<Rightarrow> Done (s\<lparr>cm_services := AList.update path () (cm_services s)\<rparr>))"

text \<open>The body of the constructor; a throw destroys the client.\<close>

definition connman_load ::
    "(string \<Rightarrow> exn option) \<Rightarrow> exn + string list \<Rightarrow> exn + string list \<Rightarrow> connman_client \<Rightarrow> connman_client outcome" where
  "connman_load mk technologies services s =
     seq (with_value technologies (for_each (add_technology mk)) s)
         (with_value services (for_each (load_service mk)))"

text \<open>\<open>containsValueOfType<T>\<close> compares the type of the value with the signature of \<open>T\<close>.\<close>

definition manager_onPropertyChanged :: "'v variant_api \<Rightarrow> string \<Rightarrow> 'v \<Rightarrow> 'a logged_scheme \<Rightarrow> 'a logged_scheme" where
  "manager_onPropertyChanged api name v s =
     (case append_property max_nesting api v ostringstream of
        Done os \<Rightarrow> log_msg Info ''Manager PropertyChanged: {} = {}'' [LStr name, LStr (os_buf os)] s
      | Throw e _ \<Rightarrow> log_msg Err ''Exception in Manager onPropertyChanged: {}'' [LStr (exn_what e)] s)"

definition onTechnologyAdded :: "(string \<Rightarrow> exn option) \<Rightarrow> string \<Rightarrow> connman_client \<Rightarrow> connman_client outcome" where
  "onTechnologyAdded mk path s =
     catch_std (add_technology mk path s) (\<lambda>e. log_msg Err ''Exception in onTechnologyAdded: {}'' [LStr (exn_what e)])"

definition onTechnologyRemoved :: "string \<Rightarrow> connman_client \<Rightarrow> connman_client" where
  "onTechnologyRemoved path s =
     (let s = log_msg Info ''Technology removed: {}'' [LStr path] s
      in s\<lparr>cm_technologies := AList.delete path (cm_technologies s)\<rparr>)"

definition string_prop :: "'v variant_api \<Rightarrow> 'v props \<Rightarrow> string \<Rightarrow> exn + string option" where
  "string_prop api props key =
     (case map_of props key of
        None \<Rightarrow> Inr None
      | Some v \<Rightarrow> (if va_type api v = ''s'' then map_sum id Some (va_string api v) else Inr None))"

definition log_wifi :: "'v variant_api \<Rightarrow> string \<Rightarrow> 'v props \<Rightarrow> connman_client \<Rightarrow> connman_client outcome" where
  "log_wifi api path props =
     with_value (string_prop api props ''Type'') (\<lambda>type.
       if type = Some ''wifi''
       then with_value (string_prop api props ''Name'') (\<lambda>name s.
              Done (log_msg Info ''  WiFi Update: {} [{}]''
                [LStr (case name of Some n \<Rightarrow> n | None \<Rightarrow> ''Unknown''), LStr path] s))
       else Done)"

definition changed_service ::
    "'v variant_api \<Rightarrow> (string \<Rightarrow> exn option) \<Rightarrow> string \<times> 'v props \<Rightarrow> connman_client \<Rightarrow> connman_client outcome" where
  "changed_service api mk = (\<lambda>(path, props) s.
     seq (if contains (cm_services s) path then Done s
          else (let s = log_msg Info ''Service added: {}'' [LStr path] s
                in case mk path of
                     Some e \<Rightarrow> Throw e s
                   | None \<Rightarrow> Done (s\<lparr>cm_services := AList.update path () (cm_services s)\<rparr>)))
         (log_wifi api path props))"

definition remove_service :: "string \<Rightarrow> connman_client \<Rightarrow> connman_client" where
  "remove_service path s =
     (let s = log_msg Info ''  Service removed: {}'' [LStr path] s
      in s\<lparr>cm_services := AList.delete path (cm_services s)\<rparr>)"

definition onServicesChanged ::
    "'v variant_api \<Rightarrow> (string \<Rightarrow> exn option) \<Rightarrow> (string \<times> 'v props) list \<Rightarrow> string list \<Rightarrow>
     connman_client \<Rightarrow> connman_client outcome" where
  "onServicesChanged api mk changed removed s =
     catch_std
       (seq (for_each (changed_service api mk) changed s) (\<lambda>s. Done (fold remove_service removed s)))
       (\<lambda>e. log_msg Err ''Exception in onServicesChanged: {}'' [LStr (exn_what e)])"

definition technology_onPropertyChanged ::
    "'v variant_api \<Rightarrow> string \<Rightarrow> string \<Rightarrow> 'v \<Rightarrow> 'a logged_scheme \<Rightarrow> 'a logged_scheme outcome" where
  "technology_onPropertyChanged api path name v s =
     catch_std
       (seq (if name = ''Scanning'' \<and> va_type api v = ''b''
             then with_value (va_bool api v) (\<lambda>scanning s.
                    Done (log_msg Info ''Technology [{}] WiFi Scan: {}''
                      [LStr path, LStr (if scanning then ''STARTED'' else ''COMPLETED'')] s)) s
             else Done s)
            (\<lambda>s. case append_property max_nesting api v ostringstream of
                   Done os \<Rightarrow> Done (log_msg Info ''Technology [{}] PropertyChanged: {} = {}''
                                     [LStr path, LStr name, LStr (os_buf os)] s)
                 | Throw e _ \<Rightarrow> Throw e s))
       (\<lambda>e. log_msg Err ''Exception in Technology onPropertyChanged: {}'' [LStr (exn_what e)])"

definition service_onPropertyChanged ::
    "'v variant_api \<Rightarrow> string \<Rightarrow> string \<Rightarrow> 'v \<Rightarrow> 'a logged_scheme \<Rightarrow> 'a logged_scheme" where
  "service_onPropertyChanged api path name v s =
     (case append_property max_nesting api v ostringstream of
        Done os \<Rightarrow> log_msg Info ''Service [{}] PropertyChanged: {} = {}'' [LStr path, LStr name, LStr (os_buf os)] s
      | Throw e _ \<Rightarrow> log_msg Err ''Exception in Service onPropertyChanged: {}'' [LStr (exn_what e)] s)"

text \<open>
  What the two threads do to a client, in some order: the loading of the constructor, and the
  handlers. \<open>onPeersChanged\<close> and \<open>onTetheringClientsChanged\<close> have empty bodies.
\<close>

datatype 'v connman_event =
    CE_Load "exn + string list" "exn + string list"
  | CE_Technology_Added string
  | CE_Technology_Removed string
  | CE_Services_Changed "(string \<times> 'v props) list" "string list"
  | CE_Property string 'v
  | CE_Technology_Property string string 'v
  | CE_Service_Property string string 'v
  | CE_Ignored

fun connman_step ::
    "'v variant_api \<Rightarrow> (string \<Rightarrow> exn option) \<Rightarrow> 'v connman_event \<Rightarrow> connman_client \<Rightarrow> connman_client outcome" where
  "connman_step api mk (CE_Load technologies services) s = connman_load mk technologies services s"
| "connman_step api mk (CE_Technology_Added path) s = onTechnologyAdded mk path s"
| "connman_step api mk (CE_Technology_Removed path) s = Done (onTechnologyRemoved path s)"
| "connman_step api mk (CE_Services_Changed changed removed) s = onServicesChanged api mk changed removed s"
| "connman_step api mk (CE_Property name v) s = Done (manager_onPropertyChanged api name v s)"
| "connman_step api mk (CE_Technology_Property path name v) s = technology_onPropertyChanged api path name v s"
| "connman_step api mk (CE_Service_Property path name v) s = Done (service_onPropertyChanged api path name v s)"
| "connman_step api mk CE_Ignored s = Done s"

section \<open>The program\<close>

definition kInitialReconnectDelay :: nat where "kInitialReconnectDelay = 1"
definition kMaxReconnectDelay :: nat where "kMaxReconnectDelay = 30"

text \<open>
  One turn of the outer loop: the signals that arrive before each of the three reads of
  \<open>g_running\<close>, what connecting and constructing the client threw, the clock when \<open>monitorLoop\<close>
  starts and its turns, and what leaving the event loop threw.
\<close>

record main_round =
  mr_signal1 :: "int option"
  mr_connect :: "exn option"
  mr_start :: int
  mr_ticks :: "tick list"
  mr_leave :: "exn option"
  mr_signal2 :: "int option"
  mr_signal3 :: "int option"

datatype main_result = Main_Returned int | Main_Running

definition log_caught :: "exn \<Rightarrow> 'a logged_scheme \<Rightarrow> 'a logged_scheme" where
  "log_caught e s = (case e of
     DBus_Error name msg \<Rightarrow> log_msg Err ''D-Bus error: {} - {}'' [LStr name, LStr msg] s
   | Std_Exception msg \<Rightarrow> log_msg Err ''Exception: {}'' [LStr msg] s)"

text \<open>The \<open>try\<close> block: the result to return, if it returns, and the delay it leaves.\<close>

definition attempt :: "main_round \<Rightarrow> nat \<Rightarrow> process \<Rightarrow> main_result option \<times> nat \<times> process" where
  "attempt r reconnect_delay s =
     (case mr_connect r of
        Some e \<Rightarrow> (None, reconnect_delay, log_caught e s)
      | None \<Rightarrow>
          (let s = log_msg Info ''ConnMan monitor running - Press Ctrl+C to exit'' [] s;
               (result, s) = monitorLoop kConnectionCheckInterval (mr_start r) (mr_ticks r) s
           in if result = Monitoring then (Some Main_Running, kInitialReconnectDelay, s)
              else (let s = (if result = Connection_Lost
                             then log_msg Err ''Monitor loop: {}'' [LStr ''D-Bus connection lost''] s
                             else log_msg Info ''Shutting down...'' [] s)
                    in case mr_leave r of
                         Some e \<Rightarrow> (None, kInitialReconnectDelay, log_caught e s)
                       | None \<Rightarrow> (let s = deliver (mr_signal2 r) s
                                  in if \<not> g_running s then (Some (Main_Returned 0), kInitialReconnectDelay, s)
                                     else (None, kInitialReconnectDelay, s)))))"

fun main_loop :: "main_round list \<Rightarrow> nat \<Rightarrow> process \<Rightarrow> main_result \<times> process" where
  "main_loop [] reconnect_delay s = (Main_Running, s)"
| "main_loop (r # rs) reconnect_delay s =
     (let s = deliver (mr_signal1 r) s
      in if \<not> g_running s then (Main_Returned 0, s)
         else (let (result, reconnect_delay, s) = attempt r reconnect_delay s
               in case result of
                    Some x \<Rightarrow> (x, s)
                  | None \<Rightarrow>
                      (let s = deliver (mr_signal3 r) s
                       in if \<not> g_running s then (Main_Returned 0, s)
                          else (let s = log_msg Info ''Reconnecting in {} seconds...'' [LInt (int reconnect_delay)] s;
                                    s = s\<lparr>pr_slept := pr_slept s @ [reconnect_delay]\<rparr>
                                in main_loop rs (min (reconnect_delay * 2) kMaxReconnectDelay) s))))"

definition process_start :: "log_entry list \<Rightarrow> process" where
  "process_start lg = \<lparr>log_of = lg, g_running = True, pr_stderr = [], pr_signals = [], pr_slept = []\<rparr>"

definition connman_main :: "main_round list \<Rightarrow> log_entry list \<Rightarrow> main_result \<times> process" where
  "connman_main rounds lg = main_loop rounds kInitialReconnectDelay (installSignalHandlers (process_start lg))"

end
