(* ===== verification/Connman_Laws.thy ===== *)
theory Connman_Laws
  imports Connman
begin

text \<open>
  What the ConnMan monitor guarantees: its registries refine sets of announced paths in every
  interleaving of its two threads, a lost connection is noticed, and the outer loop backs off
  by the exact delays and ends only in a turn in which a termination signal arrives.
\<close>

section \<open>The registries\<close>

type_synonym connman_view = "string set \<times> string set"

definition connman_view :: "connman_client \<Rightarrow> connman_view" where
  "connman_view s = (keys (cm_technologies s), keys (cm_services s))"

text \<open>Whether the Wi-Fi line of a changed service can be produced without a throw.\<close>

definition wifi_readable :: "'v variant_api \<Rightarrow> 'v props \<Rightarrow> bool" where
  "wifi_readable api props =
     (case string_prop api props ''Type'' of
        Inl _ \<Rightarrow> False
      | Inr type \<Rightarrow> type = Some ''wifi'' \<longrightarrow> \<not> isl (string_prop api props ''Name''))"

text \<open>
  The services entered by a change: up to and including the first whose line throws, and up to but
  not including the first that is new and cannot be constructed; and whether all were.
\<close>

fun services_entered ::
    "'v variant_api \<Rightarrow> (string \<Rightarrow> exn option) \<Rightarrow> (string \<times> 'v props) list \<Rightarrow> string set \<Rightarrow> string set \<times> bool" where
  "services_entered api mk [] S = (S, True)"
| "services_entered api mk ((path, props) # changed) S =
     (if path \<in> S \<or> mk path = None
      then (if wifi_readable api props then services_entered api mk changed (insert path S)
            else (insert path S, False))
      else (S, False))"

fun connman_announced ::
    "'v variant_api \<Rightarrow> (string \<Rightarrow> exn option) \<Rightarrow> 'v connman_event \<Rightarrow> connman_view \<Rightarrow> connman_view" where
  "connman_announced api mk (CE_Load technologies services) (T, S) =
     (case technologies of
        Inl _ \<Rightarrow> (T, S)
      | Inr ts \<Rightarrow>
          (let (T, all_technologies) = taken mk ts T
           in case (all_technologies, services) of
                (True, Inr ss) \<Rightarrow> (T, fst (taken mk ss S))
              | _ \<Rightarrow> (T, S)))"
| "connman_announced api mk (CE_Technology_Added path) (T, S) = (if mk path = None then insert path T else T, S)"
| "connman_announced api mk (CE_Technology_Removed path) (T, S) = (T - {path}, S)"
| "connman_announced api mk (CE_Services_Changed changed removed) (T, S) =
     (let (S, complete) = services_entered api mk changed S in (T, if complete then S - set removed else S))"
| "connman_announced api mk _ v = v"

definition connman_inv :: "connman_client \<Rightarrow> bool" where
  "connman_inv s \<longleftrightarrow> wf_map (cm_technologies s) \<and> wf_map (cm_services s)"

lemma cm_log [frame_simps]:
  "cm_technologies (log_msg l fmt args s) = cm_technologies s"
  "cm_services (log_msg l fmt args s) = cm_services s"
  by (simp_all add: log_msg_def)

lemma view_log [simp]: "connman_view (log_msg l fmt args s) = connman_view s" "connman_inv (log_msg l fmt args s) = connman_inv s"
  by (simp_all add: connman_view_def connman_inv_def frame_simps)

lemma connman_view_parts:
  "fst (connman_view s) = keys (cm_technologies s)" "snd (connman_view s) = keys (cm_services s)"
  "(case connman_view s of (T, S) \<Rightarrow> f T S) = f (keys (cm_technologies s)) (keys (cm_services s))"
  by (simp_all add: connman_view_def)

text \<open>The bodies of the two loops of the constructor.\<close>

lemma add_effects:
  "is_done (add_technology mk x s) \<longleftrightarrow> x \<in> keys (cm_technologies s) \<or> mk x = None"
  "is_done (load_service mk x s) \<longleftrightarrow> x \<in> keys (cm_services s) \<or> mk x = None"
  "connman_view (state_of (add_technology mk x s)) =
     (if x \<in> keys (cm_technologies s) \<or> mk x = None then insert x (keys (cm_technologies s))
      else keys (cm_technologies s), keys (cm_services s))"
  "connman_view (state_of (load_service mk x s)) =
     (keys (cm_technologies s), if x \<in> keys (cm_services s) \<or> mk x = None then insert x (keys (cm_services s))
      else keys (cm_services s))"
  "connman_inv s \<Longrightarrow> connman_inv (state_of (add_technology mk x s))"
  "connman_inv s \<Longrightarrow> connman_inv (state_of (load_service mk x s))"
  by (auto simp: add_technology_def load_service_def Let_def frame_simps connman_view_def connman_inv_def contains_keys
      split: option.split)

interpretation technologies: constructing_loop "add_technology mk" "\<lambda>x. x" mk connman_view
    fst "\<lambda>A (T, S). (A, S)" connman_inv for mk
  by unfold_locales (simp_all add: split_beta connman_view_parts add_effects, simp_all add: connman_view_def)

interpretation services: constructing_loop "load_service mk" "\<lambda>x. x" mk connman_view
    snd "\<lambda>A (T, S). (T, A)" connman_inv for mk
  by unfold_locales (simp_all add: split_beta connman_view_parts add_effects, simp_all add: connman_view_def)

lemma load_view:
  "connman_view (state_of (connman_load mk ts ss s)) = connman_announced api mk (CE_Load ts ss) (connman_view s)
   \<and> (connman_inv s \<longrightarrow> connman_inv (state_of (connman_load mk ts ss s)))"
proof (cases ts)
  case (Inl e)
  then show ?thesis by (cases "connman_view s") (simp add: connman_load_def)
next
  case xs: (Inr xs)
  obtain T S where v: "connman_view s = (T, S)" by (cases "connman_view s")
  obtain T' ok where t: "taken mk xs T = (T', ok)" by fastforce
  have l: "is_done (for_each (add_technology mk) xs s) = ok"
      "connman_view (state_of (for_each (add_technology mk) xs s)) = (T', S)"
      "connman_inv s \<longrightarrow> connman_inv (state_of (for_each (add_technology mk) xs s))"
    using technologies.loop [of mk xs s] by (simp_all add: v t)
  show ?thesis
  proof (cases "for_each (add_technology mk) xs s")
    case (Throw e u)
    with xs l show ?thesis by (simp add: connman_load_def v t)
  next
    case (Done u)
    with xs l services.loop [of mk _ u] show ?thesis
      by (cases ss) (simp_all add: connman_load_def v t)
  qed
qed

lemma log_wifi_effect:
  "connman_view (state_of (log_wifi api path props s)) = connman_view s"
  "connman_inv (state_of (log_wifi api path props s)) = connman_inv s"
  "is_done (log_wifi api path props s) = wifi_readable api props"
  by (cases "string_prop api props ''Type''"; cases "string_prop api props ''Name''";
      simp add: log_wifi_def wifi_readable_def)+

lemma changed_service_effect:
  "is_done (changed_service api mk (path, props) s) \<longleftrightarrow>
     (path \<in> keys (cm_services s) \<or> mk path = None) \<and> wifi_readable api props"
  "connman_view (state_of (changed_service api mk (path, props) s)) =
     (keys (cm_technologies s), if path \<in> keys (cm_services s) \<or> mk path = None
      then insert path (keys (cm_services s)) else keys (cm_services s))"
  "connman_inv s \<Longrightarrow> connman_inv (state_of (changed_service api mk (path, props) s))"
  by (simp_all add: changed_service_def Let_def log_wifi_effect contains_keys split: option.split)
    (simp_all add: connman_view_def connman_inv_def frame_simps insert_absorb)

lemma changed_loop:
  "is_done (for_each (changed_service api mk) changed s) = snd (services_entered api mk changed (snd (connman_view s)))
   \<and> connman_view (state_of (for_each (changed_service api mk) changed s))
      = (fst (connman_view s), fst (services_entered api mk changed (snd (connman_view s))))
   \<and> (connman_inv s \<longrightarrow> connman_inv (state_of (for_each (changed_service api mk) changed s)))"
proof (induction changed arbitrary: s)
  case (Cons x changed)
  obtain path props where x: "x = (path, props)" by (cases x)
  note c = changed_service_effect [where api = api and mk = mk and path = path and props = props and s = s]
  show ?case
  proof (cases "changed_service api mk (path, props) s")
    case (Done t)
    with c have t: "connman_view t = (keys (cm_technologies s), insert path (keys (cm_services s)))"
        "path \<in> keys (cm_services s) \<or> mk path = None" "wifi_readable api props" "connman_inv s \<Longrightarrow> connman_inv t"
      by simp_all
    show ?thesis using Cons.IH [of t] t by (simp add: x Done connman_view_parts)
  next
    case (Throw e t)
    with c show ?thesis by (auto simp: x connman_view_parts)
  qed
qed simp

lemma remove_loop:
  "connman_view (fold remove_service removed s) = (fst (connman_view s), snd (connman_view s) - set removed)
   \<and> (connman_inv s \<longrightarrow> connman_inv (fold remove_service removed s))"
proof (induction removed arbitrary: s)
  case (Cons p removed)
  have "connman_view (remove_service p s) = (fst (connman_view s), snd (connman_view s) - {p})"
    "connman_inv s \<longrightarrow> connman_inv (remove_service p s)"
    by (auto simp: remove_service_def Let_def connman_view_def connman_inv_def frame_simps)
  with Cons.IH [of "remove_service p s"] show ?case by auto
qed simp

lemma services_changed_view:
  "connman_view (state_of (onServicesChanged api mk changed removed s))
     = connman_announced api mk (CE_Services_Changed changed removed) (connman_view s)
   \<and> (connman_inv s \<longrightarrow> connman_inv (state_of (onServicesChanged api mk changed removed s)))"
proof -
  obtain T S where v: "connman_view s = (T, S)" by (cases "connman_view s")
  obtain S' ok where e: "services_entered api mk changed S = (S', ok)" by fastforce
  show ?thesis
  proof (cases "for_each (changed_service api mk) changed s")
    case (Done t)
    with changed_loop [of api mk changed s] remove_loop [of removed t] show ?thesis
      by (simp add: onServicesChanged_def v e)
  next
    case (Throw x t)
    with changed_loop [of api mk changed s] show ?thesis by (simp add: onServicesChanged_def v e)
  qed
qed

lemma caught_added:
  "connman_view (state_of (onTechnologyAdded mk path s)) = connman_view (state_of (add_technology mk path s))"
  "connman_inv (state_of (onTechnologyAdded mk path s)) = connman_inv (state_of (add_technology mk path s))"
  by (cases "add_technology mk path s"; simp add: onTechnologyAdded_def)+

lemma technology_added_view:
  "connman_view (state_of (onTechnologyAdded mk path s)) = connman_announced api mk (CE_Technology_Added path) (connman_view s)"
  "connman_inv s \<Longrightarrow> connman_inv (state_of (onTechnologyAdded mk path s))"
  unfolding caught_added by (simp_all add: add_effects connman_view_parts)
    (simp add: connman_view_def insert_absorb)

lemma connman_step_refines:
  assumes "connman_inv s"
  shows "connman_inv (state_of (connman_step api mk e s))
    \<and> connman_view (state_of (connman_step api mk e s)) = connman_announced api mk e (connman_view s)"
proof (cases e)
  case (CE_Load ts ss)
  with load_view [of mk ts ss s api] assms show ?thesis by simp
next
  case (CE_Technology_Added path)
  with technology_added_view [where mk = mk and path = path and s = s] assms show ?thesis
    by (cases "connman_view s") simp
next
  case (CE_Technology_Removed path)
  then show ?thesis using assms
    by (auto simp: onTechnologyRemoved_def Let_def connman_view_def connman_inv_def frame_simps)
next
  case (CE_Services_Changed changed removed)
  with services_changed_view [of api mk changed removed s] assms show ?thesis by simp
next
  case (CE_Technology_Property path name v)
  show ?thesis using assms unfolding CE_Technology_Property connman_step.simps technology_onPropertyChanged_def
    by (cases "va_bool api v"; cases "append_property max_nesting api v ostringstream") simp_all
qed (use assms in \<open>auto simp: manager_onPropertyChanged_def service_onPropertyChanged_def split: outcome.split\<close>)

interpretation connman: announced_set "\<lambda>(mk, e). connman_step api mk e" connman_view
    "\<lambda>(mk, e). connman_announced api mk e" connman_inv
  by unfold_locales (use connman_step_refines in \<open>auto split: prod.split\<close>)

section \<open>The monitor loop\<close>

text \<open>The signals that end the monitor, and those that arrive in a turn of the outer loop.\<close>

definition ends_it :: "int option \<Rightarrow> bool" where
  "ends_it sig \<longleftrightarrow> sig = Some SIGINT \<or> sig = Some SIGTERM"

definition signalled :: "main_round \<Rightarrow> bool" where
  "signalled r \<longleftrightarrow> ends_it (mr_signal1 r) \<or> list_ex (\<lambda>t. ends_it (tk_signal t)) (mr_ticks r)
     \<or> ends_it (mr_signal2 r) \<or> ends_it (mr_signal3 r)"

definition installed :: "process \<Rightarrow> bool" where
  "installed s \<longleftrightarrow> (\<forall>n. map_of (pr_signals s) n = Some Handled \<longleftrightarrow> ends_it (Some n))"

lemma deliver_frame [frame_simps]:
  "pr_slept (deliver sig s) = pr_slept s"
  "installed (deliver sig s) = installed s"
  by (simp_all add: deliver_def signalHandler_def installed_def Let_def split: option.split)

lemma deliver_running: "installed s \<Longrightarrow> g_running (deliver sig s) \<longleftrightarrow> g_running s \<and> \<not> ends_it sig"
  by (auto simp: deliver_def signalHandler_def installed_def Let_def ends_it_def split: option.split)

lemma installed_slept [frame_simps]: "installed (s\<lparr>pr_slept := ds\<rparr>) = installed s"
  by (simp add: installed_def)

lemma process_log [frame_simps]:
  "g_running (log_msg l fmt args s) = g_running s"
  "pr_slept (log_msg l fmt args s) = pr_slept s"
  "installed (log_msg l fmt args s) = installed s"
  "g_running (log_caught e s) = g_running s"
  "pr_slept (log_caught e s) = pr_slept s"
  "installed (log_caught e s) = installed s"
  by (simp_all add: log_msg_def log_caught_def installed_def split: exn.split)

lemma alive_frame [frame_simps]:
  "g_running (snd (isConnectionAlive a s)) = g_running s"
  "pr_slept (snd (isConnectionAlive a s)) = pr_slept s"
  "installed (snd (isConnectionAlive a s)) = installed s"
  "fst (isConnectionAlive a s) \<longleftrightarrow> a = None"
  by (simp_all add: isConnectionAlive_def frame_simps split: option.split exn.split)

text \<open>The turns of \<open>monitorLoop\<close> that are certainly reached: those up to the first check that could fail.\<close>

fun reached :: "tick list \<Rightarrow> tick list" where
  "reached [] = []"
| "reached (t # ts) = t # (if tk_answer t = None then reached ts else [])"

lemma monitorLoop_result:
  assumes "installed s" "g_running s" and "monitorLoop interval last_check ticks s = (res, t)"
  shows "(res = Shutdown \<longleftrightarrow> \<not> g_running t) \<and> pr_slept t = pr_slept s \<and> installed t
    \<and> (res = Shutdown \<longrightarrow> list_ex (\<lambda>t. ends_it (tk_signal t)) ticks)
    \<and> (list_ex (\<lambda>t. ends_it (tk_signal t)) (reached ticks) \<longrightarrow> res = Shutdown)
    \<and> (list_all (\<lambda>t. tk_answer t \<noteq> None) ticks \<and> (\<exists>t \<in> set ticks. interval \<le> tk_now t - last_check)
       \<longrightarrow> res \<noteq> Monitoring)"
  using assms
proof (induction ticks arbitrary: last_check s)
  case (Cons tick ticks)
  let ?s = "deliver (tk_signal tick) s"
  obtain alive u where u: "isConnectionAlive (tk_answer tick) ?s = (alive, u)"
    by (cases "isConnectionAlive (tk_answer tick) ?s")
  with alive_frame [of "tk_answer tick" ?s]
  have f: "g_running u = g_running ?s" "pr_slept u = pr_slept s" "installed u = installed s"
      "alive \<longleftrightarrow> tk_answer tick = None" by (simp_all add: frame_simps)
  note d = deliver_running [OF Cons.prems(1), of "tk_signal tick"]
  show ?case
  proof (cases "g_running ?s")
    case False
    with Cons.prems d show ?thesis by (auto simp: frame_simps)
  next
    case True
    then have s: "\<not> ends_it (tk_signal tick)" "installed ?s" using d Cons.prems(1) by (auto simp: frame_simps)
    show ?thesis
    proof (cases "interval \<le> tk_now tick - last_check")
      case due: True
      then show ?thesis using Cons.IH [of u "tk_now tick"] Cons.prems True u f s by (cases alive) auto
    next
      case False
      with Cons.IH [OF s(2) True, of last_check] Cons.prems True s show ?thesis by (auto simp: frame_simps)
    qed
  qed
qed simp

section \<open>The outer loop\<close>

text \<open>
  The delays after each attempt, from whether its connection worked: one second after one that
  worked, otherwise the double of the delay before, up to half a minute.
\<close>

fun expected_delays :: "nat \<Rightarrow> bool list \<Rightarrow> nat list" where
  "expected_delays delay [] = []"
| "expected_delays delay (worked # rest) =
     (let delay = (if worked then 1 else delay) in delay # expected_delays (min (2 * delay) 30) rest)"

definition connected :: "main_round \<Rightarrow> bool" where
  "connected r \<longleftrightarrow> mr_connect r = None"

lemma expected_delays_length [simp]: "length (expected_delays d ws) = length ws"
  by (induction ws arbitrary: d) (simp_all add: Let_def)

lemma expected_delays_bounds:
  "1 \<le> d \<Longrightarrow> d \<le> 30 \<Longrightarrow> x \<in> set (expected_delays d ws) \<Longrightarrow> 1 \<le> x \<and> x \<le> 30"
proof (induction ws arbitrary: d)
  case (Cons w ws)
  let ?d = "if w then 1 else d"
  have "1 \<le> min (2 * ?d) 30" "min (2 * ?d) 30 \<le> (30::nat)" using Cons.prems by auto
  with Cons.IH [of "min (2 * ?d) 30"] Cons.prems show ?case by (auto simp: Let_def split: if_splits)
qed simp

text \<open>
  A signal of the turn that is certainly seen before the turn sleeps, and a turn whose connection
  fails or is lost: every check of it fails and one is due.
\<close>

definition noticed :: "main_round \<Rightarrow> bool" where
  "noticed r \<longleftrightarrow> ends_it (mr_signal1 r)
     \<or> (if connected r then list_ex (\<lambda>t. ends_it (tk_signal t)) (reached (mr_ticks r)) else ends_it (mr_signal3 r))"

definition fails :: "main_round \<Rightarrow> bool" where
  "fails r \<longleftrightarrow> \<not> connected r
     \<or> list_all (\<lambda>t. tk_answer t \<noteq> None) (mr_ticks r)
       \<and> list_ex (\<lambda>t. kConnectionCheckInterval \<le> tk_now t - mr_start r) (mr_ticks r)"

lemma attempt_result:
  assumes "installed s" "g_running s" and "attempt r delay s = (res, delay', t)"
  shows "(case res of None \<Rightarrow> True | Some x \<Rightarrow> x = (if g_running t then Main_Running else Main_Returned 0))
    \<and> pr_slept t = pr_slept s \<and> installed t \<and> delay' = (if connected r then 1 else delay)
    \<and> (\<not> g_running t \<longrightarrow> signalled r)
    \<and> (connected r \<and> list_ex (\<lambda>t. ends_it (tk_signal t)) (reached (mr_ticks r)) \<longrightarrow> \<not> g_running t)
    \<and> (\<not> connected r \<longrightarrow> res = None)
    \<and> (\<not> signalled r \<and> fails r \<longrightarrow> res = None)"
proof (cases "mr_connect r")
  case (Some e)
  with assms show ?thesis by (auto simp: attempt_def frame_simps connected_def)
next
  case None
  let ?s = "log_msg Info ''ConnMan monitor running - Press Ctrl+C to exit'' [] s"
  obtain m u where u: "monitorLoop kConnectionCheckInterval (mr_start r) (mr_ticks r) ?s = (m, u)"
    by (cases "monitorLoop kConnectionCheckInterval (mr_start r) (mr_ticks r) ?s")
  have "installed ?s" "g_running ?s" using assms(1,2) by (simp_all add: frame_simps)
  from monitorLoop_result [OF this u]
  have m: "m = Shutdown \<longleftrightarrow> \<not> g_running u" "pr_slept u = pr_slept s" "installed u"
      "m = Shutdown \<Longrightarrow> list_ex (\<lambda>t. ends_it (tk_signal t)) (mr_ticks r)"
      "list_ex (\<lambda>t. ends_it (tk_signal t)) (reached (mr_ticks r)) \<Longrightarrow> m = Shutdown"
      "fails r \<Longrightarrow> m \<noteq> Monitoring"
    using None by (auto simp: frame_simps fails_def connected_def list_ex_iff)
  show ?thesis
  proof (cases m)
    case Monitoring
    with m assms(3) None u show ?thesis by (auto simp: attempt_def connected_def kInitialReconnectDelay_def)
  next
    case Connection_Lost
    with m have r: "g_running u" by simp
    show ?thesis
      using Connection_Lost m assms(3) None u r
        deliver_running [OF m(3), of "mr_signal2 r"]
      by (cases "mr_leave r")
        (auto simp: attempt_def connected_def kInitialReconnectDelay_def Let_def frame_simps deliver_running
          signalled_def split: if_splits)
  next
    case Shutdown
    then show ?thesis using m assms(3) None u
      by (cases "mr_leave r")
        (auto simp: attempt_def connected_def kInitialReconnectDelay_def Let_def frame_simps deliver_running
          signalled_def split: if_splits)
  qed
qed

text \<open>What a run of \<open>n\<close> sleeps guarantees.\<close>

definition run_result :: "main_round list \<Rightarrow> nat \<Rightarrow> main_result \<Rightarrow> bool \<Rightarrow> bool" where
  "run_result rounds n res running \<longleftrightarrow>
     res = (if running then Main_Running else Main_Returned 0)
     \<and> (\<not> running \<longrightarrow> n < length rounds \<and> signalled (rounds ! n))
     \<and> (\<forall>k < length rounds. k \<le> n \<and> noticed (rounds ! k) \<longrightarrow> \<not> running \<and> n = k)
     \<and> (list_all (\<lambda>r. \<not> signalled r \<and> fails r) rounds \<longrightarrow> n = length rounds)"

lemma run_result_stops:
  assumes "signalled r" shows "run_result (r # rounds) 0 (Main_Returned 0) False"
  using assms by (simp add: run_result_def)

lemma run_result_stays:
  assumes "\<not> noticed r" and "signalled r \<or> \<not> fails r" shows "run_result (r # rounds) 0 Main_Running True"
  using assms by (auto simp: run_result_def)

lemma run_result_next:
  assumes "run_result rounds n res running" and "\<not> noticed r"
  shows "run_result (r # rounds) (Suc n) res running"
  using assms by (auto simp: run_result_def nth_Cons split: nat.splits)

lemma main_loop_result:
  assumes "installed s" "g_running s" and "main_loop rounds delay s = (res, t)"
  shows "\<exists>n \<le> length rounds. pr_slept t = pr_slept s @ take n (expected_delays delay (map connected rounds))
    \<and> run_result rounds n res (g_running t)"
  using assms
proof (induction rounds arbitrary: delay s)
  case Nil
  then show ?case by (simp add: run_result_def)
next
  case (Cons r rounds)
  let ?s = "deliver (mr_signal1 r) s"
  obtain x d u where u: "attempt r delay ?s = (x, d, u)" by (cases "attempt r delay ?s")
  note d1 = deliver_running [OF Cons.prems(1), of "mr_signal1 r"]
  show ?case
  proof (cases "g_running ?s")
    case False
    then have "signalled r" using d1 Cons.prems(2) by (simp add: signalled_def)
    from run_result_stops [OF this] Cons.prems(3) False show ?thesis
      by (intro exI [of _ 0]) (auto simp: frame_simps)
  next
    case True
    have "installed ?s" using Cons.prems(1) by (simp add: frame_simps)
    note a = attempt_result [OF this True u]
    have n1: "\<not> ends_it (mr_signal1 r)" using d1 True by simp
    show ?thesis
    proof (cases x)
      case (Some y)
      then have t: "res = y" "t = u" using Cons.prems(3) True u by auto
      have "run_result (r # rounds) 0 y (g_running u)"
      proof (cases "g_running u")
        case False
        with a Some run_result_stops show ?thesis by auto
      next
        case running: True
        with a Some n1 have "\<not> noticed r" "signalled r \<or> \<not> fails r" by (auto simp: noticed_def)
        with running a Some run_result_stays show ?thesis by auto
      qed
      with a t show ?thesis by (intro exI [of _ 0]) (simp add: frame_simps)
    next
      case None
      let ?u = "deliver (mr_signal3 r) u"
      have i: "installed u" using a by simp
      note d3 = deliver_running [OF i, of "mr_signal3 r"]
      show ?thesis
      proof (cases "g_running ?u")
        case False
        with d3 a have "signalled r" by (auto simp: signalled_def)
        from run_result_stops [OF this] None a Cons.prems(3) True u False show ?thesis
          by (intro exI [of _ 0]) (auto simp: frame_simps)
      next
        case running: True
        define v where "v = (let s = log_msg Info ''Reconnecting in {} seconds...'' [LInt (int d)] ?u in
            s\<lparr>pr_slept := pr_slept s @ [d]\<rparr>)"
        have v: "g_running v" "pr_slept v = pr_slept s @ [d]" "installed v"
          using running a i by (simp_all add: v_def Let_def frame_simps)
        have "main_loop rounds (min (d * 2) kMaxReconnectDelay) v = (res, t)"
          using Cons.prems(3) True u None running by (simp add: v_def Let_def)
        from Cons.IH [OF v(3,1) this] obtain n where n: "n \<le> length rounds"
          "pr_slept t = pr_slept v @ take n (expected_delays (min (2 * d) 30) (map connected rounds))"
          "run_result rounds n res (g_running t)"
          by (auto simp: kMaxReconnectDelay_def mult.commute)
        have "\<not> noticed r" using running d3 a n1 by (auto simp: noticed_def)
        from run_result_next [OF n(3) this] n a v show ?thesis
          by (intro exI [of _ "Suc n"]) (auto simp: Let_def)
      qed
    qed
  qed
qed

section \<open>Properties\<close>

text \<open>
  C37: In every interleaving of the loading thread and the event-loop thread, whichever objects cannot
  be constructed at which moment, the technologies and services kept are, each once, the announced
  ones that could be constructed and were not removed since. A change enters its services up to the
  first that is new and cannot be constructed, or up to and including the first whose Wi-Fi line
  throws, and skips what follows in the same signal, the removals included; loading stops in the same
  way.
\<close>

theorem connman_registries_refine_announcements:
  "connman_view (run_events (\<lambda>(mk, e). connman_step api mk e) events (connman_client_init lg))
     = fold (\<lambda>(mk, e). connman_announced api mk e) events ({}, {})
   \<and> wf_map (cm_technologies (run_events (\<lambda>(mk, e). connman_step api mk e) events (connman_client_init lg)))
   \<and> wf_map (cm_services (run_events (\<lambda>(mk, e). connman_step api mk e) events (connman_client_init lg)))"
proof -
  have "connman_inv (connman_client_init lg)" "connman_view (connman_client_init lg) = ({}, {})"
    by (simp_all add: connman_inv_def connman_view_def connman_client_init_def)
  with connman.run_inv [of _ api events] connman.run_view [of _ api events] show ?thesis
    by (simp add: connman_inv_def)
qed

text \<open>
  C15: The ConnMan monitor keeps reconnecting, with exactly these pauses: after attempt number \<open>i\<close> it
  sleeps one second if that attempt connected, and otherwise the double of the pause before, at
  most thirty seconds (one second if it is the first). It returns with code 0, and only in a turn in
  which \<open>SIGINT\<close> or \<open>SIGTERM\<close> arrives; otherwise it is still at it. When one arrives before the attempt,
  while a monitored connection answers, or after a failed attempt, it returns in that very turn,
  without another pause. When none arrives and every connection fails or is lost, no turn is the
  last: it has slept after each of them.
\<close>

theorem connman_backs_off_until_signal:
  "(case connman_main rounds lg of (res, s) \<Rightarrow>
      pr_slept s = take (length (pr_slept s)) (expected_delays 1 (map connected rounds))
      \<and> list_all (\<lambda>d. 1 \<le> d \<and> d \<le> 30) (pr_slept s)
      \<and> (res = Main_Running \<or>
           res = Main_Returned 0 \<and> length (pr_slept s) < length rounds \<and> signalled (rounds ! length (pr_slept s)))
      \<and> (\<forall>k < length rounds. k \<le> length (pr_slept s) \<and> noticed (rounds ! k)
           \<longrightarrow> res = Main_Returned 0 \<and> length (pr_slept s) = k)
      \<and> (list_all (\<lambda>r. \<not> signalled r \<and> fails r) rounds
           \<longrightarrow> res = Main_Running \<and> pr_slept s = expected_delays 1 (map connected rounds)))"
proof -
  let ?s = "installSignalHandlers (process_start lg)"
  obtain res t where t: "main_loop rounds kInitialReconnectDelay ?s = (res, t)"
    by (cases "main_loop rounds kInitialReconnectDelay ?s")
  have s: "installed ?s" "g_running ?s" "pr_slept ?s = []"
    by (auto simp: installed_def installSignalHandlers_def process_start_def ends_it_def SIGINT_def SIGTERM_def SIGPIPE_def)
  from main_loop_result [OF s(1,2) t] obtain n where n: "n \<le> length rounds"
    "pr_slept t = take n (expected_delays 1 (map connected rounds))" "run_result rounds n res (g_running t)"
    by (auto simp: s(3) kInitialReconnectDelay_def)
  have l: "length (pr_slept t) = n" using n(1,2) by simp
  have "list_all (\<lambda>d. 1 \<le> d \<and> d \<le> 30) (pr_slept t)"
    using expected_delays_bounds [of 1] by (auto simp: n(2) list_all_iff dest: in_set_takeD)
  moreover have "list_all (\<lambda>r. \<not> signalled r \<and> fails r) rounds
      \<longrightarrow> res = Main_Running \<and> pr_slept t = expected_delays 1 (map connected rounds)"
    using n by (auto simp: run_result_def list_all_iff list_ex_iff)
  moreover have "res = Main_Running \<or> res = Main_Returned 0 \<and> n < length rounds \<and> signalled (rounds ! n)"
    and "\<forall>k < length rounds. k \<le> n \<and> noticed (rounds ! k) \<longrightarrow> res = Main_Returned 0 \<and> n = k"
    using n(3) by (auto simp: run_result_def)
  ultimately show ?thesis using n(2) unfolding connman_main_def t prod.case l by blast
qed

definition failed_round :: "int option \<Rightarrow> main_round" where
  "failed_round sig = \<lparr>mr_signal1 = None, mr_connect = Some (Std_Exception ''no bus''), mr_start = 0, mr_ticks = [],
     mr_leave = None, mr_signal2 = None, mr_signal3 = sig\<rparr>"

definition lost_round :: main_round where
  "lost_round = \<lparr>mr_signal1 = None, mr_connect = None, mr_start = 0,
     mr_ticks = [\<lparr>tk_signal = None, tk_now = 30000, tk_answer = Some (Std_Exception ''gone'')\<rparr>],
     mr_leave = None, mr_signal2 = None, mr_signal3 = None\<rparr>"

lemma rounds_fail:
  "\<not> signalled (failed_round None)" "\<not> signalled lost_round" "fails (failed_round None)" "fails lost_round"
  "connected lost_round" "\<not> connected (failed_round sig)" "noticed (failed_round (Some SIGTERM))"
  by (simp_all add: signalled_def failed_round_def lost_round_def fails_def connected_def noticed_def ends_it_def
      kConnectionCheckInterval_def)

lemma rounds_slept:
  "list_all (\<lambda>r. \<not> signalled r \<and> fails r) [failed_round None, failed_round None, lost_round, failed_round None]"
  "expected_delays 1 (map connected [failed_round None, failed_round None, lost_round, failed_round None]) = [1, 2, 1, 2]"
  by (simp_all add: rounds_fail)

theorem connman_backs_off_until_signal_witness:
  "(case connman_main [failed_round None, failed_round None, lost_round, failed_round None] [] of
      (res, s) \<Rightarrow> res = Main_Running \<and> pr_slept s = [1, 2, 1, 2])
   \<and> (case connman_main [failed_round (Some SIGTERM)] [] of (res, s) \<Rightarrow> res = Main_Returned 0 \<and> pr_slept s = [])"
proof (rule conjI)
  show "case connman_main [failed_round None, failed_round None, lost_round, failed_round None] [] of
      (res, s) \<Rightarrow> res = Main_Running \<and> pr_slept s = [1, 2, 1, 2]"
    using connman_backs_off_until_signal [of "[failed_round None, failed_round None, lost_round, failed_round None]" "[]"]
    unfolding rounds_slept(2) using rounds_slept(1) by (fastforce simp only: split_beta)
  have "noticed ([failed_round (Some SIGTERM)] ! 0)" by (simp add: rounds_fail)
  with connman_backs_off_until_signal [of "[failed_round (Some SIGTERM)]" "[]"]
  show "case connman_main [failed_round (Some SIGTERM)] [] of (res, s) \<Rightarrow> res = Main_Returned 0 \<and> pr_slept s = []"
    by (fastforce simp: split_beta)
qed

text \<open>
  A lost connection is noticed: when no signal arrives, every check from some point on fails and
  the clock reaches the check interval after the last check, \<open>monitorLoop\<close> ends and reports it,
  whatever it saw before.
\<close>

theorem lost_connection_noticed:
  assumes "list_all (\<lambda>t. tk_signal t = None \<and> tk_answer t \<noteq> None) ticks" and "g_running s"
    and "\<exists>t \<in> set ticks. interval \<le> tk_now t - last_check"
  shows "fst (monitorLoop interval last_check ticks s) = Connection_Lost"
  using assms
proof (induction ticks)
  case (Cons tick ticks)
  then obtain e where e: "tk_answer tick = Some e" by auto
  have d: "deliver (tk_signal tick) s = s" using Cons.prems(1) by (simp add: deliver_def)
  have "\<not> fst (isConnectionAlive (tk_answer tick) s)" by (simp add: e isConnectionAlive_def split: exn.split)
  then show ?case using Cons d by (auto simp: split_beta Let_def)
qed simp

definition dead_tick :: "int \<Rightarrow> tick" where
  "dead_tick now = \<lparr>tk_signal = None, tk_now = now, tk_answer = Some (Std_Exception ''gone'')\<rparr>"

theorem lost_connection_noticed_witness:
  "fst (monitorLoop kConnectionCheckInterval 0 [dead_tick 100, dead_tick 30000] (process_start [])) = Connection_Lost"
  by (rule lost_connection_noticed)
    (simp_all add: dead_tick_def process_start_def kConnectionCheckInterval_def)

end
