(* ===== verification/Service_Clients.thy ===== *)
theory Service_Clients
  imports Property_Utils
begin

text \<open>
  The clients that mirror the properties of one service and print them: \<open>src/hostname1\<close>,
  \<open>src/locale1\<close>, \<open>src/timedate1\<close> and \<open>src/geoclue2\<close>. Their update loops dispatch on the key; the contract
  \<open>keyed_update\<close> is discharged for every field in \<open>Service_Client_Laws\<close>.
\<close>

section \<open>hostname1\<close>

record hostname1 =
  hn_Hostname :: string
  hn_StaticHostname :: string
  hn_PrettyHostname :: "string option"
  hn_DefaultHostname :: "string option"
  hn_HostnameSource :: "string option"
  hn_IconName :: "string option"
  hn_Chassis :: "string option"
  hn_ChassisAssetTag :: "string option"
  hn_Deployment :: "string option"
  hn_Location :: "string option"
  hn_KernelName :: string
  hn_KernelRelease :: string
  hn_KernelVersion :: string
  hn_OperatingSystemPrettyName :: string
  hn_OperatingSystemCPEName :: string
  hn_OperatingSystemHomeURL :: "string option"
  hn_OperatingSystemSupportEnd :: "u64 option"
  hn_OperatingSystemReleaseData :: "string list option"
  hn_OperatingSystemImageID :: "string option"
  hn_OperatingSystemImageVersion :: "string option"
  hn_MachineInformationData :: "string list option"
  hn_HardwareVendor :: "string option"
  hn_HardwareModel :: "string option"
  hn_HardwareSerial :: "string option"
  hn_HardwareSKU :: "string option"
  hn_HardwareVersion :: "string option"
  hn_FirmwareVersion :: "string option"
  hn_FirmwareVendor :: "string option"
  hn_FirmwareDate :: "u64 option"
  hn_MachineID :: "string option"
  hn_BootID :: "string option"
  hn_ProductUUID :: "string option"
  hn_VSockCID :: "string option"

definition hostname1_init :: hostname1 where
  "hostname1_init = \<lparr>hn_Hostname = [], hn_StaticHostname = [], hn_PrettyHostname = None,
     hn_DefaultHostname = None, hn_HostnameSource = None, hn_IconName = None,
     hn_Chassis = None, hn_ChassisAssetTag = None, hn_Deployment = None,
     hn_Location = None, hn_KernelName = [], hn_KernelRelease = [],
     hn_KernelVersion = [], hn_OperatingSystemPrettyName = [], hn_OperatingSystemCPEName = [],
     hn_OperatingSystemHomeURL = None, hn_OperatingSystemSupportEnd = None, hn_OperatingSystemReleaseData = None,
     hn_OperatingSystemImageID = None, hn_OperatingSystemImageVersion = None, hn_MachineInformationData = None,
     hn_HardwareVendor = None, hn_HardwareModel = None, hn_HardwareSerial = None,
     hn_HardwareSKU = None, hn_HardwareVersion = None, hn_FirmwareVersion = None,
     hn_FirmwareVendor = None, hn_FirmwareDate = None, hn_MachineID = None,
     hn_BootID = None, hn_ProductUUID = None, hn_VSockCID = None\<rparr>"

record hostname1_client = logged +
  hc_hostname1 :: hostname1
  hc_MachineID :: "u8 list option"
  hc_BootID :: "u8 list option"

definition hostname1_client_init :: "log_entry list \<Rightarrow> hostname1_client" where
  "hostname1_client_init lg = \<lparr>log_of = lg, hc_hostname1 = hostname1_init, hc_MachineID = None, hc_BootID = None\<rparr>"

definition in_hostname1 :: "(hostname1 \<Rightarrow> hostname1) \<Rightarrow> hostname1_client \<Rightarrow> hostname1_client" where
  "in_hostname1 f s = s\<lparr>hc_hostname1 := f (hc_hostname1 s)\<rparr>"

definition updateHostname1_step ::
    "'v variant_api \<Rightarrow> string \<times> 'v \<Rightarrow> hostname1_client \<Rightarrow> hostname1_client outcome" where
  "updateHostname1_step api = (\<lambda>(key, value) s.
     if key = ''Hostname'' then assign (va_string api value) (\<lambda>x. in_hostname1 (\<lambda>h. h\<lparr>hn_Hostname := x\<rparr>)) s
     else if key = ''StaticHostname'' then assign (va_string api value) (\<lambda>x. in_hostname1 (\<lambda>h. h\<lparr>hn_StaticHostname := x\<rparr>)) s
     else if key = ''PrettyHostname'' then assign (va_string api value) (\<lambda>x. in_hostname1 (\<lambda>h. h\<lparr>hn_PrettyHostname := Some x\<rparr>)) s
     else if key = ''DefaultHostname'' then assign (va_string api value) (\<lambda>x. in_hostname1 (\<lambda>h. h\<lparr>hn_DefaultHostname := Some x\<rparr>)) s
     else if key = ''HostnameSource'' then assign (va_string api value) (\<lambda>x. in_hostname1 (\<lambda>h. h\<lparr>hn_HostnameSource := Some x\<rparr>)) s
     else if key = ''IconName'' then assign (va_string api value) (\<lambda>x. in_hostname1 (\<lambda>h. h\<lparr>hn_IconName := Some x\<rparr>)) s
     else if key = ''Chassis'' then assign (va_string api value) (\<lambda>x. in_hostname1 (\<lambda>h. h\<lparr>hn_Chassis := Some x\<rparr>)) s
     else if key = ''Deployment'' then assign (va_string api value) (\<lambda>x. in_hostname1 (\<lambda>h. h\<lparr>hn_Deployment := Some x\<rparr>)) s
     else if key = ''Location'' then assign (va_string api value) (\<lambda>x. in_hostname1 (\<lambda>h. h\<lparr>hn_Location := Some x\<rparr>)) s
     else if key = ''KernelName'' then assign (va_string api value) (\<lambda>x. in_hostname1 (\<lambda>h. h\<lparr>hn_KernelName := x\<rparr>)) s
     else if key = ''KernelRelease'' then assign (va_string api value) (\<lambda>x. in_hostname1 (\<lambda>h. h\<lparr>hn_KernelRelease := x\<rparr>)) s
     else if key = ''KernelVersion'' then assign (va_string api value) (\<lambda>x. in_hostname1 (\<lambda>h. h\<lparr>hn_KernelVersion := x\<rparr>)) s
     else if key = ''OperatingSystemPrettyName'' then assign (va_string api value) (\<lambda>x. in_hostname1 (\<lambda>h. h\<lparr>hn_OperatingSystemPrettyName := x\<rparr>)) s
     else if key = ''OperatingSystemCPEName'' then assign (va_string api value) (\<lambda>x. in_hostname1 (\<lambda>h. h\<lparr>hn_OperatingSystemCPEName := x\<rparr>)) s
     else if key = ''OperatingSystemSupportEnd'' then assign (va_u64 api value) (\<lambda>x. in_hostname1 (\<lambda>h. h\<lparr>hn_OperatingSystemSupportEnd := Some x\<rparr>)) s
     else if key = ''OperatingSystemHomeURL'' then assign (va_string api value) (\<lambda>x. in_hostname1 (\<lambda>h. h\<lparr>hn_OperatingSystemHomeURL := Some x\<rparr>)) s
     else if key = ''HardwareVendor'' then assign (va_string api value) (\<lambda>x. in_hostname1 (\<lambda>h. h\<lparr>hn_HardwareVendor := Some x\<rparr>)) s
     else if key = ''HardwareModel'' then assign (va_string api value) (\<lambda>x. in_hostname1 (\<lambda>h. h\<lparr>hn_HardwareModel := Some x\<rparr>)) s
     else if key = ''FirmwareVersion'' then assign (va_string api value) (\<lambda>x. in_hostname1 (\<lambda>h. h\<lparr>hn_FirmwareVersion := Some x\<rparr>)) s
     else if key = ''FirmwareVendor'' then assign (va_string api value) (\<lambda>x. in_hostname1 (\<lambda>h. h\<lparr>hn_FirmwareVendor := Some x\<rparr>)) s
     else if key = ''FirmwareDate'' then assign (va_u64 api value) (\<lambda>x. in_hostname1 (\<lambda>h. h\<lparr>hn_FirmwareDate := Some x\<rparr>)) s
     else if key = ''MachineID'' then assign (va_bytes api value) (\<lambda>x s. s\<lparr>hc_MachineID := Some x\<rparr>) s
     else if key = ''BootID'' then assign (va_bytes api value) (\<lambda>x s. s\<lparr>hc_BootID := Some x\<rparr>) s
     else Done s)"

definition updateHostname1 :: "'v variant_api \<Rightarrow> 'v props \<Rightarrow> hostname1_client \<Rightarrow> hostname1_client outcome" where
  "updateHostname1 api changedProperties s = for_each (updateHostname1_step api) changedProperties s"

definition hostname1_onPropertiesChanged ::
    "'v variant_api \<Rightarrow> string \<Rightarrow> 'v props \<Rightarrow> string list \<Rightarrow> hostname1_client \<Rightarrow> hostname1_client outcome" where
  "hostname1_onPropertiesChanged api interfaceName changedProperties invalidatedProperties s =
     updateHostname1 api changedProperties s"

text \<open>Lines of the printed text: of a string unless it is empty, of an optional if it is there.\<close>

definition line :: "string \<Rightarrow> string \<Rightarrow> string" where
  "line label x = tab @ label @ '': '' @ x @ endl"

definition line_string :: "string \<Rightarrow> string \<Rightarrow> string" where
  "line_string label x = (if x = [] then [] else line label x)"

definition line_opt :: "('a \<Rightarrow> string) \<Rightarrow> string \<Rightarrow> 'a option \<Rightarrow> string" where
  "line_opt render label x = (case x of None \<Rightarrow> [] | Some v \<Rightarrow> line label (render v))"

definition u64_text :: "u64 \<Rightarrow> string" where
  "u64_text n = nat_to_string (unat n)"

definition bytes_text :: "u8 list \<Rightarrow> string" where
  "bytes_text bs = concat (map (\<lambda>b. hex2 b @ '' '') bs)"

definition hostname1_text :: "hostname1_client \<Rightarrow> string" where
  "hostname1_text s = (let h = hc_hostname1 s in concat
     [line_string ''Hostname'' (hn_Hostname h),
      line_string ''StaticHostname'' (hn_StaticHostname h),
      line_opt id ''PrettyHostname'' (hn_PrettyHostname h),
      line_opt id ''DefaultHostname'' (hn_DefaultHostname h),
      line_opt id ''HostnameSource'' (hn_HostnameSource h),
      line_opt id ''IconName'' (hn_IconName h),
      line_opt id ''Chassis'' (hn_Chassis h),
      line_opt id ''Deployment'' (hn_Deployment h),
      line_opt id ''Location'' (hn_Location h),
      line_string ''KernelName'' (hn_KernelName h),
      line_string ''KernelRelease'' (hn_KernelRelease h),
      line_string ''KernelVersion'' (hn_KernelVersion h),
      line_string ''OperatingSystemPrettyName'' (hn_OperatingSystemPrettyName h),
      line_string ''OperatingSystemCPEName'' (hn_OperatingSystemCPEName h),
      line_opt u64_text ''OperatingSystemSupportEnd'' (hn_OperatingSystemSupportEnd h),
      line_opt id ''OperatingSystemHomeUrl'' (hn_OperatingSystemHomeURL h),
      line_opt id ''HardwareVendor'' (hn_HardwareVendor h),
      line_opt id ''HardwareModel'' (hn_HardwareModel h),
      line_opt id ''FirmwareVersion'' (hn_FirmwareVersion h),
      line_opt id ''FirmwareVendor'' (hn_FirmwareVendor h),
      line_opt u64_text ''FirmwareDate'' (hn_FirmwareDate h),
      line_opt bytes_text ''MachineID'' (hc_MachineID s),
      line_opt bytes_text ''BootID'' (hc_BootID s)])"

definition printHostname1 :: "hostname1_client \<Rightarrow> hostname1_client" where
  "printHostname1 s = log_msg Info (endl @ ''{}'') [LStr (hostname1_text s)] s"

definition description_text :: "hostname1 \<Rightarrow> string" where
  "description_text val = concat
     [line_string ''Hostname'' (hn_Hostname val),
      line_string ''StaticHostname'' (hn_StaticHostname val),
      line_opt id ''PrettyHostname'' (hn_PrettyHostname val),
      line_opt id ''DefaultHostname'' (hn_DefaultHostname val),
      line_opt id ''HostnameSource'' (hn_HostnameSource val),
      line_opt id ''IconName'' (hn_IconName val),
      line_opt id ''Chassis'' (hn_Chassis val),
      line_opt id ''Deployment'' (hn_Deployment val),
      line_opt id ''Location'' (hn_Location val),
      line_string ''KernelName'' (hn_KernelName val),
      line_string ''KernelRelease'' (hn_KernelRelease val),
      line_string ''KernelVersion'' (hn_KernelVersion val),
      line_string ''OperatingSystemPrettyName'' (hn_OperatingSystemPrettyName val),
      (case hn_OperatingSystemReleaseData val of None \<Rightarrow> []
       | Some items \<Rightarrow> tab @ ''OperatingSystemReleaseData: '' @ endl @ concat (map (\<lambda>item. tab @ tab @ item @ endl) items)),
      line_string ''OperatingSystemCPEName'' (hn_OperatingSystemCPEName val),
      line_opt u64_text ''OperatingSystemSupportEnd'' (hn_OperatingSystemSupportEnd val),
      line_opt id ''OperatingSystemHomeURL'' (hn_OperatingSystemHomeURL val),
      line_opt id ''HardwareVendor'' (hn_HardwareVendor val),
      line_opt id ''HardwareModel'' (hn_HardwareModel val),
      line_opt id ''FirmwareVersion'' (hn_FirmwareVersion val),
      line_opt id ''FirmwareVendor'' (hn_FirmwareVendor val),
      line_opt u64_text ''FirmwareDate'' (hn_FirmwareDate val),
      line_opt id ''MachineID'' (hn_MachineID val),
      line_opt id ''BootID'' (hn_BootID val)]"

text \<open>
  The constructor, on what \<open>Describe()\<close> returned or threw and what the JSON library made of it.
\<close>

definition Hostname1Client ::
    "(string \<Rightarrow> hostname1 option) \<Rightarrow> exn + string \<Rightarrow> log_entry list \<Rightarrow> hostname1_client outcome" where
  "Hostname1Client read_json describe lg =
     with_value describe (\<lambda>description s.
       if description \<noteq> []
       then (case read_json description of
               None \<Rightarrow> Done s
             | Some val \<Rightarrow> Done (log_msg Info (endl @ ''{}'') [LStr (description_text val)] s))
       else Done s) (hostname1_client_init lg)"

section \<open>locale1\<close>

record locale1_client = logged +
  lo_Locale :: "string list"
  lo_X11Layout :: string
  lo_X11Model :: string
  lo_X11Variant :: string
  lo_X11Options :: string
  lo_VConsoleKeymap :: string
  lo_VConsoleKeymapToggle :: string

definition locale1_client_init :: "log_entry list \<Rightarrow> locale1_client" where
  "locale1_client_init lg = \<lparr>log_of = lg, lo_Locale = [], lo_X11Layout = [], lo_X11Model = [], lo_X11Variant = [], lo_X11Options = [], lo_VConsoleKeymap = [], lo_VConsoleKeymapToggle = []\<rparr>"

definition updateLocale1_step ::
    "'v variant_api \<Rightarrow> string \<times> 'v \<Rightarrow> locale1_client \<Rightarrow> locale1_client outcome" where
  "updateLocale1_step api = (\<lambda>(key, value) s.
     if key = ''Locale'' then assign (va_strings api value) (\<lambda>x s. s\<lparr>lo_Locale := x\<rparr>) s
     else if key = ''X11Layout'' then assign (va_string api value) (\<lambda>x s. s\<lparr>lo_X11Layout := x\<rparr>) s
     else if key = ''X11Model'' then assign (va_string api value) (\<lambda>x s. s\<lparr>lo_X11Model := x\<rparr>) s
     else if key = ''X11Variant'' then assign (va_string api value) (\<lambda>x s. s\<lparr>lo_X11Variant := x\<rparr>) s
     else if key = ''X11Options'' then assign (va_string api value) (\<lambda>x s. s\<lparr>lo_X11Options := x\<rparr>) s
     else if key = ''VConsoleKeymap'' then assign (va_string api value) (\<lambda>x s. s\<lparr>lo_VConsoleKeymap := x\<rparr>) s
     else if key = ''VConsoleKeymapToggle'' then assign (va_string api value) (\<lambda>x s. s\<lparr>lo_VConsoleKeymapToggle := x\<rparr>) s
     else Done s)"

definition updateLocale1 :: "'v variant_api \<Rightarrow> 'v props \<Rightarrow> locale1_client \<Rightarrow> locale1_client outcome" where
  "updateLocale1 api changedProperties s = for_each (updateLocale1_step api) changedProperties s"

definition locale1_onPropertiesChanged ::
    "'v variant_api \<Rightarrow> string \<Rightarrow> 'v props \<Rightarrow> string list \<Rightarrow> locale1_client \<Rightarrow> locale1_client outcome" where
  "locale1_onPropertiesChanged api interfaceName changedProperties invalidatedProperties s =
     updateLocale1 api changedProperties s"

definition locale1_text :: "locale1_client \<Rightarrow> string" where
  "locale1_text s = concat
     [if lo_Locale s = [] then []
      else ''Locale:'' @ endl @ concat (map (\<lambda>x. tab @ x @ '' '') (lo_Locale s)) @ endl,
      line_string ''X11Layout'' (lo_X11Layout s),
      line_string ''X11Model'' (lo_X11Model s),
      line_string ''X11Variant'' (lo_X11Variant s),
      line_string ''X11Options'' (lo_X11Options s),
      line_string ''VConsoleKeymap'' (lo_VConsoleKeymap s),
      line_string ''VConsoleKeymapToggle'' (lo_VConsoleKeymapToggle s)]"

definition printLocale1 :: "locale1_client \<Rightarrow> locale1_client" where
  "printLocale1 s = log_msg Info (endl @ ''{}'') [LStr (locale1_text s)] s"

section \<open>timedate1\<close>

record timedate1_client = logged +
  td_Timezone :: string
  td_LocalRTC :: bool
  td_CanNTP :: bool
  td_NTP :: bool
  td_NTPSynchronized :: bool
  td_TimeUSec :: u64
  td_RTCTimeUSec :: u64

definition timedate1_client_init :: "log_entry list \<Rightarrow> timedate1_client" where
  "timedate1_client_init lg = \<lparr>log_of = lg, td_Timezone = [], td_LocalRTC = False, td_CanNTP = False, td_NTP = False, td_NTPSynchronized = False, td_TimeUSec = 0, td_RTCTimeUSec = 0\<rparr>"

definition updateTimedate1_step ::
    "'v variant_api \<Rightarrow> string \<times> 'v \<Rightarrow> timedate1_client \<Rightarrow> timedate1_client outcome" where
  "updateTimedate1_step api = (\<lambda>(key, value) s.
     if key = ''Timezone'' then assign (va_string api value) (\<lambda>x s. s\<lparr>td_Timezone := x\<rparr>) s
     else if key = ''LocalRTC'' then assign (va_bool api value) (\<lambda>x s. s\<lparr>td_LocalRTC := x\<rparr>) s
     else if key = ''CanNTP'' then assign (va_bool api value) (\<lambda>x s. s\<lparr>td_CanNTP := x\<rparr>) s
     else if key = ''NTP'' then assign (va_bool api value) (\<lambda>x s. s\<lparr>td_NTP := x\<rparr>) s
     else if key = ''NTPSynchronized'' then assign (va_bool api value) (\<lambda>x s. s\<lparr>td_NTPSynchronized := x\<rparr>) s
     else if key = ''TimeUSec'' then assign (va_u64 api value) (\<lambda>x s. s\<lparr>td_TimeUSec := x\<rparr>) s
     else if key = ''RTCTimeUSec'' then assign (va_u64 api value) (\<lambda>x s. s\<lparr>td_RTCTimeUSec := x\<rparr>) s
     else Done s)"

definition updateTimedate1 :: "'v variant_api \<Rightarrow> 'v props \<Rightarrow> timedate1_client \<Rightarrow> timedate1_client outcome" where
  "updateTimedate1 api changedProperties s = for_each (updateTimedate1_step api) changedProperties s"

text \<open>The signal handler only prints; the fields change when \<open>main\<close> calls \<open>updateTimedate1\<close>.\<close>

definition timedate1_onPropertiesChanged ::
    "'v variant_api \<Rightarrow> string \<Rightarrow> 'v props \<Rightarrow> string list \<Rightarrow> timedate1_client \<Rightarrow> timedate1_client outcome" where
  "timedate1_onPropertiesChanged api interfaceName changedProperties invalidatedProperties s =
     print_changed_properties api interfaceName changedProperties invalidatedProperties s"

text \<open>
  Microseconds become a signed 64-bit count, are scaled to the nanoseconds of the system clock (\<open>None\<close>
  when that overflows, which is undefined) and truncated to seconds. \<open>local_time\<close> stands for
  \<open>localtime_r\<close> and \<open>std::put_time\<close>.
\<close>

definition to_time_t :: "u64 \<Rightarrow> int option" where
  "to_time_t timeUSec =
     (let ns = sint timeUSec * 1000
      in if - (2 ^ 63) \<le> ns \<and> ns < 2 ^ 63
         then Some (if ns < 0 then - (- ns div 10 ^ 9) else ns div 10 ^ 9) else None)"

definition appendTimeUSecAsDate :: "(int \<Rightarrow> string option) \<Rightarrow> u64 \<Rightarrow> string option" where
  "appendTimeUSecAsDate local_time timeUSec =
     map_option (\<lambda>t. case local_time t of
         Some date \<Rightarrow> line ''Date'' date
       | None \<Rightarrow> line ''Date'' ''(invalid)'') (to_time_t timeUSec)"

definition true_false :: "bool \<Rightarrow> string" where
  "true_false b = (if b then ''True'' else ''False'')"

definition timedate1_text :: "(int \<Rightarrow> string option) \<Rightarrow> timedate1_client \<Rightarrow> string option" where
  "timedate1_text local_time s =
     (case appendTimeUSecAsDate local_time (td_TimeUSec s) of
        None \<Rightarrow> None
      | Some date \<Rightarrow>
          (case appendTimeUSecAsDate local_time (td_RTCTimeUSec s) of
             None \<Rightarrow> None
           | Some rtc \<Rightarrow> Some
               ((if td_Timezone s = [] then [] else ''Timezone:'' @ td_Timezone s @ endl)
                @ line ''LocalRTC'' (true_false (td_LocalRTC s)) @ line ''CanNTP'' (true_false (td_CanNTP s))
                @ line ''NTP'' (true_false (td_NTP s)) @ line ''NTPSynchronized'' (true_false (td_NTPSynchronized s))
                @ line ''NTP'' (true_false (td_NTP s)) @ line ''TimeUSec'' (u64_text (td_TimeUSec s)) @ date
                @ line ''RTCTimeUSec'' (u64_text (td_RTCTimeUSec s)) @ rtc)))"

definition printTimedate1 :: "(int \<Rightarrow> string option) \<Rightarrow> timedate1_client \<Rightarrow> timedate1_client option" where
  "printTimedate1 local_time s =
     map_option (\<lambda>t. log_msg Info (endl @ ''{}'') [LStr t] s) (timedate1_text local_time s)"

section \<open>GeoClue2\<close>

text \<open>Doubles are kept as their bit patterns.\<close>

record geoclue_location = logged +
  gl_Accuracy :: u64
  gl_Altitude :: u64
  gl_Description :: string
  gl_Heading :: u64
  gl_Latitude :: u64
  gl_Longitude :: u64
  gl_Speed :: u64
  gl_Timestamp :: "u64 \<times> u64"

definition geoclue_location_init :: "log_entry list \<Rightarrow> geoclue_location" where
  "geoclue_location_init lg = \<lparr>log_of = lg, gl_Accuracy = 0, gl_Altitude = 0, gl_Description = [], gl_Heading = 0, gl_Latitude = 0, gl_Longitude = 0, gl_Speed = 0,
     gl_Timestamp = (0, 0)\<rparr>"

definition location_step ::
    "'v variant_api \<Rightarrow> string \<Rightarrow> 'v props \<Rightarrow> string list \<Rightarrow> string \<times> 'v \<Rightarrow> geoclue_location \<Rightarrow> geoclue_location outcome" where
  "location_step api interfaceName changed invalidated = (\<lambda>(key, value) s.
     if key = ''Accuracy'' then assign (va_double api value) (\<lambda>x s. s\<lparr>gl_Accuracy := x\<rparr>) s
     else if key = ''Altitude'' then assign (va_double api value) (\<lambda>x s. s\<lparr>gl_Altitude := x\<rparr>) s
     else if key = ''Description'' then assign (va_string api value) (\<lambda>x s. s\<lparr>gl_Description := x\<rparr>) s
     else if key = ''Heading'' then assign (va_double api value) (\<lambda>x s. s\<lparr>gl_Heading := x\<rparr>) s
     else if key = ''Latitude'' then assign (va_double api value) (\<lambda>x s. s\<lparr>gl_Latitude := x\<rparr>) s
     else if key = ''Longitude'' then assign (va_double api value) (\<lambda>x s. s\<lparr>gl_Longitude := x\<rparr>) s
     else if key = ''Speed'' then assign (va_double api value) (\<lambda>x s. s\<lparr>gl_Speed := x\<rparr>) s
     else if key = ''Timestamp'' then assign (sa_tt (va_structs api) value) (\<lambda>x s. s\<lparr>gl_Timestamp := x\<rparr>) s
     else print_changed_properties api interfaceName changed invalidated s)"

definition location_onPropertiesChanged ::
    "'v variant_api \<Rightarrow> string \<Rightarrow> 'v props \<Rightarrow> string list \<Rightarrow> geoclue_location \<Rightarrow> geoclue_location outcome" where
  "location_onPropertiesChanged api interfaceName changed invalidated s =
     for_each (location_step api interfaceName changed invalidated) changed s"

text \<open>The constructor reads all properties; \<open>getall\<close> is what that returned or threw.\<close>

definition GeoClue2Location :: "'v variant_api \<Rightarrow> exn + 'v props \<Rightarrow> log_entry list \<Rightarrow> geoclue_location outcome" where
  "GeoClue2Location api getall lg =
     with_value getall (\<lambda>properties. location_onPropertiesChanged api ''org.freedesktop.GeoClue2'' properties [])
       (geoclue_location_init lg)"

record geoclue_client = logged +
  gc_Active :: bool
  gc_DesktopId :: string
  gc_DistanceThreshold :: u32
  gc_Location :: string
  gc_RequestedAccuracyLevel :: u32
  gc_TimeThreshold :: u32
  gc_location :: "geoclue_location option"

definition geoclue_client_init :: "log_entry list \<Rightarrow> geoclue_client" where
  "geoclue_client_init lg = \<lparr>log_of = lg, gc_Active = False, gc_DesktopId = [], gc_DistanceThreshold = 0, gc_Location = [], gc_RequestedAccuracyLevel = 0, gc_TimeThreshold = 0,
     gc_location = None\<rparr>"

definition client_step ::
    "'v variant_api \<Rightarrow> string \<Rightarrow> 'v props \<Rightarrow> string list \<Rightarrow> string \<times> 'v \<Rightarrow> geoclue_client \<Rightarrow> geoclue_client outcome" where
  "client_step api interfaceName changed invalidated = (\<lambda>(key, value) s.
     if key = ''Active'' then assign (va_bool api value) (\<lambda>x s. s\<lparr>gc_Active := x\<rparr>) s
     else if key = ''DesktopId'' then assign (va_string api value) (\<lambda>x s. s\<lparr>gc_DesktopId := x\<rparr>) s
     else if key = ''DistanceThreshold'' then assign (va_u32 api value) (\<lambda>x s. s\<lparr>gc_DistanceThreshold := x\<rparr>) s
     else if key = ''Location'' then assign (va_path api value) (\<lambda>x s. s\<lparr>gc_Location := x\<rparr>) s
     else if key = ''RequestedAccuracyLevel'' then assign (va_u32 api value) (\<lambda>x s. s\<lparr>gc_RequestedAccuracyLevel := x\<rparr>) s
     else if key = ''TimeThreshold'' then assign (va_u32 api value) (\<lambda>x s. s\<lparr>gc_TimeThreshold := x\<rparr>) s
     else print_changed_properties api interfaceName changed invalidated s)"

definition client_onPropertiesChanged ::
    "'v variant_api \<Rightarrow> string \<Rightarrow> 'v props \<Rightarrow> string list \<Rightarrow> geoclue_client \<Rightarrow> geoclue_client outcome" where
  "client_onPropertiesChanged api interfaceName changed invalidated s =
     for_each (client_step api interfaceName changed invalidated) changed s"

definition GeoClue2Client :: "'v variant_api \<Rightarrow> exn + 'v props \<Rightarrow> log_entry list \<Rightarrow> geoclue_client outcome" where
  "GeoClue2Client api getall lg =
     with_value getall (\<lambda>properties. client_onPropertiesChanged api ''org.freedesktop.GeoClue2'' properties [])
       (geoclue_client_init lg)"

text \<open>
  A new location: the object is constructed before the old one is released, and the callback sees
  it. The object logs to the log of the client and is stored with an empty log.
\<close>

definition onLocationUpdated ::
    "'v variant_api \<Rightarrow> (geoclue_location \<Rightarrow> log_entry list) option \<Rightarrow> exn + 'v props \<Rightarrow> geoclue_client \<Rightarrow> geoclue_client outcome" where
  "onLocationUpdated api callback getall s =
     (case GeoClue2Location api getall (log_of s) of
        Throw e l \<Rightarrow> Throw e (s\<lparr>log_of := log_of l\<rparr>)
      | Done l \<Rightarrow>
          (let s = s\<lparr>log_of := log_of l, gc_location := Some (l\<lparr>log_of := []\<rparr>)\<rparr>
           in Done (case callback of None \<Rightarrow> s | Some f \<Rightarrow> s\<lparr>log_of := log_of s @ f l\<rparr>)))"

record geoclue_manager = logged +
  gm_in_use :: bool
  gm_available_accuracy_level :: u32
  gm_client :: "geoclue_client option"

definition manager_step ::
    "'v variant_api \<Rightarrow> string \<Rightarrow> 'v props \<Rightarrow> string list \<Rightarrow> string \<times> 'v \<Rightarrow> geoclue_manager \<Rightarrow> geoclue_manager outcome" where
  "manager_step api interfaceName changed invalidated = (\<lambda>(key, value) s.
     if key = ''InUse'' then assign (va_bool api value) (\<lambda>x s. s\<lparr>gm_in_use := x\<rparr>) s
     else if key = ''AvailableAccuracyLevel'' then assign (va_u32 api value) (\<lambda>x s. s\<lparr>gm_available_accuracy_level := x\<rparr>) s
     else print_changed_properties api interfaceName changed invalidated s)"

definition manager_onPropertiesChanged ::
    "'v variant_api \<Rightarrow> string \<Rightarrow> 'v props \<Rightarrow> string list \<Rightarrow> geoclue_manager \<Rightarrow> geoclue_manager outcome" where
  "manager_onPropertiesChanged api interfaceName changed invalidated s =
     for_each (manager_step api interfaceName changed invalidated) changed s"

text \<open>The constructor, on the manager's properties, the path of the client and the client's properties.\<close>

definition GeoClue2Manager ::
    "'v variant_api \<Rightarrow> exn + 'v props \<Rightarrow> exn + string \<Rightarrow> exn + 'v props \<Rightarrow> log_entry list \<Rightarrow> geoclue_manager outcome" where
  "GeoClue2Manager api getall get_client client_getall lg =
     seq (with_value getall (\<lambda>properties. manager_onPropertiesChanged api ''org.freedesktop.GeoClue2'' properties [])
            \<lparr>log_of = lg, gm_in_use = False, gm_available_accuracy_level = 0, gm_client = None\<rparr>)
         (with_value get_client (\<lambda>client_path s.
            if client_path = [] then Done s
            else (case GeoClue2Client api client_getall (log_of s) of
                    Throw e c \<Rightarrow> Throw e (s\<lparr>log_of := log_of c\<rparr>)
                  | Done c \<Rightarrow> Done (s\<lparr>log_of := log_of c, gm_client := Some (c\<lparr>log_of := []\<rparr>)\<rparr>))))"

end
