(* ===== verification/Service_Client_Laws.thy ===== *)
theory Service_Client_Laws
  imports Service_Clients
begin

text \<open>
  Every property the clients of hostname1, locale1, timedate1 and GeoClue2 mirror follows the contract
  \<open>keyed_update\<close>, also in the loops that print the whole change at each key they do not know.
\<close>

text \<open>An accessor whose value is stored in a \<open>std::optional\<close>.\<close>

definition optional :: "('v \<Rightarrow> exn + 'a) \<Rightarrow> 'v \<Rightarrow> exn + 'a option" where
  "optional get v = map_sum id Some (get v)"

lemma keeps_print: "(\<And>l. f (s\<lparr>log_of := l\<rparr>) = f s) \<Longrightarrow> keeps f s (print_changed_properties api i c v s)"
  by (simp add: keeps_def print_changed_properties_def log_msg_def split: outcome.split)

lemmas step_keeps = keeps_intros keeps_print

section \<open>The fields\<close>

interpretation hn_Hostname: keyed_update "updateHostname1_step api" "(\<lambda>s. hn_Hostname (hc_hostname1 s))" "''Hostname''" "va_string api" for api
proof (unfold_locales, goal_cases)
  case 1 then show ?case by (auto simp: updateHostname1_step_def assign_Done_iff optional_def in_hostname1_def)
next
  case 2 then show ?case unfolding updateHostname1_step_def prod.case by (intro step_keeps; simp add: in_hostname1_def)
qed

interpretation hn_StaticHostname: keyed_update "updateHostname1_step api" "(\<lambda>s. hn_StaticHostname (hc_hostname1 s))" "''StaticHostname''" "va_string api" for api
proof (unfold_locales, goal_cases)
  case 1 then show ?case by (auto simp: updateHostname1_step_def assign_Done_iff optional_def in_hostname1_def)
next
  case 2 then show ?case unfolding updateHostname1_step_def prod.case by (intro step_keeps; simp add: in_hostname1_def)
qed

interpretation hn_PrettyHostname: keyed_update "updateHostname1_step api" "(\<lambda>s. hn_PrettyHostname (hc_hostname1 s))" "''PrettyHostname''" "optional (va_string api)" for api
proof (unfold_locales, goal_cases)
  case 1 then show ?case by (auto simp: updateHostname1_step_def assign_Done_iff optional_def in_hostname1_def)
next
  case 2 then show ?case unfolding updateHostname1_step_def prod.case by (intro step_keeps; simp add: in_hostname1_def)
qed

interpretation hn_DefaultHostname: keyed_update "updateHostname1_step api" "(\<lambda>s. hn_DefaultHostname (hc_hostname1 s))" "''DefaultHostname''" "optional (va_string api)" for api
proof (unfold_locales, goal_cases)
  case 1 then show ?case by (auto simp: updateHostname1_step_def assign_Done_iff optional_def in_hostname1_def)
next
  case 2 then show ?case unfolding updateHostname1_step_def prod.case by (intro step_keeps; simp add: in_hostname1_def)
qed

interpretation hn_HostnameSource: keyed_update "updateHostname1_step api" "(\<lambda>s. hn_HostnameSource (hc_hostname1 s))" "''HostnameSource''" "optional (va_string api)" for api
proof (unfold_locales, goal_cases)
  case 1 then show ?case by (auto simp: updateHostname1_step_def assign_Done_iff optional_def in_hostname1_def)
next
  case 2 then show ?case unfolding updateHostname1_step_def prod.case by (intro step_keeps; simp add: in_hostname1_def)
qed

interpretation hn_IconName: keyed_update "updateHostname1_step api" "(\<lambda>s. hn_IconName (hc_hostname1 s))" "''IconName''" "optional (va_string api)" for api
proof (unfold_locales, goal_cases)
  case 1 then show ?case by (auto simp: updateHostname1_step_def assign_Done_iff optional_def in_hostname1_def)
next
  case 2 then show ?case unfolding updateHostname1_step_def prod.case by (intro step_keeps; simp add: in_hostname1_def)
qed

interpretation hn_Chassis: keyed_update "updateHostname1_step api" "(\<lambda>s. hn_Chassis (hc_hostname1 s))" "''Chassis''" "optional (va_string api)" for api
proof (unfold_locales, goal_cases)
  case 1 then show ?case by (auto simp: updateHostname1_step_def assign_Done_iff optional_def in_hostname1_def)
next
  case 2 then show ?case unfolding updateHostname1_step_def prod.case by (intro step_keeps; simp add: in_hostname1_def)
qed

interpretation hn_Deployment: keyed_update "updateHostname1_step api" "(\<lambda>s. hn_Deployment (hc_hostname1 s))" "''Deployment''" "optional (va_string api)" for api
proof (unfold_locales, goal_cases)
  case 1 then show ?case by (auto simp: updateHostname1_step_def assign_Done_iff optional_def in_hostname1_def)
next
  case 2 then show ?case unfolding updateHostname1_step_def prod.case by (intro step_keeps; simp add: in_hostname1_def)
qed

interpretation hn_Location: keyed_update "updateHostname1_step api" "(\<lambda>s. hn_Location (hc_hostname1 s))" "''Location''" "optional (va_string api)" for api
proof (unfold_locales, goal_cases)
  case 1 then show ?case by (auto simp: updateHostname1_step_def assign_Done_iff optional_def in_hostname1_def)
next
  case 2 then show ?case unfolding updateHostname1_step_def prod.case by (intro step_keeps; simp add: in_hostname1_def)
qed

interpretation hn_KernelName: keyed_update "updateHostname1_step api" "(\<lambda>s. hn_KernelName (hc_hostname1 s))" "''KernelName''" "va_string api" for api
proof (unfold_locales, goal_cases)
  case 1 then show ?case by (auto simp: updateHostname1_step_def assign_Done_iff optional_def in_hostname1_def)
next
  case 2 then show ?case unfolding updateHostname1_step_def prod.case by (intro step_keeps; simp add: in_hostname1_def)
qed

interpretation hn_KernelRelease: keyed_update "updateHostname1_step api" "(\<lambda>s. hn_KernelRelease (hc_hostname1 s))" "''KernelRelease''" "va_string api" for api
proof (unfold_locales, goal_cases)
  case 1 then show ?case by (auto simp: updateHostname1_step_def assign_Done_iff optional_def in_hostname1_def)
next
  case 2 then show ?case unfolding updateHostname1_step_def prod.case by (intro step_keeps; simp add: in_hostname1_def)
qed

interpretation hn_KernelVersion: keyed_update "updateHostname1_step api" "(\<lambda>s. hn_KernelVersion (hc_hostname1 s))" "''KernelVersion''" "va_string api" for api
proof (unfold_locales, goal_cases)
  case 1 then show ?case by (auto simp: updateHostname1_step_def assign_Done_iff optional_def in_hostname1_def)
next
  case 2 then show ?case unfolding updateHostname1_step_def prod.case by (intro step_keeps; simp add: in_hostname1_def)
qed

interpretation hn_OperatingSystemPrettyName: keyed_update "updateHostname1_step api" "(\<lambda>s. hn_OperatingSystemPrettyName (hc_hostname1 s))" "''OperatingSystemPrettyName''" "va_string api" for api
proof (unfold_locales, goal_cases)
  case 1 then show ?case by (auto simp: updateHostname1_step_def assign_Done_iff optional_def in_hostname1_def)
next
  case 2 then show ?case unfolding updateHostname1_step_def prod.case by (intro step_keeps; simp add: in_hostname1_def)
qed

interpretation hn_OperatingSystemCPEName: keyed_update "updateHostname1_step api" "(\<lambda>s. hn_OperatingSystemCPEName (hc_hostname1 s))" "''OperatingSystemCPEName''" "va_string api" for api
proof (unfold_locales, goal_cases)
  case 1 then show ?case by (auto simp: updateHostname1_step_def assign_Done_iff optional_def in_hostname1_def)
next
  case 2 then show ?case unfolding updateHostname1_step_def prod.case by (intro step_keeps; simp add: in_hostname1_def)
qed

interpretation hn_OperatingSystemSupportEnd: keyed_update "updateHostname1_step api" "(\<lambda>s. hn_OperatingSystemSupportEnd (hc_hostname1 s))" "''OperatingSystemSupportEnd''" "optional (va_u64 api)" for api
proof (unfold_locales, goal_cases)
  case 1 then show ?case by (auto simp: updateHostname1_step_def assign_Done_iff optional_def in_hostname1_def)
next
  case 2 then show ?case unfolding updateHostname1_step_def prod.case by (intro step_keeps; simp add: in_hostname1_def)
qed

interpretation hn_OperatingSystemHomeURL: keyed_update "updateHostname1_step api" "(\<lambda>s. hn_OperatingSystemHomeURL (hc_hostname1 s))" "''OperatingSystemHomeURL''" "optional (va_string api)" for api
proof (unfold_locales, goal_cases)
  case 1 then show ?case by (auto simp: updateHostname1_step_def assign_Done_iff optional_def in_hostname1_def)
next
  case 2 then show ?case unfolding updateHostname1_step_def prod.case by (intro step_keeps; simp add: in_hostname1_def)
qed

interpretation hn_HardwareVendor: keyed_update "updateHostname1_step api" "(\<lambda>s. hn_HardwareVendor (hc_hostname1 s))" "''HardwareVendor''" "optional (va_string api)" for api
proof (unfold_locales, goal_cases)
  case 1 then show ?case by (auto simp: updateHostname1_step_def assign_Done_iff optional_def in_hostname1_def)
next
  case 2 then show ?case unfolding updateHostname1_step_def prod.case by (intro step_keeps; simp add: in_hostname1_def)
qed

interpretation hn_HardwareModel: keyed_update "updateHostname1_step api" "(\<lambda>s. hn_HardwareModel (hc_hostname1 s))" "''HardwareModel''" "optional (va_string api)" for api
proof (unfold_locales, goal_cases)
  case 1 then show ?case by (auto simp: updateHostname1_step_def assign_Done_iff optional_def in_hostname1_def)
next
  case 2 then show ?case unfolding updateHostname1_step_def prod.case by (intro step_keeps; simp add: in_hostname1_def)
qed

interpretation hn_FirmwareVersion: keyed_update "updateHostname1_step api" "(\<lambda>s. hn_FirmwareVersion (hc_hostname1 s))" "''FirmwareVersion''" "optional (va_string api)" for api
proof (unfold_locales, goal_cases)
  case 1 then show ?case by (auto simp: updateHostname1_step_def assign_Done_iff optional_def in_hostname1_def)
next
  case 2 then show ?case unfolding updateHostname1_step_def prod.case by (intro step_keeps; simp add: in_hostname1_def)
qed

interpretation hn_FirmwareVendor: keyed_update "updateHostname1_step api" "(\<lambda>s. hn_FirmwareVendor (hc_hostname1 s))" "''FirmwareVendor''" "optional (va_string api)" for api
proof (unfold_locales, goal_cases)
  case 1 then show ?case by (auto simp: updateHostname1_step_def assign_Done_iff optional_def in_hostname1_def)
next
  case 2 then show ?case unfolding updateHostname1_step_def prod.case by (intro step_keeps; simp add: in_hostname1_def)
qed

interpretation hn_FirmwareDate: keyed_update "updateHostname1_step api" "(\<lambda>s. hn_FirmwareDate (hc_hostname1 s))" "''FirmwareDate''" "optional (va_u64 api)" for api
proof (unfold_locales, goal_cases)
  case 1 then show ?case by (auto simp: updateHostname1_step_def assign_Done_iff optional_def in_hostname1_def)
next
  case 2 then show ?case unfolding updateHostname1_step_def prod.case by (intro step_keeps; simp add: in_hostname1_def)
qed

interpretation hc_MachineID: keyed_update "updateHostname1_step api" "hc_MachineID" "''MachineID''" "optional (va_bytes api)" for api
proof (unfold_locales, goal_cases)
  case 1 then show ?case by (auto simp: updateHostname1_step_def assign_Done_iff optional_def in_hostname1_def)
next
  case 2 then show ?case unfolding updateHostname1_step_def prod.case by (intro step_keeps; simp add: in_hostname1_def)
qed

interpretation hc_BootID: keyed_update "updateHostname1_step api" "hc_BootID" "''BootID''" "optional (va_bytes api)" for api
proof (unfold_locales, goal_cases)
  case 1 then show ?case by (auto simp: updateHostname1_step_def assign_Done_iff optional_def in_hostname1_def)
next
  case 2 then show ?case unfolding updateHostname1_step_def prod.case by (intro step_keeps; simp add: in_hostname1_def)
qed

interpretation lo_Locale: keyed_update "updateLocale1_step api" "lo_Locale" "''Locale''" "va_strings api" for api
proof (unfold_locales, goal_cases)
  case 1 then show ?case by (auto simp: updateLocale1_step_def assign_Done_iff optional_def)
next
  case 2 then show ?case unfolding updateLocale1_step_def prod.case by (intro step_keeps; simp)
qed

interpretation lo_X11Layout: keyed_update "updateLocale1_step api" "lo_X11Layout" "''X11Layout''" "va_string api" for api
proof (unfold_locales, goal_cases)
  case 1 then show ?case by (auto simp: updateLocale1_step_def assign_Done_iff optional_def)
next
  case 2 then show ?case unfolding updateLocale1_step_def prod.case by (intro step_keeps; simp)
qed

interpretation lo_X11Model: keyed_update "updateLocale1_step api" "lo_X11Model" "''X11Model''" "va_string api" for api
proof (unfold_locales, goal_cases)
  case 1 then show ?case by (auto simp: updateLocale1_step_def assign_Done_iff optional_def)
next
  case 2 then show ?case unfolding updateLocale1_step_def prod.case by (intro step_keeps; simp)
qed

interpretation lo_X11Variant: keyed_update "updateLocale1_step api" "lo_X11Variant" "''X11Variant''" "va_string api" for api
proof (unfold_locales, goal_cases)
  case 1 then show ?case by (auto simp: updateLocale1_step_def assign_Done_iff optional_def)
next
  case 2 then show ?case unfolding updateLocale1_step_def prod.case by (intro step_keeps; simp)
qed

interpretation lo_X11Options: keyed_update "updateLocale1_step api" "lo_X11Options" "''X11Options''" "va_string api" for api
proof (unfold_locales, goal_cases)
  case 1 then show ?case by (auto simp: updateLocale1_step_def assign_Done_iff optional_def)
next
  case 2 then show ?case unfolding updateLocale1_step_def prod.case by (intro step_keeps; simp)
qed

interpretation lo_VConsoleKeymap: keyed_update "updateLocale1_step api" "lo_VConsoleKeymap" "''VConsoleKeymap''" "va_string api" for api
proof (unfold_locales, goal_cases)
  case 1 then show ?case by (auto simp: updateLocale1_step_def assign_Done_iff optional_def)
next
  case 2 then show ?case unfolding updateLocale1_step_def prod.case by (intro step_keeps; simp)
qed

interpretation lo_VConsoleKeymapToggle: keyed_update "updateLocale1_step api" "lo_VConsoleKeymapToggle" "''VConsoleKeymapToggle''" "va_string api" for api
proof (unfold_locales, goal_cases)
  case 1 then show ?case by (auto simp: updateLocale1_step_def assign_Done_iff optional_def)
next
  case 2 then show ?case unfolding updateLocale1_step_def prod.case by (intro step_keeps; simp)
qed

interpretation td_Timezone: keyed_update "updateTimedate1_step api" "td_Timezone" "''Timezone''" "va_string api" for api
proof (unfold_locales, goal_cases)
  case 1 then show ?case by (auto simp: updateTimedate1_step_def assign_Done_iff optional_def)
next
  case 2 then show ?case unfolding updateTimedate1_step_def prod.case by (intro step_keeps; simp)
qed

interpretation td_LocalRTC: keyed_update "updateTimedate1_step api" "td_LocalRTC" "''LocalRTC''" "va_bool api" for api
proof (unfold_locales, goal_cases)
  case 1 then show ?case by (auto simp: updateTimedate1_step_def assign_Done_iff optional_def)
next
  case 2 then show ?case unfolding updateTimedate1_step_def prod.case by (intro step_keeps; simp)
qed

interpretation td_CanNTP: keyed_update "updateTimedate1_step api" "td_CanNTP" "''CanNTP''" "va_bool api" for api
proof (unfold_locales, goal_cases)
  case 1 then show ?case by (auto simp: updateTimedate1_step_def assign_Done_iff optional_def)
next
  case 2 then show ?case unfolding updateTimedate1_step_def prod.case by (intro step_keeps; simp)
qed

interpretation td_NTP: keyed_update "updateTimedate1_step api" "td_NTP" "''NTP''" "va_bool api" for api
proof (unfold_locales, goal_cases)
  case 1 then show ?case by (auto simp: updateTimedate1_step_def assign_Done_iff optional_def)
next
  case 2 then show ?case unfolding updateTimedate1_step_def prod.case by (intro step_keeps; simp)
qed

interpretation td_NTPSynchronized: keyed_update "updateTimedate1_step api" "td_NTPSynchronized" "''NTPSynchronized''" "va_bool api" for api
proof (unfold_locales, goal_cases)
  case 1 then show ?case by (auto simp: updateTimedate1_step_def assign_Done_iff optional_def)
next
  case 2 then show ?case unfolding updateTimedate1_step_def prod.case by (intro step_keeps; simp)
qed

interpretation td_TimeUSec: keyed_update "updateTimedate1_step api" "td_TimeUSec" "''TimeUSec''" "va_u64 api" for api
proof (unfold_locales, goal_cases)
  case 1 then show ?case by (auto simp: updateTimedate1_step_def assign_Done_iff optional_def)
next
  case 2 then show ?case unfolding updateTimedate1_step_def prod.case by (intro step_keeps; simp)
qed

interpretation td_RTCTimeUSec: keyed_update "updateTimedate1_step api" "td_RTCTimeUSec" "''RTCTimeUSec''" "va_u64 api" for api
proof (unfold_locales, goal_cases)
  case 1 then show ?case by (auto simp: updateTimedate1_step_def assign_Done_iff optional_def)
next
  case 2 then show ?case unfolding updateTimedate1_step_def prod.case by (intro step_keeps; simp)
qed

interpretation gl_Accuracy: keyed_update "location_step api i c v" "gl_Accuracy" "''Accuracy''" "va_double api" for api i c v
proof (unfold_locales, goal_cases)
  case 1 then show ?case by (auto simp: location_step_def assign_Done_iff optional_def)
next
  case 2 then show ?case unfolding location_step_def prod.case by (intro step_keeps; simp)
qed

interpretation gl_Altitude: keyed_update "location_step api i c v" "gl_Altitude" "''Altitude''" "va_double api" for api i c v
proof (unfold_locales, goal_cases)
  case 1 then show ?case by (auto simp: location_step_def assign_Done_iff optional_def)
next
  case 2 then show ?case unfolding location_step_def prod.case by (intro step_keeps; simp)
qed

interpretation gl_Description: keyed_update "location_step api i c v" "gl_Description" "''Description''" "va_string api" for api i c v
proof (unfold_locales, goal_cases)
  case 1 then show ?case by (auto simp: location_step_def assign_Done_iff optional_def)
next
  case 2 then show ?case unfolding location_step_def prod.case by (intro step_keeps; simp)
qed

interpretation gl_Heading: keyed_update "location_step api i c v" "gl_Heading" "''Heading''" "va_double api" for api i c v
proof (unfold_locales, goal_cases)
  case 1 then show ?case by (auto simp: location_step_def assign_Done_iff optional_def)
next
  case 2 then show ?case unfolding location_step_def prod.case by (intro step_keeps; simp)
qed

interpretation gl_Latitude: keyed_update "location_step api i c v" "gl_Latitude" "''Latitude''" "va_double api" for api i c v
proof (unfold_locales, goal_cases)
  case 1 then show ?case by (auto simp: location_step_def assign_Done_iff optional_def)
next
  case 2 then show ?case unfolding location_step_def prod.case by (intro step_keeps; simp)
qed

interpretation gl_Longitude: keyed_update "location_step api i c v" "gl_Longitude" "''Longitude''" "va_double api" for api i c v
proof (unfold_locales, goal_cases)
  case 1 then show ?case by (auto simp: location_step_def assign_Done_iff optional_def)
next
  case 2 then show ?case unfolding location_step_def prod.case by (intro step_keeps; simp)
qed

interpretation gl_Speed: keyed_update "location_step api i c v" "gl_Speed" "''Speed''" "va_double api" for api i c v
proof (unfold_locales, goal_cases)
  case 1 then show ?case by (auto simp: location_step_def assign_Done_iff optional_def)
next
  case 2 then show ?case unfolding location_step_def prod.case by (intro step_keeps; simp)
qed

interpretation gl_Timestamp: keyed_update "location_step api i c v" "gl_Timestamp" "''Timestamp''" "sa_tt (va_structs api)" for api i c v
proof (unfold_locales, goal_cases)
  case 1 then show ?case by (auto simp: location_step_def assign_Done_iff optional_def)
next
  case 2 then show ?case unfolding location_step_def prod.case by (intro step_keeps; simp)
qed

interpretation gc_Active: keyed_update "client_step api i c v" "gc_Active" "''Active''" "va_bool api" for api i c v
proof (unfold_locales, goal_cases)
  case 1 then show ?case by (auto simp: client_step_def assign_Done_iff optional_def)
next
  case 2 then show ?case unfolding client_step_def prod.case by (intro step_keeps; simp)
qed

interpretation gc_DesktopId: keyed_update "client_step api i c v" "gc_DesktopId" "''DesktopId''" "va_string api" for api i c v
proof (unfold_locales, goal_cases)
  case 1 then show ?case by (auto simp: client_step_def assign_Done_iff optional_def)
next
  case 2 then show ?case unfolding client_step_def prod.case by (intro step_keeps; simp)
qed

interpretation gc_DistanceThreshold: keyed_update "client_step api i c v" "gc_DistanceThreshold" "''DistanceThreshold''" "va_u32 api" for api i c v
proof (unfold_locales, goal_cases)
  case 1 then show ?case by (auto simp: client_step_def assign_Done_iff optional_def)
next
  case 2 then show ?case unfolding client_step_def prod.case by (intro step_keeps; simp)
qed

interpretation gc_Location: keyed_update "client_step api i c v" "gc_Location" "''Location''" "va_path api" for api i c v
proof (unfold_locales, goal_cases)
  case 1 then show ?case by (auto simp: client_step_def assign_Done_iff optional_def)
next
  case 2 then show ?case unfolding client_step_def prod.case by (intro step_keeps; simp)
qed

interpretation gc_RequestedAccuracyLevel: keyed_update "client_step api i c v" "gc_RequestedAccuracyLevel" "''RequestedAccuracyLevel''" "va_u32 api" for api i c v
proof (unfold_locales, goal_cases)
  case 1 then show ?case by (auto simp: client_step_def assign_Done_iff optional_def)
next
  case 2 then show ?case unfolding client_step_def prod.case by (intro step_keeps; simp)
qed

interpretation gc_TimeThreshold: keyed_update "client_step api i c v" "gc_TimeThreshold" "''TimeThreshold''" "va_u32 api" for api i c v
proof (unfold_locales, goal_cases)
  case 1 then show ?case by (auto simp: client_step_def assign_Done_iff optional_def)
next
  case 2 then show ?case unfolding client_step_def prod.case by (intro step_keeps; simp)
qed

interpretation gm_in_use: keyed_update "manager_step api i c v" "gm_in_use" "''InUse''" "va_bool api" for api i c v
proof (unfold_locales, goal_cases)
  case 1 then show ?case by (auto simp: manager_step_def assign_Done_iff optional_def)
next
  case 2 then show ?case unfolding manager_step_def prod.case by (intro step_keeps; simp)
qed

interpretation gm_available_accuracy_level: keyed_update "manager_step api i c v" "gm_available_accuracy_level" "''AvailableAccuracyLevel''" "va_u32 api" for api i c v
proof (unfold_locales, goal_cases)
  case 1 then show ?case by (auto simp: manager_step_def assign_Done_iff optional_def)
next
  case 2 then show ?case unfolding manager_step_def prod.case by (intro step_keeps; simp)
qed

section \<open>Whole updates\<close>

lemma hostname1_tracks:
  assumes "wf_map changed" and "updateHostname1 api changed s = Done s'"
  shows "tracks ''Hostname'' (va_string api) (\<lambda>s. hn_Hostname (hc_hostname1 s)) changed s s' \<and>
     tracks ''StaticHostname'' (va_string api) (\<lambda>s. hn_StaticHostname (hc_hostname1 s)) changed s s' \<and>
     tracks ''PrettyHostname'' (optional (va_string api)) (\<lambda>s. hn_PrettyHostname (hc_hostname1 s)) changed s s' \<and>
     tracks ''DefaultHostname'' (optional (va_string api)) (\<lambda>s. hn_DefaultHostname (hc_hostname1 s)) changed s s' \<and>
     tracks ''HostnameSource'' (optional (va_string api)) (\<lambda>s. hn_HostnameSource (hc_hostname1 s)) changed s s' \<and>
     tracks ''IconName'' (optional (va_string api)) (\<lambda>s. hn_IconName (hc_hostname1 s)) changed s s' \<and>
     tracks ''Chassis'' (optional (va_string api)) (\<lambda>s. hn_Chassis (hc_hostname1 s)) changed s s' \<and>
     tracks ''Deployment'' (optional (va_string api)) (\<lambda>s. hn_Deployment (hc_hostname1 s)) changed s s' \<and>
     tracks ''Location'' (optional (va_string api)) (\<lambda>s. hn_Location (hc_hostname1 s)) changed s s' \<and>
     tracks ''KernelName'' (va_string api) (\<lambda>s. hn_KernelName (hc_hostname1 s)) changed s s' \<and>
     tracks ''KernelRelease'' (va_string api) (\<lambda>s. hn_KernelRelease (hc_hostname1 s)) changed s s' \<and>
     tracks ''KernelVersion'' (va_string api) (\<lambda>s. hn_KernelVersion (hc_hostname1 s)) changed s s' \<and>
     tracks ''OperatingSystemPrettyName'' (va_string api) (\<lambda>s. hn_OperatingSystemPrettyName (hc_hostname1 s)) changed s s' \<and>
     tracks ''OperatingSystemCPEName'' (va_string api) (\<lambda>s. hn_OperatingSystemCPEName (hc_hostname1 s)) changed s s' \<and>
     tracks ''OperatingSystemSupportEnd'' (optional (va_u64 api)) (\<lambda>s. hn_OperatingSystemSupportEnd (hc_hostname1 s)) changed s s' \<and>
     tracks ''OperatingSystemHomeURL'' (optional (va_string api)) (\<lambda>s. hn_OperatingSystemHomeURL (hc_hostname1 s)) changed s s' \<and>
     tracks ''HardwareVendor'' (optional (va_string api)) (\<lambda>s. hn_HardwareVendor (hc_hostname1 s)) changed s s' \<and>
     tracks ''HardwareModel'' (optional (va_string api)) (\<lambda>s. hn_HardwareModel (hc_hostname1 s)) changed s s' \<and>
     tracks ''FirmwareVersion'' (optional (va_string api)) (\<lambda>s. hn_FirmwareVersion (hc_hostname1 s)) changed s s' \<and>
     tracks ''FirmwareVendor'' (optional (va_string api)) (\<lambda>s. hn_FirmwareVendor (hc_hostname1 s)) changed s s' \<and>
     tracks ''FirmwareDate'' (optional (va_u64 api)) (\<lambda>s. hn_FirmwareDate (hc_hostname1 s)) changed s s' \<and>
     tracks ''MachineID'' (optional (va_bytes api)) hc_MachineID changed s s' \<and>
     tracks ''BootID'' (optional (va_bytes api)) hc_BootID changed s s'"
proof -
  have run: "for_each (updateHostname1_step api) changed s = Done s'" using assms(2) by (simp add: updateHostname1_def)
  show ?thesis unfolding tracks_def
    by (intro conjI hn_Hostname.tracked [OF assms(1) run] hn_StaticHostname.tracked [OF assms(1) run]
      hn_PrettyHostname.tracked [OF assms(1) run] hn_DefaultHostname.tracked [OF assms(1) run]
      hn_HostnameSource.tracked [OF assms(1) run] hn_IconName.tracked [OF assms(1) run]
      hn_Chassis.tracked [OF assms(1) run] hn_Deployment.tracked [OF assms(1) run]
      hn_Location.tracked [OF assms(1) run] hn_KernelName.tracked [OF assms(1) run]
      hn_KernelRelease.tracked [OF assms(1) run] hn_KernelVersion.tracked [OF assms(1) run]
      hn_OperatingSystemPrettyName.tracked [OF assms(1) run] hn_OperatingSystemCPEName.tracked [OF
      assms(1) run] hn_OperatingSystemSupportEnd.tracked [OF assms(1) run]
      hn_OperatingSystemHomeURL.tracked [OF assms(1) run] hn_HardwareVendor.tracked [OF assms(1) run]
      hn_HardwareModel.tracked [OF assms(1) run] hn_FirmwareVersion.tracked [OF assms(1) run]
      hn_FirmwareVendor.tracked [OF assms(1) run] hn_FirmwareDate.tracked [OF assms(1) run]
      hc_MachineID.tracked [OF assms(1) run] hc_BootID.tracked [OF assms(1) run])
qed

lemma locale1_tracks:
  assumes "wf_map changed" and "updateLocale1 api changed s = Done s'"
  shows "tracks ''Locale'' (va_strings api) lo_Locale changed s s' \<and>
     tracks ''X11Layout'' (va_string api) lo_X11Layout changed s s' \<and>
     tracks ''X11Model'' (va_string api) lo_X11Model changed s s' \<and>
     tracks ''X11Variant'' (va_string api) lo_X11Variant changed s s' \<and>
     tracks ''X11Options'' (va_string api) lo_X11Options changed s s' \<and>
     tracks ''VConsoleKeymap'' (va_string api) lo_VConsoleKeymap changed s s' \<and>
     tracks ''VConsoleKeymapToggle'' (va_string api) lo_VConsoleKeymapToggle changed s s'"
proof -
  have run: "for_each (updateLocale1_step api) changed s = Done s'" using assms(2) by (simp add: updateLocale1_def)
  show ?thesis unfolding tracks_def
    by (intro conjI lo_Locale.tracked [OF assms(1) run] lo_X11Layout.tracked [OF assms(1) run] lo_X11Model.tracked
      [OF assms(1) run] lo_X11Variant.tracked [OF assms(1) run] lo_X11Options.tracked [OF assms(1)
      run] lo_VConsoleKeymap.tracked [OF assms(1) run] lo_VConsoleKeymapToggle.tracked [OF assms(1)
      run])
qed

lemma timedate1_tracks:
  assumes "wf_map changed" and "updateTimedate1 api changed s = Done s'"
  shows "tracks ''Timezone'' (va_string api) td_Timezone changed s s' \<and>
     tracks ''LocalRTC'' (va_bool api) td_LocalRTC changed s s' \<and>
     tracks ''CanNTP'' (va_bool api) td_CanNTP changed s s' \<and>
     tracks ''NTP'' (va_bool api) td_NTP changed s s' \<and>
     tracks ''NTPSynchronized'' (va_bool api) td_NTPSynchronized changed s s' \<and>
     tracks ''TimeUSec'' (va_u64 api) td_TimeUSec changed s s' \<and>
     tracks ''RTCTimeUSec'' (va_u64 api) td_RTCTimeUSec changed s s'"
proof -
  have run: "for_each (updateTimedate1_step api) changed s = Done s'" using assms(2) by (simp add: updateTimedate1_def)
  show ?thesis unfolding tracks_def
    by (intro conjI td_Timezone.tracked [OF assms(1) run] td_LocalRTC.tracked [OF assms(1) run] td_CanNTP.tracked
      [OF assms(1) run] td_NTP.tracked [OF assms(1) run] td_NTPSynchronized.tracked [OF assms(1) run]
      td_TimeUSec.tracked [OF assms(1) run] td_RTCTimeUSec.tracked [OF assms(1) run])
qed

lemma location_tracks:
  assumes "wf_map changed" and "location_onPropertiesChanged api iface changed invalidated s = Done s'"
  shows "tracks ''Accuracy'' (va_double api) gl_Accuracy changed s s' \<and>
     tracks ''Altitude'' (va_double api) gl_Altitude changed s s' \<and>
     tracks ''Description'' (va_string api) gl_Description changed s s' \<and>
     tracks ''Heading'' (va_double api) gl_Heading changed s s' \<and>
     tracks ''Latitude'' (va_double api) gl_Latitude changed s s' \<and>
     tracks ''Longitude'' (va_double api) gl_Longitude changed s s' \<and>
     tracks ''Speed'' (va_double api) gl_Speed changed s s' \<and>
     tracks ''Timestamp'' (sa_tt (va_structs api)) gl_Timestamp changed s s'"
proof -
  have run: "for_each (location_step api iface changed invalidated) changed s = Done s'" using assms(2) by (simp add: location_onPropertiesChanged_def)
  show ?thesis unfolding tracks_def
    by (intro conjI gl_Accuracy.tracked [OF assms(1) run] gl_Altitude.tracked [OF assms(1) run]
      gl_Description.tracked [OF assms(1) run] gl_Heading.tracked [OF assms(1) run]
      gl_Latitude.tracked [OF assms(1) run] gl_Longitude.tracked [OF assms(1) run] gl_Speed.tracked
      [OF assms(1) run] gl_Timestamp.tracked [OF assms(1) run])
qed

lemma geoclue_client_tracks:
  assumes "wf_map changed" and "client_onPropertiesChanged api iface changed invalidated s = Done s'"
  shows "tracks ''Active'' (va_bool api) gc_Active changed s s' \<and>
     tracks ''DesktopId'' (va_string api) gc_DesktopId changed s s' \<and>
     tracks ''DistanceThreshold'' (va_u32 api) gc_DistanceThreshold changed s s' \<and>
     tracks ''Location'' (va_path api) gc_Location changed s s' \<and>
     tracks ''RequestedAccuracyLevel'' (va_u32 api) gc_RequestedAccuracyLevel changed s s' \<and>
     tracks ''TimeThreshold'' (va_u32 api) gc_TimeThreshold changed s s'"
proof -
  have run: "for_each (client_step api iface changed invalidated) changed s = Done s'" using assms(2) by (simp add: client_onPropertiesChanged_def)
  show ?thesis unfolding tracks_def
    by (intro conjI gc_Active.tracked [OF assms(1) run] gc_DesktopId.tracked [OF assms(1) run]
      gc_DistanceThreshold.tracked [OF assms(1) run] gc_Location.tracked [OF assms(1) run]
      gc_RequestedAccuracyLevel.tracked [OF assms(1) run] gc_TimeThreshold.tracked [OF assms(1) run])
qed

lemma geoclue_manager_tracks:
  assumes "wf_map changed" and "manager_onPropertiesChanged api iface changed invalidated s = Done s'"
  shows "tracks ''InUse'' (va_bool api) gm_in_use changed s s' \<and>
     tracks ''AvailableAccuracyLevel'' (va_u32 api) gm_available_accuracy_level changed s s'"
proof -
  have run: "for_each (manager_step api iface changed invalidated) changed s = Done s'" using assms(2) by (simp add: manager_onPropertiesChanged_def)
  show ?thesis unfolding tracks_def
    by (intro conjI gm_in_use.tracked [OF assms(1) run] gm_available_accuracy_level.tracked [OF assms(1) run])
qed

section \<open>Dates\<close>

lemma to_time_t_defined: "to_time_t us \<noteq> None \<longleftrightarrow> \<bar>sint us\<bar> \<le> 9223372036854775"
  by (auto simp: to_time_t_def Let_def)

lemma printTimedate1_defined:
  "printTimedate1 local_time s \<noteq> None \<longleftrightarrow>
     \<bar>sint (td_TimeUSec s)\<bar> \<le> 9223372036854775 \<and> \<bar>sint (td_RTCTimeUSec s)\<bar> \<le> 9223372036854775"
  using to_time_t_defined [of "td_TimeUSec s"] to_time_t_defined [of "td_RTCTimeUSec s"]
  by (auto simp: printTimedate1_def timedate1_text_def appendTimeUSecAsDate_def split: option.splits)

section \<open>Properties\<close>

text \<open>A field of a fresh location: the value read, or the initial one.\<close>

definition read_field :: "string \<Rightarrow> ('v \<Rightarrow> exn + 'a) \<Rightarrow> 'v props \<Rightarrow> 'a \<Rightarrow> 'a \<Rightarrow> bool" where
  "read_field key get properties initial x \<longleftrightarrow>
     (case map_of properties key of None \<Rightarrow> x = initial | Some v \<Rightarrow> get v = Inr x)"

text \<open>
  When a location update is handled without a throw, the client's location is a new object that
  holds exactly what the service answered for it, with zero for what it left out and nothing of the
  location before; when reading or decoding the answer throws, the previous location and every other
  field stay.
\<close>

theorem location_replaced_or_kept:
  "case onLocationUpdated api callback getall s of
     Throw e s' \<Rightarrow> s' = s\<lparr>log_of := log_of s'\<rparr>
   | Done s' \<Rightarrow> (\<exists>properties l. getall = Inr properties \<and> gc_location s' = Some l
       \<and> s' = s\<lparr>log_of := log_of s', gc_location := Some l\<rparr>
       \<and> (wf_map properties \<longrightarrow>
            read_field ''Accuracy'' (va_double api) properties 0 (gl_Accuracy l)
          \<and> read_field ''Altitude'' (va_double api) properties 0 (gl_Altitude l)
          \<and> read_field ''Description'' (va_string api) properties [] (gl_Description l)
          \<and> read_field ''Heading'' (va_double api) properties 0 (gl_Heading l)
          \<and> read_field ''Latitude'' (va_double api) properties 0 (gl_Latitude l)
          \<and> read_field ''Longitude'' (va_double api) properties 0 (gl_Longitude l)
          \<and> read_field ''Speed'' (va_double api) properties 0 (gl_Speed l)
          \<and> read_field ''Timestamp'' (sa_tt (va_structs api)) properties (0, 0) (gl_Timestamp l)))"
proof (cases "GeoClue2Location api getall (log_of s)")
  case (Throw e l)
  then show ?thesis by (simp add: onLocationUpdated_def)
next
  case (Done l)
  then obtain properties where p: "getall = Inr properties"
      "location_onPropertiesChanged api ''org.freedesktop.GeoClue2'' properties [] (geoclue_location_init (log_of s)) = Done l"
    by (cases getall) (auto simp: GeoClue2Location_def)
  let ?l = "l\<lparr>log_of := []\<rparr>"
  have "wf_map properties \<longrightarrow>
            read_field ''Accuracy'' (va_double api) properties 0 (gl_Accuracy ?l)
          \<and> read_field ''Altitude'' (va_double api) properties 0 (gl_Altitude ?l)
          \<and> read_field ''Description'' (va_string api) properties [] (gl_Description ?l)
          \<and> read_field ''Heading'' (va_double api) properties 0 (gl_Heading ?l)
          \<and> read_field ''Latitude'' (va_double api) properties 0 (gl_Latitude ?l)
          \<and> read_field ''Longitude'' (va_double api) properties 0 (gl_Longitude ?l)
          \<and> read_field ''Speed'' (va_double api) properties 0 (gl_Speed ?l)
          \<and> read_field ''Timestamp'' (sa_tt (va_structs api)) properties (0, 0) (gl_Timestamp ?l)"
    using location_tracks [OF _ p(2)]
    by (simp add: tracks_def read_field_def geoclue_location_init_def cong: option.case_cong)
  then show ?thesis
    by (cases callback) (simp_all add: onLocationUpdated_def Done [unfolded p(1)] p(1) Let_def)
qed

text \<open>A location with a latitude and a time, and a client.\<close>

definition sample_fix :: "sample props" where
  "sample_fix = [(''Latitude'', S_double 7), (''Timestamp'', S_tt 3 4)]"

theorem location_replaced_or_kept_witness:
  "\<exists>s' l. onLocationUpdated sample_api None (Inr sample_fix) (geoclue_client_init []) = Done s'
     \<and> gc_location s' = Some l \<and> gl_Latitude l = 7 \<and> gl_Timestamp l = (3, 4) \<and> gl_Speed l = 0"
proof -
  obtain s' where run: "onLocationUpdated sample_api None (Inr sample_fix) (geoclue_client_init []) = Done s'"
    by (simp add: onLocationUpdated_def GeoClue2Location_def location_onPropertiesChanged_def location_step_def
        sample_fix_def geoclue_client_init_def geoclue_location_init_def Let_def)
  have wf: "wf_map sample_fix" by (simp add: sample_fix_def wf_map_def)
  from location_replaced_or_kept [where api = sample_api and callback = None and getall = "Inr sample_fix"
      and s = "geoclue_client_init []"]
  obtain l where "gc_location s' = Some l"
    "read_field ''Latitude'' (va_double sample_api) sample_fix 0 (gl_Latitude l)"
    "read_field ''Speed'' (va_double sample_api) sample_fix 0 (gl_Speed l)"
    "read_field ''Timestamp'' (sa_tt (va_structs sample_api)) sample_fix (0, 0) (gl_Timestamp l)"
    unfolding run using wf by auto
  with run show ?thesis by (auto simp: read_field_def sample_fix_def)
qed

end
