(* ===== verification/Udisks2_Manager.thy ===== *)
theory Udisks2_Manager
  imports Client_Registry
begin

text \<open>
  \<open>src/udisks2/udisks2_manager.{h,cc}\<close> and the classes of its objects,
  \<open>src/udisks2/udisks2_{block,drive,...}.h\<close>: a client of the object manager of UDisks2, which keeps
  one registry per interface. The handlers are not guarded by a \<open>try\<close>: an exception of the
  construction of an object leaves the handler with the interfaces that follow unprocessed. What
  \<open>GetAll\<close> answers the constructor of an object is an argument, a function of its interface. The locks
  guard single statements and the handlers run on one thread.
\<close>

section \<open>Objects\<close>

record udisks_object =
  uo_interface :: string
  uo_path :: string

text \<open>
  The nine classes share their text, and have no state but the path. The constructor reads the
  properties of the interface and prints them, as the handler of \<open>PropertiesChanged\<close> does.
\<close>

definition udisks_object_onPropertiesChanged ::
    "'v variant_api \<Rightarrow> string \<Rightarrow> 'v props \<Rightarrow> string list \<Rightarrow> 'a logged_scheme \<Rightarrow> 'a logged_scheme outcome" where
  "udisks_object_onPropertiesChanged api interfaceName changed invalidated =
     print_changed_properties api interfaceName changed invalidated"

definition construct_object ::
    "'v variant_api \<Rightarrow> string \<Rightarrow> (string \<Rightarrow> exn + 'v props) \<Rightarrow> 'a logged_scheme \<Rightarrow> 'a logged_scheme outcome" where
  "construct_object api interface getall =
     with_value (getall interface) (\<lambda>properties. udisks_object_onPropertiesChanged api interface properties [])"

abbreviation iface_manager :: string where
  "iface_manager \<equiv> ''org.freedesktop.UDisks2.Manager''"

abbreviation iface_manager_nvme :: string where
  "iface_manager_nvme \<equiv> ''org.freedesktop.UDisks2.Manager.NVMe''"

abbreviation iface_block :: string where
  "iface_block \<equiv> ''org.freedesktop.UDisks2.Block''"

abbreviation iface_drive :: string where
  "iface_drive \<equiv> ''org.freedesktop.UDisks2.Drive''"

abbreviation iface_namespace :: string where
  "iface_namespace \<equiv> ''org.freedesktop.UDisks2.NVMe.Namespace''"

abbreviation iface_nvme_controller :: string where
  "iface_nvme_controller \<equiv> ''org.freedesktop.UDisks2.NVMe.Controller''"

abbreviation iface_partition_table :: string where
  "iface_partition_table \<equiv> ''org.freedesktop.UDisks2.PartitionTable''"

abbreviation iface_partition :: string where
  "iface_partition \<equiv> ''org.freedesktop.UDisks2.Partition''"

abbreviation iface_filesystem :: string where
  "iface_filesystem \<equiv> ''org.freedesktop.UDisks2.Filesystem''"

abbreviation iface_swapspace :: string where
  "iface_swapspace \<equiv> ''org.freedesktop.UDisks2.Swapspace''"

definition UDisks2ManagerNvme ::
    "'v variant_api \<Rightarrow> (string \<Rightarrow> exn + 'v props) \<Rightarrow> 'a logged_scheme \<Rightarrow> 'a logged_scheme outcome" where
  "UDisks2ManagerNvme api = construct_object api iface_manager_nvme"

definition UDisks2Block ::
    "'v variant_api \<Rightarrow> (string \<Rightarrow> exn + 'v props) \<Rightarrow> 'a logged_scheme \<Rightarrow> 'a logged_scheme outcome" where
  "UDisks2Block api = construct_object api iface_block"

definition UDisks2Drive ::
    "'v variant_api \<Rightarrow> (string \<Rightarrow> exn + 'v props) \<Rightarrow> 'a logged_scheme \<Rightarrow> 'a logged_scheme outcome" where
  "UDisks2Drive api = construct_object api iface_drive"

definition UDisks2NvmeNamespace ::
    "'v variant_api \<Rightarrow> (string \<Rightarrow> exn + 'v props) \<Rightarrow> 'a logged_scheme \<Rightarrow> 'a logged_scheme outcome" where
  "UDisks2NvmeNamespace api = construct_object api iface_namespace"

definition UDisks2NvmeController ::
    "'v variant_api \<Rightarrow> (string \<Rightarrow> exn + 'v props) \<Rightarrow> 'a logged_scheme \<Rightarrow> 'a logged_scheme outcome" where
  "UDisks2NvmeController api = construct_object api iface_nvme_controller"

definition UDisks2PartitionTable ::
    "'v variant_api \<Rightarrow> (string \<Rightarrow> exn + 'v props) \<Rightarrow> 'a logged_scheme \<Rightarrow> 'a logged_scheme outcome" where
  "UDisks2PartitionTable api = construct_object api iface_partition_table"

definition UDisks2Partition ::
    "'v variant_api \<Rightarrow> (string \<Rightarrow> exn + 'v props) \<Rightarrow> 'a logged_scheme \<Rightarrow> 'a logged_scheme outcome" where
  "UDisks2Partition api = construct_object api iface_partition"

definition UDisks2Filesystem ::
    "'v variant_api \<Rightarrow> (string \<Rightarrow> exn + 'v props) \<Rightarrow> 'a logged_scheme \<Rightarrow> 'a logged_scheme outcome" where
  "UDisks2Filesystem api = construct_object api iface_filesystem"

definition UDisks2Swapspace ::
    "'v variant_api \<Rightarrow> (string \<Rightarrow> exn + 'v props) \<Rightarrow> 'a logged_scheme \<Rightarrow> 'a logged_scheme outcome" where
  "UDisks2Swapspace api = construct_object api iface_swapspace"

lemmas object_defs = UDisks2ManagerNvme_def
  UDisks2Block_def
  UDisks2Drive_def
  UDisks2NvmeNamespace_def
  UDisks2NvmeController_def
  UDisks2PartitionTable_def
  UDisks2Partition_def
  UDisks2Filesystem_def
  UDisks2Swapspace_def

section \<open>UDisks2Manager\<close>

record udisks_manager = logged +
  um_manager_nvme :: "udisks_object option"
  um_blocks :: "(string \<times> udisks_object) list"
  um_drives :: "(string \<times> udisks_object) list"
  um_namespaces :: "(string \<times> udisks_object) list"
  um_nvme_controllers :: "(string \<times> udisks_object) list"
  um_partition_tables :: "(string \<times> udisks_object) list"
  um_partitions :: "(string \<times> udisks_object) list"
  um_filesystems :: "(string \<times> udisks_object) list"
  um_swapspaces :: "(string \<times> udisks_object) list"

definition udisks_manager_new :: "log_entry list \<Rightarrow> udisks_manager" where
  "udisks_manager_new lg = \<lparr>log_of = lg, um_manager_nvme = None,
     um_blocks = [],
     um_drives = [],
     um_namespaces = [],
     um_nvme_controllers = [],
     um_partition_tables = [],
     um_partitions = [],
     um_filesystems = [],
     um_swapspaces = []\<rparr>"

text \<open>\<open>m[path] = std::make_unique<...>(...)\<close>: the object is constructed before the entry is made.\<close>

definition add_object ::
    "string \<Rightarrow> (udisks_manager \<Rightarrow> (string \<times> udisks_object) list) \<Rightarrow>
     (((string \<times> udisks_object) list \<Rightarrow> (string \<times> udisks_object) list) \<Rightarrow> udisks_manager \<Rightarrow> udisks_manager) \<Rightarrow>
     (udisks_manager \<Rightarrow> udisks_manager outcome) \<Rightarrow> string \<Rightarrow> udisks_manager \<Rightarrow> udisks_manager outcome" where
  "add_object interface reg upd new path s =
     (if contains (reg s) path then Done s
      else seq (new s) (\<lambda>s. Done (upd (AList.update path \<lparr>uo_interface = interface, uo_path = path\<rparr>) s)))"

definition add_interface ::
    "'v variant_api \<Rightarrow> (string \<Rightarrow> exn + 'v props) \<Rightarrow> string \<Rightarrow> string \<Rightarrow> udisks_manager \<Rightarrow> udisks_manager outcome" where
  "add_interface api getall path interface s =
    (if interface = iface_manager then Done s
     else if interface = iface_manager_nvme
       then seq (UDisks2ManagerNvme api getall s)
              (\<lambda>s. Done (s\<lparr>um_manager_nvme := Some \<lparr>uo_interface = iface_manager_nvme, uo_path = path\<rparr>\<rparr>))
     else if interface = iface_block then add_object iface_block um_blocks um_blocks_update (UDisks2Block api getall) path s
     else if interface = iface_drive then add_object iface_drive um_drives um_drives_update (UDisks2Drive api getall) path s
     else if interface = iface_namespace then add_object iface_namespace um_namespaces um_namespaces_update (UDisks2NvmeNamespace api getall) path s
     else if interface = iface_nvme_controller then add_object iface_nvme_controller um_nvme_controllers um_nvme_controllers_update (UDisks2NvmeController api getall) path s
     else if interface = iface_partition_table then add_object iface_partition_table um_partition_tables um_partition_tables_update (UDisks2PartitionTable api getall) path s
     else if interface = iface_partition then add_object iface_partition um_partitions um_partitions_update (UDisks2Partition api getall) path s
     else if interface = iface_filesystem then add_object iface_filesystem um_filesystems um_filesystems_update (UDisks2Filesystem api getall) path s
     else if interface = iface_swapspace then add_object iface_swapspace um_swapspaces um_swapspaces_update (UDisks2Swapspace api getall) path s
     else Done (log_msg Info ''not handled interface: {}'' [LStr interface] s))"

definition manager_onInterfacesAdded ::
    "'v variant_api \<Rightarrow> (string \<Rightarrow> exn + 'v props) \<Rightarrow> string \<Rightarrow> (string \<times> 'v props) list \<Rightarrow>
     udisks_manager \<Rightarrow> udisks_manager outcome" where
  "manager_onInterfacesAdded api getall objectPath interfacesAndProperties =
     for_each (\<lambda>(interface, properties) s.
       case append_properties max_nesting api properties (put endl ostringstream) of
         Throw e _ \<Rightarrow> Throw e s
       | Done os \<Rightarrow> add_interface api getall objectPath interface
             (log_msg Info (''[{}] Add - {}'' @ endl @ ''{}'') [LStr objectPath, LStr interface, LStr (os_buf os)] s))
       interfacesAndProperties"

definition remove_interface :: "string \<Rightarrow> string \<Rightarrow> udisks_manager \<Rightarrow> udisks_manager" where
  "remove_interface path interface s =
    (if interface = iface_manager_nvme then s\<lparr>um_manager_nvme := None\<rparr>
     else if interface = iface_block then s\<lparr>um_blocks := AList.delete path (um_blocks s)\<rparr>
     else if interface = iface_drive then s\<lparr>um_drives := AList.delete path (um_drives s)\<rparr>
     else if interface = iface_namespace then s\<lparr>um_namespaces := AList.delete path (um_namespaces s)\<rparr>
     else if interface = iface_nvme_controller then s\<lparr>um_nvme_controllers := AList.delete path (um_nvme_controllers s)\<rparr>
     else if interface = iface_partition_table then s\<lparr>um_partition_tables := AList.delete path (um_partition_tables s)\<rparr>
     else if interface = iface_partition then s\<lparr>um_partitions := AList.delete path (um_partitions s)\<rparr>
     else if interface = iface_filesystem then s\<lparr>um_filesystems := AList.delete path (um_filesystems s)\<rparr>
     else if interface = iface_swapspace then s\<lparr>um_swapspaces := AList.delete path (um_swapspaces s)\<rparr>
     else s)"

definition manager_onInterfacesRemoved :: "string \<Rightarrow> string list \<Rightarrow> udisks_manager \<Rightarrow> udisks_manager" where
  "manager_onInterfacesRemoved objectPath interfaces s =
     fold (\<lambda>interface s. remove_interface objectPath interface
             (log_msg Info ''[{}] Remove - {}'' [LStr objectPath, LStr interface] s)) interfaces s"

definition udisks_manager_onPropertiesChanged ::
    "string \<Rightarrow> 'v props \<Rightarrow> string list \<Rightarrow> udisks_manager \<Rightarrow> udisks_manager" where
  "udisks_manager_onPropertiesChanged interfaceName changed invalidated s = s"

text \<open>
  The constructor adds what \<open>GetManagedObjects\<close> returned, \<open>found\<close>; each object comes with what \<open>GetAll\<close>
  will answer for it.
\<close>

definition UDisks2Manager ::
    "'v variant_api \<Rightarrow> exn + (string \<times> (string \<times> 'v props) list \<times> (string \<Rightarrow> exn + 'v props)) list \<Rightarrow>
     log_entry list \<Rightarrow> udisks_manager outcome" where
  "UDisks2Manager api found lg =
     with_value found
       (for_each (\<lambda>(object, interfacesAndProperties, getall).
                    manager_onInterfacesAdded api getall object interfacesAndProperties))
       (udisks_manager_new lg)"

section \<open>Events\<close>

datatype 'v udisks_event =
    UM_Added "string \<Rightarrow> exn + 'v props" string "(string \<times> 'v props) list"
  | UM_Removed string "string list"
  | UM_Properties string "'v props" "string list"
  | UM_Object_Properties string "'v props" "string list"

fun udisks_step :: "'v variant_api \<Rightarrow> 'v udisks_event \<Rightarrow> udisks_manager \<Rightarrow> udisks_manager outcome" where
  "udisks_step api (UM_Added getall path interfaces) s = manager_onInterfacesAdded api getall path interfaces s"
| "udisks_step api (UM_Removed path interfaces) s = Done (manager_onInterfacesRemoved path interfaces s)"
| "udisks_step api (UM_Properties i changed invalidated) s =
     Done (udisks_manager_onPropertiesChanged i changed invalidated s)"
| "udisks_step api (UM_Object_Properties i changed invalidated) s =
     udisks_object_onPropertiesChanged api i changed invalidated s"

section \<open>The abstract manager\<close>

text \<open>The set of the announced pairs of an interface and a path; a removal takes pairs out.\<close>

definition registry :: "string \<Rightarrow> udisks_manager \<Rightarrow> (string \<times> udisks_object) list" where
  "registry interface s =
    (if interface = iface_block then um_blocks s
     else if interface = iface_drive then um_drives s
     else if interface = iface_namespace then um_namespaces s
     else if interface = iface_nvme_controller then um_nvme_controllers s
     else if interface = iface_partition_table then um_partition_tables s
     else if interface = iface_partition then um_partitions s
     else if interface = iface_filesystem then um_filesystems s
     else if interface = iface_swapspace then um_swapspaces s
     else [])"

definition stored_interfaces :: "string list" where
  "stored_interfaces = [iface_block, iface_drive, iface_namespace, iface_nvme_controller, iface_partition_table, iface_partition, iface_filesystem, iface_swapspace]"

definition registered :: "udisks_manager \<Rightarrow> (string \<times> string) set" where
  "registered s = {(i, path). contains (registry i s) path}"

definition held :: "udisks_manager \<Rightarrow> (string \<times> string) set" where
  "held s = registered s \<union> (case um_manager_nvme s of None \<Rightarrow> {} | Some d \<Rightarrow> {(iface_manager_nvme, uo_path d)})"

abbreviation all_interfaces :: "string set" where
  "all_interfaces \<equiv> insert iface_manager_nvme (set stored_interfaces)"

fun udisks_announced :: "string set \<Rightarrow> 'v udisks_event \<Rightarrow> (string \<times> string) set \<Rightarrow> (string \<times> string) set" where
  "udisks_announced tracked (UM_Added getall path interfaces) A = A \<union> (fst ` set interfaces \<inter> tracked) \<times> {path}"
| "udisks_announced tracked (UM_Removed path interfaces) A =
     {(i, p) \<in> A. \<not> (i \<in> set interfaces \<and> (p = path \<or> i = iface_manager_nvme))}"
| "udisks_announced tracked _ A = A"

definition found_events ::
    "(string \<times> (string \<times> 'v props) list \<times> (string \<Rightarrow> exn + 'v props)) list \<Rightarrow> 'v udisks_event list" where
  "found_events = map (\<lambda>(object, interfaces, getall). UM_Added getall object interfaces)"

definition object_ok :: "string \<Rightarrow> string \<times> udisks_object \<Rightarrow> bool" where
  "object_ok i = (\<lambda>(path, d). d = \<lparr>uo_interface = i, uo_path = path\<rparr>)"

definition udisks_inv :: "udisks_manager \<Rightarrow> bool" where
  "udisks_inv s \<longleftrightarrow> (\<forall>i. wf_map (registry i s) \<and> (\<forall>x \<in> set (registry i s). object_ok i x))"

lemma registry_fields [simp]:
  "registry i (um_blocks_update f s) = (if i = iface_block then f (um_blocks s) else registry i s)"
  "registry i (um_drives_update f s) = (if i = iface_drive then f (um_drives s) else registry i s)"
  "registry i (um_namespaces_update f s) = (if i = iface_namespace then f (um_namespaces s) else registry i s)"
  "registry i (um_nvme_controllers_update f s) = (if i = iface_nvme_controller then f (um_nvme_controllers s) else registry i s)"
  "registry i (um_partition_tables_update f s) = (if i = iface_partition_table then f (um_partition_tables s) else registry i s)"
  "registry i (um_partitions_update f s) = (if i = iface_partition then f (um_partitions s) else registry i s)"
  "registry i (um_filesystems_update f s) = (if i = iface_filesystem then f (um_filesystems s) else registry i s)"
  "registry i (um_swapspaces_update f s) = (if i = iface_swapspace then f (um_swapspaces s) else registry i s)"
  "registry i (s\<lparr>um_manager_nvme := d\<rparr>) = registry i s"
  "registry i (s\<lparr>log_of := lg\<rparr>) = registry i s"
  by (simp_all add: registry_def)

lemma registry_of [simp]:
  "registry iface_block s = um_blocks s"
  "registry iface_drive s = um_drives s"
  "registry iface_namespace s = um_namespaces s"
  "registry iface_nvme_controller s = um_nvme_controllers s"
  "registry iface_partition_table s = um_partition_tables s"
  "registry iface_partition s = um_partitions s"
  "registry iface_filesystem s = um_filesystems s"
  "registry iface_swapspace s = um_swapspaces s"
  by (simp_all add: registry_def)

text \<open>The handlers over an arbitrary stored interface.\<close>

definition registry_update ::
    "string \<Rightarrow> ((string \<times> udisks_object) list \<Rightarrow> (string \<times> udisks_object) list) \<Rightarrow> udisks_manager \<Rightarrow> udisks_manager" where
  "registry_update interface =
    (if interface = iface_block then um_blocks_update
     else if interface = iface_drive then um_drives_update
     else if interface = iface_namespace then um_namespaces_update
     else if interface = iface_nvme_controller then um_nvme_controllers_update
     else if interface = iface_partition_table then um_partition_tables_update
     else if interface = iface_partition then um_partitions_update
     else if interface = iface_filesystem then um_filesystems_update
     else if interface = iface_swapspace then um_swapspaces_update
     else (\<lambda>f s. s))"

lemma registry_update_of [simp]:
  "registry_update iface_block = um_blocks_update"
  "registry_update iface_drive = um_drives_update"
  "registry_update iface_namespace = um_namespaces_update"
  "registry_update iface_nvme_controller = um_nvme_controllers_update"
  "registry_update iface_partition_table = um_partition_tables_update"
  "registry_update iface_partition = um_partitions_update"
  "registry_update iface_filesystem = um_filesystems_update"
  "registry_update iface_swapspace = um_swapspaces_update"
  by (simp_all add: registry_update_def)

lemma stored [simp]:
  "iface_block \<in> set stored_interfaces"
  "iface_drive \<in> set stored_interfaces"
  "iface_namespace \<in> set stored_interfaces"
  "iface_nvme_controller \<in> set stored_interfaces"
  "iface_partition_table \<in> set stored_interfaces"
  "iface_partition \<in> set stored_interfaces"
  "iface_filesystem \<in> set stored_interfaces"
  "iface_swapspace \<in> set stored_interfaces"
  by (simp_all add: stored_interfaces_def)

lemma stored_cases:
  assumes "i \<in> set stored_interfaces"
  obtains "i = iface_block" | "i = iface_drive" | "i = iface_namespace" | "i = iface_nvme_controller" | "i = iface_partition_table" | "i = iface_partition" | "i = iface_filesystem" | "i = iface_swapspace"
  using assms by (simp only: stored_interfaces_def list.set insert_iff empty_iff simp_thms) (elim disjE; erule that)

lemma not_stored:
  assumes "i \<notin> set stored_interfaces"
  shows "registry i s = []" "registry_update i f s = s" "i \<noteq> iface_block" "i \<noteq> iface_drive" "i \<noteq> iface_namespace" "i \<noteq> iface_nvme_controller" "i \<noteq> iface_partition_table" "i \<noteq> iface_partition" "i \<noteq> iface_filesystem" "i \<noteq> iface_swapspace"
  using assms by (simp_all add: stored_interfaces_def registry_def registry_update_def)

lemma stored_not_manager:
  assumes "i \<in> set stored_interfaces"
  shows "i \<noteq> iface_manager" "i \<noteq> iface_manager_nvme"
  using assms by (auto simp: stored_interfaces_def)

lemma registry_registry_update [simp]:
  "registry j (registry_update i f s) = (if j = i \<and> i \<in> set stored_interfaces then f (registry i s) else registry j s)"
proof (cases "i \<in> set stored_interfaces")
  case True
  then show ?thesis by (cases rule: stored_cases) simp_all
next
  case False
  then show ?thesis by (simp add: not_stored(2))
qed

lemma manager_registry_update [simp]: "um_manager_nvme (registry_update i f s) = um_manager_nvme s"
  by (simp add: registry_update_def)

lemma add_interface_cases:
  "add_interface api getall path i s =
     (if i \<in> set stored_interfaces
        then add_object i (registry i) (registry_update i) (construct_object api i getall) path s
      else if i = iface_manager then Done s
      else if i = iface_manager_nvme then seq (UDisks2ManagerNvme api getall s)
              (\<lambda>s. Done (s\<lparr>um_manager_nvme := Some \<lparr>uo_interface = iface_manager_nvme, uo_path = path\<rparr>\<rparr>))
      else Done (log_msg Info ''not handled interface: {}'' [LStr i] s))"
proof (cases "i \<in> set stored_interfaces")
  case True
  then show ?thesis by (cases rule: stored_cases) (simp_all add: add_interface_def add_object_def object_defs)
next
  case False
  then show ?thesis by (simp add: add_interface_def not_stored(3-))
qed

lemma remove_interface_cases:
  "remove_interface path i s =
     (if i = iface_manager_nvme then s\<lparr>um_manager_nvme := None\<rparr>
      else registry_update i (AList.delete path) s)"
proof (cases "i \<in> set stored_interfaces")
  case True
  then show ?thesis by (cases rule: stored_cases) (simp_all add: remove_interface_def)
next
  case False
  then show ?thesis by (simp add: remove_interface_def not_stored(2-))
qed

text \<open>Constructing an object only logs.\<close>

lemma construct_object_logs:
  "\<exists>lg. state_of (construct_object api i getall (s :: udisks_manager)) = s\<lparr>log_of := lg\<rparr>"
proof (cases "getall i")
  case (Inr properties)
  then show ?thesis
    by (cases "changed_properties_text api i properties []")
      (auto simp: construct_object_def udisks_object_onPropertiesChanged_def print_changed_properties_def log_msg_def
        intro: exI [of _ "log_of s"])
qed (auto simp: construct_object_def intro: exI [of _ "log_of s"])

text \<open>One interface of an \<open>InterfacesAdded\<close>: all or nothing.\<close>

type_synonym manager_view = "(string \<times> string) set \<times> string option"

definition manager_view :: "udisks_manager \<Rightarrow> manager_view" where
  "manager_view s = (registered s, map_option uo_path (um_manager_nvme s))"

definition interface_added :: "string \<Rightarrow> string \<Rightarrow> manager_view \<Rightarrow> manager_view" where
  "interface_added path i = (\<lambda>(A, d). (A \<union> ({i} \<inter> set stored_interfaces) \<times> {path}, if i = iface_manager_nvme then Some path else d))"

lemma manager_view_log [simp]:
  "manager_view (s\<lparr>log_of := lg\<rparr>) = manager_view s" "manager_view (log_msg l fmt args s) = manager_view s"
  "udisks_inv (s\<lparr>log_of := lg\<rparr>) = udisks_inv s" "udisks_inv (log_msg l fmt args s) = udisks_inv s"
  by (simp_all add: manager_view_def registered_def udisks_inv_def log_msg_def)

lemma registered_update:
  "i \<in> set stored_interfaces \<Longrightarrow>
     registered (registry_update i (AList.update path d) s) = insert (i, path) (registered s)"
  by (auto simp: registered_def split: if_splits)

lemma not_contains_Nil [simp]: "\<not> contains [] k"
  by (simp add: contains_def)

lemma registered_delete:
  "registered (registry_update i (AList.delete path) s) = registered s - {(i, path)}"
  by (cases "i \<in> set stored_interfaces") (auto simp: registered_def not_stored split: if_splits)

lemma object_ok_update:
  "\<forall>x \<in> set m. object_ok i x \<Longrightarrow>
     \<forall>x \<in> set (AList.update path \<lparr>uo_interface = i, uo_path = path\<rparr> m). object_ok i x"
  by (induction m) (auto simp: object_ok_def)

lemma construct_object_view [simp]:
  "manager_view (state_of (construct_object api i getall s)) = manager_view s"
  "udisks_inv (state_of (construct_object api i getall s)) = udisks_inv s"
  using construct_object_logs [of api i getall s] by auto

lemma add_object_view:
  assumes "i \<in> set stored_interfaces"
  shows "manager_view (state_of (add_object i (registry i) (registry_update i) (construct_object api i getall) path s))
      = (if is_done (add_object i (registry i) (registry_update i) (construct_object api i getall) path s)
         then interface_added path i (manager_view s) else manager_view s)"
proof (cases "contains (registry i s) path")
  case True
  then have "(i, path) \<in> registered s" by (simp add: registered_def)
  with True assms show ?thesis
    by (auto simp: add_object_def manager_view_def interface_added_def stored_not_manager)
next
  case False
  have v: "manager_view (state_of (construct_object api i getall s)) = manager_view s" by simp
  show ?thesis
  proof (cases "construct_object api i getall s")
    case (Done t)
    with v have "registered t = registered s" "map_option uo_path (um_manager_nvme t) = map_option uo_path (um_manager_nvme s)"
      by (simp_all add: manager_view_def)
    with False Done assms show ?thesis
      by (simp add: add_object_def manager_view_def registered_update interface_added_def stored_not_manager)
  next
    case (Throw e t)
    with v False show ?thesis by (simp add: add_object_def)
  qed
qed

lemma add_interface_view:
  "manager_view (state_of (add_interface api getall path i s))
     = (if is_done (add_interface api getall path i s) then interface_added path i (manager_view s) else manager_view s)"
proof -
  consider "i \<in> set stored_interfaces" | "i = iface_manager" | "i = iface_manager_nvme"
    | "i \<notin> set stored_interfaces" "i \<noteq> iface_manager" "i \<noteq> iface_manager_nvme" by blast
  then show ?thesis
  proof cases
    case 1
    then show ?thesis by (simp add: add_interface_cases add_object_view)
  next
    case 2
    then show ?thesis by (cases "manager_view s") (simp add: add_interface_def interface_added_def stored_interfaces_def)
  next
    case 3
    have v: "manager_view (state_of (UDisks2ManagerNvme api getall s)) = manager_view s"
      by (simp add: UDisks2ManagerNvme_def)
    with 3 show ?thesis
      by (cases "UDisks2ManagerNvme api getall s")
        (auto simp: add_interface_def manager_view_def interface_added_def registered_def stored_interfaces_def)
  next
    case 4
    then show ?thesis by (cases "manager_view s") (simp add: add_interface_cases interface_added_def)
  qed
qed

lemma add_interface_inv:
  assumes "udisks_inv s"
  shows "udisks_inv (state_of (add_interface api getall path i s))"
proof -
  have "udisks_inv (state_of (add_object i (registry i) (registry_update i) (construct_object api i getall) path s))"
  proof (cases "construct_object api i getall s")
    case (Done t)
    with construct_object_view(2) [of api i getall s] assms have "udisks_inv t" by simp
    with Done assms show ?thesis
      by (simp add: add_object_def udisks_inv_def) (meson object_ok_update)
  next
    case (Throw e t)
    with construct_object_view(2) [of api i getall s] assms show ?thesis by (simp add: add_object_def)
  qed
  moreover have "udisks_inv (state_of (seq (UDisks2ManagerNvme api getall s) (\<lambda>s. Done (s\<lparr>um_manager_nvme := d\<rparr>))))" for d
    using construct_object_view(2) [of api iface_manager_nvme getall s] assms
    by (cases "UDisks2ManagerNvme api getall s") (simp_all add: UDisks2ManagerNvme_def udisks_inv_def)
  ultimately show ?thesis using assms by (simp add: add_interface_cases)
qed

text \<open>A whole \<open>InterfacesAdded\<close>: a prefix of its interfaces.\<close>

definition interfaces_added :: "string \<Rightarrow> string list \<Rightarrow> manager_view \<Rightarrow> manager_view" where
  "interfaces_added path is = (\<lambda>(A, d). (A \<union> (set is \<inter> set stored_interfaces) \<times> {path},
     if iface_manager_nvme \<in> set is then Some path else d))"

lemma fold_interface_added: "fold (interface_added path) is v = interfaces_added path is v"
  by (induction "is" arbitrary: v) (auto simp: interfaces_added_def interface_added_def split: prod.split)

lemma onInterfacesAdded_prefix:
  "\<exists>k \<le> length interfaces.
     manager_view (state_of (manager_onInterfacesAdded api getall path interfaces s))
       = interfaces_added path (map fst (take k interfaces)) (manager_view s)
     \<and> (is_done (manager_onInterfacesAdded api getall path interfaces s) \<longleftrightarrow> k = length interfaces)"
proof -
  let ?f = "\<lambda>(interface, properties) s.
       case append_properties max_nesting api properties (put endl ostringstream) of
         Throw e _ \<Rightarrow> Throw e s
       | Done os \<Rightarrow> add_interface api getall path interface
             (log_msg Info (''[{}] Add - {}'' @ endl @ ''{}'') [LStr path, LStr interface, LStr (os_buf os)] s)"
  have "manager_view (state_of (?f x s)) = (if is_done (?f x s) then (interface_added path \<circ> fst) x (manager_view s)
      else manager_view s)" for x s
    by (cases x) (simp add: add_interface_view split: outcome.split)
  from for_each_prefix [of manager_view ?f "interface_added path \<circ> fst", OF this, of interfaces s]
  show ?thesis
    unfolding manager_onInterfacesAdded_def by (simp add: fold_map [symmetric] fold_interface_added take_map)
qed

lemma onInterfacesAdded_inv:
  "udisks_inv s \<Longrightarrow> udisks_inv (state_of (manager_onInterfacesAdded api getall path interfaces s))"
  unfolding manager_onInterfacesAdded_def
  by (rule for_each_invariant) (auto simp: add_interface_inv split: outcome.split)

lemma registered_nvme:
  "registered (s\<lparr>um_manager_nvme := d\<rparr>) = registered s" "registered s - {(iface_manager_nvme, path)} = registered s"
proof -
  have "registry iface_manager_nvme s = []" by (simp add: registry_def)
  then show "registered s - {(iface_manager_nvme, path)} = registered s" by (auto simp: registered_def)
qed (simp add: registered_def)

lemma remove_interface_effect:
  "registered (remove_interface path i s) = registered s - {(i, path)}"
  "um_manager_nvme (remove_interface path i s) = (if i = iface_manager_nvme then None else um_manager_nvme s)"
  "udisks_inv s \<Longrightarrow> udisks_inv (remove_interface path i s)"
proof -
  have sub: "x \<in> set m" if "x \<in> set (AList.delete path m)" for x :: "string \<times> udisks_object" and m
    using that by (simp add: AList.delete_eq)
  show "registered (remove_interface path i s) = registered s - {(i, path)}"
    by (simp add: remove_interface_cases registered_delete registered_nvme)
  show "um_manager_nvme (remove_interface path i s) = (if i = iface_manager_nvme then None else um_manager_nvme s)"
    by (simp add: remove_interface_cases)
  assume "udisks_inv s"
  then show "udisks_inv (remove_interface path i s)"
    by (simp add: remove_interface_cases udisks_inv_def) (meson sub)
qed

lemma onInterfacesRemoved_effect:
  "registered (manager_onInterfacesRemoved path interfaces s) = registered s - set interfaces \<times> {path}
   \<and> um_manager_nvme (manager_onInterfacesRemoved path interfaces s)
       = (if iface_manager_nvme \<in> set interfaces then None else um_manager_nvme s)
   \<and> (udisks_inv s \<longrightarrow> udisks_inv (manager_onInterfacesRemoved path interfaces s))"
proof (induction interfaces arbitrary: s)
  case Nil
  then show ?case by (simp add: manager_onInterfacesRemoved_def)
next
  case (Cons i interfaces)
  let ?s = "log_msg Info ''[{}] Remove - {}'' [LStr path, LStr i] s"
  have log: "registered ?s = registered s" "um_manager_nvme ?s = um_manager_nvme s"
    by (simp_all add: registered_def log_msg_def)
  have "manager_onInterfacesRemoved path (i # interfaces) s
      = manager_onInterfacesRemoved path interfaces (remove_interface path i ?s)"
    by (simp add: manager_onInterfacesRemoved_def)
  with Cons.IH [of "remove_interface path i ?s"] show ?case
    by (auto simp: remove_interface_effect log)
qed

text \<open>The steps against the announcements.\<close>

lemma registered_stored: "registered s \<subseteq> set stored_interfaces \<times> UNIV"
  by (auto simp: registered_def) (metis not_stored(1) not_contains_Nil)

lemma udisks_object_properties_view:
  "manager_view (state_of (udisks_object_onPropertiesChanged api i changed invalidated s)) = manager_view s"
  "udisks_inv (state_of (udisks_object_onPropertiesChanged api i changed invalidated s)) = udisks_inv s"
  by (simp_all add: udisks_object_onPropertiesChanged_def print_changed_properties_def split: outcome.split)

lemma udisks_step_inv: "udisks_inv s \<Longrightarrow> udisks_inv (state_of (udisks_step api e s))"
  using onInterfacesRemoved_effect
  by (cases e) (auto simp: onInterfacesAdded_inv udisks_object_properties_view udisks_manager_onPropertiesChanged_def)

lemma held_view: "held s = fst (manager_view s) \<union>
    (case snd (manager_view s) of None \<Rightarrow> {} | Some p \<Rightarrow> {(iface_manager_nvme, p)})"
  by (simp add: held_def manager_view_def split: option.split)

lemma udisks_step_held: "held (state_of (udisks_step api e s)) \<subseteq> udisks_announced all_interfaces e (held s)"
proof (cases e)
  case (UM_Added getall path interfaces)
  obtain k where "manager_view (state_of (udisks_step api e s))
      = interfaces_added path (map fst (take k interfaces)) (manager_view s)"
    using onInterfacesAdded_prefix UM_Added by fastforce
  moreover have "set (map fst (take k interfaces)) \<subseteq> fst ` set interfaces"
    by (auto dest: in_set_takeD)
  ultimately show ?thesis
    using UM_Added by (auto simp: held_view interfaces_added_def split: prod.split option.split)
next
  case (UM_Removed path interfaces)
  have "(i, p) \<in> registered s \<Longrightarrow> i \<noteq> iface_manager_nvme" for i p
    using registered_stored [of s] stored_not_manager(2) by blast
  with UM_Removed onInterfacesRemoved_effect [of path interfaces s] show ?thesis
    by (auto simp: held_def split: option.splits if_splits)
next
  case (UM_Object_Properties i changed invalidated)
  with udisks_object_properties_view(1) [of api i changed invalidated s] show ?thesis by (simp add: held_view)
qed (simp add: udisks_manager_onPropertiesChanged_def)

lemma udisks_step_registered:
  "registered (state_of (udisks_step api e s)) \<subseteq> udisks_announced (set stored_interfaces) e (registered s)
   \<and> (is_done (udisks_step api e s) \<longrightarrow>
        registered (state_of (udisks_step api e s)) = udisks_announced (set stored_interfaces) e (registered s))"
proof (cases e)
  case (UM_Added getall path interfaces)
  obtain k where k: "manager_view (state_of (udisks_step api e s))
      = interfaces_added path (map fst (take k interfaces)) (manager_view s)"
    "is_done (udisks_step api e s) \<longleftrightarrow> k = length interfaces"
    using onInterfacesAdded_prefix UM_Added by fastforce
  then have "registered (state_of (udisks_step api e s))
      = registered s \<union> (fst ` set (take k interfaces) \<inter> set stored_interfaces) \<times> {path}"
    by (simp add: manager_view_def interfaces_added_def)
  moreover have "fst ` set (take k interfaces) \<subseteq> fst ` set interfaces"
    by (auto dest: in_set_takeD)
  ultimately show ?thesis using UM_Added k(2) by auto
next
  case (UM_Removed path interfaces)
  have "(i, p) \<in> registered s \<Longrightarrow> i \<noteq> iface_manager_nvme" for i p
    using registered_stored [of s] stored_not_manager(2) by blast
  with UM_Removed onInterfacesRemoved_effect [of path interfaces s] show ?thesis by auto
next
  case (UM_Object_Properties i changed invalidated)
  with udisks_object_properties_view(1) [of api i changed invalidated s] show ?thesis by (simp add: manager_view_def)
qed (simp add: udisks_manager_onPropertiesChanged_def)

lemma udisks_announced_mono: "A \<subseteq> B \<Longrightarrow> udisks_announced tracked e A \<subseteq> udisks_announced tracked e B"
  by (cases e) auto

interpretation held_bound: announced_bound "udisks_step api" held "udisks_announced all_interfaces"
  by unfold_locales (rule udisks_announced_mono, assumption, rule udisks_step_held)

interpretation registered_exact: announced_exact "udisks_step api" registered "udisks_announced (set stored_interfaces)"
  by unfold_locales (rule udisks_announced_mono, assumption, rule udisks_step_registered [THEN conjunct1],
      erule udisks_step_registered [THEN conjunct2, THEN mp])

text \<open>
  The NVMe manager has one slot: the last announcement wins, and a removal empties it, whatever the
  path.
\<close>

definition nvme_slot :: "udisks_manager \<Rightarrow> string option" where
  "nvme_slot s = map_option uo_path (um_manager_nvme s)"

fun nvme_announced :: "'v udisks_event \<Rightarrow> string option \<Rightarrow> string option" where
  "nvme_announced (UM_Added getall path interfaces) slot =
     (if ''org.freedesktop.UDisks2.Manager.NVMe'' \<in> fst ` set interfaces then Some path else slot)"
| "nvme_announced (UM_Removed path interfaces) slot =
     (if ''org.freedesktop.UDisks2.Manager.NVMe'' \<in> set interfaces then None else slot)"
| "nvme_announced _ slot = slot"

lemma udisks_step_nvme:
  "is_done (udisks_step api e s) \<Longrightarrow> nvme_slot (state_of (udisks_step api e s)) = nvme_announced e (nvme_slot s)"
proof (cases e)
  case (UM_Added getall path interfaces)
  assume "is_done (udisks_step api e s)"
  with UM_Added onInterfacesAdded_prefix [of interfaces api getall path s]
  show ?thesis by (auto simp: nvme_slot_def manager_view_def interfaces_added_def)
next
  case (UM_Removed path interfaces)
  with onInterfacesRemoved_effect [of path interfaces s]
  show ?thesis by (simp add: nvme_slot_def)
next
  case (UM_Object_Properties i changed invalidated)
  with udisks_object_properties_view(1) [of api i changed invalidated s]
  show ?thesis by (simp add: nvme_slot_def manager_view_def)
qed (simp add: nvme_slot_def udisks_manager_onPropertiesChanged_def)

interpretation nvme_complete: announced_complete "udisks_step api" nvme_slot nvme_announced
  by unfold_locales (rule udisks_step_nvme)

lemma UDisks2Manager_events:
  assumes "UDisks2Manager api (Inr found) lg = Done m"
  shows "run_events (udisks_step api) (found_events found @ events) (udisks_manager_new lg)
      = run_events (udisks_step api) events m"
    and "all_done (udisks_step api) (found_events found @ events) (udisks_manager_new lg)
      = all_done (udisks_step api) events m"
proof -
  have "run_events (udisks_step api) (found_events found) (udisks_manager_new lg) = m
      \<and> all_done (udisks_step api) (found_events found) (udisks_manager_new lg)"
    unfolding found_events_def
    by (rule for_each_events [where f = "\<lambda>(object, interfaces, getall). manager_onInterfacesAdded api getall object interfaces"])
      (use assms in \<open>auto simp: UDisks2Manager_def\<close>)
  then show "run_events (udisks_step api) (found_events found @ events) (udisks_manager_new lg)
      = run_events (udisks_step api) events m"
    "all_done (udisks_step api) (found_events found @ events) (udisks_manager_new lg)
      = all_done (udisks_step api) events m"
    by (simp_all add: run_events_append all_done_append)
qed

lemma udisks_manager_new_empty:
  "registered (udisks_manager_new lg) = {}" "held (udisks_manager_new lg) = {}" "udisks_inv (udisks_manager_new lg)"
  "nvme_slot (udisks_manager_new lg) = None"
  by (simp_all add: registered_def held_def udisks_inv_def registry_def udisks_manager_new_def nvme_slot_def)

section \<open>Properties\<close>

text \<open>
  C38: Whatever the object manager of UDisks2 announces to a constructed client, the objects the
  client holds were announced and not removed since, each under its own path and interface, and
  they are all of those as long as no handler threw: in the eight registries every path announced
  and not removed since, and in the slot of the NVMe manager the path announced last, unless its
  interface was removed, from whatever path, after that.
\<close>

theorem udisks_registries_refine_announcements:
  assumes "UDisks2Manager api (Inr found) lg = Done m"
  shows "held (run_events (udisks_step api) events m)
        \<subseteq> fold (udisks_announced all_interfaces) (found_events found @ events) {}
    \<and> udisks_inv (run_events (udisks_step api) events m)
    \<and> (all_done (udisks_step api) events m \<longrightarrow>
        registered (run_events (udisks_step api) events m)
          = fold (udisks_announced (set stored_interfaces)) (found_events found @ events) {} \<and>
        map_option uo_path (um_manager_nvme (run_events (udisks_step api) events m))
          = fold nvme_announced (found_events found @ events) None)"
  unfolding UDisks2Manager_events [OF assms, symmetric]
  using held_bound.run_bound [of "udisks_manager_new lg" "{}" api]
    run_events_invariant [of udisks_inv "udisks_step api", OF udisks_step_inv udisks_manager_new_empty(3)]
    registered_exact.run_exact [of api _ "udisks_manager_new lg"]
    nvme_complete.run_exact [of api _ "udisks_manager_new lg"]
  by (simp add: udisks_manager_new_empty nvme_slot_def [symmetric] del: fold_append)

text \<open>A disk that is there at the start, a drive that comes, the disk that goes.\<close>

definition sample_found :: "(string \<times> (string \<times> sample props) list \<times> (string \<Rightarrow> exn + sample props)) list" where
  "sample_found = [(''/d'', [(iface_block, [])], \<lambda>_. Inr [])]"

definition sample_udisks_events :: "sample udisks_event list" where
  "sample_udisks_events =
     [UM_Added (\<lambda>_. Inr []) ''/e'' [(iface_drive, []), (iface_manager, [])], UM_Removed ''/d'' [iface_block]]"

theorem udisks_registries_refine_announcements_witness:
  "\<exists>m. UDisks2Manager sample_api (Inr sample_found) [] = Done m
     \<and> registered (run_events (udisks_step sample_api) sample_udisks_events m) = {(iface_drive, ''/e'')}"
proof -
  obtain m where m: "UDisks2Manager sample_api (Inr sample_found) [] = Done m"
      "all_done (udisks_step sample_api) sample_udisks_events m"
    by (simp add: UDisks2Manager_def sample_found_def sample_udisks_events_def manager_onInterfacesAdded_def
      append_properties_def add_interface_def add_object_def object_defs construct_object_def
      udisks_object_onPropertiesChanged_def print_changed_properties_def changed_properties_text_def
      udisks_manager_new_def log_msg_def)
  have "fold (udisks_announced (set stored_interfaces)) (found_events sample_found @ sample_udisks_events) {}
      = {(iface_drive, ''/e'')}"
    by (auto simp: found_events_def sample_found_def sample_udisks_events_def stored_interfaces_def)
  with udisks_registries_refine_announcements [OF m(1)] m(2) have
    "registered (run_events (udisks_step sample_api) sample_udisks_events m) = {(iface_drive, ''/e'')}"
    by (metis (no_types, lifting))
  with m(1) show ?thesis by blast
qed

end
