(* ===== verification/Programs.thy ===== *)
theory Programs
  imports Event_Loop Logging
begin

text \<open>
  The \<open>main\<close> functions of the programs that run an \<open>EventLoop\<close> with a \<open>SignalSource\<close>:
  \<open>src/*/main.cc\<close>, \<open>src/bluez/*/main.cc\<close> and \<open>main\<close> of \<open>src/udisks2/udisks2_monitor_daemon.cc\<close>. They have one
  shape and are one model with the differences in a record. The parts keep their own logs: the
  loop, the signal source, \<open>spdlog\<close> and the client. What the kernel and the bus answer is an
  argument, and so are the outcome of the constructor of the client, of a type \<open>'c\<close>, and the rounds
  of the loop, in which the handlers of the client run as callbacks of the bus.
\<close>

section \<open>Programs\<close>

text \<open>
  \<open>pg_logging\<close>: the name given to \<open>initializeLogging\<close>; \<open>pg_flush\<close>: \<open>set_level(debug)\<close> and the interval of
  \<open>flush_every\<close>; \<open>pg_source\<close>: the client is a source of the loop; \<open>pg_fatal\<close>: one handler for every
  exception.
\<close>

record program =
  pg_opening :: "string list"
  pg_logging :: "string option"
  pg_flush :: "nat option"
  pg_source :: bool
  pg_banner :: "string list"
  pg_fatal :: bool

definition plain_program :: "string \<Rightarrow> program" where
  "plain_program banner = \<lparr>pg_opening = [], pg_logging = None, pg_flush = None, pg_source = False,
     pg_banner = [banner], pg_fatal = False\<rparr>"

definition bluez_main :: program where
  "bluez_main = (plain_program ''BlueZ client running - Press Ctrl+C to exit'')\<lparr>pg_logging := Some ''bluez_client''\<rparr>"

definition geoclue2_main :: program where
  "geoclue2_main = plain_program ''Geoclue2 monitor daemon running - Press Ctrl+C to exit''"

definition login1_main :: program where
  "login1_main = plain_program ''Login1 client running - Press Ctrl+C to exit''"

definition network1_main :: program where
  "network1_main = plain_program ''network1 monitor daemon running - Press Ctrl+C to exit''"

definition networkmanager_main :: program where
  "networkmanager_main = plain_program ''NetworkManager monitor daemon running - Press Ctrl+C to exit''"

definition resolve1_main :: program where
  "resolve1_main = plain_program ''Resolved client running - Press Ctrl+C to exit''"

definition systemd1_main :: program where
  "systemd1_main = plain_program ''Systemd1 monitor daemon running - Press Ctrl+C to exit''"

definition udisks2_main :: program where
  "udisks2_main = plain_program ''UDisks2 client running - Press Ctrl+C to exit''"

definition upower_main :: program where
  "upower_main = plain_program ''UPower monitor daemon running - Press Ctrl+C to exit''"

definition wpa_supplicant_main :: program where
  "wpa_supplicant_main = plain_program ''wpa_supplicant client running - Press Ctrl+C to exit''"

definition dual_sense_main :: program where
  "dual_sense_main = (plain_program ''PS5 DualSense client running - Press Ctrl+C to exit'')
     \<lparr>pg_flush := Some 5, pg_source := True\<rparr>"

definition horipad_main :: program where
  "horipad_main = (plain_program ''HoriPad Steam client running - Press Ctrl+C to exit'')
     \<lparr>pg_flush := Some 5, pg_source := True\<rparr>"

definition xbox_main :: program where
  "xbox_main = (plain_program ''Xbox controller client running - Press Ctrl+C to exit'')\<lparr>pg_source := True\<rparr>"

definition monitor_daemon_main :: program where
  "monitor_daemon_main = \<lparr>pg_opening = [''Starting UDisks2 Removable Device Monitor Daemon'',
       ''This daemon monitors for removable device insertions'', ''Press Ctrl+C to stop...'' @ endl],
     pg_logging = None, pg_flush = None, pg_source = False, pg_banner = [], pg_fatal = True\<rparr>"

section \<open>State and inputs\<close>

definition SIGINT :: int where "SIGINT = 2"
definition SIGTERM :: int where "SIGTERM = 15"

definition default_signals :: "int list" where
  "default_signals = [SIGINT, SIGTERM]"

text \<open>The addresses of the two sources of \<open>main\<close>.\<close>

definition signals_source :: source where "signals_source = 0"
definition client_source :: source where "client_source = 1"

datatype exit = Running | Exited int

text \<open>\<open>ps_threads\<close>: for each thread the program started, the signals it blocks: those its creator blocked.\<close>

record 'c program_state = logged +
  ps_spdlog :: log_system
  ps_loop :: event_loop
  ps_signals :: "signal_source option"
  ps_blocked :: "int set"
  ps_threads :: "int set list"
  ps_client :: "'c option"
  ps_exit :: exit

datatype prepared = Ready | Refused string | Prepare_Throws exn

text \<open>
  \<open>mi_client\<close>: the calls of the constructor of the client on the loop, and its outcome. \<open>mi_prepare\<close>:
  what \<open>main\<close> does with the client before the loop (GeoClue2 only). A round comes with the signals
  pending at the signalfd and the result of the wake-up write of \<open>stop\<close>.
\<close>

record 'c main_in =
  mi_spdlog :: spdlog_api
  mi_env :: environment
  mi_start :: log_system
  mi_blocked :: "int set"
  mi_eventfd :: "int + unique_fd"
  mi_block_err :: "int option"
  mi_signalfd :: "int + unique_fd"
  mi_add_signals :: write_result
  mi_connection :: "exn option"
  mi_client :: "call list \<times> 'c outcome"
  mi_add_client :: write_result
  mi_prepare :: "'c \<Rightarrow> prepared"
  mi_rounds :: "(round_in \<times> int list \<times> write_result) list"

section \<open>\<open>main\<close>\<close>

definition main_opening :: "program \<Rightarrow> 'c main_in \<Rightarrow> 'c program_state" where
  "main_opening pg i =
     (let s = \<lparr>log_of = [],
        ps_spdlog = (case pg_logging pg of None \<Rightarrow> mi_start i
                     | Some name \<Rightarrow> initializeLogging (mi_spdlog i) (mi_env i) name (mi_start i)),
        ps_loop = event_loop_new (mi_eventfd i), ps_signals = None, ps_blocked = mi_blocked i, ps_threads = [],
        ps_client = None, ps_exit = Running\<rparr>
      in fold (\<lambda>text. log_msg Info text []) (pg_opening pg) s)"

text \<open>\<open>SignalSource signals(loop); loop.add(&signals);\<close>\<close>

definition add_signals :: "'c main_in \<Rightarrow> 'c program_state \<Rightarrow> 'c program_state" where
  "add_signals i s =
     (let signals = signal_source_new default_signals (mi_block_err i) (mi_signalfd i) (ps_blocked s)
      in s\<lparr>ps_signals := Some signals, ps_blocked := ss_blocked signals,
           ps_loop := el_add signals_source (mi_add_signals i) (ps_loop s)\<rparr>)"

text \<open>\<open>flush_every\<close> starts a thread.\<close>

definition configure_spdlog :: "program \<Rightarrow> 'c program_state \<Rightarrow> 'c program_state" where
  "configure_spdlog pg s =
     (case pg_flush pg of
        None \<Rightarrow> s
      | Some interval \<Rightarrow>
          s\<lparr>ps_spdlog := setFlushInterval interval (setLevelDebug (ps_spdlog s)),
            ps_threads := ps_threads s @ [ps_blocked s]\<rparr>)"

definition connect :: "'c main_in \<Rightarrow> 'c program_state \<Rightarrow> 'c program_state outcome" where
  "connect i s = (case mi_connection i of None \<Rightarrow> Done s | Some e \<Rightarrow> Throw e s)"

definition construct_client :: "program \<Rightarrow> 'c main_in \<Rightarrow> 'c program_state \<Rightarrow> 'c program_state outcome" where
  "construct_client pg i s =
     (let (calls, r) = mi_client i;
          s = s\<lparr>ps_loop := el_calls calls (ps_loop s)\<rparr>
      in case r of
           Throw e _ \<Rightarrow> Throw e s
         | Done c \<Rightarrow>
             Done (let s = s\<lparr>ps_client := Some c\<rparr>
                   in if pg_source pg then s\<lparr>ps_loop := el_add client_source (mi_add_client i) (ps_loop s)\<rparr> else s))"

text \<open>A round of the loop with the signal source as its source: its fd, its events, its dispatch.\<close>

definition with_signals :: "signal_source \<Rightarrow> round_in \<times> int list \<times> write_result \<Rightarrow> round_in" where
  "with_signals signals = (\<lambda>(r, pending, w).
     r\<lparr>ri_src_fd := (ri_src_fd r)(signals_source := ufd_get (ss_fd signals)),
       ri_src_events := (ri_src_events r)(signals_source := POLLIN),
       ri_dispatch := (ri_dispatch r)(signals_source := (\<lambda>_. (snd (signal_source_dispatch pending w signals), None)))\<rparr>)"

definition run_program :: "program \<Rightarrow> 'c main_in \<Rightarrow> 'c program_state \<Rightarrow> 'c program_state outcome" where
  "run_program pg i s =
     (let s = fold (\<lambda>text. log_msg Info text []) (pg_banner pg) s;
          (r, l) = el_run (case ps_signals s of None \<Rightarrow> map fst (mi_rounds i)
                           | Some signals \<Rightarrow> map (with_signals signals) (mi_rounds i)) (ps_loop s);
          s = s\<lparr>ps_loop := l\<rparr>
      in case r of
           Returned rc \<Rightarrow> Done ((log_msg Info ''Shutting down...'' [] s)\<lparr>ps_exit := Exited rc\<rparr>)
         | Threw e \<Rightarrow> Throw e s
         | Polling \<Rightarrow> Done s)"

definition prepare_client :: "program \<Rightarrow> 'c main_in \<Rightarrow> 'c program_state \<Rightarrow> 'c program_state outcome" where
  "prepare_client pg i s =
     (case map_option (mi_prepare i) (ps_client s) of
        Some (Refused text) \<Rightarrow> Done ((log_msg Err text [] s)\<lparr>ps_exit := Exited 1\<rparr>)
      | Some (Prepare_Throws e) \<Rightarrow> Throw e s
      | _ \<Rightarrow> run_program pg i s)"

definition main_caught :: "program \<Rightarrow> exn \<Rightarrow> 'c program_state \<Rightarrow> 'c program_state" where
  "main_caught pg e s =
     ((if pg_fatal pg then log_msg Err ''Fatal error: {}'' [LStr (exn_what e)] s
       else case e of
         DBus_Error name msg \<Rightarrow> log_msg Err ''D-Bus error: {} - {}'' [LStr name, LStr msg] s
       | Std_Exception what \<Rightarrow> log_msg Err ''Exception: {}'' [LStr what] s))\<lparr>ps_exit := Exited 1\<rparr>"

definition main_start :: "program \<Rightarrow> 'c main_in \<Rightarrow> 'c program_state outcome" where
  "main_start pg i =
     seq (connect i (configure_spdlog pg (add_signals i (main_opening pg i)))) (construct_client pg i)"

definition main_body :: "program \<Rightarrow> 'c main_in \<Rightarrow> 'c program_state outcome" where
  "main_body pg i = seq (main_start pg i) (prepare_client pg i)"

definition program_main :: "program \<Rightarrow> 'c main_in \<Rightarrow> 'c program_state" where
  "program_main pg i = state_of (catch_std (main_body pg i) (main_caught pg))"

text \<open>
  What \<open>main\<close> of GeoClue2 does with the manager: \<open>client\<close> is the proxy the manager obtained, \<open>desktop_id\<close>
  and \<open>start\<close> what the two calls threw.
\<close>

definition geoclue2_prepare :: "('m \<Rightarrow> 'p option) \<Rightarrow> exn option \<Rightarrow> exn option \<Rightarrow> 'm \<Rightarrow> prepared" where
  "geoclue2_prepare client desktop_id start m =
     (case client m of
        None \<Rightarrow> Refused ''GeoClue2 did not return a client object; cannot continue''
      | Some _ \<Rightarrow>
          (case desktop_id of
             Some e \<Rightarrow> Prepare_Throws e
           | None \<Rightarrow> (case start of Some e \<Rightarrow> Prepare_Throws e | None \<Rightarrow> Ready)))"

section \<open>How a run of the loop ends\<close>

fun no_stop :: "call \<Rightarrow> bool" where
  "no_stop (Call_Stop _ _) = False"
| "no_stop _ = True"

text \<open>Of all the code of these programs only \<open>SignalSource::dispatch\<close> calls \<open>stop\<close>.\<close>

definition round_stops_not :: "round_in \<Rightarrow> bool" where
  "round_stops_not r \<longleftrightarrow> ri_stops1 r = [] \<and> ri_stops2 r = [] \<and> list_all no_stop (ri_bus_calls r)
     \<and> (\<forall>p x. p \<noteq> signals_source \<longrightarrow> list_all no_stop (fst (ri_dispatch r p x)))"

definition only_signals_stop :: "'c main_in \<Rightarrow> bool" where
  "only_signals_stop i \<longleftrightarrow> list_all (\<lambda>(r, _, _). round_stops_not r) (mi_rounds i)"

definition signalled :: "event_loop \<Rightarrow> bool" where
  "signalled s \<longleftrightarrow> (\<exists>x. Ev_Dispatch signals_source x \<in> set (el_trace s))"

definition errored :: "'a logged_scheme \<Rightarrow> bool" where
  "errored s \<longleftrightarrow> (\<exists>fmt args. Log Err fmt args \<in> set (log_of s))"

definition loop_ok :: "event_loop \<Rightarrow> bool" where
  "loop_ok s \<longleftrightarrow> el_running s \<or> el_exit_code s = 0 \<and> signalled s"

lemma last_stop_no_stop: "list_all no_stop cs \<Longrightarrow> last_stop cs = None"
  by (induction cs) (auto split: call.split)

lemma signalled_steps: "el_steps s t \<Longrightarrow> signalled s \<Longrightarrow> signalled t"
  using el_trace_extends [of s t] by (auto simp: signalled_def)

lemma loop_ok_calls:
  assumes "list_all no_stop cs" "loop_ok s"
  shows "loop_ok (el_calls cs s)"
  using assms signalled_steps [OF el_steps_calls, of s cs]
  by (auto simp: loop_ok_def el_calls_stop_fields last_stop_no_stop)

lemma loop_ok_record [simp]: "loop_ok s \<Longrightarrow> loop_ok (record_event e s)"
  by (auto simp: loop_ok_def signalled_def)

lemma loop_ok_remove: "loop_ok s \<Longrightarrow> loop_ok (el_remove p w s)"
  using loop_ok_calls [of "[Call_Remove p w]" s] by simp

lemma loop_ok_dispatch_one:
  assumes "round_stops_not r" "loop_ok s"
  shows "loop_ok (state_of (dispatch_one (with_signals signals (r, pending, w)) prs s))"
proof (cases prs)
  case (Pair p x)
  show ?thesis
  proof (cases "p = signals_source")
    case True
    have "loop_ok (el_stop 0 w (record_event (Ev_Dispatch p x) s))"
      using True by (auto simp: loop_ok_def signalled_def el_stop_def)
    then show ?thesis using True assms(2)
      by (simp add: Pair dispatch_one_def with_signals_def signal_source_dispatch_def loop_ok_remove Let_def)
  next
    case False
    obtain calls ex where d: "ri_dispatch r p x = (calls, ex)" by fastforce
    with False assms(1) have "list_all no_stop calls" unfolding round_stops_not_def by (metis fst_conv)
    with assms(2) have "loop_ok (el_calls calls (record_event (Ev_Dispatch p x) s))" by (simp add: loop_ok_calls)
    with False d assms(2) show ?thesis
      by (auto simp: Pair dispatch_one_def with_signals_def loop_ok_remove Let_def split: option.split)
  qed
qed

lemma with_signals_fields [simp]:
  "ri_stops1 (with_signals signals (r, pending, w)) = ri_stops1 r"
  "ri_stops2 (with_signals signals (r, pending, w)) = ri_stops2 r"
  "ri_bus_calls (with_signals signals (r, pending, w)) = ri_bus_calls r"
  "ri_bus_exn (with_signals signals (r, pending, w)) = ri_bus_exn r"
  "ri_poll (with_signals signals (r, pending, w)) = ri_poll r"
  "dbus_ready (with_signals signals (r, pending, w)) n rvs = dbus_ready r n rvs"
  "with_revents (with_signals signals (r, pending, w)) rvs ps = with_revents r rvs ps"
  by (simp_all add: with_signals_def dbus_ready_def dbus_event_idx_def with_revents_def first_source_idx_def
      wake_idx_def cong: option.case_cong)

definition turn_ok :: "turn \<times> event_loop \<Rightarrow> bool" where
  "turn_ok = (\<lambda>(tn, t). case tn of Continue \<Rightarrow> loop_ok t
     | Break \<Rightarrow> \<not> el_running t \<and> loop_ok t \<or> el_exit_code t = 1 \<and> errored t
     | Raise e \<Rightarrow> True)"

lemma turn_ok_dispatch_all:
  assumes "round_stops_not r" "loop_ok s"
  shows "turn_ok (dispatch_all (with_signals signals (r, pending, w)) rvs s)"
proof -
  have "loop_ok (state_of (for_each (dispatch_one (with_signals signals (r, pending, w)))
      (with_revents (with_signals signals (r, pending, w)) rvs (el_sources s)) s))"
    by (rule for_each_invariant) (use assms loop_ok_dispatch_one in auto)
  then show ?thesis by (auto simp: dispatch_all_def turn_ok_def split: outcome.split)
qed

lemma turn_ok_drive_bus:
  assumes "round_stops_not r" "loop_ok s"
  shows "turn_ok (drive_bus (with_signals signals (r, pending, w)) s)"
  using assms loop_ok_calls [of "ri_bus_calls r" "record_event Ev_Bus s"]
  by (auto simp: drive_bus_def turn_ok_def round_stops_not_def errored_def Let_def split: option.split exn.split)

lemma turn_ok_once:
  assumes "round_stops_not r" "loop_ok s"
  shows "turn_ok (turn_once (with_signals signals (r, pending, w)) s)"
proof -
  let ?r = "with_signals signals (r, pending, w)"
  let ?a = "apply_pending s"
  let ?c = "record_event (Ev_Poll (el_sources ?a) (el_running ?a) (el_wakes ?a)) ?a"
  have st: "stops [] u = u" for u by (simp add: stops_def)
  have a: "loop_ok ?a" using assms(2) by (auto simp: loop_ok_def signalled_def)
  have c: "loop_ok ?c" using a by simp
  have d: "loop_ok (drain_wake ?r rvs ?c)" for rvs
    using c by (simp add: drain_wake_def loop_ok_def signalled_def)
  have ap: "turn_ok (after_poll ?r n rvs ?c)" for n rvs
  proof -
    obtain tn u where b: "drive_bus ?r (drain_wake ?r rvs ?c) = (tn, u)" by fastforce
    with turn_ok_drive_bus [OF assms(1) d, of signals pending w rvs] have "turn_ok (tn, u)" by simp
    with turn_ok_dispatch_all [OF assms(1) d] turn_ok_dispatch_all [OF assms(1), of u] b show ?thesis
      by (cases tn) (auto simp: after_poll_def Let_def turn_ok_def)
  qed
  show ?thesis
  proof (cases "el_running s")
    case True
    then show ?thesis using assms(1) ap c
      by (auto simp: turn_once_def poll_turn_def round_stops_not_def st Let_def turn_ok_def errored_def
          simp del: apply_pending_fields(9) split: poll_result.split)
  next
    case False
    then show ?thesis using assms(1) a by (simp add: turn_once_def round_stops_not_def st turn_ok_def)
  qed
qed

lemma run_loop_ends:
  assumes "list_all (\<lambda>(r, _, _). round_stops_not r) rounds" "loop_ok s"
    and "run_loop (map (with_signals signals) rounds) s = (Returned c, t)"
  shows "c = 0 \<and> signalled t \<or> c = 1 \<and> errored t"
  using assms
proof (induction rounds arbitrary: s)
  case Nil
  then show ?case by (auto simp: run_loop.simps loop_ok_def split: if_splits)
next
  case (Cons x rounds)
  obtain r pending w where x: "x = (r, pending, w)" by (cases x)
  obtain tn u where turn: "turn_once (with_signals signals x) s = (tn, u)" by fastforce
  have "turn_ok (tn, u)" using turn_ok_once [of r s signals pending w] Cons.prems turn x by simp
  with Cons turn show ?case
    by (cases tn) (auto simp: run_loop.simps [of "_ # _"] turn_ok_def loop_ok_def split: if_splits)
qed

lemma run_loop_append:
  "run_loop (pre @ rs) s = (case run_loop pre s of (Polling, t) \<Rightarrow> run_loop rs t | r \<Rightarrow> r)"
proof (induction pre arbitrary: s)
  case Nil
  then show ?case by (simp add: run_loop.simps [of rs s] run_loop.simps [of "[]" s])
next
  case (Cons r pre)
  obtain tn t where turn: "turn_once r s = (tn, t)" by fastforce
  with Cons.IH [of t] show ?case
    by (cases tn) (simp_all add: run_loop.simps [of "_ # _"])
qed

lemma run_loop_Polling: "run_loop rs s = (Polling, t) \<Longrightarrow> el_running t"
proof (induction rs arbitrary: s)
  case Nil
  then show ?case by (simp add: run_loop.simps split: if_splits)
next
  case (Cons r rs)
  then show ?case by (simp add: run_loop.simps [of "_ # _"] split: if_splits prod.splits turn.splits)
qed

section \<open>How \<open>main\<close> ends\<close>

lemma errored_log [simp]: "errored (log_msg Err fmt args s)"
  unfolding errored_def by (simp, blast)

lemma errored_exit [simp]:
  fixes s :: "'c program_state"
  shows "errored (s\<lparr>ps_exit := r\<rparr>) = errored s"
  by (simp add: errored_def)

lemma program_log_fields [simp]:
  fixes s :: "'c program_state"
  shows "ps_loop (s\<lparr>log_of := lg\<rparr>) = ps_loop s" "ps_spdlog (s\<lparr>log_of := lg\<rparr>) = ps_spdlog s"
  by (cases s; simp)+

lemma main_start_fields:
  assumes "main_start pg i = Done s"
  obtains signals c where "ps_signals s = Some signals" "ps_client s = Some c" "ps_exit s = Running"
proof -
  let ?s = "configure_spdlog pg (add_signals i (main_opening pg i))"
  have log: "ps_exit (fold (\<lambda>text. log_msg Info text []) texts u) = ps_exit u" for texts and u :: "'a program_state"
    by (induction texts arbitrary: u) (simp_all add: log_msg_def)
  have "\<exists>signals. ps_signals ?s = Some signals" "ps_exit ?s = Running"
    by (simp_all add: configure_spdlog_def add_signals_def main_opening_def Let_def log split: option.split)
  with assms that show ?thesis
    by (auto simp: main_start_def connect_def construct_client_def Let_def
        split: option.splits prod.splits outcome.splits if_splits)
qed

lemma main_start_rounds: "main_start pg (i\<lparr>mi_rounds := rounds\<rparr>) = main_start pg i"
proof -
  let ?i = "i\<lparr>mi_rounds := rounds\<rparr>"
  have "connect ?i = connect i" by (rule ext) (simp add: connect_def)
  moreover have "construct_client pg ?i = construct_client pg i" by (rule ext) (simp add: construct_client_def Let_def split: prod.split outcome.split)
  moreover have "add_signals ?i = add_signals i" by (rule ext) (simp add: add_signals_def)
  moreover have "main_opening pg ?i = main_opening pg i" by (simp add: main_opening_def split: option.split)
  ultimately show ?thesis by (simp add: main_start_def)
qed

lemma fold_log_fields:
  fixes s :: "'c program_state"
  shows "ps_loop (fold (\<lambda>text. log_msg Info text []) texts s) = ps_loop s"
  "ps_signals (fold (\<lambda>text. log_msg Info text []) texts s) = ps_signals s"
  "ps_exit (fold (\<lambda>text. log_msg Info text []) texts s) = ps_exit s"
  by (induction texts arbitrary: s) (simp_all add: log_msg_def)

lemma main_caught_errored: "errored (main_caught pg e s) \<and> ps_exit (main_caught pg e s) = Exited 1"
  by (cases e) (simp_all add: main_caught_def)

text \<open>
  C13: A program whose loop only the signal source stops exits with 0 only after the signal source
  was dispatched, and otherwise with 1 and an error in its log or in the log of its loop: no failure
  is silent, whether it comes from the bus, from a client, from \<open>poll\<close> or from a source.
\<close>

theorem main_exit_code_explained:
  assumes "only_signals_stop i"
  shows "case ps_exit (program_main pg i) of
           Running \<Rightarrow> True
         | Exited c \<Rightarrow> c = 0 \<and> signalled (ps_loop (program_main pg i))
             \<or> c = 1 \<and> (errored (program_main pg i) \<or> errored (ps_loop (program_main pg i)))"
proof (cases "main_body pg i")
  case (Throw e s)
  with main_caught_errored [of pg e s] show ?thesis by (simp add: program_main_def)
next
  case (Done s)
  then obtain u where start: "main_start pg i = Done u" and s: "prepare_client pg i u = Done s"
    by (cases "main_start pg i") (simp_all add: main_body_def)
  from start obtain signals c where u: "ps_signals u = Some signals" "ps_client u = Some c" "ps_exit u = Running"
    by (rule main_start_fields)
  have main: "program_main pg i = s" using Done by (simp add: program_main_def)
  show ?thesis
  proof (cases "mi_prepare i c")
    case (Refused msg)
    with s u have "errored s" "ps_exit s = Exited 1" by (auto simp: prepare_client_def)
    with main show ?thesis by simp
  next
    case (Prepare_Throws e)
    with s u show ?thesis by (simp add: prepare_client_def)
  next
    case Ready
    obtain r l where run: "run_loop (map (with_signals signals) (mi_rounds i)) (ps_loop u\<lparr>el_running := True\<rparr>) = (r, l)"
      by fastforce
    have "r = Returned c \<Longrightarrow> c = 0 \<and> signalled l \<or> c = 1 \<and> errored l" for c
      by (rule run_loop_ends [of "mi_rounds i" "ps_loop u\<lparr>el_running := True\<rparr>" signals])
        (use assms run in \<open>simp_all add: only_signals_stop_def loop_ok_def\<close>)
    with Ready s u main run show ?thesis
      by (cases r) (auto simp: prepare_client_def run_program_def el_run_def fold_log_fields Let_def log_msg_def)
  qed
qed

section \<open>Signals\<close>

lemma last_stop_source_calls:
  assumes "round_stops_not r"
  shows "last_stop (source_calls (with_signals signals (r, pending, w)) (p, x))
      = (if p = signals_source \<and> x \<noteq> 0 then Some 0 else None)"
proof (cases "p = signals_source")
  case True
  then show ?thesis by (simp add: source_calls_def with_signals_def signal_source_dispatch_def)
next
  case False
  with assms have "last_stop (fst (ri_dispatch r p x)) = None"
    by (simp add: round_stops_not_def last_stop_no_stop)
  with False show ?thesis by (simp add: source_calls_def with_signals_def last_stop_append)
qed

lemma last_stop_all_sources:
  assumes "round_stops_not r"
  shows "last_stop (concat (map (source_calls (with_signals signals (r, pending, w))) prs))
      = (if \<exists>x. x \<noteq> 0 \<and> (signals_source, x) \<in> set prs then Some 0 else None)"
proof (induction prs)
  case (Cons pr prs)
  obtain p x where "pr = (p, x)" by fastforce
  with Cons last_stop_source_calls [OF assms, of signals pending w p x] show ?case
    by (auto simp: last_stop_append)
qed simp

lemma last_stop_turn:
  assumes "round_stops_not r" "(signals_source, x) \<in> set (with_revents r rvs ps)" "x \<noteq> 0"
  shows "last_stop (turn_calls (with_signals signals (r, pending, w)) n rvs ps) = Some 0"
  using assms last_stop_all_sources [OF assms(1), of signals pending w "with_revents r rvs ps"]
  by (auto simp: turn_calls_def last_stop_append)

lemma program_main_running:
  assumes "ps_exit (program_main pg (i\<lparr>mi_rounds := pre\<rparr>)) = Running"
  obtains u signals c l where "main_start pg i = Done u" "ps_signals u = Some signals" "ps_client u = Some c"
    "mi_prepare i c = Ready"
    "run_loop (map (with_signals signals) pre) (ps_loop u\<lparr>el_running := True\<rparr>) = (Polling, l)"
    "ps_loop (program_main pg (i\<lparr>mi_rounds := pre\<rparr>)) = l" "ps_signals (program_main pg (i\<lparr>mi_rounds := pre\<rparr>)) = Some signals"
proof -
  let ?i = "i\<lparr>mi_rounds := pre\<rparr>"
  show ?thesis
  proof (cases "main_body pg ?i")
    case (Throw e s)
    with assms main_caught_errored [of pg e s] show ?thesis by (simp add: program_main_def)
  next
    case (Done s)
    then obtain u where start: "main_start pg ?i = Done u" and s: "prepare_client pg ?i u = Done s"
      by (cases "main_start pg ?i") (simp_all add: main_body_def)
    from start obtain signals c where u: "ps_signals u = Some signals" "ps_client u = Some c" "ps_exit u = Running"
      by (rule main_start_fields)
    have main: "program_main pg ?i = s" using Done by (simp add: program_main_def)
    obtain r l where run: "run_loop (map (with_signals signals) pre) (ps_loop u\<lparr>el_running := True\<rparr>) = (r, l)"
      by fastforce
    have "mi_prepare i c = Ready \<and> r = Polling \<and> ps_loop s = l \<and> ps_signals s = Some signals"
      using s u main assms run
      by (cases "mi_prepare i c"; cases r)
        (auto simp: prepare_client_def run_program_def el_run_def fold_log_fields Let_def log_msg_def)
    with that [of u signals c l] start u run main show ?thesis by (simp add: main_start_rounds)
  qed
qed

text \<open>
  C14: A signal ends the program: in whatever round of the loop the poll reports the signalfd, if nothing
  throws in that round the loop finishes it, polls no more, and \<open>main\<close> logs the shutdown and exits
  with 0.
\<close>

theorem signal_ends_program:
  assumes "only_signals_stop i" and "mi_rounds i = pre @ (r, pending, w) # rest"
    and s: "s = program_main pg (i\<lparr>mi_rounds := pre\<rparr>)" "ps_exit s = Running" "ps_signals s = Some signals"
    and "ri_poll r (build_pfds (with_signals signals (r, pending, w)) (apply_pending (ps_loop s))) = Poll_Ready n rvs"
    and "(signals_source, x) \<in> set (with_revents r rvs (el_sources (apply_pending (ps_loop s))))" "x \<noteq> 0"
    and "ri_bus_exn r = None" "\<And>p x. snd (ri_dispatch r p x) = None"
  shows "ps_exit (program_main pg i) = Exited 0
    \<and> last (log_of (program_main pg i)) = Log Info ''Shutting down...'' []
    \<and> length (filter is_poll (el_trace (ps_loop (program_main pg i)))) = Suc (length (filter is_poll (el_trace (ps_loop s))))"
proof -
  have "ps_exit (program_main pg (i\<lparr>mi_rounds := pre\<rparr>)) = Running" using s by simp
  then obtain u signals' c l where u: "main_start pg i = Done u" "ps_signals u = Some signals'" "ps_client u = Some c"
    "mi_prepare i c = Ready"
    "run_loop (map (with_signals signals') pre) (ps_loop u\<lparr>el_running := True\<rparr>) = (Polling, l)"
    "ps_loop s = l" "ps_signals s = Some signals'"
    unfolding s(1) by (rule program_main_running)
  have sg: "signals' = signals" using u(7) s(3) by simp
  have good: "round_stops_not r" using assms(1,2) by (auto simp: only_signals_stop_def)
  let ?r = "with_signals signals (r, pending, w)"
  have "el_running l" using u(5) by (rule run_loop_Polling)
  moreover have "snd (ri_dispatch ?r p x) = None" for p x using assms(10) by (simp add: with_signals_def)
  moreover have "ri_stops1 r = []" "ri_stops2 r = []" using good by (simp_all add: round_stops_not_def)
  ultimately obtain t where t: "turn_once ?r l = (Continue, t)"
    "el_running t = (last_stop (turn_calls ?r n rvs (el_sources (apply_pending l))) = None)"
    "el_exit_code t = (case last_stop (turn_calls ?r n rvs (el_sources (apply_pending l))) of
        None \<Rightarrow> el_exit_code l | Some c \<Rightarrow> c)"
    "length (filter is_poll (el_trace t)) = Suc (length (filter is_poll (el_trace l)))"
    using turn_once_calls [of l ?r n rvs] assms(6,9) u(6) by auto
  have "last_stop (turn_calls ?r n rvs (el_sources (apply_pending l))) = Some 0"
    using last_stop_turn [OF good] assms(7,8) u(6) by blast
  with t have stopped: "\<not> el_running t" "el_exit_code t = 0" by simp_all
  have "run_loop (map (with_signals signals) (mi_rounds i)) (ps_loop u\<lparr>el_running := True\<rparr>) = (Returned 0, t)"
    using u(5) t(1) stopped \<open>el_running l\<close>
    by (simp add: assms(2) run_loop_append sg run_loop.simps [of "_ # _" l] run_loop.simps [of _ t])
  then have "prepare_client pg i u = Done ((log_msg Info ''Shutting down...'' []
      (fold (\<lambda>text. log_msg Info text []) (pg_banner pg) u\<lparr>ps_loop := t\<rparr>))\<lparr>ps_exit := Exited 0\<rparr>)"
    using u(2-4) by (simp add: prepare_client_def run_program_def el_run_def fold_log_fields sg)
  then have "program_main pg i = (log_msg Info ''Shutting down...'' []
      (fold (\<lambda>text. log_msg Info text []) (pg_banner pg) u\<lparr>ps_loop := t\<rparr>))\<lparr>ps_exit := Exited 0\<rparr>"
    using u(1) by (simp add: program_main_def main_body_def)
  with t(4) u(6) show ?thesis by (simp add: log_msg_def)
qed

text \<open>Two rounds of a controller program: a quiet one, and one in which SIGINT is pending.\<close>

definition interrupt_round :: round_in where
  "interrupt_round = quiet_round\<lparr>ri_poll := (\<lambda>_. Poll_Ready 1 [0, 0, 0, POLLIN])\<rparr>"

definition sample_in :: "unit main_in" where
  "sample_in = \<lparr>mi_spdlog = sample_spdlog, mi_env = sample_env, mi_start = sample_system, mi_blocked = {},
     mi_eventfd = Inr (ufd_own 4), mi_block_err = None, mi_signalfd = Inr (ufd_own 6), mi_add_signals = Written,
     mi_connection = None, mi_client = ([], Done ()), mi_add_client = Written, mi_prepare = (\<lambda>_. Ready),
     mi_rounds = [(quiet_round, [], Written), (interrupt_round, [SIGINT], Written)]\<rparr>"

lemma sample_in_signals: "only_signals_stop sample_in"
  by (simp add: only_signals_stop_def sample_in_def interrupt_round_def quiet_round_def round_stops_not_def)

theorem main_exit_code_explained_witness:
  "ps_exit (program_main dual_sense_main sample_in) = Exited 0
   \<and> signalled (ps_loop (program_main dual_sense_main sample_in))"
proof -
  have "ps_exit (program_main dual_sense_main sample_in) = Exited 0" by code_simp
  with main_exit_code_explained [OF sample_in_signals, of dual_sense_main] show ?thesis by simp
qed

theorem signal_ends_program_witness:
  "ps_exit (program_main dual_sense_main sample_in) = Exited 0
   \<and> last (log_of (program_main dual_sense_main sample_in)) = Log Info ''Shutting down...'' []"
proof -
  let ?s = "program_main dual_sense_main (sample_in\<lparr>mi_rounds := [(quiet_round, [], Written)]\<rparr>)"
  let ?signals = "the (ps_signals ?s)"
  have run: "ps_exit ?s = Running" by code_simp
  have "ps_exit (program_main dual_sense_main sample_in) = Exited 0
    \<and> last (log_of (program_main dual_sense_main sample_in)) = Log Info ''Shutting down...'' []
    \<and> length (filter is_poll (el_trace (ps_loop (program_main dual_sense_main sample_in))))
        = Suc (length (filter is_poll (el_trace (ps_loop ?s))))"
  proof (rule signal_ends_program [OF sample_in_signals _ refl run, where signals = ?signals and r = interrupt_round
      and rest = "[]" and pending = "[SIGINT]" and w = Written and n = 1 and rvs = "[0, 0, 0, POLLIN]" and x = POLLIN])
    show "ps_signals ?s = Some ?signals" by code_simp
    show "(signals_source, POLLIN) \<in> set (with_revents interrupt_round [0, 0, 0, POLLIN] (el_sources (apply_pending (ps_loop ?s))))"
      by code_simp
  qed (simp_all add: sample_in_def interrupt_round_def quiet_round_def POLLIN_def)
  then show ?thesis by blast
qed

section \<open>Threads\<close>

text \<open>
  The comment in every \<open>main\<close>: \<open>SignalSource\<close> comes before any thread starts, so that a thread cannot
  take SIGINT or SIGTERM with its default disposition.
\<close>

lemma program_threads:
  "ps_threads (program_main pg i)
     = (case pg_flush pg of None \<Rightarrow> []
        | Some _ \<Rightarrow> [ss_blocked (signal_source_new default_signals (mi_block_err i) (mi_signalfd i) (mi_blocked i))])"
proof -
  have log: "ps_threads (fold (\<lambda>text. log_msg Info text []) texts u) = ps_threads u"
    "ps_blocked (fold (\<lambda>text. log_msg Info text []) texts u) = ps_blocked u" for texts and u :: "'a program_state"
    by (induction texts arbitrary: u) (simp_all add: log_msg_def)
  have caught: "ps_threads (main_caught pg e u) = ps_threads u" for e and u :: "'a program_state"
    by (simp add: main_caught_def log_msg_def split: exn.split)
  have run: "ps_threads (state_of (run_program pg i u)) = ps_threads u" for u
    by (simp add: run_program_def Let_def log log_msg_def split: prod.split run_result.split)
  have prepare: "ps_threads (state_of (prepare_client pg i u)) = ps_threads u" for u
    using run [of u] by (simp add: prepare_client_def log_msg_def split: option.split prepared.split)
  have start: "ps_threads (state_of (main_start pg i)) = ps_threads (configure_spdlog pg (add_signals i (main_opening pg i)))"
    by (simp add: main_start_def connect_def construct_client_def Let_def split: option.split prod.split outcome.split)
  have "ps_threads (program_main pg i) = ps_threads (state_of (main_start pg i))"
  proof (cases "main_start pg i")
    case (Done u)
    with prepare [of u] caught show ?thesis
      by (cases "prepare_client pg i u") (simp_all add: program_main_def main_body_def)
  qed (simp add: program_main_def main_body_def caught)
  with start show ?thesis
    by (simp add: configure_spdlog_def add_signals_def main_opening_def Let_def log split: option.split)
qed

text \<open>
  When the signals can be blocked and read, every thread that a program starts blocks SIGINT and SIGTERM, so
  that they reach the loop; without a signalfd no thread blocks them, so that they still end the process.
\<close>

theorem threads_leave_signals_to_loop:
  assumes "signals \<in> set (ps_threads (program_main pg i))" and "mi_block_err i = None" and "mi_blocked i \<inter> {SIGINT, SIGTERM} = {}"
  shows "case mi_signalfd i of Inr _ \<Rightarrow> {SIGINT, SIGTERM} \<subseteq> signals | Inl _ \<Rightarrow> signals \<inter> {SIGINT, SIGTERM} = {}"
  using assms
  by (auto simp: program_threads signal_source_new_def default_signals_def Let_def log_msg_def split: option.splits sum.splits)

theorem threads_leave_signals_to_loop_witness:
  "ps_threads (program_main horipad_main sample_in) = [{SIGINT, SIGTERM}]
   \<and> (\<forall>signals \<in> set (ps_threads (program_main horipad_main sample_in)). {SIGINT, SIGTERM} \<subseteq> signals)"
proof
  show t: "ps_threads (program_main horipad_main sample_in) = [{SIGINT, SIGTERM}]"
    by (auto simp: program_threads horipad_main_def plain_program_def signal_source_new_def default_signals_def sample_in_def Let_def)
  show "\<forall>signals \<in> set (ps_threads (program_main horipad_main sample_in)). {SIGINT, SIGTERM} \<subseteq> signals"
    using threads_leave_signals_to_loop [where pg = horipad_main and i = sample_in] by (auto simp: sample_in_def)
qed

end
