(* ===== verification/Small_Clients.thy ===== *)
theory Small_Clients
  imports Property_Utils
begin

text \<open>
  The clients with little or no state of their own: \<open>src/network1\<close>, \<open>src/fwupd\<close>, \<open>src/flatpak\<close>,
  \<open>src/networkmanager\<close>, \<open>src/wpa_supplicant\<close>, \<open>src/resolve1\<close>, \<open>src/avahi\<close>, \<open>src/packagekit\<close>,
  \<open>src/realtimekit1\<close> and \<open>src/timesync1\<close>. A client without members is a log. What a synchronous
  D-Bus call returned or threw is an argument.
\<close>

section \<open>network1\<close>

record link_info =
  li_ifindex :: u32
  li_name :: string
  li_path :: string

record network1_client = logged +
  nc_links :: "link_info list"

definition network1_client_new :: "log_entry list \<Rightarrow> network1_client" where
  "network1_client_new lg = \<lparr>log_of = lg, nc_links = []\<rparr>"

text \<open>
  What the calls for one link give: the creation of its proxy, \<open>Describe\<close>, \<open>getAllProperties\<close>.
  \<open>parse\<close> is \<open>Utils::parseDescriptionJson\<close> on the JSON library, which always returns a text.
\<close>

record 'v link_io =
  lk_proxy :: "exn option"
  lk_describe :: "exn + string"
  lk_properties :: "exn + 'v props"

definition log_link ::
    "'v variant_api \<Rightarrow> (string \<Rightarrow> string) \<Rightarrow> (string \<Rightarrow> 'v link_io) \<Rightarrow> link_info \<Rightarrow>
     network1_client \<Rightarrow> network1_client outcome" where
  "log_link api parse io l s =
     (let s = log_msg Info ''  ifindex={} name={} path={}'' [LInt (sint (li_ifindex l)), LStr (li_name l), LStr (li_path l)] s
      in case lk_proxy (io (li_path l)) of
           Some e \<Rightarrow> Throw e s
         | None \<Rightarrow>
             with_value (lk_describe (io (li_path l))) (\<lambda>description s.
               with_value (lk_properties (io (li_path l)))
                 (\<lambda>props. print_changed_properties api (li_path l) props [])
                 (log_msg Info (endl @ ''{}'') [LStr (parse description)] s)) s)"

definition enumerateLinks ::
    "'v variant_api \<Rightarrow> (string \<Rightarrow> string) \<Rightarrow> (string \<Rightarrow> 'v link_io) \<Rightarrow> exn + link_info list \<Rightarrow>
     network1_client \<Rightarrow> network1_client outcome" where
  "enumerateLinks api parse io entries s =
     catch_dbus
       (with_value entries (\<lambda>entries s.
          let s = fold (\<lambda>entry s. s\<lparr>nc_links := nc_links s @ [entry]\<rparr>) entries s;
              s = log_msg Info ''[network1] Found {} link(s)'' [LInt (int (length (nc_links s)))] s
          in for_each (log_link api parse io) (nc_links s) s) (s\<lparr>nc_links := []\<rparr>))
       (\<lambda>e. log_msg Err ''ListLinks failed: {} - {}'' [LStr (case e of DBus_Error name _ \<Rightarrow> name | _ \<Rightarrow> []), LStr (exn_what e)])"

definition network1_reply ::
    "'v variant_api \<Rightarrow> (string \<Rightarrow> string) \<Rightarrow> (string \<Rightarrow> 'v link_io) \<Rightarrow> exn + link_info list \<Rightarrow>
     (string \<times> string) option \<Rightarrow> 'v props \<Rightarrow> network1_client \<Rightarrow> network1_client outcome" where
  "network1_reply api parse io entries error values s =
     (case error of
        Some (name, msg) \<Rightarrow> Done (log_msg Warn ''network1.Manager GetAllAsync failed: {} - {}'' [LStr name, LStr msg] s)
      | None \<Rightarrow> seq (print_changed_properties api ''org.freedesktop.network1.Manager'' values [] s)
                  (enumerateLinks api parse io entries))"

text \<open>Also the handler of \<open>WpaSupplicant1Client\<close>: nothing is printed if nothing changed.\<close>

definition print_if_changed ::
    "'v variant_api \<Rightarrow> string \<Rightarrow> 'v props \<Rightarrow> string list \<Rightarrow> 'a logged_scheme \<Rightarrow> 'a logged_scheme outcome" where
  "print_if_changed api interfaceName changed invalidated s =
     (if changed \<noteq> [] then print_changed_properties api interfaceName changed invalidated s else Done s)"

definition network1_onPropertiesChanged ::
    "'v variant_api \<Rightarrow> string \<Rightarrow> 'v props \<Rightarrow> string list \<Rightarrow> network1_client \<Rightarrow> network1_client outcome" where
  "network1_onPropertiesChanged api = print_if_changed api"

section \<open>wpa_supplicant\<close>

definition wpa_supplicant_reply ::
    "'v variant_api \<Rightarrow> (string \<times> string) option \<Rightarrow> 'v props \<Rightarrow> logged \<Rightarrow> logged outcome" where
  "wpa_supplicant_reply api error values s =
     (case error of
        Some (name, msg) \<Rightarrow> Done (log_msg Warn ''wpa_supplicant1 GetAllAsync failed: {} - {}'' [LStr name, LStr msg] s)
      | None \<Rightarrow> print_changed_properties api ''fi.w1.wpa_supplicant1'' values [] s)"

definition wpa_supplicant_onPropertiesChanged ::
    "'v variant_api \<Rightarrow> string \<Rightarrow> 'v props \<Rightarrow> string list \<Rightarrow> logged \<Rightarrow> logged outcome" where
  "wpa_supplicant_onPropertiesChanged api = print_if_changed api"

definition wpa_supplicant_onInterfaceAdded :: "string \<Rightarrow> 'v props \<Rightarrow> logged \<Rightarrow> logged" where
  "wpa_supplicant_onInterfaceAdded path properties = log_msg Info ''onInterfaceAdded'' []"

definition wpa_supplicant_onInterfaceRemoved :: "string \<Rightarrow> logged \<Rightarrow> logged" where
  "wpa_supplicant_onInterfaceRemoved path = log_msg Info ''onInterfaceRemoved'' []"

section \<open>fwupd\<close>

definition fwupd_onPropertiesChanged ::
    "'v variant_api \<Rightarrow> string \<Rightarrow> 'v props \<Rightarrow> string list \<Rightarrow> logged \<Rightarrow> logged outcome" where
  "fwupd_onPropertiesChanged api interfaceName changed invalidated =
     print_changed_properties api interfaceName changed invalidated"

definition fwupd_onChanged :: "logged \<Rightarrow> logged" where
  "fwupd_onChanged = log_msg Info ''onChanged'' []"

text \<open>A heading, then a map of properties, as one message.\<close>

definition log_map :: "'v variant_api \<Rightarrow> string \<Rightarrow> 'v props \<Rightarrow> 'a logged_scheme \<Rightarrow> 'a logged_scheme outcome" where
  "log_map api heading props s =
     (case append_properties max_nesting api props (put (endl @ heading @ endl) ostringstream) of
        Done os \<Rightarrow> Done (log_msg Info (os_buf os) [] s)
      | Throw e _ \<Rightarrow> Throw e s)"

definition fwupd_onDeviceAdded :: "'v variant_api \<Rightarrow> 'v props \<Rightarrow> logged \<Rightarrow> logged outcome" where
  "fwupd_onDeviceAdded api = log_map api ''[FwupdClient] onDeviceAdded''"

definition fwupd_onDeviceRemoved :: "'v variant_api \<Rightarrow> 'v props \<Rightarrow> logged \<Rightarrow> logged outcome" where
  "fwupd_onDeviceRemoved api = log_map api ''[FwupdClient] onDeviceRemoved''"

definition fwupd_onDeviceChanged :: "'v variant_api \<Rightarrow> 'v props \<Rightarrow> logged \<Rightarrow> logged outcome" where
  "fwupd_onDeviceChanged api = log_map api ''[FwupdClient] onDeviceChanged''"

definition fwupd_onDeviceRequest :: "'v variant_api \<Rightarrow> 'v props \<Rightarrow> logged \<Rightarrow> logged outcome" where
  "fwupd_onDeviceRequest api = log_map api ''[FwupdClient] onDeviceRequest''"

section \<open>Flatpak\<close>

record flatpak_client = logged +
  fp_version :: u32

text \<open>The constructor, on what the property \<open>version\<close> gave.\<close>

definition FlatpakSystemHelperClient :: "exn + u32 \<Rightarrow> log_entry list \<Rightarrow> flatpak_client outcome" where
  "FlatpakSystemHelperClient version lg =
     catch_dbus
       (with_value version (\<lambda>v s. Done (s\<lparr>fp_version := v\<rparr>)) \<lparr>log_of = lg, fp_version = 0\<rparr>)
       (\<lambda>e. log_msg Warn ''Failed to read version property: {} - {}''
              [LStr (case e of DBus_Error name _ \<Rightarrow> name | _ \<Rightarrow> []), LStr (exn_what e)])"

definition flatpak_onPropertiesChanged ::
    "'v variant_api \<Rightarrow> string \<Rightarrow> 'v props \<Rightarrow> string list \<Rightarrow> flatpak_client \<Rightarrow> flatpak_client outcome" where
  "flatpak_onPropertiesChanged api interfaceName changed invalidated =
     for_each (\<lambda>(key, v) s.
       if key = ''version''
       then with_value (va_u32 api v) (\<lambda>x s. Done (log_msg Info ''version changed: {}'' [LInt (uint x)] (s\<lparr>fp_version := x\<rparr>))) s
       else Done s) changed"

definition flatpak_printInfo :: "flatpak_client \<Rightarrow> flatpak_client" where
  "flatpak_printInfo s =
     log_msg Info (tab @ ''version: {}'') [LInt (uint (fp_version s))] (log_msg Info ''Flatpak SystemHelper:'' [] s)"

section \<open>NetworkManager\<close>

definition networkmanager_onInterfacesAdded ::
    "'v variant_api \<Rightarrow> string \<Rightarrow> (string \<times> 'v props) list \<Rightarrow> logged \<Rightarrow> logged outcome" where
  "networkmanager_onInterfacesAdded api objectPath interfaces s =
     (case for_each (\<lambda>(interface, properties) os. append_properties max_nesting api properties
                       (put (''['' @ objectPath @ ''] Add - '' @ interface @ endl) os))
             interfaces (put endl ostringstream) of
        Done os \<Rightarrow> Done (log_msg Info (os_buf os) [] s)
      | Throw e _ \<Rightarrow> Throw e s)"

text \<open>A line per interface, the last without its end.\<close>

fun removed_lines :: "string \<Rightarrow> string list \<Rightarrow> string" where
  "removed_lines objectPath [] = []"
| "removed_lines objectPath (interface # rest) =
     ''['' @ objectPath @ ''] Remove - '' @ interface @ (if rest \<noteq> [] then endl else []) @ removed_lines objectPath rest"

definition networkmanager_onInterfacesRemoved :: "string \<Rightarrow> string list \<Rightarrow> logged \<Rightarrow> logged" where
  "networkmanager_onInterfacesRemoved objectPath interfaces =
     log_msg Info (endl @ removed_lines objectPath interfaces) []"

definition networkmanager_onPropertiesChanged :: "'v variant_api \<Rightarrow> 'v props \<Rightarrow> logged \<Rightarrow> logged outcome" where
  "networkmanager_onPropertiesChanged api = log_map api ''NetworkManagerClient Properties changed''"

definition networkmanager_onCheckPermissions :: "logged \<Rightarrow> logged" where
  "networkmanager_onCheckPermissions = log_msg Info ''NetworkManagerClient::onCheckPermissions()'' []"

definition networkmanager_onStateChanged :: "u32 \<Rightarrow> logged \<Rightarrow> logged" where
  "networkmanager_onStateChanged state = log_msg Info ''NetworkManagerClient::onStateChanged: {}'' [LInt (uint state)]"

definition networkmanager_onDeviceAdded :: "string \<Rightarrow> logged \<Rightarrow> logged" where
  "networkmanager_onDeviceAdded path = log_msg Info ''NetworkManagerClient::onDeviceAdded: {}'' [LStr path]"

definition networkmanager_onDeviceRemoved :: "string \<Rightarrow> logged \<Rightarrow> logged" where
  "networkmanager_onDeviceRemoved path = log_msg Info ''NetworkManagerClient::onDeviceRemoved: {}'' [LStr path]"

definition NetworkManagerClient ::
    "'v variant_api \<Rightarrow> exn + (string \<times> (string \<times> 'v props) list) list \<Rightarrow> log_entry list \<Rightarrow> logged outcome" where
  "NetworkManagerClient api found lg =
     with_value found
       (for_each (\<lambda>(object, interfacesAndProperties). networkmanager_onInterfacesAdded api object interfacesAndProperties))
       \<lparr>log_of = lg\<rparr>"

section \<open>resolve1\<close>

definition resolve1_onPropertiesChanged ::
    "'v variant_api \<Rightarrow> string \<Rightarrow> 'v props \<Rightarrow> string list \<Rightarrow> logged \<Rightarrow> logged outcome" where
  "resolve1_onPropertiesChanged api interfaceName changed invalidated =
     print_changed_properties api interfaceName changed invalidated"

definition Resolve1Manager :: "'v variant_api \<Rightarrow> exn + 'v props \<Rightarrow> log_entry list \<Rightarrow> logged outcome" where
  "Resolve1Manager api getall lg =
     with_value getall
       (\<lambda>properties. resolve1_onPropertiesChanged api ''org.freedesktop.resolve1.Manager'' properties []) \<lparr>log_of = lg\<rparr>"

section \<open>Avahi\<close>

record avahi_server = logged +
  av_state :: u32

definition avahi_onStateChanged :: "u32 \<Rightarrow> string \<Rightarrow> avahi_server \<Rightarrow> avahi_server" where
  "avahi_onStateChanged state error s =
     (log_msg Info ''onStateChanged: state={}, error={}'' [LInt (sint state), LStr error] s)\<lparr>av_state := state\<rparr>"

definition AvahiServer :: "exn + u32 \<Rightarrow> log_entry list \<Rightarrow> avahi_server outcome" where
  "AvahiServer get_state lg =
     with_value get_state (\<lambda>state s. Done (avahi_onStateChanged state [] s)) \<lparr>log_of = lg, av_state = 0\<rparr>"

section \<open>PackageKit\<close>

record packagekit_client = logged +
  pk_object_path :: string

definition PackageKitClient :: "log_entry list \<Rightarrow> packagekit_client" where
  "PackageKitClient lg = \<lparr>log_of = lg, pk_object_path = ''/org/freedesktop/PackageKit''\<rparr>"

definition packagekit_onPropertiesChanged ::
    "'v variant_api \<Rightarrow> string \<Rightarrow> 'v props \<Rightarrow> string list \<Rightarrow> packagekit_client \<Rightarrow> packagekit_client outcome" where
  "packagekit_onPropertiesChanged api interfaceName changed invalidated =
     print_changed_properties api interfaceName changed invalidated"

definition onTransactionListChanged :: "string list \<Rightarrow> packagekit_client \<Rightarrow> packagekit_client" where
  "onTransactionListChanged transactions s =
     (let os = put (endl @ ''[PackageKitClient] onTransactionListChanged ('' @ nat_to_string (length transactions) @ '')'' @ endl)
                 ostringstream;
          os = fold (\<lambda>transaction. put (transaction @ endl)) transactions os
      in log_msg Info (os_buf os) [] s)"

definition onRestartSchedule :: "packagekit_client \<Rightarrow> packagekit_client" where
  "onRestartSchedule = log_msg Info ''onRestartSchedule'' []"

definition onRepoListChanged :: "packagekit_client \<Rightarrow> packagekit_client" where
  "onRepoListChanged = log_msg Info ''onRepoListChanged'' []"

definition onUpdatesChanged :: "packagekit_client \<Rightarrow> packagekit_client" where
  "onUpdatesChanged = log_msg Info ''onUpdatesChanged'' []"

text \<open>The signals of a transaction, with the arguments their handlers read; the others only log their name.\<close>

datatype transaction_signal =
    PT_Category | PT_Details | PT_ErrorCode | PT_Files | PT_Finished | PT_Package | PT_Packages | PT_RepoDetail
  | PT_RepoSignatureRequired | PT_EulaRequired | PT_MediaChangeRequired | PT_RequireRestart | PT_Transaction
  | PT_UpdateDetail | PT_UpdateDetails | PT_DistroUpgrade u32 string string | PT_ItemProgress string u32 u32 | PT_Destroy

fun transaction_name :: "transaction_signal \<Rightarrow> string" where
  "transaction_name PT_Category = ''onCategory''"
| "transaction_name PT_Details = ''onDetails''"
| "transaction_name PT_ErrorCode = ''onErrorCode''"
| "transaction_name PT_Files = ''onFiles''"
| "transaction_name PT_Finished = ''onFinished''"
| "transaction_name PT_Package = ''onPackage''"
| "transaction_name PT_Packages = ''onPackages''"
| "transaction_name PT_RepoDetail = ''onRepoDetail''"
| "transaction_name PT_RepoSignatureRequired = ''onRepoSignatureRequired''"
| "transaction_name PT_EulaRequired = ''onEulaRequired''"
| "transaction_name PT_MediaChangeRequired = ''onMediaChangeRequired''"
| "transaction_name PT_RequireRestart = ''onRequireRestart''"
| "transaction_name PT_Transaction = ''onTransaction''"
| "transaction_name PT_UpdateDetail = ''onUpdateDetail''"
| "transaction_name PT_UpdateDetails = ''onUpdateDetails''"
| "transaction_name (PT_DistroUpgrade _ _ _) = ''onDistroUpgrade: {}, {}, {}''"
| "transaction_name (PT_ItemProgress _ _ _) = ''onItemProgress: {}, {}, {}''"
| "transaction_name PT_Destroy = ''onDestroy''"

fun transaction_args :: "transaction_signal \<Rightarrow> larg list" where
  "transaction_args (PT_DistroUpgrade type name summary) = [LInt (uint type), LStr name, LStr summary]"
| "transaction_args (PT_ItemProgress item status percentage) = [LStr item, LInt (uint status), LInt (uint percentage)]"
| "transaction_args _ = []"

definition transaction_handler :: "transaction_signal \<Rightarrow> logged \<Rightarrow> logged" where
  "transaction_handler e = log_msg Info (''PackageKitTransaction::'' @ transaction_name e) (transaction_args e)"

definition transaction_onPropertiesChanged ::
    "'v variant_api \<Rightarrow> string \<Rightarrow> 'v props \<Rightarrow> string list \<Rightarrow> logged \<Rightarrow> logged outcome" where
  "transaction_onPropertiesChanged api interfaceName changed invalidated =
     print_changed_properties api interfaceName changed invalidated"

section \<open>RealtimeKit\<close>

text \<open>
  The calls on the service: properties may throw, the two requests say what they throw for a thread and a
  priority. \<open>rk_max2\<close> is the second read of \<open>MaxRealtimePriority\<close>. The requests made are recorded.
\<close>

record rtkit_io =
  rk_usec_max :: "exn + u64"
  rk_max1 :: "exn + u32"
  rk_min_nice :: "exn + u32"
  rk_max2 :: "exn + u32"
  rk_tid :: u64
  rk_high :: "u64 \<Rightarrow> u32 \<Rightarrow> exn option"
  rk_realtime :: "u64 \<Rightarrow> u32 \<Rightarrow> exn option"

datatype rt_request = High_Priority u64 u32 | Realtime u64 u32

record rtkit_client = logged +
  rk_requests :: "rt_request list"

definition rtkit_client_new :: "log_entry list \<Rightarrow> rtkit_client" where
  "rtkit_client_new lg = \<lparr>log_of = lg, rk_requests = []\<rparr>"

definition rtkit_dumpProperties :: "rtkit_io \<Rightarrow> rtkit_client \<Rightarrow> rtkit_client outcome" where
  "rtkit_dumpProperties io s =
     seq (with_value (rk_usec_max io) (\<lambda>v s. Done (log_msg Info ''RTTimeUSecMax       : {}'' [LInt (sint v)] s)) s)
         (\<lambda>s. seq (with_value (rk_max1 io) (\<lambda>v s. Done (log_msg Info ''MaxRealtimePriority : {}'' [LInt (sint v)] s)) s)
           (with_value (rk_min_nice io) (\<lambda>v s. Done (log_msg Info ''MinNiceLevel        : {}'' [LInt (sint v)] s))))"

text \<open>A request inside its \<open>try\<close>: \<open>false\<close> for an \<open>sdbus::Error\<close>. Another exception leaves the function.\<close>

definition try_request ::
    "string \<Rightarrow> string \<Rightarrow> exn option \<Rightarrow> rt_request \<Rightarrow> rtkit_client \<Rightarrow> (bool \<times> rtkit_client) outcome" where
  "try_request succeeded failed r request s =
     (let s = s\<lparr>rk_requests := rk_requests s @ [request]\<rparr>
      in case r of
           None \<Rightarrow> Done (True, log_msg Info succeeded [] s)
         | Some (DBus_Error name msg) \<Rightarrow> Done (False, log_msg Warn failed [LStr name, LStr msg] s)
         | Some e \<Rightarrow> Throw e (False, s))"

definition tryHighPriority :: "rtkit_io \<Rightarrow> u32 \<Rightarrow> rtkit_client \<Rightarrow> (bool \<times> rtkit_client) outcome" where
  "tryHighPriority io niceLevel s =
     try_request ''High priority change succeeded'' ''High priority change failed: {} ({})''
       (rk_high io (rk_tid io) niceLevel) (High_Priority (rk_tid io) niceLevel)
       (log_msg Info ''MakeThreadHighPriority thread={} priority={}'' [LInt (uint (rk_tid io)), LInt (sint niceLevel)] s)"

definition tryRealtime :: "rtkit_io \<Rightarrow> u32 \<Rightarrow> rtkit_client \<Rightarrow> (bool \<times> rtkit_client) outcome" where
  "tryRealtime io rtPriority s =
     try_request ''Realtime change succeeded'' ''Realtime change failed: {} ({})''
       (rk_realtime io (rk_tid io) rtPriority) (Realtime (rk_tid io) rtPriority)
       (log_msg Info ''MakeThreadRealtime thread={} rtPriority={}'' [LInt (uint (rk_tid io)), LInt (uint rtPriority)] s)"

text \<open>The result of the two functions is not used.\<close>

fun discard :: "('a \<times> 's) outcome \<Rightarrow> 's outcome" where
  "discard (Done (_, s)) = Done s"
| "discard (Throw e (_, s)) = Throw e s"

definition exerciseRealtime :: "rtkit_io \<Rightarrow> rtkit_client \<Rightarrow> rtkit_client outcome" where
  "exerciseRealtime io s =
     seq (rtkit_dumpProperties io s) (\<lambda>s.
     seq (discard (tryHighPriority io (- 5) s))
       (with_value (rk_max2 io) (\<lambda>maxRT s.
          if 1 < sint maxRT then discard (tryRealtime io (word_of_int (sint maxRT div 2)) s)
          else Done (log_msg Info ''MaxRealtimePriority too low to attempt realtime scheduling'' [] s))))"

section \<open>timesync1\<close>

record timesync_io =
  ti_link :: "exn + string list"
  ti_system :: "exn + string list"
  ti_runtime :: "exn + string list"
  ti_fallback :: "exn + string list"
  ti_poll_min :: "exn + u64"
  ti_poll_max :: "exn + u64"
  ti_poll :: "exn + u64"
  ti_root_distance :: "exn + u64"
  ti_frequency :: "exn + u64"
  ti_server_name :: "exn + string"
  ti_server_address :: "exn + (u32 \<times> u8 list)"
  ti_set_runtime :: "string list \<Rightarrow> exn option"
  ti_runtime2 :: "exn + string list"

definition logVector :: "string \<Rightarrow> string list \<Rightarrow> logged \<Rightarrow> logged" where
  "logVector label v s =
     (if v = [] then log_msg Info ''{}: (empty)'' [LStr label] s
      else fold (\<lambda>x. log_msg Info ''{}: {}'' [LStr label, LStr x]) v s)"

definition dumpServerLists :: "timesync_io \<Rightarrow> logged \<Rightarrow> logged outcome" where
  "dumpServerLists io =
     for_each (\<lambda>(label, r). with_value r (\<lambda>v s. Done (logVector label v s)))
       [(''LinkNTPServers'', ti_link io), (''SystemNTPServers'', ti_system io),
        (''RuntimeNTPServers'', ti_runtime io), (''FallbackNTPServers'', ti_fallback io)]"

definition dumpTiming :: "timesync_io \<Rightarrow> logged \<Rightarrow> logged outcome" where
  "dumpTiming io s =
     seq (for_each (\<lambda>(fmt, r). with_value r (\<lambda>v s. Done (log_msg Info fmt [LInt (uint v)] s)))
            [(''PollIntervalMinUSec : {}'', ti_poll_min io), (''PollIntervalMaxUSec : {}'', ti_poll_max io),
             (''PollIntervalUSec    : {}'', ti_poll io), (''RootDistanceMaxUSec : {}'', ti_root_distance io)] s)
         (with_value (ti_frequency io) (\<lambda>v s. Done (log_msg Info ''Frequency           : {}'' [LInt (sint v)] s)))"

definition dumpServer :: "timesync_io \<Rightarrow> logged \<Rightarrow> logged outcome" where
  "dumpServer io s =
     seq (with_value (ti_server_name io) (\<lambda>n s. Done (log_msg Info ''ServerName          : {}'' [LStr n] s)) s)
         (with_value (ti_server_address io) (\<lambda>(family, bytes) s.
            Done (log_msg Info ''ServerAddress family={} bytes={}'' [LInt (sint family), LInt (int (length bytes))] s)))"

definition setRuntimeServersExample :: "timesync_io \<Rightarrow> logged \<Rightarrow> logged outcome" where
  "setRuntimeServersExample io s =
     catch_dbus
       (let s = log_msg Info ''Setting RuntimeNTPServers...'' [] s
        in case ti_set_runtime io [''time1.google.com'', ''time.cloudflare.com''] of
             Some e \<Rightarrow> Throw e s
           | None \<Rightarrow> with_value (ti_runtime2 io) (\<lambda>v s. Done (logVector ''Updated RuntimeNTPServers'' v s)) s)
       (\<lambda>e. log_msg Warn ''SetRuntimeNTPServers failed: {} ({})''
              [LStr (case e of DBus_Error name _ \<Rightarrow> name | _ \<Rightarrow> []), LStr (exn_what e)])"

definition exerciseTimesync :: "timesync_io \<Rightarrow> logged \<Rightarrow> logged outcome" where
  "exerciseTimesync io s =
     seq (dumpServerLists io s) (\<lambda>s. seq (dumpServer io s) (\<lambda>s. seq (dumpTiming io s) (setRuntimeServersExample io)))"

section \<open>Properties\<close>

lemma log_link_keeps: "nc_links (state_of (log_link api parse io l s)) = nc_links s"
  by (cases "lk_describe (io (li_path l))"; cases "lk_properties (io (li_path l))")
    (auto simp: log_link_def print_changed_properties_def Let_def log_msg_def split: option.split outcome.split)

lemma log_links_keep: "nc_links (state_of (for_each (log_link api parse io) ls s)) = nc_links s"
proof (induction ls arbitrary: s)
  case (Cons l ls)
  with log_link_keeps [of api parse io l s] show ?case by (cases "log_link api parse io l s") auto
qed simp

lemma pushed_links: "nc_links (fold (\<lambda>entry s. s\<lparr>nc_links := nc_links s @ [entry]\<rparr>) entries s) = nc_links s @ entries"
  by (induction entries arbitrary: s) simp_all

text \<open>
  The enumeration of the links replaces the list by exactly what \<open>ListLinks\<close> returned, in its order, and by
  the empty list when it threw; it is there in full even when the description or the properties
  of a link fail, and no D-Bus error leaves the handler.
\<close>

theorem links_are_the_listed_ones:
  "nc_links (state_of (enumerateLinks api parse io entries s)) = (case entries of Inl _ \<Rightarrow> [] | Inr ls \<Rightarrow> ls)
   \<and> (case enumerateLinks api parse io entries s of Done _ \<Rightarrow> True | Throw e _ \<Rightarrow> \<not> is_dbus_error e)"
proof (cases entries)
  case (Inl e)
  then show ?thesis by (cases e) (simp_all add: enumerateLinks_def log_msg_def)
next
  case (Inr ls)
  let ?s = "fold (\<lambda>entry s. s\<lparr>nc_links := nc_links s @ [entry]\<rparr>) ls (s\<lparr>nc_links := []\<rparr>)"
  let ?t = "log_msg Info ''[network1] Found {} link(s)'' [LInt (int (length (nc_links ?s)))] ?s"
  have t: "nc_links ?t = ls" by (simp add: log_msg_def pushed_links)
  have "enumerateLinks api parse io entries s = catch_dbus (for_each (log_link api parse io) (nc_links ?t) ?t)
      (\<lambda>e. log_msg Err ''ListLinks failed: {} - {}'' [LStr (case e of DBus_Error name _ \<Rightarrow> name | _ \<Rightarrow> []), LStr (exn_what e)])"
    by (simp add: enumerateLinks_def Inr Let_def t)
  moreover have "nc_links (state_of (for_each (log_link api parse io) (nc_links ?t) ?t)) = ls"
    by (simp add: log_links_keep t)
  ultimately show ?thesis
    by (cases "for_each (log_link api parse io) (nc_links ?t) ?t") (auto simp: Inr log_msg_def)
qed

text \<open>The realtime priority asked for is at least 1 and at most half of the maximum the service gave.\<close>

definition request_ok :: "int \<Rightarrow> rt_request \<Rightarrow> bool" where
  "request_ok maximum r = (case r of High_Priority _ n \<Rightarrow> sint n = - 5 | Realtime _ p \<Rightarrow> 1 \<le> uint p \<and> 2 * uint p \<le> maximum)"

lemma half_priority:
  assumes "1 < sint (m :: u32)"
  shows "1 \<le> uint (word_of_int (sint m div 2) :: u32) \<and> 2 * uint (word_of_int (sint m div 2) :: u32) \<le> sint m"
proof -
  have "sint m < 2 ^ 31" using sint_less [of m] by simp
  then have "uint (word_of_int (sint m div 2) :: u32) = sint m div 2"
    using assms by (simp add: uint_word_of_int_eq take_bit_int_eq_self)
  moreover have "1 \<le> sint m div 2 \<and> 2 * (sint m div 2) \<le> sint m" using assms by presburger
  ultimately show ?thesis by simp
qed

theorem realtime_request_in_range:
  assumes "rk_max2 io = Inr m" and "rk_requests s = []"
  shows "list_all (request_ok (sint m)) (rk_requests (state_of (exerciseRealtime io s)))"
proof -
  have dump: "rk_requests (state_of (rtkit_dumpProperties io s)) = []"
    using assms(2) by (cases "rk_usec_max io"; cases "rk_max1 io"; cases "rk_min_nice io") (simp_all add: rtkit_dumpProperties_def log_msg_def)
  have tried: "rk_requests (state_of (discard (try_request a b r q t))) = rk_requests t @ [q]" for a b r q t
    by (auto simp: try_request_def Let_def log_msg_def split: option.split exn.split)
  have high: "rk_requests (state_of (discard (tryHighPriority io n t))) = rk_requests t @ [High_Priority (rk_tid io) n]"
    and rt: "rk_requests (state_of (discard (tryRealtime io p t))) = rk_requests t @ [Realtime (rk_tid io) p]" for n p t
    by (simp_all add: tryHighPriority_def tryRealtime_def tried log_msg_def)
  have ok: "request_ok (sint m) (High_Priority t (- 5))" for t by (simp add: request_ok_def)
  show ?thesis
  proof (cases "rtkit_dumpProperties io s")
    case (Throw e u)
    with dump show ?thesis by (simp add: exerciseRealtime_def)
  next
    case (Done u)
    with dump have "rk_requests u = []" by simp
    with high [of "- 5" u] have u: "rk_requests (state_of (discard (tryHighPriority io (- 5) u))) = [High_Priority (rk_tid io) (- 5)]"
      by simp
    show ?thesis
    proof (cases "discard (tryHighPriority io (- 5) u)")
      case (Throw e v)
      with u Done ok show ?thesis by (simp add: exerciseRealtime_def)
    next
      case (Done v)
      with u rt [of "word_of_int (sint m div 2)" v] \<open>rtkit_dumpProperties io s = Done u\<close> ok half_priority [of m] assms(1)
      show ?thesis by (auto simp: exerciseRealtime_def request_ok_def log_msg_def)
    qed
  qed
qed

theorem realtime_request_in_range_witness:
  "let io = \<lparr>rk_usec_max = Inr 200000, rk_max1 = Inr 20, rk_min_nice = Inr (- 15), rk_max2 = Inr 20, rk_tid = 7,
            rk_high = \<lambda>_ _. Some (DBus_Error ''a.b'' ''no''), rk_realtime = \<lambda>_ _. None\<rparr>
   in list_all (request_ok (sint (20 :: u32))) (rk_requests (state_of (exerciseRealtime io (rtkit_client_new []))))"
  unfolding Let_def by (rule realtime_request_in_range) (simp_all add: rtkit_client_new_def)

end
