(* ===== verification/Simple_Programs.thy ===== *)
theory Simple_Programs
  imports Small_Clients Service_Clients
begin

text \<open>
  The \<open>main\<close> functions that query a service once and end: \<open>main.cc\<close> of \<open>src/hostname1\<close>, \<open>src/locale1\<close>,
  \<open>src/timedate1\<close>, \<open>src/avahi\<close>, \<open>src/fwupd\<close>, \<open>src/flatpak\<close>, \<open>src/packagekit\<close>, \<open>src/realtimekit1\<close> and
  \<open>src/timesync1\<close>. Modelled is what the main thread does; \<open>connection\<close> is what \<open>createSystemBusConnection\<close>
  threw, and what a future gave is an argument. The initialisation of the log of \<open>src/flatpak\<close> is in
  theory \<open>Logging\<close>.
\<close>

section \<open>Endings\<close>

text \<open>An exception that leaves \<open>main\<close> ends the process with \<open>std::terminate\<close>.\<close>

datatype ending = Exit int | Terminated exn

fun unguarded :: "'s outcome \<Rightarrow> ending \<times> 's" where
  "unguarded (Done s) = (Exit 0, s)"
| "unguarded (Throw e s) = (Terminated e, s)"

definition main_error :: "exn \<Rightarrow> 'a logged_scheme \<Rightarrow> 'a logged_scheme" where
  "main_error e s = (case e of
     DBus_Error name msg \<Rightarrow> log_msg Err ''D-Bus error: {} - {}'' [LStr name, LStr msg] s
   | Std_Exception what \<Rightarrow> log_msg Err ''Exception: {}'' [LStr what] s)"

fun guarded :: "'a logged_scheme outcome \<Rightarrow> ending \<times> 'a logged_scheme" where
  "guarded (Done s) = (Exit 0, s)"
| "guarded (Throw e s) = (Exit 1, main_error e s)"

definition raise_if :: "exn option \<Rightarrow> 's \<Rightarrow> 's outcome" where
  "raise_if r s = (case r of None \<Rightarrow> Done s | Some e \<Rightarrow> Throw e s)"

text \<open>A line for each value read; the first that cannot be read throws.\<close>

definition log_values :: "(string \<times> (exn + larg)) list \<Rightarrow> 'a logged_scheme \<Rightarrow> 'a logged_scheme outcome" where
  "log_values = for_each (\<lambda>(fmt, r). with_value r (\<lambda>a s. Done (log_msg Info fmt [a] s)))"

section \<open>hostname1, locale1, timedate1\<close>

definition hostname1_main ::
    "'v variant_api \<Rightarrow> exn option \<Rightarrow> (string \<Rightarrow> hostname1 option) \<Rightarrow> exn + string \<Rightarrow> exn + 'v props \<Rightarrow>
     log_entry list \<Rightarrow> ending \<times> hostname1_client" where
  "hostname1_main api connection read_json describe getall lg = unguarded
     (seq (raise_if connection (hostname1_client_init lg)) (\<lambda>_.
      seq (Hostname1Client read_json describe lg) (\<lambda>s.
      seq (with_value getall (updateHostname1 api) s) (\<lambda>s. Done (printHostname1 s)))))"

definition locale1_main ::
    "'v variant_api \<Rightarrow> exn option \<Rightarrow> exn + 'v props \<Rightarrow> log_entry list \<Rightarrow> ending \<times> locale1_client" where
  "locale1_main api connection getall lg = unguarded
     (seq (raise_if connection (locale1_client_init lg)) (\<lambda>s.
      seq (with_value getall (updateLocale1 api) s) (\<lambda>s. Done (printLocale1 s))))"

text \<open>Four requests; the answers are printed in turn, each in its own \<open>try\<close>. \<open>None\<close> is undefined behaviour of the date.\<close>

definition timedate1_answer ::
    "'v variant_api \<Rightarrow> (int \<Rightarrow> string option) \<Rightarrow> exn + 'v props \<Rightarrow> timedate1_client \<Rightarrow> timedate1_client option" where
  "timedate1_answer api local_time r s =
     (case with_value r (updateTimedate1 api) s of
        Done s \<Rightarrow> printTimedate1 local_time s
      | Throw e s \<Rightarrow> Some (log_msg Err ''Error: {}'' [LStr (exn_what e)] s))"

definition timedate1_main ::
    "'v variant_api \<Rightarrow> (int \<Rightarrow> string option) \<Rightarrow> exn option \<Rightarrow> exn + 'v props \<Rightarrow> exn + 'v props \<Rightarrow> exn + 'v props \<Rightarrow>
     exn + 'v props \<Rightarrow> log_entry list \<Rightarrow> (ending \<times> timedate1_client) option" where
  "timedate1_main api local_time connection r1 r2 r3 r4 lg =
     (case connection of
        Some e \<Rightarrow> Some (Terminated e, timedate1_client_init lg)
      | None \<Rightarrow> map_option (Pair (Exit 0))
          (fold (\<lambda>r s. Option.bind s (timedate1_answer api local_time r)) [r1, r2, r3, r4] (Some (timedate1_client_init lg))))"

section \<open>Avahi\<close>

record avahi_io =
  ai_api_version :: "exn + u32"
  ai_domain :: "exn + string"
  ai_host :: "exn + string"
  ai_fqdn :: "exn + string"
  ai_cookie :: "exn + u32"
  ai_state :: "exn + u32"
  ai_version :: "exn + string"
  ai_nss :: "exn + bool"

definition avahi_main :: "exn option \<Rightarrow> exn + string list \<Rightarrow> exn + u32 \<Rightarrow> avahi_io \<Rightarrow> log_entry list \<Rightarrow> ending \<times> avahi_server" where
  "avahi_main connection names get_state io lg = unguarded
     (seq (raise_if connection \<lparr>log_of = lg, av_state = 0\<rparr>)
        (with_value names (\<lambda>names s.
           if isServicePresent names ''org.freedesktop.Avahi''
           then seq (AvahiServer get_state lg) (log_values
             [(''API Version: {}'', map_sum id (\<lambda>n. LInt (uint n)) (ai_api_version io)),
              (''Domain Name: {}'', map_sum id LStr (ai_domain io)),
              (''Host Name: {}'', map_sum id LStr (ai_host io)),
              (''FQDN: {}'', map_sum id LStr (ai_fqdn io)),
              (''Local Service Cookie: {}'', map_sum id (\<lambda>n. LInt (uint n)) (ai_cookie io)),
              (''State: {}'', map_sum id (\<lambda>n. LInt (sint n)) (ai_state io)),
              (''Version: {}'', map_sum id LStr (ai_version io)),
              (''NSS Support available: {}'', map_sum id (\<lambda>b. LStr (if b then ''Yes'' else ''No'')) (ai_nss io))])
           else Done s)))"

section \<open>fwupd\<close>

definition log_device :: "'v variant_api \<Rightarrow> nat \<Rightarrow> nat \<times> 'v props \<Rightarrow> logged \<Rightarrow> logged outcome" where
  "log_device api n = (\<lambda>(i, device).
     log_map api (''Device '' @ nat_to_string (i + 1) @ '' of '' @ nat_to_string n) device)"

definition fwupd_main ::
    "'v variant_api \<Rightarrow> exn option \<Rightarrow> exn + 'v props \<Rightarrow> exn + 'v props list \<Rightarrow> log_entry list \<Rightarrow> ending \<times> logged" where
  "fwupd_main api connection getall devices lg = unguarded
     (seq (raise_if connection \<lparr>log_of = lg\<rparr>) (\<lambda>s.
      seq (catch_dbus
             (with_value getall (\<lambda>properties. print_changed_properties api ''org.freedesktop.fwupd'' properties []) s)
             (\<lambda>e. log_msg Warn ''Failed to get fwupd properties: {}'' [LStr (exn_what e)])) (\<lambda>s.
        catch_dbus
          (with_value devices (\<lambda>devices s.
             for_each (log_device api (length devices)) (enumerate 0 devices)
               (log_msg Info ''Found {} device(s)'' [LInt (int (length devices))] s)) s)
          (\<lambda>e. log_msg Err ''Failed to get devices: {}'' [LStr (exn_what e)]))))"

section \<open>Flatpak, PackageKit, RealtimeKit, timesync1\<close>

definition flatpak_main :: "exn option \<Rightarrow> exn + u32 \<Rightarrow> log_entry list \<Rightarrow> ending \<times> flatpak_client" where
  "flatpak_main connection version lg = guarded
     (seq (raise_if connection \<lparr>log_of = lg, fp_version = 0\<rparr>) (\<lambda>_.
      seq (FlatpakSystemHelperClient version lg) (\<lambda>s. Done (flatpak_printInfo s))))"

definition packagekit_main ::
    "'v variant_api \<Rightarrow> exn option \<Rightarrow> exn + 'v props \<Rightarrow> exn + string \<Rightarrow> log_entry list \<Rightarrow> ending \<times> packagekit_client" where
  "packagekit_main api connection getall daemon_state lg = guarded
     (seq (raise_if connection (PackageKitClient lg)) (\<lambda>s.
      seq (with_value getall (\<lambda>properties. print_changed_properties api ''org.freedesktop.PackageKit'' properties []) s)
        (with_value daemon_state (\<lambda>state s. Done (log_msg Info ''Daemon {}'' [LStr state] s)))))"

definition realtimekit1_main :: "exn option \<Rightarrow> exn option \<Rightarrow> rtkit_io \<Rightarrow> log_entry list \<Rightarrow> ending \<times> rtkit_client" where
  "realtimekit1_main connection proxy io lg = guarded
     (seq (raise_if connection (rtkit_client_new lg)) (\<lambda>s. seq (raise_if proxy s) (\<lambda>s.
      seq (exerciseRealtime io s) (\<lambda>s. Done (log_msg Info ''RealtimeKit1 example complete'' [] s)))))"

definition timesync1_main :: "exn option \<Rightarrow> exn option \<Rightarrow> timesync_io \<Rightarrow> log_entry list \<Rightarrow> ending \<times> logged" where
  "timesync1_main connection proxy io lg = guarded
     (seq (raise_if connection \<lparr>log_of = lg\<rparr>) (\<lambda>s. seq (raise_if proxy s) (\<lambda>s.
      seq (exerciseTimesync io s) (\<lambda>s. Done (log_msg Info ''timesync1 Manager example complete'' [] s)))))"

section \<open>Properties\<close>

lemma guarded_ending: "fst (guarded r) = (if is_done r then Exit 0 else Exit 1)"
  by (cases r) simp_all

text \<open>
  An error in place of the properties: hostname1 and locale1 have no handler and are terminated, timedate1 logs
  it for each answer and exits with 0, fwupd does so for a D-Bus error only, and PackageKit logs it and
  exits with 1.
\<close>

theorem endings_on_property_error:
  "fst (hostname1_main api None read_json (Inr description) (Inl e) lg) = Terminated e
   \<and> fst (locale1_main api None (Inl e) lg) = Terminated e
   \<and> (\<exists>s. timedate1_main api local_time None (Inl e) (Inl e) (Inl e) (Inl e) lg = Some (Exit 0, s)
          \<and> log_of s = lg @ replicate 4 (Log Err ''Error: {}'' [LStr (exn_what e)]))
   \<and> fst (fwupd_main api None (Inl e) (Inr []) lg) = (if is_dbus_error e then Exit 0 else Terminated e)
   \<and> packagekit_main api None (Inl e) daemon_state lg = (Exit 1, main_error e (PackageKitClient lg))"
proof (intro conjI)
  show "fst (hostname1_main api None read_json (Inr description) (Inl e) lg) = Terminated e"
    by (simp add: hostname1_main_def raise_if_def Hostname1Client_def split: option.split)
  show "\<exists>s. timedate1_main api local_time None (Inl e) (Inl e) (Inl e) (Inl e) lg = Some (Exit 0, s)
          \<and> log_of s = lg @ replicate 4 (Log Err ''Error: {}'' [LStr (exn_what e)])"
    by (simp add: timedate1_main_def timedate1_answer_def timedate1_client_init_def log_msg_def numeral_eq_Suc)
qed (simp_all add: locale1_main_def raise_if_def fwupd_main_def packagekit_main_def)

end
