(* ===== verification/Interface_Tables.thy ===== *)
theory Interface_Tables
  imports Prelude
begin

text \<open>
  The properties the proxy classes of \<open>src/proxy\<close> declare, for the interfaces whose properties the
  clients read or print. A generated getter asks the bus for the property of its name on
  \<open>INTERFACE_NAME\<close> and takes the value as its C++ type; a setter, where there is one, sends a value of
  that type. A class is the table of its getters in their order; \<open>rw\<close> marks those with a setter.
  Tables of more than 150 lines of source are split.
\<close>

section \<open>C++ types and signatures\<close>

datatype ctype =
    T_string | T_path | T_bool | T_u8 | T_i16 | T_u16 | T_i32 | T_u32 | T_i64 | T_u64 | T_double
  | T_variant | T_vector ctype | T_map ctype ctype | T_struct "ctype list"

text \<open>The signature D-Bus gives to a value of the type.\<close>

fun signature :: "ctype \<Rightarrow> string" where
  "signature T_string = ''s''" | "signature T_path = ''o''" | "signature T_bool = ''b''"
| "signature T_u8 = ''y''" | "signature T_i16 = ''n''" | "signature T_u16 = ''q''"
| "signature T_i32 = ''i''" | "signature T_u32 = ''u''" | "signature T_i64 = ''x''"
| "signature T_u64 = ''t''" | "signature T_double = ''d''" | "signature T_variant = ''v''"
| "signature (T_vector t) = ''a'' @ signature t"
| "signature (T_map k t) = ''a{'' @ signature k @ signature t @ ''}''"
| "signature (T_struct ts) = ''('' @ concat (map signature ts) @ '')''"

datatype property = Property (pr_name: string) (pr_type: ctype) (pr_writable: bool)

abbreviation ro :: "string \<Rightarrow> ctype \<Rightarrow> property" where "ro name t \<equiv> Property name t False"
abbreviation rw :: "string \<Rightarrow> ctype \<Rightarrow> property" where "rw name t \<equiv> Property name t True"

record proxy =
  px_interface :: string
  px_properties :: "property list"

section \<open>\<open>org.bluez.Adapter1\<close>\<close>

definition bluez_Adapter1_properties :: "property list" where
  "bluez_Adapter1_properties =
    [ro ''Address'' T_string, ro ''AddressType'' T_string, ro ''Name'' T_string,
     rw ''Alias'' T_string, ro ''Class'' T_u32, rw ''Powered'' T_bool, rw ''Discoverable'' T_bool,
     rw ''DiscoverableTimeout'' T_u32, rw ''Pairable'' T_bool, rw ''PairableTimeout'' T_u32,
     ro ''Discovering'' T_bool, ro ''UUIDs'' (T_vector T_string), ro ''Modalias'' T_string]"

definition bluez_Adapter1_proxy :: proxy where
  "bluez_Adapter1_proxy = \<lparr>px_interface = ''org.bluez.Adapter1'',
     px_properties = bluez_Adapter1_properties\<rparr>"

section \<open>\<open>org.bluez.Device1\<close>\<close>

definition bluez_Device1_properties_1 :: "property list" where
  "bluez_Device1_properties_1 =
    [ro ''Address'' T_string, ro ''AddressType'' T_string, ro ''Name'' T_string,
     ro ''Icon'' T_string, ro ''Class'' T_u32, ro ''Appearance'' T_u16,
     ro ''UUIDs'' (T_vector T_string), ro ''Paired'' T_bool, ro ''Connected'' T_bool,
     rw ''Trusted'' T_bool, rw ''Blocked'' T_bool, rw ''WakeAllowed'' T_bool,
     rw ''Alias'' T_string, ro ''Adapter'' T_path, ro ''LegacyPairing'' T_bool,
     ro ''Modalias'' T_string, ro ''RSSI'' T_i16, ro ''TxPower'' T_i16,
     ro ''ManufacturerData'' (T_map T_u16 T_variant),
     ro ''ServiceData'' (T_map T_string T_variant), ro ''ServicesResolved'' T_bool,
     ro ''AdvertisingFlags'' (T_vector T_bool)]"

definition bluez_Device1_properties_2 :: "property list" where
  "bluez_Device1_properties_2 =
    [ro ''AdvertisingData'' (T_map T_u8 T_variant)]"

definition bluez_Device1_proxy :: proxy where
  "bluez_Device1_proxy = \<lparr>px_interface = ''org.bluez.Device1'',
     px_properties = bluez_Device1_properties_1 @ bluez_Device1_properties_2\<rparr>"

section \<open>\<open>org.bluez.Battery1\<close>\<close>

definition bluez_Battery1_properties :: "property list" where
  "bluez_Battery1_properties =
    [ro ''Percentage'' T_u8]"

definition bluez_Battery1_proxy :: proxy where
  "bluez_Battery1_proxy = \<lparr>px_interface = ''org.bluez.Battery1'',
     px_properties = bluez_Battery1_properties\<rparr>"

section \<open>\<open>org.bluez.GattCharacteristic1\<close>\<close>

definition bluez_GattCharacteristic1_properties :: "property list" where
  "bluez_GattCharacteristic1_properties =
    [ro ''UUID'' T_string, ro ''Service'' T_path, ro ''Value'' (T_vector T_u8),
     ro ''Notifying'' T_bool, ro ''Flags'' (T_vector T_string), ro ''WriteAcquired'' T_bool,
     ro ''NotifyAcquired'' T_bool]"

definition bluez_GattCharacteristic1_proxy :: proxy where
  "bluez_GattCharacteristic1_proxy = \<lparr>px_interface = ''org.bluez.GattCharacteristic1'',
     px_properties = bluez_GattCharacteristic1_properties\<rparr>"

section \<open>\<open>org.bluez.GattDescriptor1\<close>\<close>

definition bluez_GattDescriptor1_properties :: "property list" where
  "bluez_GattDescriptor1_properties =
    [ro ''UUID'' T_string, ro ''Characteristic'' T_path, ro ''Value'' (T_vector T_u8)]"

definition bluez_GattDescriptor1_proxy :: proxy where
  "bluez_GattDescriptor1_proxy = \<lparr>px_interface = ''org.bluez.GattDescriptor1'',
     px_properties = bluez_GattDescriptor1_properties\<rparr>"

section \<open>\<open>org.bluez.GattService1\<close>\<close>

definition bluez_GattService1_properties :: "property list" where
  "bluez_GattService1_properties =
    [ro ''UUID'' T_string, ro ''Device'' T_path, ro ''Primary'' T_bool,
     ro ''Includes'' (T_vector T_path)]"

definition bluez_GattService1_proxy :: proxy where
  "bluez_GattService1_proxy = \<lparr>px_interface = ''org.bluez.GattService1'',
     px_properties = bluez_GattService1_properties\<rparr>"

section \<open>\<open>org.bluez.Input1\<close>\<close>

definition bluez_Input1_properties :: "property list" where
  "bluez_Input1_properties =
    [ro ''ReconnectMode'' T_string]"

definition bluez_Input1_proxy :: proxy where
  "bluez_Input1_proxy = \<lparr>px_interface = ''org.bluez.Input1'',
     px_properties = bluez_Input1_properties\<rparr>"

section \<open>\<open>org.bluez.LEAdvertisingManager1\<close>\<close>

definition bluez_LEAdvertisingManager1_properties :: "property list" where
  "bluez_LEAdvertisingManager1_properties =
    [ro ''ActiveInstances'' T_u8, ro ''SupportedInstances'' T_u8,
     ro ''SupportedIncludes'' (T_vector T_string),
     ro ''SupportedSecondaryChannels'' (T_vector T_string)]"

definition bluez_LEAdvertisingManager1_proxy :: proxy where
  "bluez_LEAdvertisingManager1_proxy = \<lparr>px_interface = ''org.bluez.LEAdvertisingManager1'',
     px_properties = bluez_LEAdvertisingManager1_properties\<rparr>"

section \<open>\<open>org.bluez.Media1\<close>\<close>

definition bluez_Media1_properties :: "property list" where
  "bluez_Media1_properties =
    [ro ''SupportedUUIDs'' (T_vector T_string)]"

definition bluez_Media1_proxy :: proxy where
  "bluez_Media1_proxy = \<lparr>px_interface = ''org.bluez.Media1'',
     px_properties = bluez_Media1_properties\<rparr>"

section \<open>\<open>org.freedesktop.UPower\<close>\<close>

definition UPower_properties :: "property list" where
  "UPower_properties =
    [ro ''DaemonVersion'' T_string, ro ''OnBattery'' T_bool, ro ''LidIsClosed'' T_bool,
     ro ''LidIsPresent'' T_bool]"

definition UPower_proxy :: proxy where
  "UPower_proxy = \<lparr>px_interface = ''org.freedesktop.UPower'',
     px_properties = UPower_properties\<rparr>"

section \<open>\<open>org.freedesktop.UPower.Device\<close>\<close>

definition UPower_Device_properties_1 :: "property list" where
  "UPower_Device_properties_1 =
    [ro ''NativePath'' T_string, ro ''Vendor'' T_string, ro ''Model'' T_string,
     ro ''Serial'' T_string, ro ''UpdateTime'' T_u64, ro ''Type'' T_u32, ro ''PowerSupply'' T_bool,
     ro ''HasHistory'' T_bool, ro ''HasStatistics'' T_bool, ro ''Online'' T_bool,
     ro ''Energy'' T_double, ro ''EnergyEmpty'' T_double, ro ''EnergyFull'' T_double,
     ro ''EnergyFullDesign'' T_double, ro ''EnergyRate'' T_double, ro ''Voltage'' T_double,
     ro ''ChargeCycles'' T_i32, ro ''Luminosity'' T_double, ro ''TimeToEmpty'' T_i64,
     ro ''TimeToFull'' T_i64, ro ''Percentage'' T_double, ro ''Temperature'' T_double,
     ro ''IsPresent'' T_bool, ro ''State'' T_u32, ro ''IsRechargeable'' T_bool]"

definition UPower_Device_properties_2 :: "property list" where
  "UPower_Device_properties_2 =
    [ro ''Capacity'' T_double, ro ''Technology'' T_u32, ro ''WarningLevel'' T_u32,
     ro ''BatteryLevel'' T_u32, ro ''IconName'' T_string, ro ''ChargeStartThreshold'' T_u32,
     ro ''ChargeEndThreshold'' T_u32, ro ''ChargeThresholdEnabled'' T_bool,
     ro ''ChargeThresholdSupported'' T_bool]"

definition UPower_Device_proxy :: proxy where
  "UPower_Device_proxy = \<lparr>px_interface = ''org.freedesktop.UPower.Device'',
     px_properties = UPower_Device_properties_1 @ UPower_Device_properties_2\<rparr>"

section \<open>\<open>org.freedesktop.hostname1\<close>\<close>

definition hostname1_properties :: "property list" where
  "hostname1_properties =
    [ro ''Hostname'' T_string, ro ''StaticHostname'' T_string, ro ''PrettyHostname'' T_string,
     ro ''DefaultHostname'' T_string, ro ''HostnameSource'' T_string, ro ''IconName'' T_string,
     ro ''Chassis'' T_string, ro ''Deployment'' T_string, ro ''Location'' T_string,
     ro ''KernelName'' T_string, ro ''KernelRelease'' T_string, ro ''KernelVersion'' T_string,
     ro ''OperatingSystemPrettyName'' T_string, ro ''OperatingSystemCPEName'' T_string,
     ro ''OperatingSystemSupportEnd'' T_u64, ro ''HomeURL'' T_string,
     ro ''HardwareVendor'' T_string, ro ''HardwareModel'' T_string,
     ro ''FirmwareVersion'' T_string, ro ''FirmwareVendor'' T_string, ro ''FirmwareDate'' T_u64,
     ro ''MachineID'' (T_vector T_u8), ro ''BootID'' (T_vector T_u8)]"

definition hostname1_proxy :: proxy where
  "hostname1_proxy = \<lparr>px_interface = ''org.freedesktop.hostname1'',
     px_properties = hostname1_properties\<rparr>"

section \<open>\<open>org.freedesktop.locale1\<close>\<close>

definition locale1_properties :: "property list" where
  "locale1_properties =
    [ro ''Locale'' (T_vector T_string), ro ''X11Layout'' T_string, ro ''X11Model'' T_string,
     ro ''X11Variant'' T_string, ro ''X11Options'' T_string, ro ''VConsoleKeymap'' T_string,
     ro ''VConsoleKeymapToggle'' T_string]"

definition locale1_proxy :: proxy where
  "locale1_proxy = \<lparr>px_interface = ''org.freedesktop.locale1'',
     px_properties = locale1_properties\<rparr>"

section \<open>\<open>org.freedesktop.timedate1\<close>\<close>

definition timedate1_properties :: "property list" where
  "timedate1_properties =
    [ro ''Timezone'' T_string, ro ''LocalRTC'' T_bool, ro ''CanNTP'' T_bool, ro ''NTP'' T_bool,
     ro ''NTPSynchronized'' T_bool, ro ''TimeUSec'' T_u64, ro ''RTCTimeUSec'' T_u64]"

definition timedate1_proxy :: proxy where
  "timedate1_proxy = \<lparr>px_interface = ''org.freedesktop.timedate1'',
     px_properties = timedate1_properties\<rparr>"

section \<open>\<open>org.freedesktop.GeoClue2.Manager\<close>\<close>

definition GeoClue2_Manager_properties :: "property list" where
  "GeoClue2_Manager_properties =
    [ro ''InUse'' T_bool, ro ''AvailableAccuracyLevel'' T_u32]"

definition GeoClue2_Manager_proxy :: proxy where
  "GeoClue2_Manager_proxy = \<lparr>px_interface = ''org.freedesktop.GeoClue2.Manager'',
     px_properties = GeoClue2_Manager_properties\<rparr>"

section \<open>\<open>org.freedesktop.GeoClue2.Client\<close>\<close>

definition GeoClue2_Client_properties :: "property list" where
  "GeoClue2_Client_properties =
    [ro ''Location'' T_path, rw ''DistanceThreshold'' T_u32, rw ''TimeThreshold'' T_u32,
     rw ''DesktopId'' T_string, rw ''RequestedAccuracyLevel'' T_u32, ro ''Active'' T_bool]"

definition GeoClue2_Client_proxy :: proxy where
  "GeoClue2_Client_proxy = \<lparr>px_interface = ''org.freedesktop.GeoClue2.Client'',
     px_properties = GeoClue2_Client_properties\<rparr>"

section \<open>\<open>org.freedesktop.GeoClue2.Location\<close>\<close>

definition GeoClue2_Location_properties :: "property list" where
  "GeoClue2_Location_properties =
    [ro ''Latitude'' T_double, ro ''Longitude'' T_double, ro ''Accuracy'' T_double,
     ro ''Altitude'' T_double, ro ''Speed'' T_double, ro ''Heading'' T_double,
     ro ''Description'' T_string, ro ''Timestamp'' (T_struct [T_u64, T_u64])]"

definition GeoClue2_Location_proxy :: proxy where
  "GeoClue2_Location_proxy = \<lparr>px_interface = ''org.freedesktop.GeoClue2.Location'',
     px_properties = GeoClue2_Location_properties\<rparr>"

section \<open>\<open>org.freedesktop.login1.Manager\<close>\<close>

definition login1_Manager_properties_1 :: "property list" where
  "login1_Manager_properties_1 =
    [rw ''EnableWallMessages'' T_bool, rw ''WallMessage'' T_string, ro ''NAutoVTs'' T_u32,
     ro ''KillOnlyUsers'' (T_vector T_string), ro ''KillExcludeUsers'' (T_vector T_string),
     ro ''KillUserProcesses'' T_bool, ro ''RebootParameter'' T_string,
     ro ''RebootToFirmwareSetup'' T_bool, ro ''RebootToBootLoaderMenu'' T_u64,
     ro ''RebootToBootLoaderEntry'' T_string, ro ''BootLoaderEntries'' (T_vector T_string),
     ro ''IdleHint'' T_bool, ro ''IdleSinceHint'' T_u64, ro ''IdleSinceHintMonotonic'' T_u64,
     ro ''BlockInhibited'' T_string, ro ''DelayInhibited'' T_string,
     ro ''InhibitDelayMaxUSec'' T_u64, ro ''UserStopDelayUSec'' T_u64,
     ro ''HandlePowerKey'' T_string, ro ''HandlePowerKeyLongPress'' T_string,
     ro ''HandleRebootKey'' T_string, ro ''HandleRebootKeyLongPress'' T_string,
     ro ''HandleSuspendKey'' T_string]"

definition login1_Manager_properties_2 :: "property list" where
  "login1_Manager_properties_2 =
    [ro ''HandleSuspendKeyLongPress'' T_string, ro ''HandleHibernateKey'' T_string,
     ro ''HandleHibernateKeyLongPress'' T_string, ro ''HandleLidSwitch'' T_string,
     ro ''HandleLidSwitchExternalPower'' T_string, ro ''HandleLidSwitchDocked'' T_string,
     ro ''HoldoffTimeoutUSec'' T_u64, ro ''IdleAction'' T_string, ro ''IdleActionUSec'' T_u64,
     ro ''PreparingForShutdown'' T_bool, ro ''PreparingForSleep'' T_bool,
     ro ''ScheduledShutdown'' (T_struct [T_string, T_u64]), ro ''Docked'' T_bool,
     ro ''LidClosed'' T_bool, ro ''OnExternalPower'' T_bool, ro ''RemoveIPC'' T_bool,
     ro ''RuntimeDirectorySize'' T_u64, ro ''RuntimeDirectoryInodesMax'' T_u64,
     ro ''InhibitorsMax'' T_u64, ro ''NCurrentInhibitors'' T_u64, ro ''SessionsMax'' T_u64,
     ro ''NCurrentSessions'' T_u64, ro ''StopIdleSessionUSec'' T_u64]"

definition login1_Manager_proxy :: proxy where
  "login1_Manager_proxy = \<lparr>px_interface = ''org.freedesktop.login1.Manager'',
     px_properties = login1_Manager_properties_1 @ login1_Manager_properties_2\<rparr>"

section \<open>\<open>org.freedesktop.login1.Seat\<close>\<close>

definition login1_Seat_properties :: "property list" where
  "login1_Seat_properties =
    [ro ''Id'' T_string, ro ''ActiveSession'' (T_struct [T_string, T_path]), ro ''CanTTY'' T_bool,
     ro ''CanGraphical'' T_bool, ro ''Sessions'' (T_vector (T_struct [T_string, T_path])),
     ro ''IdleHint'' T_bool, ro ''IdleSinceHint'' T_u64, ro ''IdleSinceHintMonotonic'' T_u64]"

definition login1_Seat_proxy :: proxy where
  "login1_Seat_proxy = \<lparr>px_interface = ''org.freedesktop.login1.Seat'',
     px_properties = login1_Seat_properties\<rparr>"

section \<open>\<open>org.freedesktop.login1.Session\<close>\<close>

definition login1_Session_properties :: "property list" where
  "login1_Session_properties =
    [ro ''Id'' T_string, ro ''User'' (T_struct [T_u32, T_path]), ro ''Name'' T_string,
     ro ''Timestamp'' T_u64, ro ''TimestampMonotonic'' T_u64, ro ''VTNr'' T_u32,
     ro ''Seat'' (T_struct [T_string, T_path]), ro ''TTY'' T_string, ro ''Display'' T_string,
     ro ''Remote'' T_bool, ro ''RemoteHost'' T_string, ro ''RemoteUser'' T_string,
     ro ''Service'' T_string, ro ''Desktop'' T_string, ro ''Scope'' T_string, ro ''Leader'' T_u32,
     ro ''Audit'' T_u32, ro ''Type'' T_string, ro ''Class'' T_string, ro ''Active'' T_bool,
     ro ''State'' T_string, ro ''IdleHint'' T_bool, ro ''IdleSinceHint'' T_u64,
     ro ''IdleSinceHintMonotonic'' T_u64, ro ''LockedHint'' T_bool]"

definition login1_Session_proxy :: proxy where
  "login1_Session_proxy = \<lparr>px_interface = ''org.freedesktop.login1.Session'',
     px_properties = login1_Session_properties\<rparr>"

section \<open>\<open>org.freedesktop.login1.User\<close>\<close>

definition login1_User_properties :: "property list" where
  "login1_User_properties =
    [ro ''UID'' T_u32, ro ''GID'' T_u32, ro ''Name'' T_string, ro ''Timestamp'' T_u64,
     ro ''TimestampMonotonic'' T_u64, ro ''RuntimePath'' T_string, ro ''Service'' T_string,
     ro ''Slice'' T_string, ro ''Display'' (T_struct [T_string, T_path]), ro ''State'' T_string,
     ro ''Sessions'' (T_vector (T_struct [T_string, T_path])), ro ''IdleHint'' T_bool,
     ro ''IdleSinceHint'' T_u64, ro ''IdleSinceHintMonotonic'' T_u64, ro ''Linger'' T_bool]"

definition login1_User_proxy :: proxy where
  "login1_User_proxy = \<lparr>px_interface = ''org.freedesktop.login1.User'',
     px_properties = login1_User_properties\<rparr>"

section \<open>\<open>org.freedesktop.systemd1.Manager\<close>\<close>

definition systemd1_Manager_properties_1 :: "property list" where
  "systemd1_Manager_properties_1 =
    [ro ''Version'' T_string, ro ''Features'' T_string, ro ''Virtualization'' T_string,
     ro ''ConfidentialVirtualization'' T_string, ro ''Architecture'' T_string,
     ro ''Tainted'' T_string, ro ''FirmwareTimestamp'' T_u64,
     ro ''FirmwareTimestampMonotonic'' T_u64, ro ''LoaderTimestamp'' T_u64,
     ro ''LoaderTimestampMonotonic'' T_u64, ro ''KernelTimestamp'' T_u64,
     ro ''KernelTimestampMonotonic'' T_u64, ro ''InitRDTimestamp'' T_u64,
     ro ''InitRDTimestampMonotonic'' T_u64, ro ''UserspaceTimestamp'' T_u64,
     ro ''UserspaceTimestampMonotonic'' T_u64, ro ''FinishTimestamp'' T_u64,
     ro ''FinishTimestampMonotonic'' T_u64, ro ''ShutdownStartTimestamp'' T_u64,
     ro ''ShutdownStartTimestampMonotonic'' T_u64, ro ''SecurityStartTimestamp'' T_u64,
     ro ''SecurityStartTimestampMonotonic'' T_u64, ro ''SecurityFinishTimestamp'' T_u64,
     ro ''SecurityFinishTimestampMonotonic'' T_u64, ro ''GeneratorsStartTimestamp'' T_u64]"

definition systemd1_Manager_properties_2 :: "property list" where
  "systemd1_Manager_properties_2 =
    [ro ''GeneratorsStartTimestampMonotonic'' T_u64, ro ''GeneratorsFinishTimestamp'' T_u64,
     ro ''GeneratorsFinishTimestampMonotonic'' T_u64, ro ''UnitsLoadStartTimestamp'' T_u64,
     ro ''UnitsLoadStartTimestampMonotonic'' T_u64, ro ''UnitsLoadFinishTimestamp'' T_u64,
     ro ''UnitsLoadFinishTimestampMonotonic'' T_u64, ro ''UnitsLoadTimestamp'' T_u64,
     ro ''UnitsLoadTimestampMonotonic'' T_u64, ro ''InitRDSecurityStartTimestamp'' T_u64,
     ro ''InitRDSecurityStartTimestampMonotonic'' T_u64,
     ro ''InitRDSecurityFinishTimestamp'' T_u64,
     ro ''InitRDSecurityFinishTimestampMonotonic'' T_u64,
     ro ''InitRDGeneratorsStartTimestamp'' T_u64,
     ro ''InitRDGeneratorsStartTimestampMonotonic'' T_u64,
     ro ''InitRDGeneratorsFinishTimestamp'' T_u64,
     ro ''InitRDGeneratorsFinishTimestampMonotonic'' T_u64,
     ro ''InitRDUnitsLoadStartTimestamp'' T_u64,
     ro ''InitRDUnitsLoadStartTimestampMonotonic'' T_u64,
     ro ''InitRDUnitsLoadFinishTimestamp'' T_u64,
     ro ''InitRDUnitsLoadFinishTimestampMonotonic'' T_u64, rw ''LogLevel'' T_string,
     rw ''LogTarget'' T_string]"

definition systemd1_Manager_properties_3 :: "property list" where
  "systemd1_Manager_properties_3 =
    [ro ''NNames'' T_u32, ro ''NFailedUnits'' T_u32, ro ''NJobs'' T_u32,
     ro ''NInstalledJobs'' T_u32, ro ''NFailedJobs'' T_u32, ro ''Progress'' T_double,
     ro ''Environment'' (T_vector T_string), ro ''ConfirmSpawn'' T_bool, ro ''ShowStatus'' T_bool,
     ro ''UnitPath'' (T_vector T_string), ro ''DefaultStandardOutput'' T_string,
     ro ''DefaultStandardError'' T_string, ro ''WatchdogDevice'' T_string,
     ro ''WatchdogLastPingTimestamp'' T_u64, ro ''WatchdogLastPingTimestampMonotonic'' T_u64,
     rw ''RuntimeWatchdogUSec'' T_u64, rw ''RuntimeWatchdogPreUSec'' T_u64,
     rw ''RuntimeWatchdogPreGovernor'' T_string, rw ''RebootWatchdogUSec'' T_u64,
     rw ''KExecWatchdogUSec'' T_u64]"

definition systemd1_Manager_properties_4 :: "property list" where
  "systemd1_Manager_properties_4 =
    [rw ''ServiceWatchdogs'' T_bool, ro ''ControlGroup'' T_string, ro ''SystemState'' T_string,
     ro ''ExitCode'' T_u8, ro ''DefaultTimerAccuracyUSec'' T_u64,
     ro ''DefaultTimeoutStartUSec'' T_u64, ro ''DefaultTimeoutStopUSec'' T_u64,
     ro ''DefaultTimeoutAbortUSec'' T_u64, ro ''DefaultDeviceTimeoutUSec'' T_u64,
     ro ''DefaultRestartUSec'' T_u64, ro ''DefaultStartLimitIntervalUSec'' T_u64,
     ro ''DefaultStartLimitBurst'' T_u32, ro ''DefaultCPUAccounting'' T_bool,
     ro ''DefaultBlockIOAccounting'' T_bool, ro ''DefaultIOAccounting'' T_bool,
     ro ''DefaultIPAccounting'' T_bool, ro ''DefaultMemoryAccounting'' T_bool,
     ro ''DefaultTasksAccounting'' T_bool, ro ''DefaultLimitCPU'' T_u64,
     ro ''DefaultLimitCPUSoft'' T_u64, ro ''DefaultLimitFSIZE'' T_u64,
     ro ''DefaultLimitFSIZESoft'' T_u64, ro ''DefaultLimitDATA'' T_u64,
     ro ''DefaultLimitDATASoft'' T_u64]"

definition systemd1_Manager_properties_5 :: "property list" where
  "systemd1_Manager_properties_5 =
    [ro ''DefaultLimitSTACK'' T_u64, ro ''DefaultLimitSTACKSoft'' T_u64,
     ro ''DefaultLimitCORE'' T_u64, ro ''DefaultLimitCORESoft'' T_u64,
     ro ''DefaultLimitRSS'' T_u64, ro ''DefaultLimitRSSSoft'' T_u64,
     ro ''DefaultLimitNOFILE'' T_u64, ro ''DefaultLimitNOFILESoft'' T_u64,
     ro ''DefaultLimitAS'' T_u64, ro ''DefaultLimitASSoft'' T_u64, ro ''DefaultLimitNPROC'' T_u64,
     ro ''DefaultLimitNPROCSoft'' T_u64, ro ''DefaultLimitMEMLOCK'' T_u64,
     ro ''DefaultLimitMEMLOCKSoft'' T_u64, ro ''DefaultLimitLOCKS'' T_u64,
     ro ''DefaultLimitLOCKSSoft'' T_u64, ro ''DefaultLimitSIGPENDING'' T_u64,
     ro ''DefaultLimitSIGPENDINGSoft'' T_u64, ro ''DefaultLimitMSGQUEUE'' T_u64,
     ro ''DefaultLimitMSGQUEUESoft'' T_u64, ro ''DefaultLimitNICE'' T_u64,
     ro ''DefaultLimitNICESoft'' T_u64, ro ''DefaultLimitRTPRIO'' T_u64,
     ro ''DefaultLimitRTPRIOSoft'' T_u64, ro ''DefaultLimitRTTIME'' T_u64]"

definition systemd1_Manager_properties_6 :: "property list" where
  "systemd1_Manager_properties_6 =
    [ro ''DefaultLimitRTTIMESoft'' T_u64, ro ''DefaultTasksMax'' T_u64,
     ro ''DefaultMemoryPressureThresholdUSec'' T_u64, ro ''DefaultMemoryPressureWatch'' T_string,
     ro ''TimerSlackNSec'' T_u64, ro ''DefaultOOMPolicy'' T_string,
     ro ''DefaultOOMScoreAdjust'' T_i32, ro ''CtrlAltDelBurstAction'' T_string,
     ro ''SoftRebootsCount'' T_u32]"

definition systemd1_Manager_proxy :: proxy where
  "systemd1_Manager_proxy = \<lparr>px_interface = ''org.freedesktop.systemd1.Manager'',
     px_properties = systemd1_Manager_properties_1 @ systemd1_Manager_properties_2 @ systemd1_Manager_properties_3 @ systemd1_Manager_properties_4 @ systemd1_Manager_properties_5 @ systemd1_Manager_properties_6\<rparr>"

section \<open>\<open>org.freedesktop.UDisks2.Manager\<close>\<close>

definition UDisks2_Manager_properties :: "property list" where
  "UDisks2_Manager_properties =
    [ro ''Version'' T_string, ro ''SupportedFilesystems'' (T_vector T_string),
     ro ''SupportedEncryptionTypes'' (T_vector T_string), ro ''DefaultEncryptionType'' T_string]"

definition UDisks2_Manager_proxy :: proxy where
  "UDisks2_Manager_proxy = \<lparr>px_interface = ''org.freedesktop.UDisks2.Manager'',
     px_properties = UDisks2_Manager_properties\<rparr>"

section \<open>\<open>org.freedesktop.UDisks2.Manager.NVMe\<close>\<close>

definition UDisks2_Manager_NVMe_properties :: "property list" where
  "UDisks2_Manager_NVMe_properties =
    [ro ''HostNQN'' (T_vector T_u8), ro ''HostID'' (T_vector T_u8)]"

definition UDisks2_Manager_NVMe_proxy :: proxy where
  "UDisks2_Manager_NVMe_proxy = \<lparr>px_interface = ''org.freedesktop.UDisks2.Manager.NVMe'',
     px_properties = UDisks2_Manager_NVMe_properties\<rparr>"

section \<open>\<open>org.freedesktop.UDisks2.Block\<close>\<close>

definition UDisks2_Block_properties_1 :: "property list" where
  "UDisks2_Block_properties_1 =
    [ro ''Device'' (T_vector T_u8), ro ''PreferredDevice'' (T_vector T_u8),
     ro ''Symlinks'' (T_vector (T_vector T_u8)), ro ''DeviceNumber'' T_u64, ro ''Id'' T_string,
     ro ''Size'' T_u64, ro ''ReadOnly'' T_bool, ro ''Drive'' T_path, ro ''MDRaid'' T_path,
     ro ''MDRaidMember'' T_path, ro ''IdUsage'' T_string, ro ''IdType'' T_string,
     ro ''IdVersion'' T_string, ro ''IdLabel'' T_string, ro ''IdUUID'' T_string,
     ro ''Configuration'' (T_vector (T_struct [T_string, T_map T_string T_variant])),
     ro ''CryptoBackingDevice'' T_path, ro ''HintPartitionable'' T_bool, ro ''HintSystem'' T_bool,
     ro ''HintIgnore'' T_bool, ro ''HintAuto'' T_bool, ro ''HintName'' T_string,
     ro ''HintIconName'' T_string, ro ''HintSymbolicIconName'' T_string]"

definition UDisks2_Block_properties_2 :: "property list" where
  "UDisks2_Block_properties_2 =
    [ro ''UserspaceMountOptions'' (T_vector T_string)]"

definition UDisks2_Block_proxy :: proxy where
  "UDisks2_Block_proxy = \<lparr>px_interface = ''org.freedesktop.UDisks2.Block'',
     px_properties = UDisks2_Block_properties_1 @ UDisks2_Block_properties_2\<rparr>"

section \<open>\<open>org.freedesktop.UDisks2.Drive\<close>\<close>

definition UDisks2_Drive_properties_1 :: "property list" where
  "UDisks2_Drive_properties_1 =
    [ro ''Vendor'' T_string, ro ''Model'' T_string, ro ''Revision'' T_string,
     ro ''Serial'' T_string, ro ''WWN'' T_string, ro ''Id'' T_string,
     ro ''Configuration'' (T_map T_string T_variant), ro ''Media'' T_string,
     ro ''MediaCompatibility'' (T_vector T_string), ro ''MediaRemovable'' T_bool,
     ro ''MediaAvailable'' T_bool, ro ''MediaChangeDetected'' T_bool, ro ''Size'' T_u64,
     ro ''TimeDetected'' T_u64, ro ''TimeMediaDetected'' T_u64, ro ''Optical'' T_bool,
     ro ''OpticalBlank'' T_bool, ro ''OpticalNumTracks'' T_u32, ro ''OpticalNumAudioTracks'' T_u32,
     ro ''OpticalNumDataTracks'' T_u32, ro ''OpticalNumSessions'' T_u32, ro ''RotationRate'' T_i32,
     ro ''ConnectionBus'' T_string, ro ''Seat'' T_string, ro ''Removable'' T_bool]"

definition UDisks2_Drive_properties_2 :: "property list" where
  "UDisks2_Drive_properties_2 =
    [ro ''Ejectable'' T_bool, ro ''SortKey'' T_string, ro ''CanPowerOff'' T_bool,
     ro ''SiblingId'' T_string]"

definition UDisks2_Drive_proxy :: proxy where
  "UDisks2_Drive_proxy = \<lparr>px_interface = ''org.freedesktop.UDisks2.Drive'',
     px_properties = UDisks2_Drive_properties_1 @ UDisks2_Drive_properties_2\<rparr>"

section \<open>\<open>org.freedesktop.UDisks2.Filesystem\<close>\<close>

definition UDisks2_Filesystem_properties :: "property list" where
  "UDisks2_Filesystem_properties =
    [ro ''MountPoints'' (T_vector (T_vector T_u8)), ro ''Size'' T_u64]"

definition UDisks2_Filesystem_proxy :: proxy where
  "UDisks2_Filesystem_proxy = \<lparr>px_interface = ''org.freedesktop.UDisks2.Filesystem'',
     px_properties = UDisks2_Filesystem_properties\<rparr>"

section \<open>\<open>org.freedesktop.UDisks2.NVMe.Controller\<close>\<close>

definition UDisks2_NVMe_Controller_properties :: "property list" where
  "UDisks2_NVMe_Controller_properties =
    [ro ''State'' T_string, ro ''ControllerID'' T_u16, ro ''SubsystemNQN'' (T_vector T_u8),
     ro ''FGUID'' T_string, ro ''NVMeRevision'' T_string, ro ''UnallocatedCapacity'' T_u64,
     ro ''SmartUpdated'' T_u64, ro ''SmartCriticalWarning'' (T_vector T_string),
     ro ''SmartPowerOnHours'' T_u64, ro ''SmartTemperature'' T_u16,
     ro ''SmartSelftestStatus'' T_string, ro ''SmartSelftestPercentRemaining'' T_i32,
     ro ''SanitizeStatus'' T_string, ro ''SanitizePercentRemaining'' T_i32]"

definition UDisks2_NVMe_Controller_proxy :: proxy where
  "UDisks2_NVMe_Controller_proxy = \<lparr>px_interface = ''org.freedesktop.UDisks2.NVMe.Controller'',
     px_properties = UDisks2_NVMe_Controller_properties\<rparr>"

section \<open>\<open>org.freedesktop.UDisks2.NVMe.Namespace\<close>\<close>

definition UDisks2_NVMe_Namespace_properties :: "property list" where
  "UDisks2_NVMe_Namespace_properties =
    [ro ''NSID'' T_u32, ro ''NGUID'' T_string, ro ''EUI64'' T_string, ro ''UUID'' T_string,
     ro ''WWN'' T_string, ro ''LBAFormats'' (T_vector (T_struct [T_u16, T_u16, T_u8])),
     ro ''FormattedLBASize'' (T_struct [T_u16, T_u16, T_u8]), ro ''NamespaceSize'' T_u64,
     ro ''NamespaceCapacity'' T_u64, ro ''NamespaceUtilization'' T_u64,
     ro ''FormatPercentRemaining'' T_i32]"

definition UDisks2_NVMe_Namespace_proxy :: proxy where
  "UDisks2_NVMe_Namespace_proxy = \<lparr>px_interface = ''org.freedesktop.UDisks2.NVMe.Namespace'',
     px_properties = UDisks2_NVMe_Namespace_properties\<rparr>"

section \<open>\<open>org.freedesktop.UDisks2.Partition\<close>\<close>

definition UDisks2_Partition_properties :: "property list" where
  "UDisks2_Partition_properties =
    [ro ''Number'' T_u32, ro ''Type'' T_string, ro ''Flags'' T_u64, ro ''Offset'' T_u64,
     ro ''Size'' T_u64, ro ''Name'' T_string, ro ''UUID'' T_string, ro ''Table'' T_path,
     ro ''IsContainer'' T_bool, ro ''IsContained'' T_bool]"

definition UDisks2_Partition_proxy :: proxy where
  "UDisks2_Partition_proxy = \<lparr>px_interface = ''org.freedesktop.UDisks2.Partition'',
     px_properties = UDisks2_Partition_properties\<rparr>"

section \<open>\<open>org.freedesktop.UDisks2.PartitionTable\<close>\<close>

definition UDisks2_PartitionTable_properties :: "property list" where
  "UDisks2_PartitionTable_properties =
    [ro ''Partitions'' (T_vector T_path), ro ''Type'' T_string]"

definition UDisks2_PartitionTable_proxy :: proxy where
  "UDisks2_PartitionTable_proxy = \<lparr>px_interface = ''org.freedesktop.UDisks2.PartitionTable'',
     px_properties = UDisks2_PartitionTable_properties\<rparr>"

section \<open>\<open>org.freedesktop.UDisks2.Swapspace\<close>\<close>

definition UDisks2_Swapspace_properties :: "property list" where
  "UDisks2_Swapspace_properties =
    [ro ''Active'' T_bool]"

definition UDisks2_Swapspace_proxy :: proxy where
  "UDisks2_Swapspace_proxy = \<lparr>px_interface = ''org.freedesktop.UDisks2.Swapspace'',
     px_properties = UDisks2_Swapspace_properties\<rparr>"

section \<open>\<open>org.freedesktop.NetworkManager\<close>\<close>

definition NetworkManager_properties_1 :: "property list" where
  "NetworkManager_properties_1 =
    [ro ''Devices'' (T_vector T_path), ro ''AllDevices'' (T_vector T_path),
     ro ''Checkpoints'' (T_vector T_path), ro ''NetworkingEnabled'' T_bool,
     rw ''WirelessEnabled'' T_bool, ro ''WirelessHardwareEnabled'' T_bool,
     rw ''WwanEnabled'' T_bool, ro ''WwanHardwareEnabled'' T_bool, rw ''WimaxEnabled'' T_bool,
     ro ''WimaxHardwareEnabled'' T_bool, ro ''ActiveConnections'' (T_vector T_path),
     ro ''PrimaryConnection'' T_path, ro ''PrimaryConnectionType'' T_string, ro ''Metered'' T_u32,
     ro ''ActivatingConnection'' T_path, ro ''Startup'' T_bool, ro ''Version'' T_string,
     ro ''Capabilities'' T_u32, ro ''State'' T_u32, ro ''Connectivity'' T_u32,
     ro ''ConnectivityCheckAvailable'' T_bool]"

definition NetworkManager_properties_2 :: "property list" where
  "NetworkManager_properties_2 =
    [rw ''ConnectivityCheckEnabled'' T_bool, ro ''ConnectivityCheckUri'' T_string,
     rw ''GlobalDnsConfiguration'' (T_map T_string T_variant)]"

definition NetworkManager_proxy :: proxy where
  "NetworkManager_proxy = \<lparr>px_interface = ''org.freedesktop.NetworkManager'',
     px_properties = NetworkManager_properties_1 @ NetworkManager_properties_2\<rparr>"

section \<open>\<open>org.freedesktop.NetworkManager.Connection.Active\<close>\<close>

definition NetworkManager_Connection_Active_properties :: "property list" where
  "NetworkManager_Connection_Active_properties =
    [ro ''Connection'' T_path, ro ''SpecificObject'' T_path, ro ''Id'' T_string,
     ro ''Uuid'' T_string, ro ''Type'' T_string, ro ''Devices'' (T_vector T_path),
     ro ''State'' T_u32, ro ''StateFlags'' T_u32, ro ''Default'' T_bool, ro ''Ip4Config'' T_path,
     ro ''Dhcp4Config'' T_path, ro ''Default6'' T_bool, ro ''Ip6Config'' T_path,
     ro ''Dhcp6Config'' T_path, ro ''Vpn'' T_bool, ro ''Controller'' T_path, ro ''Master'' T_path]"

definition NetworkManager_Connection_Active_proxy :: proxy where
  "NetworkManager_Connection_Active_proxy = \<lparr>px_interface = ''org.freedesktop.NetworkManager.Connection.Active'',
     px_properties = NetworkManager_Connection_Active_properties\<rparr>"

section \<open>\<open>org.freedesktop.NetworkManager.DHCP4Config\<close>\<close>

definition NetworkManager_DHCP4Config_properties :: "property list" where
  "NetworkManager_DHCP4Config_properties =
    [ro ''Options'' (T_map T_string T_variant)]"

definition NetworkManager_DHCP4Config_proxy :: proxy where
  "NetworkManager_DHCP4Config_proxy = \<lparr>px_interface = ''org.freedesktop.NetworkManager.DHCP4Config'',
     px_properties = NetworkManager_DHCP4Config_properties\<rparr>"

section \<open>\<open>org.freedesktop.NetworkManager.Device\<close>\<close>

definition NetworkManager_Device_properties_1 :: "property list" where
  "NetworkManager_Device_properties_1 =
    [ro ''Udi'' T_string, ro ''Path'' T_string, ro ''Interface'' T_string,
     ro ''IpInterface'' T_string, ro ''Driver'' T_string, ro ''DriverVersion'' T_string,
     ro ''FirmwareVersion'' T_string, ro ''Capabilities'' T_u32, ro ''Ip4Address'' T_u32,
     ro ''State'' T_u32, ro ''StateReason'' (T_struct [T_u32, T_u32]),
     ro ''ActiveConnection'' T_path, ro ''Ip4Config'' T_path, ro ''Dhcp4Config'' T_path,
     ro ''Ip6Config'' T_path, ro ''Dhcp6Config'' T_path, rw ''Managed'' T_bool,
     rw ''Autoconnect'' T_bool, ro ''FirmwareMissing'' T_bool, ro ''NmPluginMissing'' T_bool,
     ro ''DeviceType'' T_u32, ro ''AvailableConnections'' (T_vector T_path),
     ro ''PhysicalPortId'' T_string]"

definition NetworkManager_Device_properties_2 :: "property list" where
  "NetworkManager_Device_properties_2 =
    [ro ''Mtu'' T_u32, ro ''Metered'' T_u32,
     ro ''LldpNeighbors'' (T_vector (T_map T_string T_variant)), ro ''Real'' T_bool,
     ro ''Ip4Connectivity'' T_u32, ro ''Ip6Connectivity'' T_u32, ro ''InterfaceFlags'' T_u32,
     ro ''HwAddress'' T_string, ro ''Ports'' (T_vector T_path)]"

definition NetworkManager_Device_proxy :: proxy where
  "NetworkManager_Device_proxy = \<lparr>px_interface = ''org.freedesktop.NetworkManager.Device'',
     px_properties = NetworkManager_Device_properties_1 @ NetworkManager_Device_properties_2\<rparr>"

section \<open>\<open>org.freedesktop.NetworkManager.Device.Statistics\<close>\<close>

definition NetworkManager_Device_Statistics_properties :: "property list" where
  "NetworkManager_Device_Statistics_properties =
    [rw ''RefreshRateMs'' T_u32, ro ''TxBytes'' T_u64, ro ''RxBytes'' T_u64]"

definition NetworkManager_Device_Statistics_proxy :: proxy where
  "NetworkManager_Device_Statistics_proxy = \<lparr>px_interface = ''org.freedesktop.NetworkManager.Device.Statistics'',
     px_properties = NetworkManager_Device_Statistics_properties\<rparr>"

section \<open>\<open>org.freedesktop.NetworkManager.Device.Wireless\<close>\<close>

definition NetworkManager_Device_Wireless_properties :: "property list" where
  "NetworkManager_Device_Wireless_properties =
    [ro ''HwAddress'' T_string, ro ''PermHwAddress'' T_string, ro ''Mode'' T_u32,
     ro ''Bitrate'' T_u32, ro ''AccessPoints'' (T_vector T_path), ro ''ActiveAccessPoint'' T_path,
     ro ''WirelessCapabilities'' T_u32, ro ''LastScan'' T_i64]"

definition NetworkManager_Device_Wireless_proxy :: proxy where
  "NetworkManager_Device_Wireless_proxy = \<lparr>px_interface = ''org.freedesktop.NetworkManager.Device.Wireless'',
     px_properties = NetworkManager_Device_Wireless_properties\<rparr>"

section \<open>\<open>org.freedesktop.NetworkManager.DnsManager\<close>\<close>

definition NetworkManager_DnsManager_properties :: "property list" where
  "NetworkManager_DnsManager_properties =
    [ro ''Mode'' T_string, ro ''RcManager'' T_string,
     ro ''Configuration'' (T_vector (T_map T_string T_variant))]"

definition NetworkManager_DnsManager_proxy :: proxy where
  "NetworkManager_DnsManager_proxy = \<lparr>px_interface = ''org.freedesktop.NetworkManager.DnsManager'',
     px_properties = NetworkManager_DnsManager_properties\<rparr>"

section \<open>\<open>org.freedesktop.NetworkManager.IP4Config\<close>\<close>

definition NetworkManager_IP4Config_properties :: "property list" where
  "NetworkManager_IP4Config_properties =
    [ro ''Addresses'' (T_vector (T_vector T_u32)),
     ro ''AddressData'' (T_vector (T_map T_string T_variant)), ro ''Gateway'' T_string,
     ro ''Routes'' (T_vector (T_vector T_u32)),
     ro ''RouteData'' (T_vector (T_map T_string T_variant)),
     ro ''NameserverData'' (T_vector (T_map T_string T_variant)),
     ro ''Nameservers'' (T_vector T_u32), ro ''Domains'' (T_vector T_string),
     ro ''Searches'' (T_vector T_string), ro ''DnsOptions'' (T_vector T_string),
     ro ''DnsPriority'' T_i32, ro ''WinsServerData'' (T_vector T_string),
     ro ''WinsServers'' (T_vector T_u32)]"

definition NetworkManager_IP4Config_proxy :: proxy where
  "NetworkManager_IP4Config_proxy = \<lparr>px_interface = ''org.freedesktop.NetworkManager.IP4Config'',
     px_properties = NetworkManager_IP4Config_properties\<rparr>"

section \<open>\<open>org.freedesktop.NetworkManager.IP6Config\<close>\<close>

definition NetworkManager_IP6Config_properties :: "property list" where
  "NetworkManager_IP6Config_properties =
    [ro ''Addresses'' (T_vector (T_struct [T_vector T_u8, T_u32, T_vector T_u8])),
     ro ''AddressData'' (T_vector (T_map T_string T_variant)), ro ''Gateway'' T_string,
     ro ''Routes'' (T_vector (T_struct [T_vector T_u8, T_u32, T_vector T_u8, T_u32])),
     ro ''RouteData'' (T_vector (T_map T_string T_variant)),
     ro ''Nameservers'' (T_vector (T_vector T_u8)), ro ''Domains'' (T_vector T_string),
     ro ''Searches'' (T_vector T_string), ro ''DnsOptions'' (T_vector T_string),
     ro ''DnsPriority'' T_i32]"

definition NetworkManager_IP6Config_proxy :: proxy where
  "NetworkManager_IP6Config_proxy = \<lparr>px_interface = ''org.freedesktop.NetworkManager.IP6Config'',
     px_properties = NetworkManager_IP6Config_properties\<rparr>"

section \<open>\<open>org.freedesktop.NetworkManager.Settings\<close>\<close>

definition NetworkManager_Settings_properties :: "property list" where
  "NetworkManager_Settings_properties =
    [ro ''Connections'' (T_vector T_path), ro ''Hostname'' T_string, ro ''CanModify'' T_bool]"

definition NetworkManager_Settings_proxy :: proxy where
  "NetworkManager_Settings_proxy = \<lparr>px_interface = ''org.freedesktop.NetworkManager.Settings'',
     px_properties = NetworkManager_Settings_properties\<rparr>"

section \<open>\<open>org.freedesktop.NetworkManager.Settings.Connection\<close>\<close>

definition NetworkManager_Settings_Connection_properties :: "property list" where
  "NetworkManager_Settings_Connection_properties =
    [ro ''Unsaved'' T_bool, ro ''Flags'' T_u32, ro ''Filename'' T_string, ro ''VersionId'' T_u64]"

definition NetworkManager_Settings_Connection_proxy :: proxy where
  "NetworkManager_Settings_Connection_proxy = \<lparr>px_interface = ''org.freedesktop.NetworkManager.Settings.Connection'',
     px_properties = NetworkManager_Settings_Connection_properties\<rparr>"

section \<open>\<open>org.freedesktop.network1.Manager\<close>\<close>

definition network1_Manager_properties :: "property list" where
  "network1_Manager_properties =
    [ro ''OperationalState'' T_string, ro ''CarrierState'' T_string, ro ''AddressState'' T_string,
     ro ''IPv4AddressState'' T_string, ro ''IPv6AddressState'' T_string,
     ro ''OnlineState'' T_string, ro ''NamespaceId'' T_u64]"

definition network1_Manager_proxy :: proxy where
  "network1_Manager_proxy = \<lparr>px_interface = ''org.freedesktop.network1.Manager'',
     px_properties = network1_Manager_properties\<rparr>"

section \<open>\<open>org.freedesktop.network1.Link\<close>\<close>

definition network1_Link_properties :: "property list" where
  "network1_Link_properties =
    [ro ''OperationalState'' T_string, ro ''CarrierState'' T_string, ro ''AddressState'' T_string,
     ro ''IPv4AddressState'' T_string, ro ''IPv6AddressState'' T_string,
     ro ''OnlineState'' T_string, ro ''AdministrativeState'' T_string,
     ro ''BitRates'' (T_struct [T_u64, T_u64])]"

definition network1_Link_proxy :: proxy where
  "network1_Link_proxy = \<lparr>px_interface = ''org.freedesktop.network1.Link'',
     px_properties = network1_Link_properties\<rparr>"

section \<open>\<open>org.freedesktop.resolve1.Manager\<close>\<close>

definition resolve1_Manager_properties :: "property list" where
  "resolve1_Manager_properties =
    [ro ''LLMNRHostname'' T_string, ro ''LLMNR'' T_string, ro ''MulticastDNS'' T_string,
     ro ''DNSOverTLS'' T_string, ro ''DNS'' (T_vector (T_struct [T_i32, T_i32, T_vector T_u8])),
     ro ''DNSEx'' (T_vector (T_struct [T_i32, T_i32, T_vector T_u8, T_u16, T_string])),
     ro ''FallbackDNS'' (T_vector (T_struct [T_i32, T_i32, T_vector T_u8])),
     ro ''FallbackDNSEx'' (T_vector (T_struct [T_i32, T_i32, T_vector T_u8, T_u16, T_string])),
     ro ''CurrentDNSServer'' (T_struct [T_i32, T_i32, T_vector T_u8]),
     ro ''CurrentDNSServerEx'' (T_struct [T_i32, T_i32, T_vector T_u8, T_u16, T_string]),
     ro ''Domains'' (T_vector (T_struct [T_i32, T_string, T_bool])),
     ro ''TransactionStatistics'' (T_struct [T_u64, T_u64]),
     ro ''CacheStatistics'' (T_struct [T_u64, T_u64, T_u64]), ro ''DNSSEC'' T_string,
     ro ''DNSSECStatistics'' (T_struct [T_u64, T_u64, T_u64, T_u64]),
     ro ''DNSSECSupported'' T_bool, ro ''DNSSECNegativeTrustAnchors'' (T_vector T_string),
     ro ''DNSStubListener'' T_string, ro ''ResolvConfMode'' T_string]"

definition resolve1_Manager_proxy :: proxy where
  "resolve1_Manager_proxy = \<lparr>px_interface = ''org.freedesktop.resolve1.Manager'',
     px_properties = resolve1_Manager_properties\<rparr>"

section \<open>\<open>org.freedesktop.PackageKit\<close>\<close>

definition PackageKit_properties :: "property list" where
  "PackageKit_properties =
    [ro ''VersionMajor'' T_u32, ro ''VersionMinor'' T_u32, ro ''VersionMicro'' T_u32,
     ro ''BackendName'' T_string, ro ''BackendDescription'' T_string,
     ro ''BackendAuthor'' T_string, ro ''Roles'' T_u64, ro ''Groups'' T_u64, ro ''Filters'' T_u64,
     ro ''MimeTypes'' (T_vector T_string), ro ''Locked'' T_bool, ro ''NetworkState'' T_u32,
     ro ''DistroId'' T_string]"

definition PackageKit_proxy :: proxy where
  "PackageKit_proxy = \<lparr>px_interface = ''org.freedesktop.PackageKit'',
     px_properties = PackageKit_properties\<rparr>"

section \<open>\<open>org.freedesktop.PackageKit.Transaction\<close>\<close>

definition PackageKit_Transaction_properties :: "property list" where
  "PackageKit_Transaction_properties =
    [ro ''Role'' T_u32, ro ''Status'' T_u32, ro ''LastPackage'' T_string, ro ''Uid'' T_u32,
     ro ''Sender'' T_string, ro ''Percentage'' T_u32, ro ''AllowCancel'' T_bool,
     ro ''CallerActive'' T_bool, ro ''ElapsedTime'' T_u32, ro ''RemainingTime'' T_u32,
     ro ''Speed'' T_u32, ro ''DownloadSizeRemaining'' T_u64, ro ''TransactionFlags'' T_u64]"

definition PackageKit_Transaction_proxy :: proxy where
  "PackageKit_Transaction_proxy = \<lparr>px_interface = ''org.freedesktop.PackageKit.Transaction'',
     px_properties = PackageKit_Transaction_properties\<rparr>"

section \<open>\<open>org.freedesktop.fwupd\<close>\<close>

definition fwupd_properties :: "property list" where
  "fwupd_properties =
    [ro ''DaemonVersion'' T_string, ro ''HostBkc'' T_string, ro ''HostVendor'' T_string,
     ro ''HostProduct'' T_string, ro ''HostMachineId'' T_string, ro ''HostSecurityId'' T_string,
     ro ''Tainted'' T_bool, ro ''Interactive'' T_bool, ro ''Status'' T_u32,
     ro ''Percentage'' T_u32, ro ''BatteryLevel'' T_u32, ro ''BatteryThreshold'' T_u32,
     ro ''OnlyTrusted'' T_bool]"

definition fwupd_proxy :: proxy where
  "fwupd_proxy = \<lparr>px_interface = ''org.freedesktop.fwupd'',
     px_properties = fwupd_properties\<rparr>"

section \<open>\<open>fi.w1.wpa_supplicant1\<close>\<close>

definition wpa_supplicant1_properties :: "property list" where
  "wpa_supplicant1_properties =
    [rw ''DebugLevel'' T_string, rw ''DebugTimestamp'' T_bool, rw ''DebugShowKeys'' T_bool,
     ro ''Interfaces'' (T_vector T_path), ro ''EapMethods'' (T_vector T_string),
     ro ''Capabilities'' (T_vector T_string), rw ''WFDIEs'' (T_vector T_u8)]"

definition wpa_supplicant1_proxy :: proxy where
  "wpa_supplicant1_proxy = \<lparr>px_interface = ''fi.w1.wpa_supplicant1'',
     px_properties = wpa_supplicant1_properties\<rparr>"

end
