(* ===== verification/Interface_Types.thy ===== *)
theory Interface_Types
  imports Interface_Tables Rendering Bluez_Laws UPower_Laws Service_Client_Laws
begin

text \<open>
  The clients against the interfaces their proxies declare (\<open>Interface_Tables\<close>). A service is
  well typed when a change it announces holds declared properties only, each with a value of the
  declared type. Shown: the handlers of the objects that mirror properties do not throw on such a
  change, with one exception, an adapter whose call of \<open>StartDiscovery\<close> fails; and which declared
  properties \<open>Utils::append_property\<close> cannot print.
\<close>

section \<open>Well-typed changes\<close>

definition conforms :: "'v variant_api \<Rightarrow> proxy \<Rightarrow> 'v props \<Rightarrow> bool" where
  "conforms api px changed \<longleftrightarrow>
     (\<forall>(key, value) \<in> set changed. \<exists>p \<in> set (px_properties px).
        pr_name p = key \<and> va_type api value = signature (pr_type p))"

text \<open>What \<open>honest\<close> gives for the accessors the update loops use.\<close>

lemma honestD: "honest api \<Longrightarrow> (va_type api v, ok) \<in> set (typed_getters api v) \<Longrightarrow> ok"
  by (auto simp: honest_def)

lemma honest_getters:
  assumes "honest api"
  shows "va_type api v = ''s'' \<Longrightarrow> \<not> isl (va_string api v)"
    "va_type api v = ''o'' \<Longrightarrow> \<not> isl (va_path api v)"
    "va_type api v = ''b'' \<Longrightarrow> \<not> isl (va_bool api v)"
    "va_type api v = ''y'' \<Longrightarrow> \<not> isl (va_u8 api v)"
    "va_type api v = ''n'' \<Longrightarrow> \<not> isl (va_i16 api v)"
    "va_type api v = ''i'' \<Longrightarrow> \<not> isl (va_i32 api v)"
    "va_type api v = ''u'' \<Longrightarrow> \<not> isl (va_u32 api v)"
    "va_type api v = ''x'' \<Longrightarrow> \<not> isl (va_i64 api v)"
    "va_type api v = ''t'' \<Longrightarrow> \<not> isl (va_u64 api v)"
    "va_type api v = ''d'' \<Longrightarrow> \<not> isl (va_double api v)"
    "va_type api v = ''as'' \<Longrightarrow> \<not> isl (va_strings api v)"
    "va_type api v = ''ao'' \<Longrightarrow> \<not> isl (va_paths api v)"
    "va_type api v = ''ay'' \<Longrightarrow> \<not> isl (va_bytes api v)"
    "va_type api v = ''a{sv}'' \<Longrightarrow> \<not> isl (va_dict_s api v)"
    "va_type api v = ''(tt)'' \<Longrightarrow> \<not> isl (sa_tt (va_structs api) v)"
  using honestD [OF assms, of v] by (simp_all add: typed_getters_def Let_def)

lemma is_done_assign [simp]: "is_done (assign r f s) \<longleftrightarrow> \<not> isl r"
  by (cases r) simp_all

lemma is_done_seq: "is_done (seq r f) \<longleftrightarrow> is_done r \<and> is_done (f (state_of r))"
  by (cases r) simp_all

text \<open>
  The contract: a step of an update loop does not throw on a declared property with a value of
  the declared type. Then the loop does not throw on a well-typed change.
\<close>

locale typed_update =
  fixes api :: "'v variant_api"
    and px :: proxy
    and step :: "string \<times> 'v \<Rightarrow> 's \<Rightarrow> 's outcome"
  assumes declared_step: "honest api \<Longrightarrow> p \<in> set (px_properties px) \<Longrightarrow>
      va_type api v = signature (pr_type p) \<Longrightarrow> is_done (step (pr_name p, v) s)"
begin

lemma never_throws:
  assumes "honest api" "conforms api px changed"
  shows "is_done (for_each step changed s)"
proof (rule for_each_is_done)
  fix kv s assume "kv \<in> set changed"
  then obtain p where "p \<in> set (px_properties px)" "pr_name p = fst kv"
      "va_type api (snd kv) = signature (pr_type p)"
    using assms(2) by (auto simp: conforms_def)
  then show "is_done (step kv s)" using declared_step [OF assms(1), of p "snd kv"] by simp
qed

end

lemmas typed_step_simps = honest_getters is_done_seq

section \<open>The update loops\<close>

text \<open>An adapter that stopped discovering starts again, and that call may throw.\<close>

definition stops_discovering :: "'v variant_api \<Rightarrow> string \<times> 'v \<Rightarrow> bool" where
  "stops_discovering api = (\<lambda>(key, value). key = ''Discovering'' \<and> va_bool api value = Inr False)"

lemma adapter1_step_done:
  assumes "honest api" "p \<in> set (px_properties bluez_Adapter1_proxy)" "va_type api v = signature (pr_type p)"
  shows "is_done (adapter1_step api sd (pr_name p, v) s) \<longleftrightarrow> sd = None \<or> \<not> stops_discovering api (pr_name p, v)"
  using assms(2,3)
  by (simp only: bluez_Adapter1_proxy_def bluez_Adapter1_properties_def proxy.simps append.simps list.set insert_iff empty_iff,
      elim disjE FalseE;
      simp add: adapter1_step_def is_done_seq honest_getters [OF assms(1)] stops_discovering_def)
    (cases "va_bool api v"; auto simp: StartDiscovery_def Let_def is_done_seq dest: honest_getters(3) [OF assms(1)]
      split: option.split)+

lemma for_each_done_iff:
  assumes "\<And>x s. x \<in> set xs \<Longrightarrow> is_done (f x s) \<longleftrightarrow> P x"
  shows "is_done (for_each f xs s) \<longleftrightarrow> list_all P xs"
  using assms
proof (induction xs arbitrary: s)
  case (Cons x xs)
  have "is_done (f x s) \<longleftrightarrow> P x" using Cons.prems by simp
  then show ?case using Cons by (cases "f x s") auto
qed simp

lemma adapter1_update_done:
  assumes "honest api" "conforms api bluez_Adapter1_proxy changed"
  shows "is_done (adapter1_onPropertiesChanged api sd changed s) \<longleftrightarrow>
    sd = None \<or> \<not> list_ex (stops_discovering api) changed"
proof -
  have "is_done (for_each (adapter1_step api sd) changed s) \<longleftrightarrow>
      list_all (\<lambda>kv. sd = None \<or> \<not> stops_discovering api kv) changed"
  proof (rule for_each_done_iff)
    fix kv s assume "kv \<in> set changed"
    then obtain p where "p \<in> set (px_properties bluez_Adapter1_proxy)" "pr_name p = fst kv"
        "va_type api (snd kv) = signature (pr_type p)"
      using assms(2) by (auto simp: conforms_def)
    with adapter1_step_done [OF assms(1) this(1,3), of sd s]
    show "is_done (adapter1_step api sd kv s) \<longleftrightarrow> sd = None \<or> \<not> stops_discovering api kv" by (cases kv) simp
  qed
  then show ?thesis by (auto simp: adapter1_onPropertiesChanged_def list_all_iff list_ex_iff)
qed

interpretation Device1_typed: typed_update api bluez_Device1_proxy "device1_step api" for api
  by unfold_locales
    (simp only: bluez_Device1_proxy_def bluez_Device1_properties_1_def bluez_Device1_properties_2_def proxy.simps append.simps list.set insert_iff empty_iff,
      elim disjE FalseE; simp add: device1_step_def typed_step_simps)

interpretation GattService1_typed: typed_update api bluez_GattService1_proxy "service_step api" for api
  by unfold_locales
    (simp only: bluez_GattService1_proxy_def bluez_GattService1_properties_def proxy.simps append.simps list.set insert_iff empty_iff,
      elim disjE FalseE; simp add: service_step_def typed_step_simps)

interpretation GattCharacteristic1_typed: typed_update api bluez_GattCharacteristic1_proxy "characteristic_step api" for api
  by unfold_locales
    (simp only: bluez_GattCharacteristic1_proxy_def bluez_GattCharacteristic1_properties_def proxy.simps append.simps list.set insert_iff empty_iff,
      elim disjE FalseE; simp add: characteristic_step_def typed_step_simps)

interpretation GattDescriptor1_typed: typed_update api bluez_GattDescriptor1_proxy "descriptor_step api" for api
  by unfold_locales
    (simp only: bluez_GattDescriptor1_proxy_def bluez_GattDescriptor1_properties_def proxy.simps append.simps list.set insert_iff empty_iff,
      elim disjE FalseE; simp add: descriptor_step_def typed_step_simps)

interpretation LEAdvertisingManager1_typed: typed_update api bluez_LEAdvertisingManager1_proxy "le_advertising_step api" for api
  by unfold_locales
    (simp only: bluez_LEAdvertisingManager1_proxy_def bluez_LEAdvertisingManager1_properties_def proxy.simps append.simps list.set insert_iff empty_iff,
      elim disjE FalseE; simp add: le_advertising_step_def typed_step_simps)

interpretation UPower_Device_typed: typed_update api UPower_Device_proxy "display_device_step api" for api
  by unfold_locales
    (simp only: UPower_Device_proxy_def UPower_Device_properties_1_def UPower_Device_properties_2_def proxy.simps append.simps list.set insert_iff empty_iff,
      elim disjE FalseE; simp add: display_device_step_def typed_step_simps)

interpretation hostname1_typed: typed_update api hostname1_proxy "updateHostname1_step api" for api
  by unfold_locales
    (simp only: hostname1_proxy_def hostname1_properties_def proxy.simps append.simps list.set insert_iff empty_iff,
      elim disjE FalseE; simp add: updateHostname1_step_def typed_step_simps)

interpretation locale1_typed: typed_update api locale1_proxy "updateLocale1_step api" for api
  by unfold_locales
    (simp only: locale1_proxy_def locale1_properties_def proxy.simps append.simps list.set insert_iff empty_iff,
      elim disjE FalseE; simp add: updateLocale1_step_def typed_step_simps)

interpretation timedate1_typed: typed_update api timedate1_proxy "updateTimedate1_step api" for api
  by unfold_locales
    (simp only: timedate1_proxy_def timedate1_properties_def proxy.simps append.simps list.set insert_iff empty_iff,
      elim disjE FalseE; simp add: updateTimedate1_step_def typed_step_simps)

interpretation GeoClue2_Location_typed: typed_update api GeoClue2_Location_proxy "location_step api i c u" for api i c u
  by unfold_locales
    (simp only: GeoClue2_Location_proxy_def GeoClue2_Location_properties_def proxy.simps append.simps list.set insert_iff empty_iff,
      elim disjE FalseE; simp add: location_step_def typed_step_simps)

interpretation GeoClue2_Client_typed: typed_update api GeoClue2_Client_proxy "client_step api i c u" for api i c u
  by unfold_locales
    (simp only: GeoClue2_Client_proxy_def GeoClue2_Client_properties_def proxy.simps append.simps list.set insert_iff empty_iff,
      elim disjE FalseE; simp add: client_step_def typed_step_simps)

interpretation GeoClue2_Manager_typed: typed_update api GeoClue2_Manager_proxy "manager_step api i c u" for api i c u
  by unfold_locales
    (simp only: GeoClue2_Manager_proxy_def GeoClue2_Manager_properties_def proxy.simps append.simps list.set insert_iff empty_iff,
      elim disjE FalseE; simp add: manager_step_def typed_step_simps)

section \<open>Handlers that print the change\<close>

text \<open>The declared types of these interfaces are basic: no variant inside a value is printed.\<close>

definition basic_signatures :: "string list" where
  "basic_signatures = [''s'', ''b'', ''i'', ''u'', ''x'', ''t'', ''d'']"

lemma basic_handlers:
  "map_of (type_map r api) ''s'' = Some (show_s api)" "map_of (type_map r api) ''b'' = Some (show_b api)"
  "map_of (type_map r api) ''i'' = Some (show_i api)" "map_of (type_map r api) ''u'' = Some (show_u api)"
  "map_of (type_map r api) ''x'' = Some (show_x api)" "map_of (type_map r api) ''t'' = Some (show_t api)"
  "map_of (type_map r api) ''d'' = Some (show_d api)"
  by (simp_all add: type_map_def)

lemma basic_property_done:
  assumes "honest api" "va_type api v \<in> set basic_signatures"
  shows "is_done (append_property (Suc n) api v os)"
  using assms(2)
  by (auto simp: basic_signatures_def basic_handlers Let_def intro!: plain_handlers_done honest_getters [OF assms(1)])

lemma printed_change_done:
  assumes "honest api" "conforms api px changed"
    and "list_all (\<lambda>p. signature (pr_type p) \<in> set basic_signatures) (px_properties px)"
  shows "is_done (print_changed_properties api iface changed invalidated s)"
proof -
  have "is_done (append_properties max_nesting api changed os)" for os
    unfolding append_properties_def
  proof (rule for_each_is_done)
    fix x s assume "x \<in> set changed"
    then have "va_type api (snd x) \<in> set basic_signatures"
      using assms(2,3) by (fastforce simp: conforms_def list_all_iff)
    from basic_property_done [OF assms(1) this, of 64]
    show "is_done ((case x of (key, value) \<Rightarrow> \<lambda>os.
        append_property max_nesting api value (put (''  '' @ key @ '': '') os)) s)"
      by (cases x) (simp add: max_nesting_def del: append_property.simps)
  qed
  then have "is_done (changed_properties_text api iface changed invalidated)"
    by (simp add: changed_properties_text_def is_done_seq)
  then show ?thesis
    by (cases "changed_properties_text api iface changed invalidated") (simp_all add: print_changed_properties_def)
qed

lemma basic_interfaces:
  "list_all (\<lambda>p. signature (pr_type p) \<in> set basic_signatures) (px_properties UPower_Device_proxy)"
  "list_all (\<lambda>p. signature (pr_type p) \<in> set basic_signatures) (px_properties timedate1_proxy)"
  by code_simp+

lemma display_device_handler_done:
  assumes "honest api" "conforms api UPower_Device_proxy changed"
  shows "is_done (display_device_onPropertiesChanged api i changed u s)"
  unfolding display_device_onPropertiesChanged_def is_done_seq
  by (intro conjI UPower_Device_typed.never_throws printed_change_done [OF assms basic_interfaces(1)] assms)

section \<open>What can be printed\<close>

text \<open>
  The interfaces whose property maps a client hands to \<open>Utils\<close>, and the signatures of its type
  table.
\<close>

definition printed_interfaces :: "proxy list" where
  "printed_interfaces =
     [bluez_Adapter1_proxy, bluez_Device1_proxy, bluez_Battery1_proxy,
      bluez_GattCharacteristic1_proxy, bluez_GattDescriptor1_proxy, bluez_GattService1_proxy,
      bluez_Input1_proxy, bluez_LEAdvertisingManager1_proxy, bluez_Media1_proxy, UPower_proxy,
      UPower_Device_proxy, timedate1_proxy, GeoClue2_Manager_proxy, GeoClue2_Client_proxy,
      GeoClue2_Location_proxy, login1_Manager_proxy, login1_Seat_proxy, login1_Session_proxy,
      login1_User_proxy, systemd1_Manager_proxy, UDisks2_Manager_proxy,
      UDisks2_Manager_NVMe_proxy, UDisks2_Block_proxy, UDisks2_Drive_proxy,
      UDisks2_Filesystem_proxy, UDisks2_NVMe_Controller_proxy, UDisks2_NVMe_Namespace_proxy,
      UDisks2_Partition_proxy, UDisks2_PartitionTable_proxy, UDisks2_Swapspace_proxy,
      NetworkManager_proxy, NetworkManager_Connection_Active_proxy,
      NetworkManager_DHCP4Config_proxy, NetworkManager_Device_proxy,
      NetworkManager_Device_Statistics_proxy, NetworkManager_Device_Wireless_proxy,
      NetworkManager_DnsManager_proxy, NetworkManager_IP4Config_proxy,
      NetworkManager_IP6Config_proxy, NetworkManager_Settings_proxy,
      NetworkManager_Settings_Connection_proxy, network1_Manager_proxy, network1_Link_proxy,
      resolve1_Manager_proxy, PackageKit_proxy, PackageKit_Transaction_proxy, fwupd_proxy,
      wpa_supplicant1_proxy]"

definition printable_signatures :: "string list" where
  "printable_signatures =
     [''u'', ''d'', ''n'', ''o'', ''ao'', ''i'', ''b'', ''y'', ''q'', ''s'', ''x'', ''t'', ''as'',
      ''au'', ''aau'', ''ay'', ''aay'', ''a{qv}'', ''a{sv}'', ''a(sa{sv})'', ''(qqy)'', ''a(qqy)'',
      ''a(ayuay)'', ''a(ayuayu)'', ''aa{sv}'', ''(tt)'', ''(ttt)'', ''(tttt)'', ''(so)'', ''(st)'',
      ''(uo)'', ''a(isb)'', ''(iiay)'', ''a(iiay)'', ''(iiayqs)'', ''a(iiayqs)'', ''a(so)'']"

lemma type_map_signatures: "map fst (type_map r api) = printable_signatures"
  by (simp add: type_map_def printable_signatures_def)

lemma unknown_type_iff: "map_of (type_map r api) t = None \<longleftrightarrow> t \<notin> set printable_signatures"
  unfolding map_of_eq_None_iff type_map_signatures [of r api, symmetric] by simp

text \<open>The declared properties whose type the table does not have.\<close>

definition unprintable :: "(string \<times> string) list" where
  "unprintable =
     [(''org.bluez.Device1'', ''AdvertisingFlags''), (''org.bluez.Device1'', ''AdvertisingData''),
      (''org.freedesktop.NetworkManager.Device'', ''StateReason'')]"

definition printability :: "proxy \<Rightarrow> bool" where
  "printability i \<longleftrightarrow> list_all (\<lambda>p.
     (signature (pr_type p) \<in> set printable_signatures) = ((px_interface i, pr_name p) \<notin> set unprintable))
     (px_properties i)"

lemma printability_interfaces: "list_all printability printed_interfaces"
  by code_simp

section \<open>Properties\<close>

text \<open>
  C10: as long as a service announces only properties its interface declares, with values of the
  declared types, the handlers of the thirteen mirrored objects do not throw: those of the BlueZ
  objects, of the UPower device (with its printing of the change), hostname1, locale1, timedate1 (its
  handler, which only prints, and its update) and the three GeoClue2 objects. The one exception is
  an adapter's: it throws exactly when the change says that discovering stopped and the
  \<open>StartDiscovery\<close> the handler then calls throws (\<open>sd\<close> is what it throws, if anything).
\<close>

theorem declared_updates_never_throw:
  assumes "honest api"
  shows
    "(conforms api bluez_Adapter1_proxy ps \<longrightarrow>
        (is_done (adapter1_onPropertiesChanged api sd ps a) \<longleftrightarrow>
           \<not> (sd \<noteq> None \<and> (\<exists>v. (''Discovering'', v) \<in> set ps \<and> va_bool api v = Inr False)))) \<and>
     (conforms api bluez_Device1_proxy ps \<longrightarrow> is_done (device1_onPropertiesChanged api ps d)) \<and>
     (conforms api bluez_GattService1_proxy ps \<longrightarrow> is_done (GattService1 api path ps)) \<and>
     (conforms api bluez_GattCharacteristic1_proxy ps \<longrightarrow> is_done (GattCharacteristic1 api path ps)) \<and>
     (conforms api bluez_GattDescriptor1_proxy ps \<longrightarrow> is_done (GattDescriptor1 api path ps)) \<and>
     (conforms api bluez_LEAdvertisingManager1_proxy ps \<longrightarrow> is_done (LEAdvertisingManager1 api path ps)) \<and>
     (conforms api UPower_Device_proxy ps \<longrightarrow> is_done (display_device_onPropertiesChanged api i ps u dd)) \<and>
     (conforms api hostname1_proxy ps \<longrightarrow> is_done (hostname1_onPropertiesChanged api i ps u h)) \<and>
     (conforms api locale1_proxy ps \<longrightarrow> is_done (locale1_onPropertiesChanged api i ps u l)) \<and>
     (conforms api timedate1_proxy ps \<longrightarrow>
        is_done (timedate1_onPropertiesChanged api i ps u t) \<and> is_done (updateTimedate1 api ps t)) \<and>
     (conforms api GeoClue2_Location_proxy ps \<longrightarrow> is_done (location_onPropertiesChanged api i ps u gl)) \<and>
     (conforms api GeoClue2_Client_proxy ps \<longrightarrow> is_done (client_onPropertiesChanged api i ps u gc)) \<and>
     (conforms api GeoClue2_Manager_proxy ps \<longrightarrow> is_done (manager_onPropertiesChanged api i ps u gm))"
proof -
  have adapter: "is_done (adapter1_onPropertiesChanged api sd ps a) \<longleftrightarrow>
      \<not> (sd \<noteq> None \<and> (\<exists>v. (''Discovering'', v) \<in> set ps \<and> va_bool api v = Inr False))"
    if "conforms api bluez_Adapter1_proxy ps"
    unfolding adapter1_update_done [OF assms that] by (auto simp: list_ex_iff stops_discovering_def)
  show ?thesis
    unfolding device1_onPropertiesChanged_def GattService1_def
      GattCharacteristic1_def GattDescriptor1_def LEAdvertisingManager1_def hostname1_onPropertiesChanged_def
      locale1_onPropertiesChanged_def updateHostname1_def updateLocale1_def timedate1_onPropertiesChanged_def
      updateTimedate1_def location_onPropertiesChanged_def client_onPropertiesChanged_def manager_onPropertiesChanged_def
    by (intro conjI impI adapter Device1_typed.never_throws [OF assms]
        GattService1_typed.never_throws [OF assms] GattCharacteristic1_typed.never_throws [OF assms]
        GattDescriptor1_typed.never_throws [OF assms] LEAdvertisingManager1_typed.never_throws [OF assms]
        display_device_handler_done [OF assms] hostname1_typed.never_throws [OF assms]
        locale1_typed.never_throws [OF assms] timedate1_typed.never_throws [OF assms]
        printed_change_done [OF assms _ basic_interfaces(2)] GeoClue2_Location_typed.never_throws [OF assms]
        GeoClue2_Client_typed.never_throws [OF assms] GeoClue2_Manager_typed.never_throws [OF assms]; assumption)
qed

lemma declared_updates_never_throw_witness:
  "is_done (device1_onPropertiesChanged sample_api
     [(''Address'', S_str ''00:11''), (''RSSI'', S_i16 (- 40)), (''Paired'', S_bool True)]
     (device1_init [] ''/dev'')) \<and>
   is_done (adapter1_onPropertiesChanged sample_api (Some (Std_Exception ''not ready'')) [(''Powered'', S_bool True)]
     (adapter1_init ''/a'')) \<and>
   \<not> is_done (adapter1_onPropertiesChanged sample_api (Some (Std_Exception ''not ready''))
     [(''Discovering'', S_bool False)] (adapter1_init ''/a''))"
proof -
  have "conforms sample_api bluez_Device1_proxy
      [(''Address'', S_str ''00:11''), (''RSSI'', S_i16 (- 40)), (''Paired'', S_bool True)]"
    "conforms sample_api bluez_Adapter1_proxy [(''Powered'', S_bool True)]"
    "conforms sample_api bluez_Adapter1_proxy [(''Discovering'', S_bool False)]"
    by (simp_all add: conforms_def bluez_Device1_proxy_def bluez_Device1_properties_1_def
        bluez_Adapter1_proxy_def bluez_Adapter1_properties_def sample_api_def)
  moreover note declared_updates_never_throw [OF honest_sample_api, THEN conjunct2, THEN conjunct1]
  moreover note declared_updates_never_throw [OF honest_sample_api, THEN conjunct1]
  moreover have "va_bool sample_api (S_bool False) = Inr False" by (simp add: sample_api_def)
  ultimately show ?thesis by fastforce
qed

text \<open>
  C40: of all properties the printed interfaces declare, exactly three have a type
  \<open>Utils::append_property\<close> does not know and are printed as unknown: the advertising flags and data of
  a BlueZ device and the state reason of a network device.
\<close>

theorem declared_properties_printed:
  assumes "i \<in> set printed_interfaces" "p \<in> set (px_properties i)"
    and "va_type api v = signature (pr_type p)"
  shows "if (px_interface i, pr_name p) \<in> set unprintable
    then append_property (Suc n) api v os =
      Done (put (''Unknown type: '' @ signature (pr_type p) @ endl)
        (put (''['' @ signature (pr_type p) @ ''] '') os))
    else \<exists>handler. map_of (type_map (append_property n api) api) (signature (pr_type p)) = Some handler \<and>
      append_property (Suc n) api v os = handler v (put (''['' @ signature (pr_type p) @ ''] '') os)"
proof -
  have "printability i" using printability_interfaces assms(1) by (simp add: list_all_iff)
  then have eq: "(px_interface i, pr_name p) \<in> set unprintable \<longleftrightarrow>
      map_of (type_map (append_property n api) api) (signature (pr_type p)) = None"
    using assms(2) by (auto simp: printability_def list_all_iff unknown_type_iff)
  show ?thesis unfolding eq using assms(3)
    by (cases "map_of (type_map (append_property n api) api) (signature (pr_type p))")
      (simp_all add: Let_def)
qed

lemma declared_properties_printed_witness:
  "\<exists>handler. map_of (type_map (append_property 3 sample_api) sample_api) ''n'' = Some handler \<and>
     append_property 4 sample_api (S_i16 7) ostringstream = handler (S_i16 7) (put ''[n] '' ostringstream)"
  using declared_properties_printed [of bluez_Device1_proxy "Property ''RSSI'' T_i16 False" sample_api "S_i16 7" 3
      ostringstream]
  by (simp add: printed_interfaces_def bluez_Device1_proxy_def bluez_Device1_properties_1_def
      unprintable_def sample_api_def eval_nat_numeral)

text \<open>
  The interface of hostnamed calls the home page \<open>HomeURL\<close>. The client waits for
  \<open>OperatingSystemHomeURL\<close>, so no change a well-typed service can announce ever sets the field.
\<close>

theorem home_url_never_mirrored:
  assumes "conforms api hostname1_proxy changed" "updateHostname1 api changed s = Done s'"
  shows "hn_OperatingSystemHomeURL (hc_hostname1 s') = hn_OperatingSystemHomeURL (hc_hostname1 s)"
proof (rule hn_OperatingSystemHomeURL.unchanged)
  have "''OperatingSystemHomeURL'' \<notin> pr_name ` set (px_properties hostname1_proxy)"
    by (simp add: hostname1_proxy_def hostname1_properties_def)
  then show "''OperatingSystemHomeURL'' \<notin> keys changed"
    using assms(1) by (force simp: conforms_def)
  show "for_each (updateHostname1_step api) changed s = Done s'"
    using assms(2) by (simp add: updateHostname1_def)
qed

end
