(* ===== verification/Controller_Variants.thy ===== *)
theory Controller_Variants
  imports Controllers
begin

text \<open>
  \<open>src/bluez/xbox_controller/xbox_controller.cc\<close> and \<open>src/bluez/horipad_steam/horipad_steam.cc\<close>, each
  translated from its own text, branch by branch, with its own constants. They are shown equal to
  the model of \<open>Controllers\<close> at \<open>XboxController\<close> and \<open>HoripadSteam\<close>, so what \<open>Controller_Properties\<close>
  proves of that model holds for the two classes as they are written.
\<close>

section \<open>\<open>XboxController\<close>\<close>

definition xbox_VENDOR_ID :: string where "xbox_VENDOR_ID = ''045E''"

definition xbox_PRODUCT_ID0 :: string where "xbox_PRODUCT_ID0 = ''02FD''"

definition xbox_PRODUCT_ID1 :: string where "xbox_PRODUCT_ID1 = ''0B13''"

definition xbox_match_params_bt :: "(string \<times> string) list" where
  "xbox_match_params_bt = [(''ID_BUS'', ''bluetooth''), (''NAME'', quoted ''Xbox Wireless Controller''),
     (''TAGS'', '':seat:'')]"

definition xbox_match_params_usb :: "(string \<times> string) list" where
  "xbox_match_params_usb =
     [(''ID_BUS'', ''usb''), (''NAME'', quoted ''Xbox Wireless Controller''),
      (''ID_USB_VENDOR_ID'', ''045e''), (''ID_USB_MODEL_ID'', ''02ea''), (''TAGS'', '':seat:'')]"

definition xbox_convert_mac_to_upower_path :: "string \<Rightarrow> string" where
  "xbox_convert_mac_to_upower_path mac_address =
     (let result = ''/org/freedesktop/UPower/devices/battery_ps_controller_battery_'';
          converted_mac = map to_lower (replace_char (CHR '':'') (CHR ''o'') mac_address)
      in result @ converted_mac)"

definition xbox_scan :: "udev_api \<Rightarrow> 'v controller \<Rightarrow> 'v controller" where
  "xbox_scan udev s =
     (let (found, s) = get_hidraw_devices udev xbox_match_params_bt s
      in if \<not> found then snd (get_hidraw_devices udev xbox_match_params_usb s) else s)"

definition xbox_udev_callback ::
    "udev_api \<Rightarrow> string \<Rightarrow> string option \<Rightarrow> string \<Rightarrow> 'v controller \<Rightarrow> 'v controller" where
  "xbox_udev_callback udev action dev_node sub_system s =
     (let s = log_msg Debug ''Action: {}, Device: {}, Subsystem: {}''
                [LStr action, LStr (case dev_node of Some n \<Rightarrow> n | None \<Rightarrow> []), LStr sub_system] s
      in if sub_system = ''hidraw''
         then xbox_scan udev
           (if action = ''remove''
            then (case ct_reader s of
                    Some reader \<Rightarrow> s\<lparr>ct_reader := None, ct_calls := ct_calls s @ [Ev_Retire reader]\<rparr>
                  | None \<Rightarrow> s)
            else s)
         else s)"

text \<open>The branch of \<open>Device1\<close>: the identifiers, the new device, its reader and its power client.\<close>

definition xbox_new_device_paths :: "'v device1 \<Rightarrow> 'v controller \<Rightarrow> string \<times> string \<times> 'v controller" where
  "xbox_new_device_paths device s =
     (case d1_modalias device of
        None \<Rightarrow> ([], [], s)
      | Some m \<Rightarrow>
          (let s = log_msg Info ''Adding: {}, {}, {}'' [LStr (vid m), LStr (pid m), LStr (did m)] s
           in if (vid m = xbox_VENDOR_ID \<and> pid m = xbox_PRODUCT_ID0) \<or> (vid m = xbox_VENDOR_ID \<and> pid m = xbox_PRODUCT_ID1)
              then (if d1_connected device \<and> d1_paired device \<and> d1_trusted device
                      then create_device_key_from_serial_number (d1_address device) else [],
                    xbox_convert_mac_to_upower_path (d1_address device), s)
              else ([], [], s)))"

definition xbox_add_reader :: "hid_kernel \<Rightarrow> string \<Rightarrow> 'v controller \<Rightarrow> 'v controller" where
  "xbox_add_reader k hidraw_device_key s =
     (if hidraw_device_key \<noteq> []
      then let hidraw_device = FindHidDevice hidraw_device_key s
           in if hidraw_device \<noteq> []
              then let s = log_msg Info ''Adding hidraw device: {}'' [LStr hidraw_device_key] s
                   in case ct_reader s of
                        Some _ \<Rightarrow> s
                      | None \<Rightarrow>
                          (let reader = fst (xbox_reader_new k hidraw_device)
                           in if reader_valid reader
                              then s\<lparr>ct_calls := ct_calls s @ [Ev_Add (ct_next s)],
                                     ct_reader := Some (ct_next s), ct_next := Suc (ct_next s)\<rparr>
                              else log_msg Err ''Failed to initialize hidraw reader: {}'' [LStr hidraw_device] s)
              else s
      else s)"

definition xbox_add_upower_client :: "string \<Rightarrow> 'v controller \<Rightarrow> 'v controller" where
  "xbox_add_upower_client power_path s =
     (if power_path \<noteq> []
      then if \<not> contains (ct_upower_clients s) power_path
           then if IsAtCapacity (length (ct_upower_clients s)) kMaxUPowerClients
                then limit_warning ''UPower client'' power_path (length (ct_upower_clients s)) kMaxUPowerClients s
                else let s = log_msg Info ''[Add] UPower Display Device: {}'' [LStr power_path] s
                     in s\<lparr>ct_upower_clients :=
                            AList.update power_path (upower_client_new [] power_path) (ct_upower_clients s)\<rparr>
           else s
      else s)"

definition xbox_create_device ::
    "'v variant_api \<Rightarrow> hid_kernel \<Rightarrow> string \<Rightarrow> 'v props \<Rightarrow> 'v controller \<Rightarrow> 'v controller outcome" where
  "xbox_create_device api k path properties s =
     (if contains (ct_devices s) path then Done s
      else if IsAtCapacity (length (ct_devices s)) kMaxDevices
        then Done (limit_warning ''Device1'' path (length (ct_devices s)) kMaxDevices s)
      else case Device1 api (log_of s) path properties of
             Throw e device \<Rightarrow> Throw e (s\<lparr>log_of := log_of device\<rparr>)
           | Done device \<Rightarrow>
                  (let (key, power_path, s) = xbox_new_device_paths device (s\<lparr>log_of := log_of device\<rparr>);
                       s = s\<lparr>ct_devices := AList.update path (device\<lparr>log_of := []\<rparr>) (ct_devices s)\<rparr>
                   in Done (xbox_add_upower_client power_path (xbox_add_reader k key s))))"

definition xbox_add_device ::
    "'v variant_api \<Rightarrow> hid_kernel \<Rightarrow> string \<Rightarrow> 'v props \<Rightarrow> 'v controller \<Rightarrow> 'v controller outcome" where
  "xbox_add_device api k path properties s =
     (let (mod_alias_str, lg) = getProperty (va_string api) properties ''Modalias''; s = add_logs lg s
      in case mod_alias_str of
           None \<Rightarrow> Done s
         | Some str \<Rightarrow>
             (let (mod_alias, lg) = parse_modalias str; s = add_logs lg s
              in case mod_alias of
                   Some m \<Rightarrow>
                     (if vid m \<noteq> xbox_VENDOR_ID \<or> (pid m \<noteq> xbox_PRODUCT_ID0 \<and> pid m \<noteq> xbox_PRODUCT_ID1) then Done s
                      else xbox_create_device api k path properties
                             (log_msg Debug ''VID: {}, PID: {}, DID: {}'' [LStr (vid m), LStr (pid m), LStr (did m)] s))
                 | None \<Rightarrow> Done (log_msg Debug ''modalias has no value assigned: {}'' [LStr path] s)))"

definition xbox_added_step ::
    "'v variant_api \<Rightarrow> (string \<Rightarrow> exn option) \<Rightarrow> hid_kernel \<Rightarrow> string \<Rightarrow>
     string \<times> 'v props \<Rightarrow> 'v controller \<Rightarrow> 'v controller outcome" where
  "xbox_added_step api sd k path = (\<lambda>(iface, properties) s.
     if iface = ''org.freedesktop.DBus.Properties'' \<or> iface = ''org.freedesktop.DBus.Introspectable'' then Done s
     else if iface = ''org.bluez.Adapter1'' then
       (if \<not> contains (ct_adapters s) path
        then if IsAtCapacity (length (ct_adapters s)) kMaxAdapters
             then Done (limit_warning ''Adapter1'' path (length (ct_adapters s)) kMaxAdapters s)
             else (case Adapter1 api (sd path) path properties of
                     Throw e _ \<Rightarrow> Throw e s
                   | Done adapter1 \<Rightarrow> Done (s\<lparr>ct_adapters := AList.update path adapter1 (ct_adapters s)\<rparr>))
        else Done s)
     else if iface = ''org.bluez.Device1'' then xbox_add_device api k path properties s
     else if iface = ''org.bluez.Input1'' then
       (if \<not> contains (ct_input1 s) path
        then if IsAtCapacity (length (ct_input1 s)) kMaxInputEntries
             then Done (limit_warning ''Input1'' path (length (ct_input1 s)) kMaxInputEntries s)
             else Done (s\<lparr>ct_input1 := AList.update path path (ct_input1 s)\<rparr>)
        else Done s)
     else Done s)"

definition xbox_onInterfacesAdded ::
    "'v variant_api \<Rightarrow> (string \<Rightarrow> exn option) \<Rightarrow> hid_kernel \<Rightarrow> string \<Rightarrow>
     'v interfaces \<Rightarrow> 'v controller \<Rightarrow> 'v controller outcome" where
  "xbox_onInterfacesAdded api sd k path ifaces = for_each (xbox_added_step api sd k path) ifaces"

definition xbox_remove_device :: "string \<Rightarrow> 'v controller \<Rightarrow> 'v controller" where
  "xbox_remove_device path s =
     (case map_of (ct_devices s) path of
        None \<Rightarrow> s
      | Some device \<Rightarrow>
          (let (power_path, s) = (case d1_modalias device of
                 None \<Rightarrow> ([], s)
               | Some m \<Rightarrow>
                   (if (vid m = xbox_VENDOR_ID \<and> pid m = xbox_PRODUCT_ID0) \<or> (vid m = xbox_VENDOR_ID \<and> pid m = xbox_PRODUCT_ID1)
                      then xbox_convert_mac_to_upower_path (d1_address device) else [],
                    log_msg Info ''Removing: {}, {}, {}'' [LStr (vid m), LStr (pid m), LStr (did m)] s));
               s = s\<lparr>ct_devices := AList.delete path (ct_devices s)\<rparr>
           in if power_path \<noteq> []
              then if contains (ct_upower_clients s) power_path
                   then (log_msg Info ''[Remove] UPower Display Device: {}'' [LStr power_path] s)
                          \<lparr>ct_upower_clients := AList.delete power_path (ct_upower_clients s)\<rparr>
                   else s
              else s))"

definition xbox_removed_step :: "string \<Rightarrow> string \<Rightarrow> 'v controller \<Rightarrow> 'v controller" where
  "xbox_removed_step path iface s =
     (if iface = ''org.bluez.Adapter1'' then
       (if contains (ct_adapters s) path then s\<lparr>ct_adapters := AList.delete path (ct_adapters s)\<rparr> else s)
      else if iface = ''org.bluez.Device1'' then xbox_remove_device path s
      else if iface = ''org.bluez.Input1'' then
       (if contains (ct_input1 s) path then s\<lparr>ct_input1 := AList.delete path (ct_input1 s)\<rparr> else s)
      else s)"

definition xbox_onInterfacesRemoved :: "string \<Rightarrow> string list \<Rightarrow> 'v controller \<Rightarrow> 'v controller" where
  "xbox_onInterfacesRemoved path ifaces s = fold (xbox_removed_step path) ifaces s"

definition xbox_new ::
    "'v variant_api \<Rightarrow> (string \<Rightarrow> exn option) \<Rightarrow> hid_kernel \<Rightarrow> udev_api \<Rightarrow>
     (string \<times> 'v interfaces) list \<Rightarrow> log_entry list \<Rightarrow> source \<Rightarrow> 'v controller outcome" where
  "xbox_new api sd k udev managed_objects lg first_reader =
     for_each (\<lambda>(object, ifaces). xbox_onInterfacesAdded api sd k object ifaces) managed_objects
       (xbox_scan udev (controller_init lg first_reader))"

fun xbox_step ::
    "'v variant_api \<Rightarrow> (string \<Rightarrow> exn option) \<Rightarrow> 'v controller_event \<Rightarrow> 'v controller \<Rightarrow> 'v controller" where
  "xbox_step api sd (CE_Added k path ifaces) s = state_of (xbox_onInterfacesAdded api sd k path ifaces s)"
| "xbox_step api sd (CE_Removed path ifaces) s = xbox_onInterfacesRemoved path ifaces s"
| "xbox_step api sd (CE_Udev udev queued) s = UdevMonitor_dispatch (Some (xbox_udev_callback udev)) queued s"

section \<open>\<open>HoripadSteam\<close>\<close>

definition horipad_VENDOR_ID :: string where "horipad_VENDOR_ID = ''0F0D''"

definition horipad_PRODUCT_ID :: string where "horipad_PRODUCT_ID = ''0196''"

definition horipad_match_params_bt :: "(string \<times> string) list" where
  "horipad_match_params_bt = [(''ID_BUS'', ''bluetooth''), (''NAME'', quoted ''HORIPAD STEAM''), (''TAGS'', '':seat:'')]"

definition horipad_match_params_usb :: "(string \<times> string) list" where
  "horipad_match_params_usb =
     [(''ID_BUS'', ''usb''), (''ID_MODEL'', ''HORIPAD_STEAM''), (''ID_VENDOR_ID'', ''0f0d''),
      (''ID_MODEL_ID'', ''01ab''), (''TAGS'', '':seat:'')]"

definition horipad_scan :: "udev_api \<Rightarrow> 'v controller \<Rightarrow> 'v controller" where
  "horipad_scan udev s =
     (let (found, s) = get_hidraw_devices udev horipad_match_params_bt s
      in if \<not> found then snd (get_hidraw_devices udev horipad_match_params_usb s) else s)"

definition horipad_udev_callback ::
    "udev_api \<Rightarrow> string \<Rightarrow> string option \<Rightarrow> string \<Rightarrow> 'v controller \<Rightarrow> 'v controller" where
  "horipad_udev_callback udev action dev_node sub_system s =
     (let s = log_msg Debug ''Action: {}, Device: {}, Subsystem: {}''
                [LStr action, LStr (case dev_node of Some n \<Rightarrow> n | None \<Rightarrow> []), LStr sub_system] s
      in if sub_system = ''hidraw''
         then horipad_scan udev
           (if action = ''remove''
            then (case ct_reader s of
                    Some reader \<Rightarrow> s\<lparr>ct_reader := None, ct_calls := ct_calls s @ [Ev_Retire reader]\<rparr>
                  | None \<Rightarrow> s)
            else s)
         else s)"

text \<open>The branch of \<open>Device1\<close>: the identifiers, the new device, its reader.\<close>

definition horipad_new_device_paths :: "'v device1 \<Rightarrow> 'v controller \<Rightarrow> string \<times> 'v controller" where
  "horipad_new_device_paths device s =
     (case d1_modalias device of
        None \<Rightarrow> ([], s)
      | Some m \<Rightarrow>
          (let s = log_msg Info ''Adding: {}, {}, {}'' [LStr (vid m), LStr (pid m), LStr (did m)] s
           in if vid m = horipad_VENDOR_ID \<and> pid m = horipad_PRODUCT_ID
              then (if d1_connected device \<and> d1_paired device \<and> d1_trusted device
                      then create_device_key_from_serial_number (d1_address device) else [],
                    s)
              else ([], s)))"

definition horipad_add_reader :: "hid_kernel \<Rightarrow> string \<Rightarrow> 'v controller \<Rightarrow> 'v controller" where
  "horipad_add_reader k hidraw_device_key s =
     (if hidraw_device_key \<noteq> []
      then let hidraw_device = FindHidDevice hidraw_device_key s
           in if hidraw_device \<noteq> []
              then let s = log_msg Info ''Adding hidraw device: {}'' [LStr hidraw_device_key] s
                   in case ct_reader s of
                        Some _ \<Rightarrow> s
                      | None \<Rightarrow>
                          (let reader = fst (horipad_reader_new k hidraw_device)
                           in if reader_valid reader
                              then s\<lparr>ct_calls := ct_calls s @ [Ev_Add (ct_next s)],
                                     ct_reader := Some (ct_next s), ct_next := Suc (ct_next s)\<rparr>
                              else log_msg Err ''Failed to initialize hidraw reader: {}'' [LStr hidraw_device] s)
              else s
      else s)"

definition horipad_create_device ::
    "'v variant_api \<Rightarrow> hid_kernel \<Rightarrow> string \<Rightarrow> 'v props \<Rightarrow> 'v controller \<Rightarrow> 'v controller outcome" where
  "horipad_create_device api k path properties s =
     (if contains (ct_devices s) path then Done s
      else if IsAtCapacity (length (ct_devices s)) kMaxDevices
        then Done (limit_warning ''Device1'' path (length (ct_devices s)) kMaxDevices s)
      else case Device1 api (log_of s) path properties of
             Throw e device \<Rightarrow> Throw e (s\<lparr>log_of := log_of device\<rparr>)
           | Done device \<Rightarrow>
                  (let (key, s) = horipad_new_device_paths device (s\<lparr>log_of := log_of device\<rparr>);
                       s = s\<lparr>ct_devices := AList.update path (device\<lparr>log_of := []\<rparr>) (ct_devices s)\<rparr>
                   in Done (horipad_add_reader k key s)))"

definition horipad_add_device ::
    "'v variant_api \<Rightarrow> hid_kernel \<Rightarrow> string \<Rightarrow> 'v props \<Rightarrow> 'v controller \<Rightarrow> 'v controller outcome" where
  "horipad_add_device api k path properties s =
     (let (mod_alias_str, lg) = getProperty (va_string api) properties ''Modalias''; s = add_logs lg s
      in case mod_alias_str of
           None \<Rightarrow> Done s
         | Some str \<Rightarrow>
             (let (mod_alias, lg) = parse_modalias str; s = add_logs lg s
              in case mod_alias of
                   Some m \<Rightarrow>
                     (let s = log_msg Debug ''VID: {}, PID: {}, DID: {}'' [LStr (vid m), LStr (pid m), LStr (did m)] s in if vid m \<noteq> horipad_VENDOR_ID \<or> pid m \<noteq> horipad_PRODUCT_ID then Done s
                      else horipad_create_device api k path properties
                             (log_msg Debug ''VID: {}, PID: {}, DID: {}'' [LStr (vid m), LStr (pid m), LStr (did m)] s))
                 | None \<Rightarrow> Done (log_msg Debug ''modalias has no value assigned: {}'' [LStr path] s)))"

definition horipad_added_step ::
    "'v variant_api \<Rightarrow> (string \<Rightarrow> exn option) \<Rightarrow> hid_kernel \<Rightarrow> string \<Rightarrow>
     string \<times> 'v props \<Rightarrow> 'v controller \<Rightarrow> 'v controller outcome" where
  "horipad_added_step api sd k path = (\<lambda>(iface, properties) s.
     if iface = ''org.freedesktop.DBus.Properties'' \<or> iface = ''org.freedesktop.DBus.Introspectable'' then Done s
     else if iface = ''org.bluez.Adapter1'' then
       (if \<not> contains (ct_adapters s) path
        then if IsAtCapacity (length (ct_adapters s)) kMaxAdapters
             then Done (limit_warning ''Adapter1'' path (length (ct_adapters s)) kMaxAdapters s)
             else (case Adapter1 api (sd path) path properties of
                     Throw e _ \<Rightarrow> Throw e s
                   | Done adapter1 \<Rightarrow> Done (s\<lparr>ct_adapters := AList.update path adapter1 (ct_adapters s)\<rparr>))
        else Done s)
     else if iface = ''org.bluez.Device1'' then horipad_add_device api k path properties s
     else if iface = ''org.bluez.Input1'' then
       (if \<not> contains (ct_input1 s) path
        then if IsAtCapacity (length (ct_input1 s)) kMaxInputEntries
             then Done (limit_warning ''Input1'' path (length (ct_input1 s)) kMaxInputEntries s)
             else Done (s\<lparr>ct_input1 := AList.update path path (ct_input1 s)\<rparr>)
        else Done s)
     else Done s)"

definition horipad_onInterfacesAdded ::
    "'v variant_api \<Rightarrow> (string \<Rightarrow> exn option) \<Rightarrow> hid_kernel \<Rightarrow> string \<Rightarrow>
     'v interfaces \<Rightarrow> 'v controller \<Rightarrow> 'v controller outcome" where
  "horipad_onInterfacesAdded api sd k path ifaces = for_each (horipad_added_step api sd k path) ifaces"

definition horipad_removed_step :: "string \<Rightarrow> string \<Rightarrow> 'v controller \<Rightarrow> 'v controller" where
  "horipad_removed_step path iface s =
     (if iface = ''org.bluez.Adapter1'' then
       (if contains (ct_adapters s) path then s\<lparr>ct_adapters := AList.delete path (ct_adapters s)\<rparr> else s)
      else if iface = ''org.bluez.Device1'' then 
       (if contains (ct_devices s) path then s\<lparr>ct_devices := AList.delete path (ct_devices s)\<rparr> else s)
      else if iface = ''org.bluez.Input1'' then
       (if contains (ct_input1 s) path then s\<lparr>ct_input1 := AList.delete path (ct_input1 s)\<rparr> else s)
      else s)"

definition horipad_onInterfacesRemoved :: "string \<Rightarrow> string list \<Rightarrow> 'v controller \<Rightarrow> 'v controller" where
  "horipad_onInterfacesRemoved path ifaces s = fold (horipad_removed_step path) ifaces s"

definition horipad_new ::
    "'v variant_api \<Rightarrow> (string \<Rightarrow> exn option) \<Rightarrow> hid_kernel \<Rightarrow> udev_api \<Rightarrow>
     (string \<times> 'v interfaces) list \<Rightarrow> log_entry list \<Rightarrow> source \<Rightarrow> 'v controller outcome" where
  "horipad_new api sd k udev managed_objects lg first_reader =
     for_each (\<lambda>(object, ifaces). horipad_onInterfacesAdded api sd k object ifaces) managed_objects
       (horipad_scan udev (controller_init lg first_reader))"

fun horipad_step ::
    "'v variant_api \<Rightarrow> (string \<Rightarrow> exn option) \<Rightarrow> 'v controller_event \<Rightarrow> 'v controller \<Rightarrow> 'v controller" where
  "horipad_step api sd (CE_Added k path ifaces) s = state_of (horipad_onInterfacesAdded api sd k path ifaces s)"
| "horipad_step api sd (CE_Removed path ifaces) s = horipad_onInterfacesRemoved path ifaces s"
| "horipad_step api sd (CE_Udev udev queued) s = UdevMonitor_dispatch (Some (horipad_udev_callback udev)) queued s"

section \<open>Equality with the shared model\<close>

text \<open>The records of the two classes hold the constants of their sources.\<close>

lemma class_constants [simp]:
  "cc_match_bt XboxController = xbox_match_params_bt" "cc_match_usb XboxController = xbox_match_params_usb"
  "cc_match_bt HoripadSteam = horipad_match_params_bt" "cc_match_usb HoripadSteam = horipad_match_params_usb"
  "cc_power XboxController" "\<not> cc_power HoripadSteam"
  "\<not> cc_log_candidates XboxController" "cc_log_matches XboxController"
  "cc_log_candidates HoripadSteam" "cc_log_matches HoripadSteam"
  "cc_reader_valid XboxController k node = reader_valid (fst (xbox_reader_new k node))"
  "cc_reader_valid HoripadSteam k node = reader_valid (fst (horipad_reader_new k node))"
  by (simp_all add: XboxController_def HoripadSteam_def xbox_match_params_bt_def xbox_match_params_usb_def
      horipad_match_params_bt_def horipad_match_params_usb_def)

lemma wanted_xbox:
  "wanted XboxController m \<longleftrightarrow>
     vid m = xbox_VENDOR_ID \<and> (pid m = xbox_PRODUCT_ID0 \<or> pid m = xbox_PRODUCT_ID1)"
  by (simp add: wanted_def XboxController_def xbox_VENDOR_ID_def xbox_PRODUCT_ID0_def xbox_PRODUCT_ID1_def)

lemma wanted_horipad:
  "wanted HoripadSteam m \<longleftrightarrow> vid m = horipad_VENDOR_ID \<and> pid m = horipad_PRODUCT_ID"
  by (simp add: wanted_def HoripadSteam_def horipad_VENDOR_ID_def horipad_PRODUCT_ID_def)

lemma scan_eq: "xbox_scan udev s = rescan XboxController udev s" "horipad_scan udev s = rescan HoripadSteam udev s"
  by (simp_all add: xbox_scan_def horipad_scan_def rescan_def Let_def split: prod.split)

lemma udev_callback_eq:
  "xbox_udev_callback = udev_callback XboxController" "horipad_udev_callback = udev_callback HoripadSteam"
  by (intro ext; simp only: xbox_udev_callback_def horipad_udev_callback_def udev_callback_def
      retire_reader_def scan_eq Let_def)+

lemma mac_path_eq: "xbox_convert_mac_to_upower_path = convert_mac_to_path"
  by (intro ext) (simp add: xbox_convert_mac_to_upower_path_def convert_mac_to_path_def Let_def)

lemma add_reader_eq:
  "xbox_add_reader k key s = attach_reader XboxController k key s"
  "horipad_add_reader k key s = attach_reader HoripadSteam k key s"
  by (simp_all add: xbox_add_reader_def horipad_add_reader_def attach_reader_def Let_def split: option.split)

lemma add_upower_client_eq: "xbox_add_upower_client path s = add_power_client path s"
  by (simp add: xbox_add_upower_client_def add_power_client_def)

lemma xbox_paths_eq: "xbox_new_device_paths d s = device_paths XboxController d s"
  by (cases "d1_modalias d")
    (auto simp: xbox_new_device_paths_def device_paths_def wanted_xbox mac_path_eq Let_def)

lemma horipad_paths_eq:
  "device_paths HoripadSteam d s =
     (let (key, s) = horipad_new_device_paths d s in (key, [], s))"
  by (cases "d1_modalias d")
    (auto simp: horipad_new_device_paths_def device_paths_def wanted_horipad Let_def)

lemma add_power_client_none [simp]: "add_power_client [] s = s"
  by (simp add: add_power_client_def)

text \<open>The shared model as the code has it: the check of the identifiers guards the creation.\<close>

definition create_device ::
    "controller_class \<Rightarrow> 'v variant_api \<Rightarrow> hid_kernel \<Rightarrow> string \<Rightarrow> 'v props \<Rightarrow> 'v controller \<Rightarrow> 'v controller outcome" where
  "create_device cc api k path properties s =
     (if contains (ct_devices s) path then Done s
      else if IsAtCapacity (length (ct_devices s)) kMaxDevices
        then Done (limit_warning ''Device1'' path (length (ct_devices s)) kMaxDevices s)
      else case Device1 api (log_of s) path properties of
             Throw e device \<Rightarrow> Throw e (s\<lparr>log_of := log_of device\<rparr>)
           | Done device \<Rightarrow>
               (let (key, power_path, s) = device_paths cc device (s\<lparr>log_of := log_of device\<rparr>);
                    s = s\<lparr>ct_devices := AList.update path (device\<lparr>log_of := []\<rparr>) (ct_devices s)\<rparr>
                in Done (add_power_client power_path (attach_reader cc k key s))))"

lemma controller_add_device_create:
  "controller_add_device cc api k path properties s =
     (let (go, s) = check_modalias cc api path properties s
      in if go then create_device cc api k path properties s else Done s)"
  by (simp add: controller_add_device_def create_device_def Let_def split: prod.split)

lemma create_device_eq:
  "xbox_create_device api k path properties s = create_device XboxController api k path properties s"
  "horipad_create_device api k path properties s = create_device HoripadSteam api k path properties s"
  by (simp_all add: xbox_create_device_def horipad_create_device_def create_device_def xbox_paths_eq
      horipad_paths_eq add_reader_eq add_upower_client_eq Let_def split: outcome.split prod.split)

lemma add_device_eq:
  "xbox_add_device api k path properties s = controller_add_device XboxController api k path properties s"
  "horipad_add_device api k path properties s = controller_add_device HoripadSteam api k path properties s"
  by (auto simp: xbox_add_device_def horipad_add_device_def controller_add_device_create check_modalias_def
      create_device_eq wanted_xbox wanted_horipad log_ids_def Let_def split: option.split prod.split)

lemma added_step_eq:
  "xbox_added_step api sd k path = controller_added_step XboxController api sd k path"
  "horipad_added_step api sd k path = controller_added_step HoripadSteam api sd k path"
  by (intro ext; simp add: xbox_added_step_def horipad_added_step_def controller_added_step_def
      skipped_interface_def controller_add_adapter_def controller_add_input_def add_device_eq
      split: prod.split)+

lemma onInterfacesAdded_eq:
  "xbox_onInterfacesAdded = controller_onInterfacesAdded XboxController"
  "horipad_onInterfacesAdded = controller_onInterfacesAdded HoripadSteam"
  by (intro ext; simp add: xbox_onInterfacesAdded_def horipad_onInterfacesAdded_def
      controller_onInterfacesAdded_def added_step_eq)+

lemma xbox_remove_device_eq: "xbox_remove_device path s = controller_remove_device XboxController path s"
  by (auto simp: xbox_remove_device_def controller_remove_device_def remove_power_client_def wanted_xbox
      mac_path_eq log_msg_def Let_def split: option.split)

lemma horipad_remove_device_eq:
  "controller_remove_device HoripadSteam path s =
     (if contains (ct_devices s) path then s\<lparr>ct_devices := AList.delete path (ct_devices s)\<rparr> else s)"
  by (auto simp: controller_remove_device_def contains_def Let_def split: option.split)

lemma removed_step_eq:
  "xbox_removed_step path = controller_removed_step XboxController path"
  "horipad_removed_step path = controller_removed_step HoripadSteam path"
  by (intro ext; simp add: xbox_removed_step_def horipad_removed_step_def controller_removed_step_def
      erase_if_present_def xbox_remove_device_eq horipad_remove_device_eq)+

lemma onInterfacesRemoved_eq:
  "xbox_onInterfacesRemoved = controller_onInterfacesRemoved XboxController"
  "horipad_onInterfacesRemoved = controller_onInterfacesRemoved HoripadSteam"
  by (intro ext; simp add: xbox_onInterfacesRemoved_def horipad_onInterfacesRemoved_def
      controller_onInterfacesRemoved_def removed_step_eq)+

lemma step_eq: "xbox_step api sd = controller_step XboxController api sd"
  "horipad_step api sd = controller_step HoripadSteam api sd"
  by (intro ext; rename_tac e s; case_tac e;
      simp add: onInterfacesAdded_eq onInterfacesRemoved_eq udev_callback_eq)+

text \<open>
  C39: the Xbox and HoriPad controllers as their sources write them do in every construction and every
  run what the shared controller model does with their constants.
\<close>

theorem controllers_follow_shared_model:
  "xbox_new api sd k udev objects lg r = controller_new XboxController api sd k udev objects lg r \<and>
   fold (xbox_step api sd) events s = controller_run XboxController api sd events s \<and>
   horipad_new api sd k udev objects lg r = controller_new HoripadSteam api sd k udev objects lg r \<and>
   fold (horipad_step api sd) events s = controller_run HoripadSteam api sd events s"
  by (simp add: xbox_new_def horipad_new_def controller_new_def controller_run_def scan_eq step_eq
      onInterfacesAdded_eq)

end
