(* ===== verification/Loop_Invariants.thy ===== *)
theory Loop_Invariants
  imports Event_Loop_Hangup
begin

text \<open>
  Invariants of \<open>EventLoop::run()\<close> that hold because of what the callbacks and sources of a program
  call. A client states which calls it makes (\<open>ok\<close>) and shows its invariant for those calls, for
  the events a turn records and for \<open>apply_pending()\<close>; the turns and runs follow.
\<close>

definition same_queues :: "event_loop \<Rightarrow> event_loop \<Rightarrow> bool" where
  "same_queues s t \<longleftrightarrow> el_sources t = el_sources s \<and> el_to_add t = el_to_add s \<and>
     el_to_remove t = el_to_remove s \<and> el_to_retire t = el_to_retire s \<and> el_trace t = el_trace s"

text \<open>The events a turn records itself; \<open>seen\<close> are the reports with which a source is dispatched.\<close>

fun turn_event :: "(source \<Rightarrow> u16 \<Rightarrow> bool) \<Rightarrow> event \<Rightarrow> bool" where
  "turn_event seen Ev_Bus = True" | "turn_event seen (Ev_Poll ps b n) = True"
| "turn_event seen (Ev_Dispatch p x) = seen p x" | "turn_event seen _ = False"

text \<open>The calls of a round: of the bus, of the dispatches, and the loop's own removals.\<close>

definition round_ok :: "(call \<Rightarrow> bool) \<Rightarrow> (source \<Rightarrow> u16 \<Rightarrow> bool) \<Rightarrow> round_in \<Rightarrow> bool" where
  "round_ok ok seen r \<longleftrightarrow>
     list_all ok (ri_bus_calls r) \<and>
     (\<forall>p x. list_all ok (fst (ri_dispatch r p x))) \<and>
     (\<forall>s n rvs. ri_poll r (build_pfds r s) = Poll_Ready n rvs \<longrightarrow>
        (\<forall>(p, x) \<in> set (with_revents r rvs (el_sources s)).
           seen p x \<and> (hung_up x \<longrightarrow> ok (Call_Remove p (ri_hup_write r p)))))"

text \<open>The position of a source in the poll set: its \<open>revents\<close> are those of its own descriptor.\<close>

lemma length_build_pfds: "length (build_pfds r s) = first_source_idx r + length (el_sources s)"
  by (simp add: build_pfds_def first_source_idx_def wake_idx_def)

lemma nth_build_pfds:
  assumes "i < length (el_sources s)"
  shows "build_pfds r s ! (first_source_idx r + i) =
    \<lparr>pfd_fd = ri_src_fd r (el_sources s ! i), pfd_events = ri_src_events r (el_sources s ! i)\<rparr>"
  using assms by (simp add: build_pfds_def first_source_idx_def wake_idx_def nth_append)

lemma with_revents_map:
  assumes "(p, x) \<in> set (with_revents r (map g (build_pfds r s)) (el_sources s))"
  shows "p \<in> set (el_sources s) \<and> x = g \<lparr>pfd_fd = ri_src_fd r p, pfd_events = ri_src_events r p\<rparr>"
  using assms by (auto simp: with_revents_def revents_at_def length_build_pfds nth_build_pfds)

lemma round_okD:
  assumes "round_ok ok seen r"
  shows "list_all ok (ri_bus_calls r)" "list_all ok (fst (ri_dispatch r p x))"
    and "ri_poll r (build_pfds r s) = Poll_Ready n rvs \<Longrightarrow> (p, x) \<in> set (with_revents r rvs (el_sources s)) \<Longrightarrow>
      seen p x \<and> (hung_up x \<longrightarrow> ok (Call_Remove p (ri_hup_write r p)))"
  using assms unfolding round_ok_def by (blast, blast, fast)

locale loop_invariant =
  fixes P :: "event_loop \<Rightarrow> bool"
    and ok :: "call \<Rightarrow> bool"
    and seen :: "source \<Rightarrow> u16 \<Rightarrow> bool"
  assumes frame: "P s \<Longrightarrow> same_queues s t \<Longrightarrow> P t"
    and call: "P s \<Longrightarrow> ok c \<Longrightarrow> P (el_call c s)"
    and event: "P s \<Longrightarrow> turn_event seen e \<Longrightarrow> P (record_event e s)"
    and pending: "P s \<Longrightarrow> P (apply_pending s)"
begin

lemma calls: "P s \<Longrightarrow> list_all ok cs \<Longrightarrow> P (el_calls cs s)"
  by (induction cs arbitrary: s) (auto intro: call)

lemma stopped: "P s \<Longrightarrow> P (stops cs s)"
  by (erule frame) (simp add: same_queues_def)

lemma dispatched:
  assumes "list_all ok (fst (ri_dispatch r p x))"
    and "seen p x \<and> (hung_up x \<longrightarrow> ok (Call_Remove p (ri_hup_write r p)))" and "P s"
  shows "P (state_of (dispatch_one r (p, x) s))"
proof (cases "x = 0")
  case True
  with assms(3) show ?thesis by (simp add: dispatch_one_def)
next
  case False
  obtain cs ex where d: "ri_dispatch r p x = (cs, ex)" by (cases "ri_dispatch r p x")
  then have u: "P (el_calls cs (record_event (Ev_Dispatch p x) s))"
    using assms by (intro calls event) simp_all
  have "hung_up x \<Longrightarrow> P (el_remove p (ri_hup_write r p) (el_calls cs (record_event (Ev_Dispatch p x) s)))"
    using call [OF u] assms(2) by (metis el_call.simps(2))
  with False d u show ?thesis by (auto simp: dispatch_one_def Let_def split: option.split)
qed

lemma after_poll:
  assumes r: "round_ok ok seen r" and rvs: "ri_poll r (build_pfds r b) = Poll_Ready n rvs"
    and b: "el_sources s = el_sources b" and s: "P s"
  shows "P (snd (after_poll r n rvs s))"
proof -
  let ?d = "drain_wake r rvs s"
  have d: "P ?d" "el_sources ?d = el_sources b"
    by (rule frame [OF s]) (simp_all add: same_queues_def drain_wake_def b)
  have pass: "P (snd (dispatch_all r rvs u))" if u: "P u" "el_sources u = el_sources b" for u
  proof -
    have "P (state_of (for_each (dispatch_one r) (with_revents r rvs (el_sources u)) u))"
    proof (rule for_each_invariant [where P = P])
      fix px t assume px: "px \<in> set (with_revents r rvs (el_sources u))" and t: "P t"
      obtain p x where "px = (p, x)" by (cases px)
      then show "P (state_of (dispatch_one r px t))"
        using dispatched [OF round_okD(2) [OF r] round_okD(3) [OF r rvs]] px u(2) t by simp
    qed (rule u)
    then show ?thesis by (auto simp: dispatch_all_def split: outcome.split)
  qed
  have "P (el_calls (ri_bus_calls r) (record_event Ev_Bus ?d))"
    using round_okD(1) [OF r] d by (intro calls event) simp_all
  then have "P (snd (drive_bus r ?d))"
    by (rule frame) (simp add: same_queues_def drive_bus_def Let_def log_msg_def split: option.split exn.split)
  moreover have "el_sources (snd (drive_bus r ?d)) = el_sources b"
    by (simp add: drive_bus_def Let_def log_msg_def d(2) split: option.split exn.split)
  ultimately show ?thesis using d pass
    by (auto simp: after_poll_def Let_def split: turn.split prod.split if_splits)
qed

lemma turn:
  assumes "round_ok ok seen r" "P s"
  shows "P (snd (turn_once r s))"
proof -
  let ?b = "stops (ri_stops2 r) (stops (ri_stops1 r) (apply_pending s))"
  let ?c = "record_event (Ev_Poll (el_sources ?b) (el_running ?b) (el_wakes ?b)) ?b"
  have a: "P (stops (ri_stops1 r) (apply_pending s))"
    by (rule stopped, rule pending, rule assms(2))
  have c: "P ?c" by (rule event, rule stopped, rule a) simp
  have "P ((log_msg Err f as ?c)\<lparr>el_exit_code := 1\<rparr>)" for f as
    by (rule frame [OF c]) (simp add: same_queues_def log_msg_def)
  moreover have "P (snd (after_poll r n rvs ?c))" if "ri_poll r (build_pfds r ?b) = Poll_Ready n rvs" for n rvs
    using assms(1) that by (rule after_poll) (simp, rule c)
  ultimately have "P (snd (poll_turn r (stops (ri_stops1 r) (apply_pending s))))"
    using c by (cases "ri_poll r (build_pfds r ?b)")
      (simp_all add: poll_turn_def Let_def del: stops_fields apply_pending_fields record_event_fields)
  with a show ?thesis
    by (auto simp: turn_once_def Let_def simp del: stops_fields apply_pending_fields)
qed

lemma looped: "list_all (round_ok ok seen) rs \<Longrightarrow> P s \<Longrightarrow> P (snd (run_loop rs s))"
proof (induction rs arbitrary: s)
  case Nil
  then show ?case by (simp add: run_loop.simps)
next
  case (Cons r rs)
  obtain tn t where tn: "turn_once r s = (tn, t)" by (meson surj_pair)
  then have "P t" using turn [of r s] Cons.prems by simp
  with tn Cons show ?case by (cases tn) (simp_all add: run_loop.simps [of "r # rs"])
qed

lemma ran: "list_all (round_ok ok seen) rs \<Longrightarrow> P s \<Longrightarrow> P (snd (el_run rs s))"
  unfolding el_run_def by (rule looped) (auto intro: frame simp: same_queues_def)

end

section \<open>Sources with a state\<close>

text \<open>
  A run in which what the sources and callbacks do in a turn depends on a state of theirs: \<open>env\<close>
  gives the round, \<open>after\<close> the state at its end. It is a run of the loop on the rounds it makes.
\<close>

fun driven :: "('t \<Rightarrow> 'w \<Rightarrow> round_in) \<Rightarrow> ('t \<Rightarrow> 'w \<Rightarrow> 'w) \<Rightarrow> 't list \<Rightarrow> 'w \<Rightarrow> event_loop \<Rightarrow>
    run_result \<times> 'w \<times> event_loop" where
  "driven env after ts w s =
     (if \<not> el_running s then (Returned (el_exit_code s), w, s)
      else case ts of
             [] \<Rightarrow> (Polling, w, s)
           | t # ts' \<Rightarrow>
               (case turn_once (env t w) s of
                  (Continue, s') \<Rightarrow> driven env after ts' (after t w) s'
                | (Break, s') \<Rightarrow> (Returned (el_exit_code s'), after t w, s')
                | (Raise e, s') \<Rightarrow> (Threw e, after t w, s')))"

declare driven.simps [simp del]

text \<open>The states at the beginnings of the turns and the rounds they give.\<close>

fun rounds :: "('t \<Rightarrow> 'w \<Rightarrow> round_in) \<Rightarrow> ('t \<Rightarrow> 'w \<Rightarrow> 'w) \<Rightarrow> 't list \<Rightarrow> 'w \<Rightarrow> round_in list" where
  "rounds env after [] w = []"
| "rounds env after (t # ts) w = env t w # rounds env after ts (after t w)"

lemma driven_runs:
  "driven env after ts w s = (res, w', s') \<Longrightarrow> run_loop (rounds env after ts w) s = (res, s')"
proof (induction ts arbitrary: w s)
  case Nil
  then show ?case
    by (auto simp: driven.simps [of env after "[]"] run_loop.simps [of "[]"] split: if_splits)
next
  case (Cons t ts)
  obtain tn u where "turn_once (env t w) s = (tn, u)" by (meson surj_pair)
  with Cons show ?case
    by (cases tn) (auto simp: driven.simps [of env after "t # ts"] run_loop.simps [of "env t w # rs" for rs]
        split: if_splits)
qed

section \<open>Programs whose callbacks only stop the loop\<close>

fun only_stops :: "call \<Rightarrow> bool" where
  "only_stops (Call_Stop c w) = True" | "only_stops _ = False"

fun stops_or_removes :: "call \<Rightarrow> bool" where
  "stops_or_removes (Call_Stop c w) = True" | "stops_or_removes (Call_Remove p w) = True"
| "stops_or_removes _ = False"

text \<open>The sources that the next turn polls, with no removal pending.\<close>

definition settled :: "source list \<Rightarrow> event_loop \<Rightarrow> bool" where
  "settled ps s \<longleftrightarrow> el_to_remove s = [] \<and> pending_sources [] (el_to_add s) (el_sources s) = ps"

lemma pending_nothing [simp]: "pending_sources [] [] ps = ps"
  by (simp add: pending_sources_def)

interpretation settled: loop_invariant "settled ps" only_stops "\<lambda>_ _. True" for ps
proof (unfold_locales, goal_cases)
  case (2 s c)
  then show ?case by (cases c) (simp_all add: settled_def el_stop_def)
next
  case (3 s e)
  then show ?case by (simp add: settled_def)
qed (simp_all add: settled_def same_queues_def)

text \<open>A source that nobody removes stays in the loop.\<close>

fun spares :: "source \<Rightarrow> call \<Rightarrow> bool" where
  "spares p (Call_Stop c w) = True" | "spares p (Call_Remove q w) = (q \<noteq> p)"
| "spares p (Call_Retire q w) = (q \<noteq> p)" | "spares p (Call_Add q w) = True"

definition member :: "source \<Rightarrow> event_loop \<Rightarrow> bool" where
  "member p s \<longleftrightarrow> p \<in> set (el_sources s) \<union> set (el_to_add s) - set (el_to_remove s)"

interpretation member: loop_invariant "member p" "spares p" "\<lambda>_ _. True" for p
proof (unfold_locales, goal_cases)
  case (2 s c)
  then show ?case by (cases c) (auto simp: member_def el_stop_def el_remove_def el_retire_def el_add_def)
qed (auto simp: member_def same_queues_def set_pending_sources)

text \<open>No source is added once the loop runs: the additions recorded stay what they were.\<close>

definition added_before :: "event list \<Rightarrow> event_loop \<Rightarrow> bool" where
  "added_before old s \<longleftrightarrow> (\<exists>new. el_trace s = old @ new \<and> (\<forall>p. \<not> list_ex (adds p) new))"

lemma added_before_extend:
  "added_before old s \<Longrightarrow> el_trace t = el_trace s @ new \<Longrightarrow> (\<And>p. \<not> list_ex (adds p) new) \<Longrightarrow> added_before old t"
  by (auto simp: added_before_def)

interpretation added_before: loop_invariant "added_before old" stops_or_removes "\<lambda>_ _. True" for old
proof (unfold_locales, goal_cases)
  case (1 s t)
  then show ?case by (simp add: added_before_def same_queues_def)
next
  case (2 s c)
  then show ?case
    by (cases c) (auto simp: el_stop_def el_remove_def intro: added_before_extend [of old s])
next
  case (3 s e)
  then have "el_trace (record_event e s) = el_trace s @ [e]" "\<And>p. \<not> list_ex (adds p) [e]"
    by (cases e; simp)+
  with 3(1) show ?case by (rule added_before_extend)
next
  case (4 s)
  then show ?case
    by (rule added_before_extend [where new = "Ev_Apply # map Ev_Destroy (el_to_retire s)"]) simp_all
qed

text \<open>The reports a source was dispatched with.\<close>

definition dispatched_with :: "(source \<Rightarrow> u16 \<Rightarrow> bool) \<Rightarrow> event_loop \<Rightarrow> bool" where
  "dispatched_with seen s \<longleftrightarrow> (\<forall>p x. Ev_Dispatch p x \<in> set (el_trace s) \<longrightarrow> seen p x)"

interpretation dispatched_with: loop_invariant "dispatched_with seen" "\<lambda>_. True" seen for seen
proof (unfold_locales, goal_cases)
  case (2 s c)
  then show ?case
    by (cases c) (auto simp: dispatched_with_def el_stop_def el_remove_def el_retire_def el_add_def)
next
  case (3 s e)
  then show ?case by (cases e) (auto simp: dispatched_with_def)
qed (auto simp: dispatched_with_def same_queues_def)

text \<open>A source that was dispatched stays so.\<close>

definition was_dispatched :: "source \<Rightarrow> event_loop \<Rightarrow> bool" where
  "was_dispatched p s \<longleftrightarrow> (\<exists>x. Ev_Dispatch p x \<in> set (el_trace s))"

interpretation was_dispatched: loop_invariant "was_dispatched p" "\<lambda>_. True" "\<lambda>_ _. True" for p
proof (unfold_locales, goal_cases)
  case (2 s c)
  then show ?case
    by (cases c) (auto simp: was_dispatched_def el_stop_def el_remove_def el_retire_def el_add_def)
qed (auto simp: was_dispatched_def same_queues_def)

section \<open>Turns in which nothing throws\<close>

lemma last_stop_None_iff: "last_stop cs = None \<longleftrightarrow> (\<forall>n w. Call_Stop n w \<notin> set cs)"
proof (induction cs)
  case (Cons c cs)
  then show ?case by (cases c) (auto split: option.splits)
qed simp

definition calm :: "round_in \<Rightarrow> bool" where
  "calm r \<longleftrightarrow> ri_stops1 r = [] \<and> ri_stops2 r = [] \<and> ri_bus_exn r = None \<and>
     (\<forall>p x. snd (ri_dispatch r p x) = None)"

lemma calm_turn:
  assumes "calm r" "el_running s"
    and "ri_poll r (build_pfds r (apply_pending s)) = Poll_Ready n rvs"
  shows "\<exists>t. turn_once r s = (Continue, t) \<and>
     el_running t = (last_stop (turn_calls r n rvs (el_sources (apply_pending s))) = None) \<and>
     el_exit_code t = (case last_stop (turn_calls r n rvs (el_sources (apply_pending s))) of
                         None \<Rightarrow> el_exit_code s | Some c \<Rightarrow> c)"
proof -
  have "ri_stops1 r = []" "ri_stops2 r = []" "ri_bus_exn r = None" "\<And>p x. snd (ri_dispatch r p x) = None"
    using assms(1) by (simp_all add: calm_def)
  from turn_once_calls [OF assms(2) this(1,2) assms(3) this(3,4)] show ?thesis by (elim exE conjE) (intro exI conjI)
qed

lemma interrupted_turn:
  assumes "calm r" "el_running s" "ri_poll r (build_pfds r (apply_pending s)) = Poll_Failed EINTR"
  shows "\<exists>t. turn_once r s = (Continue, t) \<and> el_running t \<and> el_exit_code t = el_exit_code s"
proof -
  have "stops [] u = u" for u by (simp add: stops_def)
  with assms show ?thesis
    by (simp add: calm_def turn_once_def poll_turn_def Let_def del: apply_pending_fields(9))
qed

text \<open>In such a turn every source whose descriptor was reported is dispatched.\<close>

lemma pass_dispatches:
  assumes "\<And>q y. snd (ri_dispatch r q y) = None" "(p, x) \<in> set pxs" "x \<noteq> 0"
  shows "was_dispatched p (state_of (for_each (dispatch_one r) pxs s))"
  using assms(2)
proof (induction pxs arbitrary: s)
  case (Cons qy pxs)
  obtain q y where qy: "qy = (q, y)" by (cases qy)
  obtain cs where d: "ri_dispatch r q y = (cs, None)" using assms(1) [of q y] by (cases "ri_dispatch r q y") simp
  have "is_done (dispatch_one r (q, y) s)" by (simp add: dispatch_one_def Let_def d)
  then obtain t where t: "dispatch_one r (q, y) s = Done t" by (cases "dispatch_one r (q, y) s") simp_all
  show ?case
  proof (cases "(p, x) \<in> set pxs")
    case True
    with Cons.IH [of t] t show ?thesis by (simp add: qy)
  next
    case False
    with Cons.prems qy have qy': "q = p" "y = x" by auto
    have "was_dispatched p (el_calls cs (record_event (Ev_Dispatch p x) s))"
      by (rule was_dispatched.calls) (auto simp: was_dispatched_def list_all_iff)
    then have u: "was_dispatched p t"
      using t assms(3) was_dispatched.call [of p _ "Call_Remove p (ri_hup_write r p)"]
      by (auto simp: dispatch_one_def Let_def d [unfolded qy'] qy' split: if_splits)
    have "was_dispatched p (state_of (for_each (dispatch_one r) pxs t))"
    proof (rule for_each_invariant [where P = "was_dispatched p"])
      fix pz v assume "was_dispatched p v"
      then show "was_dispatched p (state_of (dispatch_one r pz v))"
        by (cases pz) (auto intro!: was_dispatched.dispatched simp: list_all_iff)
    qed (rule u)
    then show ?thesis by (simp add: qy t)
  qed
qed simp

lemma calm_turn_dispatches:
  assumes "calm r" "el_running s"
    and "ri_poll r (build_pfds r (apply_pending s)) = Poll_Ready n rvs"
    and "(p, x) \<in> set (with_revents r rvs (el_sources (apply_pending s)))" "x \<noteq> 0"
  shows "was_dispatched p (snd (turn_once r s))"
proof -
  have c: "ri_stops1 r = []" "ri_stops2 r = []" "ri_bus_exn r = None" "\<And>p x. snd (ri_dispatch r p x) = None"
    using assms(1) by (simp_all add: calm_def)
  have st: "stops [] u = u" for u by (simp add: stops_def)
  obtain u where u: "turn_once r s = dispatch_all r rvs u" "el_sources u = el_sources (apply_pending s)"
  proof -
    let ?a = "apply_pending s"
    let ?d = "drain_wake r rvs (record_event (Ev_Poll (el_sources ?a) (el_running ?a) (el_wakes ?a)) ?a)"
    have d: "el_sources ?d = el_sources ?a" by (simp add: drain_wake_def del: apply_pending_fields)
    have "turn_once r s = dispatch_all r rvs
        (if dbus_ready r n rvs then el_calls (ri_bus_calls r) (record_event Ev_Bus ?d) else ?d)"
      using assms(2,3) c(1-3)
      by (simp add: turn_once_def poll_turn_def after_poll_def drive_bus_def Let_def st del: apply_pending_fields(1-3,5-9))
    moreover have "el_sources (if dbus_ready r n rvs then el_calls (ri_bus_calls r) (record_event Ev_Bus ?d) else ?d)
        = el_sources ?a" using d by simp
    ultimately show ?thesis by (rule that)
  qed
  have "was_dispatched p (state_of (for_each (dispatch_one r) (with_revents r rvs (el_sources u)) u))"
    by (rule pass_dispatches) (use c assms u in auto)
  then show ?thesis unfolding u(1) by (auto simp: dispatch_all_def split: outcome.split)
qed

end
