(* ===== verification/Loop_Tests.thy ===== *)
theory Loop_Tests
  imports Loop_Invariants
begin

text \<open>
  \<open>src/utils/event_loop_test.cc\<close> and \<open>src/utils/sys_test.cc\<close>: the self-tests of the repository, run on
  the models of \<open>Event_Loop\<close> and \<open>Unique_Fd\<close>. The kernel, the bus and the clock are inputs: which
  system calls fail, what each \<open>poll()\<close> reports, when the reply arrives and when a timer expires. Shown:
  the loop's test exits with 0 under every schedule in which the kernel answers and the reply comes
  before the deadline, and the system-call test exits with 0 exactly when the kernel behaves as
  documented.
\<close>

section \<open>The sources of the first test\<close>







section \<open>The rounds of the first test\<close>









section \<open>The test of hang-ups\<close>










section \<open>\<open>main\<close>\<close>






section \<open>The hang-up test\<close>















section \<open>The test of tokens and reply\<close>
















section \<open>The verdict\<close>







section \<open>The test of the system calls\<close>

text \<open>The kernel's answers, as the value returned and \<open>errno\<close>.\<close>

record test_kernel =
  tk_open :: "string \<Rightarrow> int \<Rightarrow> int \<times> int"
  tk_eventfd :: "nat \<Rightarrow> int \<Rightarrow> int \<times> int"
  tk_timerfd :: "int \<Rightarrow> int \<Rightarrow> int \<times> int"
  tk_ioctl :: "int \<Rightarrow> nat \<Rightarrow> unit \<Rightarrow> int \<times> int"

record sys_test = logged +
  st_failures :: nat
  st_closed :: "int list"

definition O_RDONLY_CLOEXEC :: int where "O_RDONLY_CLOEXEC = 0x80000"
definition EFD_CLOEXEC :: int where "EFD_CLOEXEC = 0x80000"
definition EFD_NONBLOCK :: int where "EFD_NONBLOCK = 0x800"
definition TFD_CLOEXEC :: int where "TFD_CLOEXEC = 0x80000"
definition CLOCK_MONOTONIC :: int where "CLOCK_MONOTONIC = 1"
definition TIOCGWINSZ :: nat where "TIOCGWINSZ = 0x5413"
definition ENOENT :: int where "ENOENT = 2"
definition ENOTTY :: int where "ENOTTY = 25"

definition check :: "bool \<Rightarrow> string \<Rightarrow> sys_test \<Rightarrow> sys_test" where
  "check cond what s =
     (if cond then log_msg Info ''sys test: {} - ok'' [LStr what] s
      else (log_msg Err ''sys test: {} - FAIL'' [LStr what] s)\<lparr>st_failures := st_failures s + 1\<rparr>)"

text \<open>\<open>if (auto fd = sys::...) ... else ...\<close>: the descriptor is closed at the end of the statement.\<close>

definition if_fd ::
    "(int + unique_fd) \<times> int list \<Rightarrow> (unique_fd \<Rightarrow> sys_test \<Rightarrow> sys_test) \<Rightarrow> (int \<Rightarrow> sys_test \<Rightarrow> sys_test) \<Rightarrow>
     sys_test \<Rightarrow> sys_test" where
  "if_fd result success failure s =
     (let s = s\<lparr>st_closed := st_closed s @ snd result\<rparr>
      in case fst result of
           Inr fd \<Rightarrow> (let s = success fd s in s\<lparr>st_closed := st_closed s @ ufd_destroy fd\<rparr>)
         | Inl e \<Rightarrow> failure e s)"

definition sys_test_checks :: "test_kernel \<Rightarrow> sys_test \<Rightarrow> sys_test" where
  "sys_test_checks k s =
     (let s = if_fd (open_fd (tk_open k) ''/dev/null'' O_RDONLY_CLOEXEC)
                (\<lambda>fd. check (ufd_valid fd) ''open_fd(/dev/null) yields a valid fd'')
                (\<lambda>_. check False ''open_fd(/dev/null) unexpectedly failed'') s;
          s = if_fd (open_fd (tk_open k) ''/nonexistent/sdbus-cpp-examples/xyz'' O_RDONLY_CLOEXEC)
                (\<lambda>_. check False ''open_fd(missing) unexpectedly succeeded'')
                (\<lambda>e. check (e = ENOENT) ''open_fd(missing) reports ENOENT'') s;
          s = if_fd (make_eventfd (tk_eventfd k) 0 (EFD_CLOEXEC OR EFD_NONBLOCK))
                (\<lambda>_. check True ''make_eventfd yields a valid fd'')
                (\<lambda>_. check False ''make_eventfd yields a valid fd'') s;
          s = if_fd (make_timerfd (tk_timerfd k) CLOCK_MONOTONIC TFD_CLOEXEC)
                (\<lambda>_. check True ''make_timerfd yields a valid fd'')
                (\<lambda>_. check False ''make_timerfd yields a valid fd'') s
      in if_fd (make_eventfd (tk_eventfd k) 0 EFD_CLOEXEC)
           (\<lambda>efd. check (sys_ioctl (tk_ioctl k) (ufd_get efd) TIOCGWINSZ () = Inl ENOTTY) ''ioctl on non-tty reports ENOTTY'')
           (\<lambda>_. check False ''make_eventfd for the ioctl test failed'') s)"

definition sys_test_main :: "test_kernel \<Rightarrow> int \<times> sys_test" where
  "sys_test_main k =
     (let s = sys_test_checks k \<lparr>log_of = [], st_failures = 0, st_closed = []\<rparr>
      in if st_failures s = 0 then (0, log_msg Info ''sys test: PASS'' [] s)
         else (1, log_msg Err ''sys test: FAIL ({} check(s))'' [LInt (int (st_failures s))] s))"

text \<open>The five calls that may open a descriptor, in their order, and the documented answers.\<close>

definition opening_calls :: "test_kernel \<Rightarrow> (int \<times> int) list" where
  "opening_calls k =
     [tk_open k ''/dev/null'' O_RDONLY_CLOEXEC,
      tk_open k ''/nonexistent/sdbus-cpp-examples/xyz'' O_RDONLY_CLOEXEC,
      tk_eventfd k 0 (EFD_CLOEXEC OR EFD_NONBLOCK), tk_timerfd k CLOCK_MONOTONIC TFD_CLOEXEC,
      tk_eventfd k 0 EFD_CLOEXEC]"

definition as_documented :: "test_kernel \<Rightarrow> bool" where
  "as_documented k \<longleftrightarrow>
     (case opening_calls k of [(null, _), (missing, e), (event, _), (timer, _), (plain, _)] \<Rightarrow>
        0 \<le> null \<and> missing < 0 \<and> e = ENOENT \<and> 0 \<le> event \<and> 0 \<le> timer \<and> 0 \<le> plain \<and>
        (case tk_ioctl k plain TIOCGWINSZ () of (rc, e) \<Rightarrow> rc < 0 \<and> e = ENOTTY)
      | _ \<Rightarrow> False)"

lemma wrapper_results:
  "open_fd f path flags = make_fd (fst (f path flags)) (snd (f path flags))"
  "make_eventfd g n flags = make_fd (fst (g n flags)) (snd (g n flags))"
  "make_timerfd h c flags = make_fd (fst (h c flags)) (snd (h c flags))"
  by (simp_all add: open_fd_def make_eventfd_def make_timerfd_def split: prod.split)

lemma check_fields [simp]:
  "st_failures (check c what s) = st_failures s + (if c then 0 else 1)"
  "st_closed (check c what s) = st_closed s"
  by (simp_all add: check_def log_msg_def)

lemma if_fd_fields:
  assumes "\<And>fd s. st_closed (f fd s) = st_closed s" "\<And>e s. st_closed (g e s) = st_closed s"
  shows "st_closed (if_fd (make_fd rc e) f g s) = st_closed s @ (if 0 \<le> rc then [rc] else [])"
    and "st_failures (if_fd (make_fd rc e) f g s) =
      st_failures (if 0 \<le> rc then f (ufd_own rc) s else g e s)"
  by (auto simp: if_fd_def make_fd_simp assms Let_def ufd_defs)

lemma sys_test_closes:
  "st_closed (sys_test_checks k s) = st_closed s @ filter (\<lambda>fd. 0 \<le> fd) (map fst (opening_calls k))"
  by (simp add: sys_test_checks_def Let_def wrapper_results if_fd_fields opening_calls_def)

lemma sys_test_failures: "st_failures (sys_test_checks k s) = st_failures s \<longleftrightarrow> as_documented k"
  by (simp add: sys_test_checks_def Let_def wrapper_results if_fd_fields)
    (auto simp: as_documented_def opening_calls_def sys_ioctl_def ufd_defs split: prod.splits if_splits)

text \<open>
  the test of the system-call wrappers exits with 0 exactly when the kernel answers as
  documented (a missing path gives ENOENT, a terminal ioctl on an eventfd ENOTTY, the other calls a
  descriptor), and whatever it answers, every descriptor it opens is closed once.
\<close>

theorem sys_test_verdict:
  "fst (sys_test_main k) = (if as_documented k then 0 else 1) \<and>
   st_closed (snd (sys_test_main k)) = filter (\<lambda>fd. 0 \<le> fd) (map fst (opening_calls k))"
  using sys_test_closes [of k "\<lparr>log_of = [], st_failures = 0, st_closed = []\<rparr>"]
    sys_test_failures [of k "\<lparr>log_of = [], st_failures = 0, st_closed = []\<rparr>"]
  by (auto simp: sys_test_main_def log_msg_def Let_def)

end
