(* ===== verification/Spec2Isabelle.thy ===== *)
theory Spec2Isabelle
  imports Event_Loop_Hangup Dual_Sense_Reader Rendering Bluez_Laws Bluez_Registry UPower_Laws
    Controller_Properties
    Logging Systemd1 Login1 Udisks2_Laws Connman_Laws
    Service_Client_Laws Udisks2_Manager Programs Simple_Programs
    Interface_Types Controller_Variants Loop_Tests
begin

text \<open>
  \<^bold>\<open>The programs.\<close> The repository holds command-line monitors for the D-Bus services of a Linux
  desktop (BlueZ, UPower, login1, systemd1, UDisks2, ConnMan and others), three programs for game
  controllers that combine BlueZ, udev and hidraw, and the code they share under \<open>src/utils\<close>. A
  program builds an \<open>EventLoop\<close>, a \<open>SignalSource\<close> and a client. The loop polls the bus, an
  \<open>eventfd\<close> and the registered sources; the client's handlers run from the bus, the sources'
  \<open>dispatch\<close> from their descriptors, and both may add, remove and retire sources while the loop
  runs. A client keeps registries of the objects the service announced and renders their properties
  into the log.

  \<^bold>\<open>Conventions.\<close> A class is a \<open>record\<close> of its members, extended from \<open>logged\<close> when it logs; a handler is
  a function on it. A statement that may throw gives an \<open>outcome\<close>, \<open>Done s\<close> or \<open>Throw e s\<close>, where the
  state keeps the assignments made before the throw. What is not in the repository is an argument:
  the accessors of \<open>sdbus::Variant\<close> and \<open>glz::generic\<close> (\<open>variant_api\<close>, \<open>json_api\<close>, each accessor may throw), libudev
  (\<open>udev_api\<close>), the kernel's hidraw (\<open>hid_kernel\<close>), \<open>poll\<close> and the bus in a turn of the loop
  (\<open>round_in\<close>), spdlog (\<open>spdlog_api\<close>), and the answers of synchronous D-Bus calls. An asynchronous reply is a handler of its own.
  A \<open>std::map\<close> is an association list with distinct keys. Integers keep their width as words where
  the code can wrap, and are bounded integers with \<open>None\<close> for undefined behaviour in the
  calibration arithmetic.

  \<^bold>\<open>Shared layer.\<close>
  \<^item> \<open>Prelude\<close>: outcomes, loops that may throw, the log, strings, number output, maps.
  \<^item> \<open>Unique_Fd\<close>: \<open>unique_fd.h\<close> and \<open>sys.h\<close>, with a step relation for programs that follow the class's
    contract: no double close, no leak.
  \<^item> \<open>Event_Loop\<close>: \<open>event_loop.{h,cc}\<close> and \<open>signal_source.h\<close>. \<open>el_run\<close> is \<open>run()\<close> over a list of turns, with
    a trace of polls, dispatches, removals and destructions. Shown: no use after destruction,
    removal beats addition, a hung-up source is never polled or dispatched again
    (\<open>Event_Loop_Hangup\<close>, source by source through the phases of a turn), the exit code is that of the
    last \<open>stop()\<close>, every \<open>stop()\<close> wakes the poll, each retired source is destroyed once, and what
    errors of \<open>poll\<close> and of the bus do.
  \<^item> \<open>Loop_Invariants\<close>, \<open>Loop_Tests\<close>: the locale \<open>loop_invariant\<close> (what every turn of the loop keeps of the registered
    sources and of their objects), and with it the repository's own tests \<open>event_loop_test.cc\<close> and \<open>sys_test.cc\<close>
    on the models of the code they test: they pass under every schedule that brings the events they wait
    for, the closed pipe being dispatched exactly once.
  \<^item> \<open>Utils\<close>, \<open>Rendering\<close>: \<open>utils.{h,cc}\<close>, the text of property maps and JSON documents, each entry of the type
    table one definition. Shown: every map of readable values is rendered completely, numbers, the
    sticky hexadecimal flag of byte dumps.
  \<^item> \<open>Property_Utils\<close>: \<open>property_utils.h\<close> and \<open>resource_limits.h\<close>; the locales \<open>keyed_update\<close> (a loop over changed
    properties that stores each value under its key) and \<open>bounded_registry\<close> (a registry that
    respects its cap).
  \<^item> \<open>Client_Registry\<close>: the locales \<open>announced_set\<close>, a client whose events act on an abstract view of its state,
    \<open>constructing_loop\<close>, a loop that constructs the objects of a list of paths and stops at the first it cannot, and
    \<open>announced_bound\<close> and \<open>announced_complete\<close> with their union \<open>announced_exact\<close>, a client whose handlers may throw half
    way: it holds at most what was announced, and exactly that if none threw.
  \<^item> \<open>Logging\<close>: \<open>logging.h\<close>, the validation of the environment and the construction of the logger, for an spdlog that
    throws its errors and for one that hands them to the error handler and goes on.

  \<^bold>\<open>Controllers.\<close>
  \<^item> \<open>Packed\<close>, \<open>Hid_Reports\<close>: bit-field layouts of the packed report structs; a member is
    read at its byte and bit, and members do not overlap (locale \<open>packed_struct\<close>, interpreted on every struct).
  \<^item> \<open>Hidraw\<close>: \<open>hidraw.hpp\<close> and \<open>hexdump.hpp\<close>, the look-up of hidraw nodes through udev: exactly the matching input
    devices with a node below the same parent are associated.
  \<^item> \<open>Hid_Readers\<close>, \<open>Dual_Sense_Reader\<close>: the three \<open>InputReader\<close> classes: a reader is valid exactly when
    every step of its set-up succeeded and owns or closed its descriptor; feature reports, calibration, and the printed
    values of the input reports as bytes and bits of what was read.
  \<^item> \<open>Controllers\<close>, \<open>Controller_Laws\<close>, \<open>Controller_Properties\<close>: \<open>udev_monitor.hpp\<close> and the classes \<open>DualSense\<close>, \<open>XboxController\<close>
    and \<open>HoripadSteam\<close>, which share their text and are one model with a record of differences. The calls a controller makes
    on the loop are its trace; composed with \<open>Event_Loop\<close> they show that the loop never touches a
    destroyed reader.
  \<^item> \<open>Controller_Variants\<close>: \<open>XboxController\<close> and \<open>HoripadSteam\<close> again, each from its own source file, and
    the equality of both with the shared model.

  \<^bold>\<open>Clients.\<close>
  \<^item> \<open>Bluez_Objects\<close>, \<open>Bluez_Laws\<close>: the BlueZ object classes and their property tracking, the modalias parser.
  \<^item> \<open>Bluez_Client\<close>, \<open>Bluez_Registry\<close>: \<open>bluez_client.{h,cc}\<close>, its seven registries, bounded and refining the sets of announced
    paths (locale \<open>announced_registry\<close>, which extends \<open>bounded_registry\<close>).
  \<^item> \<open>UPower\<close>, \<open>UPower_Laws\<close>: \<open>upower_display_device.{h,cc}\<close> and \<open>upower_client.h\<close>.
  \<^item> \<open>Systemd1\<close>, \<open>Login1\<close>: the manager clients, each refining an abstract set or sets in every run, the refused
    constructions of login1 included.
  \<^item> \<open>Udisks2_Monitor\<close>, \<open>Udisks2_Laws\<close>: \<open>udisks2_monitor_daemon.cc\<close>, a refinement of a table of devices, each reported once;
    the accuracy of the sizes printed.
  \<^item> \<open>Connman\<close>, \<open>Connman_Laws\<close>: \<open>signal_handler.h\<close>, \<open>connman_client.{h,cc}\<close> and \<open>connman/main.cc\<close>, with the handlers of the two
    threads interleaved, objects that cannot be constructed, and the reconnecting loop with its exact delays.
  \<^item> \<open>Udisks2_Manager\<close>: \<open>udisks2_manager.{h,cc}\<close> and the classes of its objects, a registry per interface; an
    \<open>InterfacesAdded\<close> does a prefix of its work.
  \<^item> \<open>Service_Clients\<close>, \<open>Service_Client_Laws\<close>: hostname1, locale1, timedate1 and GeoClue2, which mirror the properties of one
    service; every field is tracked, a location is replaced as a whole or kept.
  \<^item> \<open>Small_Clients\<close>: the clients with little or no state (network1, fwupd, Flatpak, NetworkManager, wpa_supplicant,
    resolve1, Avahi, PackageKit, RealtimeKit, timesync1): the links kept are the listed ones, the priority asked
    for is in range.

  \<^bold>\<open>Interfaces.\<close>
  \<^item> \<open>Interface_Tables\<close>: the property sections of 50 proxy classes under \<open>src/proxy\<close>: the name of each property, the
    C++ type its getter returns, and whether it has a setter.
  \<^item> \<open>Interface_Types\<close>: the clients against these tables. The locale \<open>typed_update\<close> has twelve interpretations; no
    update by a service that keeps its interface throws, but for an adapter whose \<open>StartDiscovery\<close> fails; the renderer knows every declared type but three,
    and one property the hostname client looks for is not declared.

  \<^bold>\<open>Main programs.\<close>
  \<^item> \<open>Programs\<close>: the \<open>main\<close> functions with an event loop as one model over \<open>Event_Loop\<close>, \<open>SignalSource\<close> and \<open>Logging\<close>: how a
    program ends, that a signal ends it, and which signals its threads block.
  \<^item> \<open>Simple_Programs\<close>: the \<open>main\<close> functions that query a service once, and how each ends on an error. ConnMan's \<open>main\<close> is in
    \<open>Connman\<close>.

  \<^bold>\<open>Bounds.\<close> \<open>append_property\<close> follows nested variants to depth 65 (\<open>max_nesting\<close>): a D-Bus message nests at most
    64 containers, and \<open>Rendering\<close> proves that any bound above the depth of a value gives the same
    text. \<open>elementToLines\<close> takes a bound on the depth of a JSON document; \<open>parse_description_returns\<close> shows that the depth of
    the document is enough. \<open>el_run\<close>, \<open>monitorLoop\<close> and \<open>connman_main\<close> run over a finite list of turns, whose end stands
    for a program that is still running (\<open>Polling\<close>, \<open>Running\<close>, \<open>Monitoring\<close>, \<open>Main_Running\<close>). The other loops are total functions.

  \<^bold>\<open>Not modelled.\<close> The proxy classes under \<open>src/proxy\<close> are generated by sdbus-c++-xml2cpp. Their methods and
  signal registrations only forward to sdbus-c++, so they are inputs and outputs of the client models; the
  proxy classes without a property that a client reads or prints are left out.
  The BlueZ classes that only construct a proxy and keep its
  path are that path in the model of the client. Mutexes are not modelled where one thread runs all
  handlers, and the programs of \<open>Simple_Programs\<close> are modelled without the bus thread that runs beside \<open>main\<close>. How an exception
  of a handler comes back through sdbus-c++ is an input of the turn of the loop (\<open>ri_bus_exn\<close>).
\<close>

end
